(* ===== verification/Prelude.thy ===== *)
theory Prelude
  imports Main "HOL-Library.Code_Target_Nat"
begin

text \<open>
  Shared vocabulary of the development: Python exceptions as values, the exception monad of the
  pure code (\<^typ>\<open>'e + 'a\<close>), the state-and-exception monad of the effectful code, a small
  Hoare logic for it, and the proof collections the component theories add to.

  A computation of the effectful code is a function from a state to an outcome and a state. An
  outcome is a returned value, a raised exception, or \<open>Died\<close>: the process was killed at that
  point. \<open>Died\<close> is no exception: no handler and no \<open>finally\<close> block runs after it, exactly as
  for \<open>SIGKILL\<close> or a power failure.
\<close>

section \<open>Exceptions\<close>

text \<open>
  The exception classes the sources raise, catch or let through. Messages are kept where the code
  passes them on. \<open>KeyboardInterrupt\<close> stands for the \<open>BaseException\<close>s outside \<open>Exception\<close>.
\<close>

datatype py_exc =
    UnifiOperationError string
  | KeytoolMetadataError string
  | ExpectedAliasNotFoundError string
  | UnexpectedEntryTypeError string
  | CertreqCommandError string
  | CertificateInspectionError string
  | IssuedCertificateValidationError string
  | CSRError string
  | PolicyError string
  | SecureFileError string
  | OPNsenseAPIError string
  | RenewalStageError string
  | ProductionRunError string
  | InvalidReportError string
  | CIPolicyError string
  | TLSConfigurationError string
  | LiveTLSVerificationError string
  | EndpointNotReadyError string
  | TLSAuthenticationError string
  | TLSHandshakeError string
  | ServedCertificateMismatchError string
  | ProductionConfigurationError string
  | CandidateError string
  | DeploymentValidationError string
  | ReleaseTagValidationError string
  | SignatureError string
  | LifecycleBusy
  | ProcessDisappeared
  | DuplicateExtension
  | InvalidSignature
  | VerificationError
  | SSLError
  | SSLCertVerificationError
  | UnsupportedAlgorithm
  | UnsupportedPublicKeyError
  | ValueError
  | UnicodeError
  | TypeError
  | KeyError
  | IndexError
  | FileNotFoundError
  | FileExistsError
  | PermissionError
  | TimeoutError
  | OSError
  | OverflowError
  | RuntimeError
  | KeyboardInterrupt

definition is_Exception :: "py_exc \<Rightarrow> bool" where
  "is_Exception e \<longleftrightarrow> e \<noteq> KeyboardInterrupt"

definition is_OSError :: "py_exc \<Rightarrow> bool" where
  "is_OSError e \<longleftrightarrow> e \<in> {FileNotFoundError, FileExistsError, PermissionError, TimeoutError, OSError,
     SSLError, SSLCertVerificationError}"

definition is_ValueError :: "py_exc \<Rightarrow> bool" where
  "is_ValueError e \<longleftrightarrow> e = SSLCertVerificationError \<or> \<not> is_OSError e \<and>
     e \<notin> {UnsupportedAlgorithm, TypeError, KeyError, IndexError, KeyboardInterrupt, LifecycleBusy, OverflowError, RuntimeError,
       ProcessDisappeared, DuplicateExtension, InvalidSignature, VerificationError}"

section \<open>The pure exception monad\<close>

definition bindE :: "'e + 'a \<Rightarrow> ('a \<Rightarrow> 'e + 'b) \<Rightarrow> 'e + 'b" where
  "bindE m f = (case m of Inl e \<Rightarrow> Inl e | Inr x \<Rightarrow> f x)"

definition catchE :: "'e + 'a \<Rightarrow> ('e \<Rightarrow> 'e + 'a) \<Rightarrow> 'e + 'a" where
  "catchE m h = (case m of Inl e \<Rightarrow> h e | Inr x \<Rightarrow> Inr x)"

primrec mapE :: "('a \<Rightarrow> 'e + 'b) \<Rightarrow> 'a list \<Rightarrow> 'e + 'b list" where
  "mapE f [] = Inr []"
| "mapE f (x # xs) = bindE (f x) (\<lambda>y. bindE (mapE f xs) (\<lambda>ys. Inr (y # ys)))"

primrec forE :: "('a \<Rightarrow> 'e + unit) \<Rightarrow> 'a list \<Rightarrow> 'e + unit" where
  "forE f [] = Inr ()"
| "forE f (x # xs) = bindE (f x) (\<lambda>_. forE f xs)"

primrec foldE :: "('b \<Rightarrow> 'a \<Rightarrow> 'e + 'b) \<Rightarrow> 'b \<Rightarrow> 'a list \<Rightarrow> 'e + 'b" where
  "foldE f b [] = Inr b"
| "foldE f b (x # xs) = bindE (f b x) (\<lambda>b'. foldE f b' xs)"

section \<open>The state and exception monad\<close>

datatype 'a outcome = Return 'a | Raise py_exc | Died

type_synonym ('s, 'a) exec = "'s \<Rightarrow> 'a outcome \<times> 's"

definition ret :: "'a \<Rightarrow> ('s, 'a) exec" where
  "ret x s = (Return x, s)"

definition throw :: "py_exc \<Rightarrow> ('s, 'a) exec" where
  "throw e s = (Raise e, s)"

definition seqx :: "('s, 'a) exec \<Rightarrow> ('a \<Rightarrow> ('s, 'b) exec) \<Rightarrow> ('s, 'b) exec" where
  "seqx m f s = (case m s of
      (Return x, s') \<Rightarrow> f x s'
    | (Raise e, s') \<Rightarrow> (Raise e, s')
    | (Died, s') \<Rightarrow> (Died, s'))"

definition gets :: "('s \<Rightarrow> 'a) \<Rightarrow> ('s, 'a) exec" where
  "gets f s = (Return (f s), s)"

definition modify :: "('s \<Rightarrow> 's) \<Rightarrow> ('s, unit) exec" where
  "modify f s = (Return (), f s)"

definition liftE :: "py_exc + 'a \<Rightarrow> ('s, 'a) exec" where
  "liftE r s = (case r of Inl e \<Rightarrow> (Raise e, s) | Inr x \<Rightarrow> (Return x, s))"

text \<open>\<open>raise_if c e\<close> is the statement \<open>if c: raise e\<close>.\<close>

definition raise_if :: "bool \<Rightarrow> py_exc \<Rightarrow> ('s, unit) exec" where
  "raise_if c e = (if c then throw e else ret ())"

text \<open>
  \<open>handle m h\<close> is \<open>try: m\<close> with an exception handler; \<open>finally_do m f\<close> is \<open>try: m finally: f\<close>,
  in which an exception of \<open>f\<close> replaces the outcome of \<open>m\<close>. Neither sees \<open>Died\<close>.
\<close>

definition handle :: "('s, 'a) exec \<Rightarrow> (py_exc \<Rightarrow> ('s, 'a) exec) \<Rightarrow> ('s, 'a) exec" where
  "handle m h s = (case m s of
      (Return x, s') \<Rightarrow> (Return x, s')
    | (Raise e, s') \<Rightarrow> h e s'
    | (Died, s') \<Rightarrow> (Died, s'))"

definition finally_do :: "('s, 'a) exec \<Rightarrow> ('s, unit) exec \<Rightarrow> ('s, 'a) exec" where
  "finally_do m f s = (case m s of
      (Return x, s') \<Rightarrow> (case f s' of (Return _, s'') \<Rightarrow> (Return x, s'')
                                  | (Raise e, s'') \<Rightarrow> (Raise e, s'') | (Died, s'') \<Rightarrow> (Died, s''))
    | (Raise e, s') \<Rightarrow> (case f s' of (Return _, s'') \<Rightarrow> (Raise e, s'')
                                 | (Raise e', s'') \<Rightarrow> (Raise e', s'') | (Died, s'') \<Rightarrow> (Died, s''))
    | (Died, s') \<Rightarrow> (Died, s'))"

primrec forx :: "('a \<Rightarrow> ('s, unit) exec) \<Rightarrow> 'a list \<Rightarrow> ('s, unit) exec" where
  "forx f [] = ret ()"
| "forx f (x # xs) = seqx (f x) (\<lambda>_. forx f xs)"

text \<open>\<open>anyx\<close> is Python's short-circuiting \<open>any(f(x) for x in xs)\<close>.\<close>

primrec anyx :: "('a \<Rightarrow> ('s, bool) exec) \<Rightarrow> 'a list \<Rightarrow> ('s, bool) exec" where
  "anyx f [] = ret False"
| "anyx f (x # xs) = seqx (f x) (\<lambda>b. if b then ret True else anyx f xs)"

section \<open>A Hoare logic\<close>

text \<open>
  \<open>triple P m Q E\<close>: from a state satisfying \<open>P\<close>, a returned value satisfies \<open>Q\<close>, and wherever
  the computation stops early, by an exception or by the death of the process, the state left
  behind satisfies \<open>E\<close>.
\<close>

definition after :: "('a \<Rightarrow> 's \<Rightarrow> bool) \<Rightarrow> ('s \<Rightarrow> bool) \<Rightarrow> 'a outcome \<times> 's \<Rightarrow> bool" where
  "after Q E rs = (case fst rs of Return x \<Rightarrow> Q x (snd rs) | Raise e \<Rightarrow> E (snd rs) | Died \<Rightarrow> E (snd rs))"

definition triple :: "('s \<Rightarrow> bool) \<Rightarrow> ('s, 'a) exec \<Rightarrow> ('a \<Rightarrow> 's \<Rightarrow> bool) \<Rightarrow> ('s \<Rightarrow> bool) \<Rightarrow> bool" where
  "triple P m Q E \<longleftrightarrow> (\<forall>s. P s \<longrightarrow> after Q E (m s))"

named_theorems hoare \<open>triples of the component operations\<close>
named_theorems exec_simps \<open>evaluation rules of the monads\<close>

subsection \<open>Laws of the pure monad\<close>

lemma bindE_simps [simp]:
  "bindE (Inl e) f = Inl e" "bindE (Inr x) f = f x"
  by (simp_all add: bindE_def)

lemma catchE_simps [simp]:
  "catchE (Inl e) h = h e" "catchE (Inr x) h = Inr x"
  by (simp_all add: catchE_def)

lemma bindE_Inr [simp]: "bindE m f = Inr y \<longleftrightarrow> (\<exists>x. m = Inr x \<and> f x = Inr y)"
  by (cases m) auto

lemma catchE_Inl_iff: "catchE m Inl = m"
  by (cases m) auto

lemma bindE_assoc: "bindE (bindE m f) g = bindE m (\<lambda>x. bindE (f x) g)"
  by (cases m) auto

lemma bindE_cong [fundef_cong]:
  "m = m' \<Longrightarrow> (\<And>x. m' = Inr x \<Longrightarrow> f x = f' x) \<Longrightarrow> bindE m f = bindE m' f'"
  by (cases m') auto

lemma mapE_Inr: "mapE f xs = Inr ys \<longleftrightarrow> list_all2 (\<lambda>x y. f x = Inr y) xs ys"
proof (induction xs arbitrary: ys)
  case (Cons x xs)
  then show ?case by (cases ys) auto
qed auto

lemma mapE_length: "mapE f xs = Inr ys \<Longrightarrow> length ys = length xs"
  by (auto simp: mapE_Inr dest: list_all2_lengthD)

lemma mapE_cong [fundef_cong]:
  "xs = ys \<Longrightarrow> (\<And>x. x \<in> set ys \<Longrightarrow> f x = g x) \<Longrightarrow> mapE f xs = mapE g ys"
  by (induction ys arbitrary: xs) auto

lemma forE_Inr [simp]: "forE f xs = Inr u \<longleftrightarrow> (\<forall>x\<in>set xs. f x = Inr ())"
  by (induction xs) auto

lemma if_Inl_Inr [simp]:
  "(if c then Inl e else m) = Inr x \<longleftrightarrow> \<not> c \<and> m = Inr x"
  "(if c then m else Inl e) = Inr x \<longleftrightarrow> c \<and> m = Inr x"
  by auto

subsection \<open>Evaluation of the effectful monad\<close>

lemma exec_basic [exec_simps]:
  "ret x s = (Return x, s)" "throw e s = (Raise e, s)" "gets f s = (Return (f s), s)"
  "modify g s = (Return (), g s)" "liftE (Inl e) s = (Raise e, s)" "liftE (Inr x) s = (Return x, s)"
  "raise_if True e s = (Raise e, s)" "raise_if False e s = (Return (), s)"
  by (simp_all add: ret_def throw_def gets_def modify_def liftE_def raise_if_def)

lemma seqx_eval [exec_simps]:
  "m s = (Return x, s') \<Longrightarrow> seqx m f s = f x s'"
  "m s = (Raise e, s') \<Longrightarrow> seqx m f s = (Raise e, s')"
  "m s = (Died, s') \<Longrightarrow> seqx m f s = (Died, s')"
  by (simp_all add: seqx_def)

lemma handle_eval [exec_simps]:
  "m s = (Return x, s') \<Longrightarrow> handle m h s = (Return x, s')"
  "m s = (Raise e, s') \<Longrightarrow> handle m h s = h e s'"
  "m s = (Died, s') \<Longrightarrow> handle m h s = (Died, s')"
  by (simp_all add: handle_def)

lemma seqx_ret [simp]: "seqx (ret x) f = f x"
  by (rule ext) (simp add: seqx_def ret_def)

lemma seqx_throw [simp]: "seqx (throw e) f = throw e"
  by (rule ext) (simp add: seqx_def throw_def)

lemma seqx_assoc: "seqx (seqx m f) g = seqx m (\<lambda>x. seqx (f x) g)"
  by (rule ext) (auto simp: seqx_def split: prod.splits outcome.splits)

lemma seqx_cases:
  assumes "seqx m f s = (r, t)"
  obtains (ok) x s' where "m s = (Return x, s')" "f x s' = (r, t)"
  | (raised) e where "m s = (Raise e, t)" "r = Raise e"
  | (died) "m s = (Died, t)" "r = Died"
  using assms by (auto simp: seqx_def split: prod.splits outcome.splits)

lemma seqx_Return:
  "seqx m f s = (Return y, t) \<longleftrightarrow> (\<exists>x s'. m s = (Return x, s') \<and> f x s' = (Return y, t))"
  by (auto simp: seqx_def split: prod.splits outcome.splits)

subsection \<open>Rules of the logic\<close>

lemma after_simps [simp]:
  "after Q E (Return x, t) = Q x t" "after Q E (Raise e, t) = E t" "after Q E (Died, t) = E t"
  by (simp_all add: after_def)

lemma after_mono:
  "after Q' E' rs \<Longrightarrow> (\<And>x s. Q' x s \<Longrightarrow> Q x s) \<Longrightarrow> (\<And>s. E' s \<Longrightarrow> E s) \<Longrightarrow> after Q E rs"
  by (simp add: after_def split: outcome.splits)

lemma outcome_pair_cases:
  obtains (ok) x t where "rs = (Return x, t)" | (raised) e t where "rs = (Raise e, t)"
  | (died) t where "rs = (Died, t)"
  by (metis outcome.exhaust surj_pair)

lemma tripleI: "(\<And>s. P s \<Longrightarrow> after Q E (m s)) \<Longrightarrow> triple P m Q E"
  by (simp add: triple_def)

lemma tripleD: "triple P m Q E \<Longrightarrow> P s \<Longrightarrow> after Q E (m s)"
  by (simp add: triple_def)

lemma triple_Return: "triple P m Q E \<Longrightarrow> P s \<Longrightarrow> m s = (Return x, t) \<Longrightarrow> Q x t"
  by (metis tripleD after_simps(1))

lemma triple_stop:
  "triple P m Q E \<Longrightarrow> P s \<Longrightarrow> m s = (r, t) \<Longrightarrow> (\<And>x. r \<noteq> Return x) \<Longrightarrow> E t"
  by (drule (1) tripleD) (cases r; auto)

lemma triple_weaken:
  "triple P' m Q' E' \<Longrightarrow> (\<And>s. P s \<Longrightarrow> P' s) \<Longrightarrow> (\<And>x s. Q' x s \<Longrightarrow> Q x s) \<Longrightarrow>
   (\<And>s. E' s \<Longrightarrow> E s) \<Longrightarrow> triple P m Q E"
  unfolding triple_def by (blast intro: after_mono)

lemma triple_pre: "triple P' m Q E \<Longrightarrow> (\<And>s. P s \<Longrightarrow> P' s) \<Longrightarrow> triple P m Q E"
  by (rule triple_weaken)

lemma triple_post: "triple P m Q' E \<Longrightarrow> (\<And>x s. Q' x s \<Longrightarrow> Q x s) \<Longrightarrow> triple P m Q E"
  by (rule triple_weaken)

lemma triple_ret: "(\<And>s. P s \<Longrightarrow> Q x s) \<Longrightarrow> triple P (ret x) Q E"
  by (auto simp: triple_def exec_simps)

lemma triple_throw: "(\<And>s. P s \<Longrightarrow> E s) \<Longrightarrow> triple P (throw e) Q E"
  by (auto simp: triple_def exec_simps)

lemma triple_gets: "(\<And>s. P s \<Longrightarrow> Q (f s) s) \<Longrightarrow> triple P (gets f) Q E"
  by (auto simp: triple_def exec_simps)

lemma triple_modify: "(\<And>s. P s \<Longrightarrow> Q () (f s)) \<Longrightarrow> triple P (modify f) Q E"
  by (auto simp: triple_def exec_simps)

lemma triple_liftE:
  "(\<And>s x. P s \<Longrightarrow> r = Inr x \<Longrightarrow> Q x s) \<Longrightarrow> (\<And>s. P s \<Longrightarrow> E s) \<Longrightarrow> triple P (liftE r) Q E"
  by (cases r) (auto simp: triple_def exec_simps)

lemma triple_raise_if:
  "(\<And>s. P s \<Longrightarrow> \<not> c \<Longrightarrow> Q () s) \<Longrightarrow> (\<And>s. P s \<Longrightarrow> E s) \<Longrightarrow> triple P (raise_if c e) Q E"
  by (cases c) (auto simp: triple_def exec_simps)

lemma triple_seqx:
  assumes "triple P m R E" "\<And>x. triple (R x) (f x) Q E"
  shows "triple P (seqx m f) Q E"
proof (rule tripleI)
  fix s assume "P s"
  then have "after R E (m s)" using assms(1) by (rule tripleD[rotated])
  then show "after Q E (seqx m f s)"
    using assms(2) by (cases "m s" rule: outcome_pair_cases) (auto simp: seqx_def intro: tripleD)
qed

lemma triple_if:
  "(c \<Longrightarrow> triple P m Q E) \<Longrightarrow> (\<not> c \<Longrightarrow> triple P m' Q E) \<Longrightarrow> triple P (if c then m else m') Q E"
  by simp

lemma triple_handle:
  assumes "triple P m Q E'" "\<And>e. triple E' (h e) Q E" "\<And>s. E' s \<Longrightarrow> E s"
  shows "triple P (handle m h) Q E"
proof (rule tripleI)
  fix s assume "P s"
  then have "after Q E' (m s)" using assms(1) by (rule tripleD[rotated])
  then show "after Q E (handle m h s)"
    using assms(2,3) by (cases "m s" rule: outcome_pair_cases) (auto simp: handle_def intro: tripleD)
qed

lemma triple_finally:
  assumes "triple P m Q E'" "\<And>x. triple (Q x) f (\<lambda>_. Q x) E" "triple E' f (\<lambda>_. E) E"
    "\<And>s. E' s \<Longrightarrow> E s"
  shows "triple P (finally_do m f) Q E"
proof (rule tripleI)
  fix s assume "P s"
  then have m: "after Q E' (m s)" using assms(1) by (rule tripleD[rotated])
  show "after Q E (finally_do m f s)"
  proof (cases "m s" rule: outcome_pair_cases)
    case (ok x t)
    with m have "after (\<lambda>_. Q x) E (f t)" using assms(2) by (auto intro: tripleD)
    with ok show ?thesis
      by (cases "f t" rule: outcome_pair_cases) (simp_all add: finally_do_def)
  next
    case (raised e t)
    with m have "after (\<lambda>_. E) E (f t)" using assms(3) by (auto intro: tripleD)
    with raised show ?thesis
      by (cases "f t" rule: outcome_pair_cases) (simp_all add: finally_do_def)
  next
    case (died t)
    with m show ?thesis using assms(4) by (simp add: finally_do_def)
  qed
qed

lemma triple_forx:
  assumes "\<And>x. x \<in> set xs \<Longrightarrow> triple P (f x) (\<lambda>_. P) E"
  shows "triple P (forx f xs) (\<lambda>_. P) E"
  using assms by (induction xs) (auto intro: triple_ret triple_seqx)

lemma triple_anyx:
  assumes "\<And>x. x \<in> set xs \<Longrightarrow> triple P (f x) (\<lambda>_. P) E"
  shows "triple P (anyx f xs) (\<lambda>_. P) E"
  using assms
proof (induction xs)
  case (Cons x xs)
  have "triple P (f x) (\<lambda>_. P) E" and "triple P (anyx f xs) (\<lambda>_. P) E"
    using Cons by auto
  then show ?case
    by (auto intro!: triple_seqx[where R = "\<lambda>_. P"] triple_ret)
qed (auto intro: triple_ret)

lemma triple_conj:
  "triple P m Q E \<Longrightarrow> triple P' m Q' E' \<Longrightarrow>
   triple (\<lambda>s. P s \<and> P' s) m (\<lambda>x s. Q x s \<and> Q' x s) (\<lambda>s. E s \<and> E' s)"
  by (rule tripleI) (auto dest!: tripleD simp: after_def split: outcome.splits)

lemma triple_disj:
  "triple P m Q E \<Longrightarrow> triple P' m Q E \<Longrightarrow> triple (\<lambda>s. P s \<or> P' s) m Q E"
  unfolding triple_def by auto

lemma triple_ex:
  assumes "\<And>x. triple (P x) m Q E"
  shows "triple (\<lambda>s. \<exists>x. P x s) m Q E"
  using assms unfolding triple_def by blast

lemma triple_pre_fact: "(c \<Longrightarrow> triple P m Q E) \<Longrightarrow> triple (\<lambda>s. P s \<and> c) m Q E"
  unfolding triple_def by auto

lemma triple_state: "(\<And>s. P s \<Longrightarrow> triple (\<lambda>t. t = s) m Q E) \<Longrightarrow> triple P m Q E"
  unfolding triple_def by auto

end
