(* ===== verification/PyText.thy ===== *)
theory PyText
  imports Prelude
begin

text \<open>
  Python text and bytes. A \<open>bytes\<close> object is a list of 8-bit characters. A \<open>str\<close> is the list of
  the bytes of its UTF-8 form (lone surrogates in their three-byte form), so equality, prefixes,
  concatenation and every test on ASCII characters are those of the \<open>str\<close> itself, \<open>len\<close> counts
  the bytes that start a code point (\<open>py_len\<close>), and \<open>bytes.decode("utf-8")\<close> is the identity on
  the byte strings that are well-formed UTF-8 (\<open>decode_utf8\<close>).
\<close>

type_synonym bytes = string

section \<open>Character classes\<close>

definition ordc :: "char \<Rightarrow> nat" where
  "ordc c = of_char c"

definition is_digit :: "char \<Rightarrow> bool" where
  "is_digit c \<longleftrightarrow> 48 \<le> ordc c \<and> ordc c \<le> 57"

definition is_upper :: "char \<Rightarrow> bool" where
  "is_upper c \<longleftrightarrow> 65 \<le> ordc c \<and> ordc c \<le> 90"

definition is_lower :: "char \<Rightarrow> bool" where
  "is_lower c \<longleftrightarrow> 97 \<le> ordc c \<and> ordc c \<le> 122"

definition is_alnum :: "char \<Rightarrow> bool" where
  "is_alnum c \<longleftrightarrow> is_digit c \<or> is_upper c \<or> is_lower c"

text \<open>The class \<open>[0-9a-f]\<close>, and the class \<open>[0-9a-fA-F]\<close>.\<close>

definition is_lhex :: "char \<Rightarrow> bool" where
  "is_lhex c \<longleftrightarrow> is_digit c \<or> 97 \<le> ordc c \<and> ordc c \<le> 102"

definition is_hex :: "char \<Rightarrow> bool" where
  "is_hex c \<longleftrightarrow> is_lhex c \<or> 65 \<le> ordc c \<and> ordc c \<le> 70"

definition is_control :: "char \<Rightarrow> bool" where
  "is_control c \<longleftrightarrow> ordc c < 32 \<or> ordc c = 127"

definition is_ascii :: "char \<Rightarrow> bool" where
  "is_ascii c \<longleftrightarrow> ordc c < 128"

definition is_cont :: "char \<Rightarrow> bool" where
  "is_cont c \<longleftrightarrow> 128 \<le> ordc c \<and> ordc c < 192"

text \<open>\<open>re.fullmatch("[0-9a-f]{n}", s)\<close> and \<open>re.fullmatch("[0-9a-fA-F]{n}", s)\<close>.\<close>

definition lhex_string :: "nat \<Rightarrow> string \<Rightarrow> bool" where
  "lhex_string n s \<longleftrightarrow> length s = n \<and> list_all is_lhex s"

definition hex_string :: "nat \<Rightarrow> string \<Rightarrow> bool" where
  "hex_string n s \<longleftrightarrow> length s = n \<and> list_all is_hex s"

section \<open>Lengths, encodings, case\<close>

definition py_len :: "string \<Rightarrow> nat" where
  "py_len s = length (filter (\<lambda>c. \<not> is_cont c) s)"

definition isascii :: "string \<Rightarrow> bool" where
  "isascii s \<longleftrightarrow> list_all is_ascii s"

definition decode_ascii :: "bytes \<Rightarrow> py_exc + string" where
  "decode_ascii b = (if isascii b then Inr b else Inl UnicodeError)"

definition encode_ascii :: "string \<Rightarrow> py_exc + bytes" where
  "encode_ascii s = (if isascii s then Inr s else Inl UnicodeError)"

text \<open>Well-formed UTF-8 (RFC 3629): no overlong form, no surrogate, nothing above U+10FFFF.\<close>

definition utf8_two :: "char \<Rightarrow> char \<Rightarrow> bool" where
  "utf8_two a b \<longleftrightarrow> 194 \<le> ordc a \<and> ordc a \<le> 223 \<and> is_cont b"

definition utf8_three :: "char \<Rightarrow> char \<Rightarrow> char \<Rightarrow> bool" where
  "utf8_three a b c \<longleftrightarrow> 224 \<le> ordc a \<and> ordc a \<le> 239 \<and> is_cont b \<and> is_cont c \<and>
     (ordc a = 224 \<longrightarrow> 160 \<le> ordc b) \<and> (ordc a = 237 \<longrightarrow> ordc b < 160)"

definition utf8_four :: "char \<Rightarrow> char \<Rightarrow> char \<Rightarrow> char \<Rightarrow> bool" where
  "utf8_four a b c d \<longleftrightarrow> 240 \<le> ordc a \<and> ordc a \<le> 244 \<and> is_cont b \<and> is_cont c \<and> is_cont d \<and>
     (ordc a = 240 \<longrightarrow> 144 \<le> ordc b) \<and> (ordc a = 244 \<longrightarrow> ordc b < 144)"

definition utf8_tail :: "string \<Rightarrow> string option" where
  "utf8_tail s = (case s of
      [] \<Rightarrow> None
    | a # s1 \<Rightarrow> if is_ascii a then Some s1 else (case s1 of
        [] \<Rightarrow> None
      | b # s2 \<Rightarrow> if utf8_two a b then Some s2 else (case s2 of
          [] \<Rightarrow> None
        | c # s3 \<Rightarrow> if utf8_three a b c then Some s3 else (case s3 of
            [] \<Rightarrow> None
          | d # s4 \<Rightarrow> if utf8_four a b c d then Some s4 else None))))"

fun utf8_valid_fuel :: "nat \<Rightarrow> string \<Rightarrow> bool" where
  "utf8_valid_fuel 0 s = (s = [])"
| "utf8_valid_fuel (Suc n) s =
     (s = [] \<or> (case utf8_tail s of None \<Rightarrow> False | Some t \<Rightarrow> utf8_valid_fuel n t))"

definition utf8_valid :: "string \<Rightarrow> bool" where
  "utf8_valid s = utf8_valid_fuel (length s) s"

definition decode_utf8 :: "bytes \<Rightarrow> py_exc + string" where
  "decode_utf8 b = (if utf8_valid b then Inr b else Inl UnicodeError)"

text \<open>\<open>str.lower\<close> on ASCII letters; the code applies it to hexadecimal text and ASCII DNS names.\<close>

definition lower_char :: "char \<Rightarrow> char" where
  "lower_char c = (if is_upper c then char_of (ordc c + 32) else c)"

definition lower :: "string \<Rightarrow> string" where
  "lower s = map lower_char s"

section \<open>Searching, splitting, stripping\<close>

definition startswith :: "string \<Rightarrow> string \<Rightarrow> bool" where
  "startswith p s \<longleftrightarrow> take (length p) s = p"

definition endswith :: "string \<Rightarrow> string \<Rightarrow> bool" where
  "endswith p s \<longleftrightarrow> length p \<le> length s \<and> drop (length s - length p) s = p"

fun contains :: "string \<Rightarrow> string \<Rightarrow> bool" where
  "contains p [] = (p = [])"
| "contains p (c # s) = (startswith p (c # s) \<or> contains p s)"

definition removesuffix :: "string \<Rightarrow> string \<Rightarrow> string" where
  "removesuffix p s = (if p \<noteq> [] \<and> endswith p s then take (length s - length p) s else s)"

text \<open>\<open>s.partition(c)\<close> for a one-character separator: head, whether it occurs, tail.\<close>

fun partition_char :: "char \<Rightarrow> string \<Rightarrow> string \<times> bool \<times> string" where
  "partition_char c [] = ([], False, [])"
| "partition_char c (x # s) = (if x = c then ([], True, s)
     else (case partition_char c s of (h, f, t) \<Rightarrow> (x # h, f, t)))"

text \<open>\<open>s.split(c)\<close> for a one-character separator.\<close>

fun split_char :: "char \<Rightarrow> string \<Rightarrow> string list" where
  "split_char c [] = [[]]"
| "split_char c (x # s) = (if x = c then [] # split_char c s
     else (case split_char c s of [] \<Rightarrow> [[x]] | h # t \<Rightarrow> (x # h) # t))"

fun join :: "string \<Rightarrow> string list \<Rightarrow> string" where
  "join sep [] = []"
| "join sep [x] = x"
| "join sep (x # y # xs) = x @ sep @ join sep (y # xs)"

text \<open>The line boundaries of \<open>str.splitlines\<close>, in UTF-8, the two-character one first.\<close>

definition line_breaks :: "string list" where
  "line_breaks = [[CHR 0x0D, CHR 0x0A], [CHR 0x0A], [CHR 0x0D], [CHR 0x0B], [CHR 0x0C], [CHR 0x1C],
     [CHR 0x1D], [CHR 0x1E], [CHR 0xC2, CHR 0x85], [CHR 0xE2, CHR 0x80, CHR 0xA8],
     [CHR 0xE2, CHR 0x80, CHR 0xA9]]"

fun first_match :: "string list \<Rightarrow> string \<Rightarrow> string option" where
  "first_match [] s = None"
| "first_match (p # ps) s = (if p \<noteq> [] \<and> startswith p s then Some p else first_match ps s)"

text \<open>Splitting at the first of several separators; a separator at the very end opens no line.\<close>

function split_lines_at :: "string list \<Rightarrow> string \<Rightarrow> string \<Rightarrow> string list" where
  "split_lines_at seps acc s = (case s of
      [] \<Rightarrow> (if acc = [] then [] else [rev acc])
    | c # cs \<Rightarrow> (case first_match seps s of
        None \<Rightarrow> split_lines_at seps (c # acc) cs
      | Some p \<Rightarrow> rev acc # split_lines_at seps [] (drop (length p - 1) cs)))"
  by pat_completeness auto
termination
  by (relation "measure (\<lambda>(seps, acc, s). length s)") auto

definition splitlines :: "string \<Rightarrow> string list" where
  "splitlines s = split_lines_at line_breaks [] s"

text \<open>The whitespace of \<open>bytes.strip\<close> and of \<open>str.strip\<close> (in UTF-8).\<close>

definition ascii_spaces :: "string list" where
  "ascii_spaces = map (\<lambda>c. [c]) [CHR 0x20, CHR 0x09, CHR 0x0A, CHR 0x0D, CHR 0x0B, CHR 0x0C]"

definition unicode_spaces :: "string list" where
  "unicode_spaces = ascii_spaces @ map (\<lambda>c. [c]) [CHR 0x1C, CHR 0x1D, CHR 0x1E, CHR 0x1F] @
     [[CHR 0xC2, CHR 0x85], [CHR 0xC2, CHR 0xA0], [CHR 0xE1, CHR 0x9A, CHR 0x80]] @
     map (\<lambda>n. [CHR 0xE2, CHR 0x80, char_of (n::nat)]) [128..<139] @
     [[CHR 0xE2, CHR 0x80, CHR 0xA8], [CHR 0xE2, CHR 0x80, CHR 0xA9], [CHR 0xE2, CHR 0x80, CHR 0xAF],
      [CHR 0xE2, CHR 0x81, CHR 0x9F], [CHR 0xE3, CHR 0x80, CHR 0x80]]"

function lstrip_of :: "string list \<Rightarrow> string \<Rightarrow> string" where
  "lstrip_of ws s = (case s of
      [] \<Rightarrow> []
    | c # cs \<Rightarrow> (case first_match ws s of
        None \<Rightarrow> s
      | Some p \<Rightarrow> lstrip_of ws (drop (length p - 1) cs)))"
  by pat_completeness auto
termination
  by (relation "measure (\<lambda>(ws, s). length s)") auto

definition rstrip_of :: "string list \<Rightarrow> string \<Rightarrow> string" where
  "rstrip_of ws s = rev (lstrip_of (map rev ws) (rev s))"

definition bytes_strip :: "bytes \<Rightarrow> bytes" where
  "bytes_strip s = rstrip_of ascii_spaces (lstrip_of ascii_spaces s)"

definition str_strip :: "string \<Rightarrow> string" where
  "str_strip s = rstrip_of unicode_spaces (lstrip_of unicode_spaces s)"

text \<open>
  \<open>re.split("(?m)^" + m, s)\<close> for a literal, non-empty \<open>m\<close>: cut at every occurrence of \<open>m\<close> at the
  start of a line (after a newline, or at the start of the text).
\<close>

function split_at_line_start :: "string \<Rightarrow> bool \<Rightarrow> string \<Rightarrow> string \<Rightarrow> string list" where
  "split_at_line_start m bol acc s = (case s of
      [] \<Rightarrow> [rev acc]
    | c # cs \<Rightarrow> if bol \<and> startswith m s
        then rev acc # split_at_line_start m False [] (drop (length m - 1) cs)
        else split_at_line_start m (c = CHR 0x0A) (c # acc) cs)"
  by pat_completeness auto
termination
  by (relation "measure (\<lambda>(m, bol, acc, s). length s)") auto

section \<open>Numbers as text\<close>

function show_nat :: "nat \<Rightarrow> string" where
  "show_nat n = (if n < 10 then [char_of (48 + n)] else show_nat (n div 10) @ [char_of (48 + n mod 10)])"
  by pat_completeness auto
termination
  by (relation "measure id") auto

definition digit_val :: "char \<Rightarrow> nat" where
  "digit_val c = ordc c - 48"

definition read_nat :: "string \<Rightarrow> nat" where
  "read_nat s = foldl (\<lambda>n c. 10 * n + digit_val c) 0 s"

declare split_lines_at.simps [simp del] lstrip_of.simps [simp del]
  split_at_line_start.simps [simp del] show_nat.simps [simp del]

section \<open>Lemmas\<close>

lemma ordc_bound [simp]: "ordc c < 256"
  by (simp add: ordc_def)

lemma ordc_char_of: "n < 256 \<Longrightarrow> ordc (char_of n) = n"
  by (simp add: ordc_def)

lemma startswith_Nil [simp]: "startswith [] s"
  by (simp add: startswith_def)

lemma startswith_Cons [simp]:
  "startswith (p # ps) (c # cs) \<longleftrightarrow> p = c \<and> startswith ps cs"
  "\<not> startswith (p # ps) []"
  by (auto simp: startswith_def)

lemma startswith_append [simp]: "startswith p (p @ s)"
  by (simp add: startswith_def)

lemma is_hex_of_lhex: "is_lhex c \<Longrightarrow> is_hex c"
  by (simp add: is_hex_def)

lemma lower_lhex [simp]: "is_lhex c \<Longrightarrow> lower_char c = c"
  by (auto simp: lower_char_def is_lhex_def is_upper_def is_digit_def)

lemma lower_lhex_string: "lhex_string n s \<Longrightarrow> lower s = s"
  by (auto simp: lower_def lhex_string_def list_all_iff intro: map_idI)

lemma is_lhex_lower: "is_hex c \<Longrightarrow> is_lhex (lower_char c)"
  by (auto simp: lower_char_def is_hex_def is_lhex_def is_upper_def is_digit_def ordc_char_of)

lemma lhex_lower: "hex_string n s \<Longrightarrow> lhex_string n (lower s)"
  by (auto simp: hex_string_def lhex_string_def lower_def list_all_iff is_lhex_lower)

lemma digit_char [simp]:
  assumes "d < 10"
  shows "is_digit (char_of (48 + d))" "digit_val (char_of (48 + d)) = d"
  using assms by (simp_all add: is_digit_def digit_val_def ordc_char_of)

lemma show_nat_digits: "list_all is_digit (show_nat n)"
proof (induction n rule: show_nat.induct)
  case (1 n)
  then show ?case by (subst show_nat.simps) (auto simp: list_all_iff)
qed

lemma show_nat_nonempty [simp]: "show_nat n \<noteq> []"
  by (subst show_nat.simps) simp

lemma read_nat_snoc: "read_nat (s @ [c]) = 10 * read_nat s + digit_val c"
  by (simp add: read_nat_def)

lemma read_show_nat [simp]: "read_nat (show_nat n) = n"
proof (induction n rule: show_nat.induct)
  case (1 n)
  show ?case
  proof (cases "n < 10")
    case True
    then show ?thesis by (subst show_nat.simps) (simp add: read_nat_def)
  next
    case False
    then have "read_nat (show_nat (n div 10)) = n div 10" by (rule 1)
    with False show ?thesis by (subst show_nat.simps) (simp add: read_nat_snoc)
  qed
qed

lemma show_nat_length: "n < 10 ^ k \<Longrightarrow> 0 < k \<Longrightarrow> length (show_nat n) \<le> k"
proof (induction k arbitrary: n)
  case (Suc k)
  show ?case
  proof (cases "n < 10")
    case False
    with Suc.prems have "n div 10 < 10 ^ k" by simp
    moreover from False Suc.prems have "0 < k" by (cases k) auto
    ultimately show ?thesis using Suc.IH False by (subst show_nat.simps) simp
  qed (subst show_nat.simps, simp)
qed simp

lemma zero_char: "char_of (48 :: nat) = CHR ''0''" "ordc (CHR ''0'') = 48"
  by code_simp+

lemma show_nat_leading: "hd (show_nat n) = CHR ''0'' \<longleftrightarrow> n = 0"
proof (induction n rule: show_nat.induct)
  case (1 n)
  show ?case
  proof (cases "n < 10")
    case True
    then have "char_of (48 + n) = CHR ''0'' \<longleftrightarrow> n = 0"
      using ordc_char_of[of "48 + n"] zero_char by fastforce
    with True show ?thesis by (subst show_nat.simps) simp
  next
    case False
    with 1 show ?thesis by (subst show_nat.simps) simp
  qed
qed

lemma digit_chars [simp]:
  "char_of (48::nat) = CHR ''0''" "char_of (49::nat) = CHR ''1''" "char_of (50::nat) = CHR ''2''"
  "char_of (51::nat) = CHR ''3''" "char_of (52::nat) = CHR ''4''" "char_of (53::nat) = CHR ''5''"
  "char_of (54::nat) = CHR ''6''" "char_of (55::nat) = CHR ''7''" "char_of (56::nat) = CHR ''8''"
  "char_of (57::nat) = CHR ''9''"
  by (simp_all add: char_of_def bit_0)

lemma py_len_ascii: "isascii s \<Longrightarrow> py_len s = length s"
  by (induction s) (simp_all add: py_len_def isascii_def is_ascii_def is_cont_def)

end
