(* ===== verification/PyTime.thy ===== *)
theory PyTime
  imports PyText
begin

text \<open>
  Python's \<open>datetime\<close>. A UTC-aware instant is the number of microseconds since the first day of the
  year 1 (ordinal 1); a naive one has no instant and is told apart by its constructor, because the
  program refuses naive values. The calendar conversion follows \<open>_ord2ymd\<close> of the standard library.
\<close>

type_synonym instant = int

datatype datetime = Aware instant | Naive instant

definition seconds :: "int \<Rightarrow> int" where "seconds n = n * 1000000"

definition days :: "int \<Rightarrow> int" where "days n = n * 86400000000"

definition days_before_month :: "nat list" where
  "days_before_month = [0, 0, 31, 59, 90, 120, 151, 181, 212, 243, 273, 304, 334]"

definition days_in_month :: "nat list" where
  "days_in_month = [0, 31, 28, 31, 30, 31, 30, 31, 31, 30, 31, 30, 31]"

definition ord2ymd :: "nat \<Rightarrow> nat \<times> nat \<times> nat" where
  "ord2ymd ordinal =
     (let n = ordinal - 1;
          n400 = n div 146097; n = n mod 146097;
          n100 = n div 36524; n = n mod 36524;
          n4 = n div 1461; n = n mod 1461;
          n1 = n div 365; n = n mod 365;
          year = n400 * 400 + 1 + n100 * 100 + n4 * 4 + n1
      in if n1 = 4 \<or> n100 = 4 then (year - 1, 12, 31)
         else
           let leap = (n1 = 3 \<and> (n4 \<noteq> 24 \<or> n100 = 3));
               month = (n + 50) div 32;
               preceding = days_before_month ! month + (if month > 2 \<and> leap then 1 else 0)
           in if preceding > n
              then let month' = month - 1;
                       preceding' = preceding - (days_in_month ! month' + (if month' = 2 \<and> leap then 1 else 0))
                   in (year, month', n - preceding' + 1)
              else (year, month, n - preceding + 1))"

definition pad :: "nat \<Rightarrow> nat \<Rightarrow> string" where
  "pad w n = replicate (w - length (show_nat n)) (CHR ''0'') @ show_nat n"

text \<open>\<open>.date().isoformat()\<close> and \<open>.isoformat(timespec="seconds")\<close> with \<open>Z\<close> for the UTC offset.\<close>

definition date_isoformat :: "instant \<Rightarrow> string" where
  "date_isoformat t = (case ord2ymd (nat (t div days 1) + 1) of
     (y, m, d) \<Rightarrow> pad 4 y @ ''-'' @ pad 2 m @ ''-'' @ pad 2 d)"

definition utc_isoformat :: "instant \<Rightarrow> string" where
  "utc_isoformat t = (let s = nat (t mod days 1 div seconds 1) in
     date_isoformat t @ ''T'' @ pad 2 (s div 3600) @ '':'' @ pad 2 (s div 60 mod 60) @ '':'' @
     pad 2 (s mod 60) @ ''Z'')"

text \<open>Comparing a naive and an aware value raises \<open>TypeError\<close>.\<close>

fun datetime_less_eq :: "datetime \<Rightarrow> datetime \<Rightarrow> py_exc + bool" where
  "datetime_less_eq (Aware a) (Aware b) = Inr (a \<le> b)"
| "datetime_less_eq (Naive a) (Naive b) = Inr (a \<le> b)"
| "datetime_less_eq _ _ = Inl TypeError"

lemma isoformat_example:
  "utc_isoformat (days 738944 + seconds 86399) = ''2024-02-29T23:59:59Z''"
  by code_simp

end
