(* ===== verification/Ip.thy ===== *)
theory Ip
  imports PyText
begin

text \<open>
  Python's \<open>ipaddress.ip_address\<close> and \<open>str\<close> of its result. An address is the integer of its bits;
  an IPv6 address may carry a scope. \<open>IPNetwork\<close> is the value of a certificate's IP name that holds a
  network instead of an address; it equals no address.
\<close>

datatype ip = IPv4 nat | IPv6 nat "string option" | IPNetwork string

section \<open>Parsing\<close>

definition parse_octet :: "string \<Rightarrow> nat option" where
  "parse_octet s =
     (if s \<noteq> [] \<and> list_all is_digit s \<and> length s \<le> 3 \<and> (s = ''0'' \<or> hd s \<noteq> CHR ''0'') \<and> read_nat s \<le> 255
      then Some (read_nat s) else None)"

definition parse_ipv4 :: "string \<Rightarrow> nat option" where
  "parse_ipv4 s = (case split_char (CHR ''.'') s of
      [a, b, c, d] \<Rightarrow> (case (parse_octet a, parse_octet b, parse_octet c, parse_octet d) of
          (Some w, Some x, Some y, Some z) \<Rightarrow> Some (((w * 256 + x) * 256 + y) * 256 + z)
        | _ \<Rightarrow> None)
    | _ \<Rightarrow> None)"

definition hex_digit_val :: "char \<Rightarrow> nat" where
  "hex_digit_val c = (if is_digit c then ordc c - 48 else if is_lower c then ordc c - 87 else ordc c - 55)"

definition parse_hextet :: "string \<Rightarrow> nat option" where
  "parse_hextet s =
     (if s \<noteq> [] \<and> list_all is_hex s \<and> length s \<le> 4 then Some (foldl (\<lambda>n c. n * 16 + hex_digit_val c) 0 s)
      else None)"

fun parse_hextets :: "string list \<Rightarrow> nat option" where
  "parse_hextets [] = Some 0"
| "parse_hextets (s # ss) = (case (parse_hextet s, parse_hextets ss) of
      (Some a, Some b) \<Rightarrow> Some (a * 65536 ^ length ss + b) | _ \<Rightarrow> None)"

function show_hex :: "nat \<Rightarrow> string" where
  "show_hex n = (let d = (if n mod 16 < 10 then char_of (48 + n mod 16) else char_of (87 + n mod 16))
     in if n < 16 then [d] else show_hex (n div 16) @ [d])"
  by auto
termination by (relation "measure id") auto

declare show_hex.simps [simp del]

text \<open>The last part may be a dotted IPv4 address; it becomes two hextets.\<close>

definition embed_ipv4 :: "string list \<Rightarrow> string list option" where
  "embed_ipv4 parts =
     (if CHR ''.'' \<in> set (last parts)
      then map_option (\<lambda>n. butlast parts @ [show_hex (n div 65536), show_hex (n mod 65536)])
             (parse_ipv4 (last parts))
      else Some parts)"

definition parse_ipv6_parts :: "string list \<Rightarrow> nat option" where
  "parse_ipv6_parts parts =
     (let n = length parts;
          gaps = filter (\<lambda>i. parts ! i = []) [1..<n - 1]
      in if n > 9 then None
         else case gaps of
           [] \<Rightarrow> if n = 8 \<and> hd parts \<noteq> [] \<and> last parts \<noteq> [] then parse_hextets parts else None
         | [k] \<Rightarrow>
             let hi = take k parts; lo = drop (k + 1) parts;
                 hi' = (if hd parts = [] then tl hi else hi);
                 lo' = (if last parts = [] then butlast lo else lo)
             in if hd parts = [] \<and> hi' \<noteq> [] \<or> last parts = [] \<and> lo' \<noteq> [] then None
                else if length hi' + length lo' > 7 then None
                else (case (parse_hextets hi', parse_hextets lo') of
                    (Some a, Some b) \<Rightarrow> Some (a * 65536 ^ (8 - length hi') + b)
                  | _ \<Rightarrow> None)
         | _ \<Rightarrow> None)"

definition parse_ipv6 :: "string \<Rightarrow> ip option" where
  "parse_ipv6 s = (case partition_char (CHR ''%'') s of (addr, sep, scope) \<Rightarrow>
     if sep \<and> (scope = [] \<or> CHR ''%'' \<in> set scope) then None
     else let parts = split_char (CHR '':'') addr
          in if length parts < 3 then None
             else (case embed_ipv4 parts of
                 None \<Rightarrow> None
               | Some ps \<Rightarrow> map_option (\<lambda>n. IPv6 n (if sep then Some scope else None)) (parse_ipv6_parts ps)))"

definition ip_address :: "string \<Rightarrow> py_exc + ip" where
  "ip_address s =
     (if CHR ''/'' \<in> set s then Inl ValueError
      else case parse_ipv4 s of
        Some n \<Rightarrow> Inr (IPv4 n)
      | None \<Rightarrow> (case parse_ipv6 s of Some a \<Rightarrow> Inr a | None \<Rightarrow> Inl ValueError))"

section \<open>Printing\<close>

definition show_ipv4 :: "nat \<Rightarrow> string" where
  "show_ipv4 n = join ''.'' [show_nat (n div 16777216), show_nat (n div 65536 mod 256),
     show_nat (n div 256 mod 256), show_nat (n mod 256)]"

text \<open>The first longest run of at least two zero hextets: its start and length.\<close>

fun zero_run :: "string list \<Rightarrow> nat" where
  "zero_run (h # hs) = (if h = ''0'' then Suc (zero_run hs) else 0)"
| "zero_run [] = 0"

fun best_run :: "nat \<Rightarrow> string list \<Rightarrow> nat \<times> nat \<Rightarrow> nat \<times> nat" where
  "best_run i [] best = best"
| "best_run i (h # hs) best =
     best_run (Suc i) hs (if zero_run (h # hs) > snd best then (i, zero_run (h # hs)) else best)"

definition compress_hextets :: "string list \<Rightarrow> string list" where
  "compress_hextets hs = (case best_run 0 hs (0, 0) of (i, l) \<Rightarrow>
     if l > 1 then (if i = 0 then [[]] else []) @ take i hs @ [[]] @ drop (i + l) hs @
                   (if i + l = length hs then [[]] else [])
     else hs)"

definition show_ipv6_int :: "nat \<Rightarrow> string" where
  "show_ipv6_int n = join '':'' (compress_hextets
     (map (\<lambda>i. show_hex (n div 65536 ^ (7 - i) mod 65536)) [0..<8]))"

text \<open>An IPv4-mapped IPv6 address is printed in the mixed form.\<close>

fun show_ip :: "ip \<Rightarrow> string" where
  "show_ip (IPv4 n) = show_ipv4 n"
| "show_ip (IPv6 n scope) =
     (if n div 4294967296 = 65535
      then show_ipv6_int (n div 4294967296) @ '':'' @ show_ipv4 (n mod 4294967296)
      else show_ipv6_int n) @
     (case scope of None \<Rightarrow> [] | Some z \<Rightarrow> CHR ''%'' # z)"
| "show_ip (IPNetwork t) = t"

section \<open>What is printed is parsed back\<close>

lemma split_char_join:
  "c \<notin> set s \<Longrightarrow> split_char c (s @ c # t) = s # split_char c t"
  "c \<notin> set s \<Longrightarrow> split_char c s = [s]"
  by (induction s) auto

lemma show_nat_no: "\<not> is_digit c \<Longrightarrow> c \<notin> set (show_nat n)"
  using show_nat_digits[of n] by (auto simp: list_all_iff)

lemma parse_octet_show:
  assumes "n < 256"
  shows "parse_octet (show_nat n) = Some n"
proof -
  have "length (show_nat n) \<le> 3" using assms by (intro show_nat_length) auto
  moreover have "show_nat 0 = ''0''" by (subst show_nat.simps) simp
  ultimately show ?thesis
    using assms show_nat_digits[of n] show_nat_leading[of n] by (auto simp: parse_octet_def)
qed

lemma octets_compose:
  "((n div 16777216 * 256 + n div 65536 mod 256) * 256 + n div 256 mod 256) * 256 + n mod 256 = (n::nat)"
proof -
  have "n div 65536 = n div 256 div 256" "n div 16777216 = n div 256 div 256 div 256"
    by (simp_all add: div_mult2_eq[symmetric])
  then show ?thesis by (simp only: div_mult_mod_eq)
qed

lemma parse_show_ipv4:
  assumes "n < 2 ^ 32"
  shows "parse_ipv4 (show_ipv4 n) = Some n"
proof -
  have nd: "CHR ''.'' \<notin> set (show_nat m)" for m by (rule show_nat_no) (simp add: is_digit_def ordc_def)
  have b: "n div 16777216 < 256" using assms by simp
  have "split_char (CHR ''.'') (show_ipv4 n) = [show_nat (n div 16777216), show_nat (n div 65536 mod 256),
     show_nat (n div 256 mod 256), show_nat (n mod 256)]"
    by (simp add: show_ipv4_def split_char_join nd)
  then show ?thesis using octets_compose[of n] by (simp add: parse_ipv4_def parse_octet_show b)
qed

lemma ip_address_show_ipv4:
  assumes "n < 2 ^ 32"
  shows "ip_address (show_ip (IPv4 n)) = Inr (IPv4 n)"
proof -
  have "CHR ''/'' \<notin> set (show_nat m)" for m by (rule show_nat_no) (simp add: is_digit_def ordc_def)
  then have "CHR ''/'' \<notin> set (show_ipv4 n)" by (simp add: show_ipv4_def)
  with parse_show_ipv4[OF assms] show ?thesis by (simp add: ip_address_def)
qed

lemma ip_examples:
  "ip_address ''::1'' = Inr (IPv6 1 None)"
  "ip_address ''1:2:3:4:5:6:7::'' = Inr (IPv6 0x00010002000300040005000600070000 None)"
  "ip_address ''fe80::1%eth0'' = Inr (IPv6 0xfe800000000000000000000000000001 (Some ''eth0''))"
  "ip_address ''1::2::3'' = Inl ValueError"
  "ip_address ''010.0.0.1'' = Inl ValueError"
  "show_ip (IPv6 0x20010db8000000000000000000000001 None) = ''2001:db8::1''"
  "show_ip (IPv6 0xffff0a000001 None) = ''::ffff:10.0.0.1''"
  by code_simp+

end
