(* ===== verification/X509.thy ===== *)
theory X509
  imports PyTime Ip
begin

text \<open>
  The public data that the \<open>cryptography\<close> package hands to the program, as records of what the
  program reads from its objects, and the package's own functions as the fields of a record
  \<open>x509_lib\<close> that every definition using them takes as an argument. An accessor of the package that
  can raise is a sum. \<open>sha256\<close> is \<open>hashlib.sha256(data).hexdigest()\<close>; \<open>unsafe_category\<close> tells of a code
  point above 127 whether its Unicode category is Cc, Cf, Cs, Zl or Zp. The second half is
  \<open>public_key.py\<close>.
\<close>

section \<open>Objects of the package\<close>

datatype public_key =
    RSAPublicKey nat bytes | DSAPublicKey nat bytes | EllipticCurvePublicKey nat bytes
  | Ed25519PublicKey bytes | Ed448PublicKey bytes | X25519PublicKey bytes | X448PublicKey bytes
  | DHPublicKey nat bytes | OtherPublicKey "bytes option"

datatype general_name = DNSName string | IPAddress ip | OtherName string

record key_usage =
  digital_signature :: bool
  content_commitment :: bool
  key_encipherment :: bool
  data_encipherment :: bool
  key_agreement :: bool
  key_cert_sign :: bool
  crl_sign :: bool

datatype extension =
    SubjectAlternativeName "general_name list"
  | BasicConstraints bool
  | KeyUsage key_usage
  | ExtendedKeyUsage "string list"
  | SubjectKeyIdentifier bytes
  | OtherExtension string

record x509_cert =
  c_der :: bytes
  c_pem :: bytes
  c_public_key :: "py_exc + public_key"
  c_subject :: string
  c_issuer :: string
  c_serial_number :: nat
  c_not_valid_before :: instant
  c_not_valid_after :: instant
  c_signature_algorithm_oid :: string
  c_signature_hash :: "py_exc + string option"
  c_extensions :: "py_exc + extension list"

record x509_csr =
  q_signature_valid :: "py_exc + bool"
  q_public_key :: "py_exc + public_key"
  q_subject :: string
  q_signature_algorithm_oid :: string
  q_signature_hash :: "py_exc + string option"
  q_extensions :: "py_exc + extension list"

record x509_lib =
  load_der :: "bytes \<Rightarrow> py_exc + x509_cert"
  load_pem :: "bytes \<Rightarrow> py_exc + x509_cert"
  load_pems :: "bytes \<Rightarrow> py_exc + x509_cert list"
  load_csr :: "bytes \<Rightarrow> py_exc + x509_csr"
  directly_issued_by :: "x509_cert \<Rightarrow> x509_cert \<Rightarrow> py_exc + unit"
  server_verify :: "x509_cert list \<Rightarrow> instant \<Rightarrow> general_name \<Rightarrow> x509_cert \<Rightarrow> py_exc + unit"
  rfc4514_name :: "string \<Rightarrow> py_exc + string"
  sha256 :: "bytes \<Rightarrow> string"
  unsafe_category :: "nat \<Rightarrow> bool"

text \<open>The documented form of a SHA-256 hex digest.\<close>

definition sha256_hex :: "x509_lib \<Rightarrow> bool" where
  "sha256_hex L \<longleftrightarrow> (\<forall>d. lhex_string 64 (sha256 L d))"

fun san_of :: "extension list \<Rightarrow> general_name list option" where
  "san_of [] = None"
| "san_of (SubjectAlternativeName ns # es) = Some ns"
| "san_of (e # es) = san_of es"

fun basic_constraints_of :: "extension list \<Rightarrow> bool option" where
  "basic_constraints_of [] = None"
| "basic_constraints_of (BasicConstraints b # es) = Some b"
| "basic_constraints_of (e # es) = basic_constraints_of es"

fun key_usage_of :: "extension list \<Rightarrow> key_usage option" where
  "key_usage_of [] = None"
| "key_usage_of (KeyUsage u # es) = Some u"
| "key_usage_of (e # es) = key_usage_of es"

fun extended_key_usage_of :: "extension list \<Rightarrow> string list option" where
  "extended_key_usage_of [] = None"
| "extended_key_usage_of (ExtendedKeyUsage os # es) = Some os"
| "extended_key_usage_of (e # es) = extended_key_usage_of es"

fun subject_key_identifier_of :: "extension list \<Rightarrow> bytes option" where
  "subject_key_identifier_of [] = None"
| "subject_key_identifier_of (SubjectKeyIdentifier d # es) = Some d"
| "subject_key_identifier_of (e # es) = subject_key_identifier_of es"

fun dns_values :: "general_name list \<Rightarrow> string list" where
  "dns_values [] = []"
| "dns_values (DNSName s # ns) = s # dns_values ns"
| "dns_values (n # ns) = dns_values ns"

fun ip_values :: "general_name list \<Rightarrow> ip list" where
  "ip_values [] = []"
| "ip_values (IPAddress a # ns) = a # ip_values ns"
| "ip_values (n # ns) = ip_values ns"

fun other_types :: "general_name list \<Rightarrow> string list" where
  "other_types [] = []"
| "other_types (OtherName t # ns) = t # other_types ns"
| "other_types (n # ns) = other_types ns"

definition hex_of_bytes :: "bytes \<Rightarrow> string" where
  "hex_of_bytes b = concat (map (\<lambda>c.
     let d = \<lambda>n. (if n < 10 then char_of (48 + n) else char_of (87 + n :: nat))
     in [d (ordc c div 16), d (ordc c mod 16)]) b)"

section \<open>public_key.py\<close>

fun public_key_algorithm_and_size :: "public_key \<Rightarrow> py_exc + string \<times> nat option" where
  "public_key_algorithm_and_size (RSAPublicKey n _) = Inr (''RSA'', Some n)"
| "public_key_algorithm_and_size (DSAPublicKey n _) = Inr (''DSA'', Some n)"
| "public_key_algorithm_and_size (EllipticCurvePublicKey n _) = Inr (''EC'', Some n)"
| "public_key_algorithm_and_size (Ed25519PublicKey _) = Inr (''Ed25519'', None)"
| "public_key_algorithm_and_size (Ed448PublicKey _) = Inr (''Ed448'', None)"
| "public_key_algorithm_and_size (X25519PublicKey _) = Inr (''X25519'', None)"
| "public_key_algorithm_and_size (X448PublicKey _) = Inr (''X448'', None)"
| "public_key_algorithm_and_size (DHPublicKey n _) = Inr (''DH'', Some n)"
| "public_key_algorithm_and_size (OtherPublicKey _) = Inl UnsupportedPublicKeyError"

fun subject_public_key_info_der :: "public_key \<Rightarrow> py_exc + bytes" where
  "subject_public_key_info_der (RSAPublicKey _ d) = Inr d"
| "subject_public_key_info_der (DSAPublicKey _ d) = Inr d"
| "subject_public_key_info_der (EllipticCurvePublicKey _ d) = Inr d"
| "subject_public_key_info_der (Ed25519PublicKey d) = Inr d"
| "subject_public_key_info_der (Ed448PublicKey d) = Inr d"
| "subject_public_key_info_der (X25519PublicKey d) = Inr d"
| "subject_public_key_info_der (X448PublicKey d) = Inr d"
| "subject_public_key_info_der (DHPublicKey _ d) = Inr d"
| "subject_public_key_info_der (OtherPublicKey None) = Inl UnsupportedPublicKeyError"
| "subject_public_key_info_der (OtherPublicKey (Some d)) = Inr d"

definition spki_sha256 :: "x509_lib \<Rightarrow> public_key \<Rightarrow> py_exc + string" where
  "spki_sha256 L k = bindE (subject_public_key_info_der k) (\<lambda>d. Inr (sha256 L d))"

lemma spki_sha256_hex: "sha256_hex L \<Longrightarrow> spki_sha256 L k = Inr h \<Longrightarrow> lhex_string 64 h"
  by (auto simp: spki_sha256_def sha256_hex_def)

end
