(* ===== verification/Csr.thy ===== *)
theory Csr
  imports X509
begin

text \<open>
  Bounded inspection of a public PKCS#10 request and its key continuity (\<open>csr.py\<close>). The exceptions
  of the module share a base class, which is all its callers tell apart; they are \<open>CSRError\<close> with the
  message of the source.
\<close>

definition MAX_CSR_PEM_BYTES :: nat where "MAX_CSR_PEM_BYTES = 64 * 1024"

record csr_info =
  q_info_subject :: string
  q_spki_sha256 :: string
  q_public_key_algorithm :: string
  q_public_key_size :: "nat option"
  q_dns_sans :: "string list"
  q_ip_sans :: "string list"
  q_subject_key_identifier :: "string option"
  q_info_signature_algorithm_oid :: string
  q_signature_hash_algorithm :: "string option"
  q_info_signature_valid :: bool
  q_unsupported_san_types :: "string list"

definition is_CSRInspectionError :: "py_exc \<Rightarrow> bool" where
  "is_CSRInspectionError e = (case e of CSRError _ \<Rightarrow> True | _ \<Rightarrow> False)"

definition pem_labels :: "bytes list" where
  "pem_labels = [''CERTIFICATE REQUEST'', ''NEW CERTIFICATE REQUEST'']"

text \<open>\<open>stripped[len(header) : -len(footer)]\<close>\<close>

definition slice_body :: "nat \<Rightarrow> nat \<Rightarrow> bytes \<Rightarrow> bytes" where
  "slice_body h f s = drop h (take (length s - f) s)"

fun require_envelope_of :: "bytes list \<Rightarrow> bytes \<Rightarrow> py_exc + unit" where
  "require_envelope_of [] s = Inl (CSRError ''invalid CSR PEM'')"
| "require_envelope_of (l # ls) s =
     (let header = ''-----BEGIN '' @ l @ ''-----''; footer = ''-----END '' @ l @ ''-----''
      in if startswith header s
         then (if \<not> endswith footer s \<or> contains ''-----BEGIN '' (slice_body (length header) (length footer) s)
               then Inl (CSRError ''invalid CSR PEM'') else Inr ())
         else require_envelope_of ls s)"

definition require_single_pem_envelope :: "bytes \<Rightarrow> py_exc + unit" where
  "require_single_pem_envelope csr_pem = require_envelope_of pem_labels (bytes_strip csr_pem)"

definition csr_subject_alternative_names ::
  "x509_csr \<Rightarrow> py_exc + string list \<times> string list \<times> string list" where
  "csr_subject_alternative_names r = bindE (q_extensions r) (\<lambda>es.
     case san_of es of
       None \<Rightarrow> Inr ([], [], [])
     | Some ns \<Rightarrow> Inr (dns_values ns, map show_ip (ip_values ns), other_types ns))"

definition csr_subject_key_identifier :: "x509_csr \<Rightarrow> py_exc + string option" where
  "csr_subject_key_identifier r = bindE (q_extensions r) (\<lambda>es.
     Inr (map_option hex_of_bytes (subject_key_identifier_of es)))"

definition csr_body :: "x509_lib \<Rightarrow> bytes \<Rightarrow> py_exc + csr_info" where
  "csr_body L csr_pem =
     bindE (load_csr L csr_pem) (\<lambda>request.
     bindE (q_signature_valid request) (\<lambda>valid.
     if \<not> valid then Inl (CSRError ''CSR proof-of-possession signature is invalid'')
     else
     bindE (q_public_key request) (\<lambda>key.
     bindE (public_key_algorithm_and_size key) (\<lambda>(algorithm, size).
     bindE (csr_subject_alternative_names request) (\<lambda>(dns, ips, others).
     bindE (csr_subject_key_identifier request) (\<lambda>ski.
     bindE (q_signature_hash request) (\<lambda>hash.
     bindE (spki_sha256 L key) (\<lambda>fingerprint.
     Inr \<lparr> q_info_subject = q_subject request, q_spki_sha256 = fingerprint,
           q_public_key_algorithm = algorithm, q_public_key_size = size,
           q_dns_sans = dns, q_ip_sans = ips, q_subject_key_identifier = ski,
           q_info_signature_algorithm_oid = q_signature_algorithm_oid request,
           q_signature_hash_algorithm = hash, q_info_signature_valid = True,
           q_unsupported_san_types = others \<rparr>))))))))"

definition inspect_csr :: "x509_lib \<Rightarrow> bytes \<Rightarrow> py_exc + csr_info" where
  "inspect_csr L csr_pem =
     (if csr_pem = [] then Inl (CSRError ''CSR PEM must not be empty'')
      else if length csr_pem > MAX_CSR_PEM_BYTES then Inl (CSRError ''CSR PEM exceeds the size limit'')
      else bindE (require_single_pem_envelope csr_pem) (\<lambda>_.
        catchE (csr_body L csr_pem) (\<lambda>e.
          if is_CSRInspectionError e then Inl e
          else if e = UnsupportedAlgorithm then Inl (CSRError ''CSR uses an unsupported algorithm'')
          else if e = UnsupportedPublicKeyError
            then Inl (CSRError ''CSR uses an unsupported public-key algorithm'')
          else if e = TypeError \<or> is_ValueError e \<or> e = DuplicateExtension
            then Inl (CSRError ''invalid CSR PEM'')
          else Inl e)))"

definition validate_csr_spki :: "csr_info \<Rightarrow> string \<Rightarrow> py_exc + unit" where
  "validate_csr_spki info expected_spki_sha256 =
     (if \<not> hex_string 64 expected_spki_sha256
      then Inl (CSRError ''expected SPKI SHA-256 must be exactly 64 hexadecimal characters'')
      else if q_spki_sha256 info \<noteq> lower expected_spki_sha256
      then Inl (CSRError ''CSR public key does not match the expected SPKI SHA-256'')
      else Inr ())"

lemma inspect_csr_body:
  "inspect_csr L pem = Inr info \<Longrightarrow> csr_body L pem = Inr info \<and> pem \<noteq> [] \<and>
     length pem \<le> MAX_CSR_PEM_BYTES \<and> require_single_pem_envelope pem = Inr ()"
  by (cases "csr_body L pem") (auto simp: inspect_csr_def split: if_splits)

lemma csr_body_facts:
  assumes "csr_body L pem = Inr info"
  obtains request key where "load_csr L pem = Inr request" "q_signature_valid request = Inr True"
    "q_public_key request = Inr key" "spki_sha256 L key = Inr (q_spki_sha256 info)"
    "public_key_algorithm_and_size key = Inr (q_public_key_algorithm info, q_public_key_size info)"
    "q_info_subject info = q_subject request"
    "csr_subject_alternative_names request =
       Inr (q_dns_sans info, q_ip_sans info, q_unsupported_san_types info)"
  using assms by (auto simp: csr_body_def split: if_splits)

lemma validate_csr_spki_ok:
  "validate_csr_spki info expected = Inr () \<longleftrightarrow> hex_string 64 expected \<and> q_spki_sha256 info = lower expected"
  by (auto simp: validate_csr_spki_def)

end
