(* ===== verification/Certificate.thy ===== *)
theory Certificate
  imports Csr
begin

text \<open>
  Inspection and policy validation of public X.509 certificates (\<open>certificate.py\<close>). \<open>clock\<close> is what
  \<open>_current_time\<close> reads during the call. The cursor of the PEM bundle scanner is the rest of the data
  it still has to read. A grammar of PEM bundles stated as an inductive predicate is proved equal to
  what the scanner accepts, and the lemmas on \<open>validate_issued_certificate\<close> collect everything an
  accepted leaf is known to satisfy.
\<close>

section \<open>Constants\<close>

definition MAX_CERTIFICATE_DER_BYTES :: nat where "MAX_CERTIFICATE_DER_BYTES = 1024 * 1024"
definition MAX_ISSUED_CERTIFICATE_BYTES :: nat where "MAX_ISSUED_CERTIFICATE_BYTES = 64 * 1024"
definition MAX_TRUST_BUNDLE_BYTES :: nat where "MAX_TRUST_BUNDLE_BYTES = 256 * 1024"
definition MIN_CERTIFICATE_LIFETIME_DAYS :: int where "MIN_CERTIFICATE_LIFETIME_DAYS = 1"
definition MAX_CERTIFICATE_LIFETIME_DAYS :: int where "MAX_CERTIFICATE_LIFETIME_DAYS = 397"
definition DEFAULT_CLOCK_SKEW :: int where "DEFAULT_CLOCK_SKEW = seconds 300"

definition SERVER_AUTH :: string where "SERVER_AUTH = ''1.3.6.1.5.5.7.3.1''"
definition OPNSENSE_IKE_INTERMEDIATE_EKU_OID :: string where
  "OPNSENSE_IKE_INTERMEDIATE_EKU_OID = ''1.3.6.1.5.5.8.2.2''"

definition PEM_BEGIN :: bytes where "PEM_BEGIN = ''-----BEGIN CERTIFICATE-----''"
definition PEM_END :: bytes where "PEM_END = ''-----END CERTIFICATE-----''"

definition allowed_signature_hashes :: "string list" where
  "allowed_signature_hashes = [''sha256'', ''sha384'', ''sha512'']"

definition supported_rsa_key_sizes :: "nat list" where
  "supported_rsa_key_sizes = [2048, 3072, 4096]"

definition issued_signature_oids :: "string \<Rightarrow> (string \<times> string) list option" where
  "issued_signature_oids algorithm = map_of
     [(''RSA'', [(''sha256'', ''1.2.840.113549.1.1.11''), (''sha384'', ''1.2.840.113549.1.1.12''),
                (''sha512'', ''1.2.840.113549.1.1.13'')]),
      (''EC'', [(''sha256'', ''1.2.840.10045.4.3.2''), (''sha384'', ''1.2.840.10045.4.3.3''),
               (''sha512'', ''1.2.840.10045.4.3.4'')])] algorithm"

definition allowed_server_eku_profiles :: "string set list" where
  "allowed_server_eku_profiles = [{SERVER_AUTH}, {SERVER_AUTH, OPNSENSE_IKE_INTERMEDIATE_EKU_OID}]"

abbreviation issued_error :: "string \<Rightarrow> py_exc + 'a" where
  "issued_error m \<equiv> Inl (IssuedCertificateValidationError m)"

definition is_CertificateInspectionError :: "py_exc \<Rightarrow> bool" where
  "is_CertificateInspectionError e = (case e of
     CertificateInspectionError _ \<Rightarrow> True | IssuedCertificateValidationError _ \<Rightarrow> True | _ \<Rightarrow> False)"

definition is_IssuedCertificateValidationError :: "py_exc \<Rightarrow> bool" where
  "is_IssuedCertificateValidationError e = (case e of
     IssuedCertificateValidationError _ \<Rightarrow> True | _ \<Rightarrow> False)"

section \<open>Certificate metadata\<close>

record certificate_info =
  subject :: string
  issuer :: string
  serial_number :: string
  not_valid_before :: instant
  not_valid_after :: instant
  certificate_sha256 :: string
  info_spki_sha256 :: string
  public_key_algorithm :: string
  public_key_size :: "nat option"
  dns_sans :: "string list"
  ip_sans :: "string list"
  subject_key_identifier :: "string option"
  signature_algorithm_oid :: string
  signature_hash_algorithm :: "string option"

definition public_key_info :: "public_key \<Rightarrow> py_exc + string \<times> nat option" where
  "public_key_info k = catchE (public_key_algorithm_and_size k) (\<lambda>e.
     if e = UnsupportedPublicKeyError
     then Inl (CertificateInspectionError ''unsupported certificate public-key algorithm'') else Inl e)"

definition subject_alternative_names :: "x509_cert \<Rightarrow> py_exc + string list \<times> string list" where
  "subject_alternative_names c = bindE (c_extensions c) (\<lambda>es.
     case san_of es of None \<Rightarrow> Inr ([], [])
     | Some ns \<Rightarrow> Inr (dns_values ns, map show_ip (ip_values ns)))"

definition subject_key_identifier_hex :: "x509_cert \<Rightarrow> py_exc + string option" where
  "subject_key_identifier_hex c = bindE (c_extensions c) (\<lambda>es.
     Inr (map_option hex_of_bytes (subject_key_identifier_of es)))"

definition certificate_info_parts ::
  "x509_lib \<Rightarrow> x509_cert \<Rightarrow>
   py_exc + (string \<times> nat option) \<times> (string list \<times> string list) \<times> string option \<times> string option \<times> string"
where
  "certificate_info_parts L c = catchE
     (bindE (c_public_key c) (\<lambda>key.
      bindE (public_key_info key) (\<lambda>algorithm.
      bindE (subject_alternative_names c) (\<lambda>sans.
      bindE (subject_key_identifier_hex c) (\<lambda>ski.
      bindE (c_signature_hash c) (\<lambda>hash.
      bindE (spki_sha256 L key) (\<lambda>fingerprint.
      Inr (algorithm, sans, ski, hash, fingerprint))))))))
     (\<lambda>e. if is_CertificateInspectionError e then Inl e
          else if e = UnsupportedAlgorithm \<or> e = UnsupportedPublicKeyError
          then Inl (CertificateInspectionError ''certificate uses an unsupported algorithm'')
          else if e = TypeError \<or> is_ValueError e \<or> e = DuplicateExtension
          then Inl (CertificateInspectionError ''invalid certificate'')
          else Inl e)"

definition certificate_info :: "x509_lib \<Rightarrow> x509_cert \<Rightarrow> py_exc + certificate_info" where
  "certificate_info L c = bindE (certificate_info_parts L c) (\<lambda>(algorithm, sans, ski, hash, fingerprint).
     Inr \<lparr> subject = c_subject c, issuer = c_issuer c, serial_number = show_hex (c_serial_number c),
           not_valid_before = c_not_valid_before c, not_valid_after = c_not_valid_after c,
           certificate_sha256 = sha256 L (c_der c), info_spki_sha256 = fingerprint,
           public_key_algorithm = fst algorithm, public_key_size = snd algorithm,
           dns_sans = fst sans, ip_sans = snd sans, subject_key_identifier = ski,
           signature_algorithm_oid = c_signature_algorithm_oid c, signature_hash_algorithm = hash \<rparr>)"

definition inspect_certificate :: "x509_lib \<Rightarrow> bytes \<Rightarrow> py_exc + certificate_info" where
  "inspect_certificate L der =
     (if der = [] then Inl (CertificateInspectionError ''certificate DER must not be empty'')
      else if length der > MAX_CERTIFICATE_DER_BYTES
      then Inl (CertificateInspectionError ''certificate DER exceeds the size limit'')
      else catchE (bindE (load_der L der) (certificate_info L)) (\<lambda>e.
        if is_CertificateInspectionError e then Inl e
        else if e = UnsupportedAlgorithm
        then Inl (CertificateInspectionError ''certificate uses an unsupported algorithm'')
        else if e = TypeError \<or> is_ValueError e \<or> e = DuplicateExtension
        then Inl (CertificateInspectionError ''invalid certificate DER'')
        else Inl e))"

section \<open>PEM structure\<close>

definition is_pem_space :: "char \<Rightarrow> bool" where
  "is_pem_space c \<longleftrightarrow> c \<in> {CHR 0x20, CHR 0x09, CHR 0x0D, CHR 0x0A}"

definition is_pem_trailing_space :: "char \<Rightarrow> bool" where
  "is_pem_trailing_space c \<longleftrightarrow> is_pem_space c \<or> c \<in> {CHR 0x0B, CHR 0x0C}"

definition is_base64 :: "char \<Rightarrow> bool" where
  "is_base64 c \<longleftrightarrow> is_alnum c \<or> c \<in> {CHR ''+'', CHR ''/'', CHR ''=''}"

definition skip_eol :: "bytes \<Rightarrow> bytes option" where
  "skip_eol s = (if startswith [CHR 0x0D, CHR 0x0A] s then Some (drop 2 s)
     else if startswith [CHR 0x0A] s then Some (drop 1 s) else None)"

text \<open>A line without the carriage return before its line feed.\<close>

definition chop_cr :: "bytes \<Rightarrow> bytes" where
  "chop_cr l = (if l \<noteq> [] \<and> last l = CHR 0x0D then butlast l else l)"

function pem_body :: "nat \<Rightarrow> bytes \<Rightarrow> (nat \<times> bytes) option" where
  "pem_body n s =
     (if startswith PEM_END s then Some (n, drop (length PEM_END) s)
      else case partition_char (CHR 0x0A) s of (line, found, rest) \<Rightarrow>
        if \<not> found then None
        else if chop_cr line = [] \<or> \<not> list_all is_base64 (chop_cr line) then None
        else pem_body (Suc n) rest)"
  by auto
termination
proof (relation "measure (\<lambda>(n, s). length s)")
  fix n :: nat and s line rest :: bytes and found y
  assume "(line, y) = partition_char (CHR 0x0A) s" "(found, rest) = y" "\<not> \<not> found"
  then have "partition_char (CHR 0x0A) s = (line, True, rest)" by auto
  then have "length rest < length s"
    by (induction s arbitrary: line) (auto split: if_splits prod.splits)
  then show "((Suc n, rest), n, s) \<in> measure (\<lambda>(n, s). length s)" by simp
qed simp

declare pem_body.simps [simp del]

definition pem_block :: "bytes \<Rightarrow> bytes option" where
  "pem_block s =
     (if \<not> startswith PEM_BEGIN s then None
      else case skip_eol (drop (length PEM_BEGIN) s) of
        None \<Rightarrow> None
      | Some t \<Rightarrow> (case pem_body 0 t of
          None \<Rightarrow> None
        | Some (n, r) \<Rightarrow> if n = 0 then None else Some r))"

lemma partition_char_found:
  "partition_char c s = (h, True, t) \<longleftrightarrow> c \<notin> set h \<and> s = h @ c # t"
proof (induction s arbitrary: h)
  case (Cons x s)
  obtain h' f t' where p: "partition_char c s = (h', f, t')" by (metis prod_cases3)
  show ?case
  proof (cases "x = c")
    case True
    then show ?thesis by (cases h) auto
  next
    case False
    have IH: "(h', f, t') = (k, True, t) \<longleftrightarrow> c \<notin> set k \<and> s = k @ c # t" for k
      using Cons.IH[of k] unfolding p .
    show ?thesis
    proof (cases h)
      case (Cons y k)
      have "partition_char c (x # s) = (h, True, t) \<longleftrightarrow> x = y \<and> (h', f, t') = (k, True, t)"
        using False p Cons by simp
      also have "\<dots> \<longleftrightarrow> x = y \<and> c \<notin> set k \<and> s = k @ c # t" unfolding IH ..
      also have "\<dots> \<longleftrightarrow> c \<notin> set h \<and> x # s = h @ c # t" using False Cons by auto
      finally show ?thesis .
    qed (use False p in simp)
  qed
qed simp

lemma pem_body_shorter: "pem_body n s = Some (m, r) \<Longrightarrow> length r \<le> length s"
proof (induction n s rule: pem_body.induct)
  case (1 n s)
  show ?case
  proof (cases "startswith PEM_END s")
    case True
    with 1 show ?thesis by (auto simp: pem_body.simps[of n s])
  next
    case False
    with "1.prems" obtain line rest where l: "partition_char (CHR 0x0A) s = (line, True, rest)"
      "chop_cr line \<noteq> []" "list_all is_base64 (chop_cr line)" "pem_body (Suc n) rest = Some (m, r)"
      by (auto simp: pem_body.simps[of n s] split: prod.splits if_splits)
    then have "length r \<le> length rest" using "1.IH" False by auto
    with l(1) show ?thesis by (simp add: partition_char_found)
  qed
qed

lemma pem_block_shorter: "pem_block s = Some r \<Longrightarrow> length r < length s"
proof -
  assume a: "pem_block s = Some r"
  then obtain t n where t: "startswith PEM_BEGIN s" "skip_eol (drop (length PEM_BEGIN) s) = Some t"
    "pem_body 0 t = Some (n, r)"
    by (auto simp: pem_block_def split: if_splits option.splits)
  have "length t < length s" using t(1,2)
    by (cases s) (auto simp: skip_eol_def PEM_BEGIN_def split: if_splits)
  with pem_body_shorter[OF t(3)] show ?thesis by simp
qed

function trust_blocks :: "nat \<Rightarrow> bytes \<Rightarrow> py_exc + unit" where
  "trust_blocks blocks data =
     (if dropWhile is_pem_space data = []
      then (if blocks = 0 then issued_error ''trusted CA data is malformed'' else Inr ())
      else if blocks \<noteq> 0 \<and> hd (dropWhile is_pem_space data) \<in> {CHR 0x0B, CHR 0x0C}
      then (if dropWhile is_pem_trailing_space (dropWhile is_pem_space data) = [] then Inr ()
            else issued_error ''trusted CA data is malformed'')
      else (case pem_block (dropWhile is_pem_space data) of
          None \<Rightarrow> issued_error ''trusted CA data is malformed''
        | Some r \<Rightarrow> trust_blocks (Suc blocks) r))"
  by pat_completeness auto
termination
proof (relation "measure (\<lambda>(n, s). length s)", goal_cases)
  case (2 blocks data r)
  then show ?case
    using pem_block_shorter[of "dropWhile is_pem_space data" r] length_dropWhile_le[of is_pem_space data]
    by simp
qed simp

declare trust_blocks.simps [simp del]

definition validate_trust_pem_structure :: "bytes \<Rightarrow> py_exc + unit" where
  "validate_trust_pem_structure data = trust_blocks 0 data"

text \<open>
  The pattern \<open>_CERTIFICATE_PEM_RE\<close>: white space, one block, white space. Every alternative of the
  pattern starts with a different byte, so one pass decides it.
\<close>

definition single_pem_match :: "bytes \<Rightarrow> bool" where
  "single_pem_match data = (case pem_block (dropWhile is_pem_space data) of
     None \<Rightarrow> False | Some r \<Rightarrow> list_all is_pem_space r)"

section \<open>The grammar of PEM bundles\<close>

inductive pem_line :: "bytes \<Rightarrow> bool" where
  lf: "l \<noteq> [] \<Longrightarrow> list_all is_base64 l \<Longrightarrow> pem_line (l @ [CHR 0x0A])"
| crlf: "l \<noteq> [] \<Longrightarrow> list_all is_base64 l \<Longrightarrow> pem_line (l @ [CHR 0x0D, CHR 0x0A])"

inductive pem_certificate :: "bytes \<Rightarrow> bool" where
  "ls \<noteq> [] \<Longrightarrow> list_all pem_line ls \<Longrightarrow> e \<in> {[CHR 0x0A], [CHR 0x0D, CHR 0x0A]} \<Longrightarrow>
   pem_certificate (PEM_BEGIN @ e @ concat ls @ PEM_END)"

inductive pem_bundle :: "bytes \<Rightarrow> bool" where
  last: "list_all is_pem_space w \<Longrightarrow> pem_certificate b \<Longrightarrow> list_all is_pem_trailing_space z \<Longrightarrow>
    pem_bundle (w @ b @ z)"
| more: "list_all is_pem_space w \<Longrightarrow> pem_certificate b \<Longrightarrow> pem_bundle s \<Longrightarrow> pem_bundle (w @ b @ s)"

lemma base64_not:
  "is_base64 c \<Longrightarrow> c \<noteq> CHR 0x0A \<and> c \<noteq> CHR 0x0D \<and> c \<noteq> CHR ''-''"
  by (auto simp: is_base64_def is_alnum_def is_digit_def is_upper_def is_lower_def ordc_def)

lemma base64_last: "list_all is_base64 l \<Longrightarrow> l \<noteq> [] \<Longrightarrow> last l \<noteq> CHR 0x0D"
  by (metis base64_not last_in_set list_all_iff)

lemma pem_line_split:
  assumes "pem_line l"
  shows "\<exists>line. partition_char (CHR 0x0A) (l @ t) = (line, True, t) \<and>
    chop_cr line \<noteq> [] \<and> list_all is_base64 (chop_cr line) \<and> \<not> startswith PEM_END (l @ t)"
  using assms
proof cases
  case (lf k)
  then have "CHR 0x0A \<notin> set k" by (auto simp: list_all_iff dest: base64_not)
  moreover have "chop_cr k = k" using lf base64_last by (auto simp: chop_cr_def)
  moreover have "\<not> startswith PEM_END (l @ t)"
    using lf base64_not[of "hd k"] by (cases k) (auto simp: PEM_END_def)
  ultimately show ?thesis using lf by (auto simp: partition_char_found)
next
  case (crlf k)
  then have "CHR 0x0A \<notin> set k" by (auto simp: list_all_iff dest: base64_not)
  moreover have "chop_cr (k @ [CHR 0x0D]) = k" by (simp add: chop_cr_def)
  moreover have "\<not> startswith PEM_END (l @ t)"
    using crlf base64_not[of "hd k"] by (cases k) (auto simp: PEM_END_def)
  ultimately show ?thesis using crlf
    by (intro exI[of _ "k @ [CHR 0x0D]"]) (auto simp: partition_char_found)
qed

lemma chop_cr_line:
  assumes "chop_cr line \<noteq> []" "list_all is_base64 (chop_cr line)"
  shows "pem_line (line @ [CHR 0x0A])"
proof (cases "line \<noteq> [] \<and> last line = CHR 0x0D")
  case True
  then have "line = chop_cr line @ [CHR 0x0D]" by (simp add: chop_cr_def) (metis append_butlast_last_id)
  then have eq: "line @ [CHR 0x0A] = chop_cr line @ [CHR 0x0D, CHR 0x0A]" by simp
  show ?thesis unfolding eq by (rule pem_line.crlf[OF assms])
next
  case False
  then show ?thesis using assms pem_line.lf by (auto simp: chop_cr_def)
qed

lemma pem_body_lines:
  "list_all pem_line ls \<Longrightarrow> pem_body n (concat ls @ PEM_END @ r) = Some (n + length ls, r)"
proof (induction ls arbitrary: n)
  case Nil
  then show ?case by (simp add: pem_body.simps)
next
  case (Cons l ls)
  then obtain line where "partition_char (CHR 0x0A) (l @ concat ls @ PEM_END @ r) =
      (line, True, concat ls @ PEM_END @ r)"
    "chop_cr line \<noteq> []" "list_all is_base64 (chop_cr line)"
    "\<not> startswith PEM_END (l @ concat ls @ PEM_END @ r)"
    using pem_line_split[of l "concat ls @ PEM_END @ r"] by auto
  with Cons show ?case by (simp add: pem_body.simps[of n])
qed

lemma pem_body_only_lines:
  "pem_body n s = Some (m, r) \<Longrightarrow>
   \<exists>ls. list_all pem_line ls \<and> s = concat ls @ PEM_END @ r \<and> m = n + length ls"
proof (induction n s rule: pem_body.induct)
  case (1 n s)
  show ?case
  proof (cases "startswith PEM_END s")
    case True
    then have "s = PEM_END @ drop (length PEM_END) s"
      unfolding startswith_def by (metis append_take_drop_id)
    with True "1.prems" show ?thesis by (intro exI[of _ "[]"]) (auto simp: pem_body.simps[of n s])
  next
    case False
    with "1.prems" obtain line rest where l: "partition_char (CHR 0x0A) s = (line, True, rest)"
      "chop_cr line \<noteq> []" "list_all is_base64 (chop_cr line)" "pem_body (Suc n) rest = Some (m, r)"
      by (auto simp: pem_body.simps[of n s] split: prod.splits if_splits)
    then obtain ls where "list_all pem_line ls" "rest = concat ls @ PEM_END @ r" "m = Suc n + length ls"
      using "1.IH" False by fastforce
    moreover have "s = line @ CHR 0x0A # rest" using l(1) by (simp add: partition_char_found)
    ultimately show ?thesis using chop_cr_line[OF l(2,3)]
      by (intro exI[of _ "(line @ [CHR 0x0A]) # ls"]) simp
  qed
qed

lemma skip_eol_iff:
  "skip_eol s = Some t \<longleftrightarrow> (\<exists>e\<in>{[CHR 0x0A], [CHR 0x0D, CHR 0x0A]}. s = e @ t)"
proof (cases s)
  case (Cons c cs)
  then show ?thesis by (cases cs) (auto simp: skip_eol_def)
qed (simp add: skip_eol_def)

lemma pem_block_iff: "pem_block s = Some r \<longleftrightarrow> (\<exists>b. pem_certificate b \<and> s = b @ r)"
proof
  assume "pem_block s = Some r"
  then obtain t n where t: "startswith PEM_BEGIN s" "skip_eol (drop (length PEM_BEGIN) s) = Some t"
    "pem_body 0 t = Some (n, r)" "n \<noteq> 0"
    by (auto simp: pem_block_def split: if_splits option.splits)
  obtain ls where ls: "list_all pem_line ls" "t = concat ls @ PEM_END @ r" "n = length ls"
    using pem_body_only_lines[OF t(3)] by auto
  obtain e where e: "e \<in> {[CHR 0x0A], [CHR 0x0D, CHR 0x0A]}" "drop (length PEM_BEGIN) s = e @ t"
    using t(2) unfolding skip_eol_iff by blast
  have "s = PEM_BEGIN @ e @ t"
    using t(1) e(2) unfolding startswith_def by (metis append_take_drop_id)
  moreover have "pem_certificate (PEM_BEGIN @ e @ concat ls @ PEM_END)"
    by (rule pem_certificate.intros) (use ls t(4) e(1) in simp_all)
  ultimately show "\<exists>b. pem_certificate b \<and> s = b @ r"
    by (intro exI[of _ "PEM_BEGIN @ e @ concat ls @ PEM_END"]) (simp add: ls(2))
next
  assume "\<exists>b. pem_certificate b \<and> s = b @ r"
  then obtain b where b: "pem_certificate b" "s = b @ r" by auto
  from b(1) show "pem_block s = Some r"
  proof cases
    case (1 ls e)
    have "skip_eol (e @ concat ls @ PEM_END @ r) = Some (concat ls @ PEM_END @ r)"
      using 1 unfolding skip_eol_iff by blast
    then show ?thesis using 1 b(2) pem_body_lines[of ls 0 r] by (simp add: pem_block_def)
  qed
qed

lemma pem_certificate_head: "pem_certificate b \<Longrightarrow> \<exists>t. b = CHR ''-'' # t"
  by (auto elim!: pem_certificate.cases simp: PEM_BEGIN_def)

lemma dropWhile_space_block:
  "list_all is_pem_space w \<Longrightarrow> pem_certificate b \<Longrightarrow> dropWhile is_pem_space (w @ b @ s) = b @ s"
  using pem_certificate_head[of b]
  by (induction w) (auto simp: is_pem_space_def)

lemma dropWhile_prefix: "\<exists>w. list_all P w \<and> s = w @ dropWhile P s"
  by (metis list_all_iff set_takeWhileD takeWhile_dropWhile_id)

lemma dropWhile_all: "dropWhile P s = [] \<longleftrightarrow> list_all P s"
  by (auto simp: list_all_iff)

lemma trailing_after_space:
  "list_all is_pem_space w \<Longrightarrow> list_all is_pem_trailing_space (w @ z) \<longleftrightarrow> list_all is_pem_trailing_space z"
  by (auto simp: list_all_iff is_pem_trailing_space_def)

lemma trust_blocks_tail:
  assumes "list_all is_pem_trailing_space z"
  shows "trust_blocks (Suc n) z = Inr ()"
proof (cases "dropWhile is_pem_space z")
  case (Cons c t)
  obtain w where w: "list_all is_pem_space w" "z = w @ c # t"
    using dropWhile_prefix[of is_pem_space z] Cons by auto
  have tz: "list_all is_pem_trailing_space (c # t)" using assms w trailing_after_space by metis
  moreover have "\<not> is_pem_space c" using Cons by (metis dropWhile_eq_Cons_conv)
  ultimately have "c \<in> {CHR 0x0B, CHR 0x0C}" by (auto simp: is_pem_trailing_space_def)
  with Cons tz show ?thesis by (subst trust_blocks.simps) (auto simp: list_all_iff)
qed (subst trust_blocks.simps, simp)

lemma trust_blocks_block:
  assumes "list_all is_pem_space w" "pem_certificate b"
  shows "trust_blocks n (w @ b @ s) = trust_blocks (Suc n) s"
proof -
  have "pem_block (b @ s) = Some s" using assms(2) pem_block_iff by blast
  then show ?thesis
    using pem_certificate_head[OF assms(2)] dropWhile_space_block[OF assms, of s]
    by (subst trust_blocks.simps) auto
qed

lemma pem_bundle_accepted: "pem_bundle s \<Longrightarrow> trust_blocks n s = Inr ()"
  by (induction arbitrary: n rule: pem_bundle.induct) (simp_all add: trust_blocks_block trust_blocks_tail)

lemma trust_blocks_accepts:
  "trust_blocks n s = Inr () \<Longrightarrow> pem_bundle s \<or> 0 < n \<and> list_all is_pem_trailing_space s"
proof (induction n s rule: trust_blocks.induct)
  case (1 n s)
  obtain w where w: "list_all is_pem_space w" "s = w @ dropWhile is_pem_space s"
    using dropWhile_prefix by blast
  let ?t = "dropWhile is_pem_space s"
  note unfolded = "1.prems"[unfolded trust_blocks.simps[of n s]]
  show ?case
  proof (cases "?t = [] \<or> n \<noteq> 0 \<and> hd ?t \<in> {CHR 0x0B, CHR 0x0C}")
    case True
    moreover have "list_all is_pem_trailing_space ?t" if "dropWhile is_pem_trailing_space ?t = []"
      using that by (simp only: dropWhile_all)
    moreover have "list_all is_pem_trailing_space ?t" if "?t = []" unfolding that by simp
    ultimately have "0 < n" "list_all is_pem_trailing_space ?t"
      using unfolded by (auto split: if_splits simp del: dropWhile_eq_Nil_conv)
    then show ?thesis using w trailing_after_space by metis
  next
    case False
    then obtain r where r: "pem_block ?t = Some r" "trust_blocks (Suc n) r = Inr ()"
      using unfolded by (cases "pem_block ?t") (simp_all del: dropWhile_eq_Nil_conv split: if_splits)
    then have "pem_bundle r \<or> list_all is_pem_trailing_space r" using "1.IH" False by auto
    moreover obtain b where "pem_certificate b" "?t = b @ r" using r(1) pem_block_iff by auto
    ultimately have "pem_bundle (w @ b @ r)" using w(1) pem_bundle.intros by blast
    then have "pem_bundle s" using w(2) \<open>?t = b @ r\<close> by simp
    then show ?thesis ..
  qed
qed

text \<open>
  C21. The byte-cursor scanner of trust bundles accepts exactly the PEM bundles of the grammar: blocks
  of at least one base64 line between the two markers, separated by spaces, tabs, carriage returns
  and line feeds, with vertical tabs and form feeds allowed only after the last block.
\<close>

theorem trust_pem_scanner_is_the_grammar:
  "validate_trust_pem_structure data = Inr () \<longleftrightarrow> pem_bundle data"
  unfolding validate_trust_pem_structure_def
  using pem_bundle_accepted trust_blocks_accepts[of 0 data] by auto

section \<open>Loading\<close>

definition load_one_certificate :: "x509_lib \<Rightarrow> bytes \<Rightarrow> nat \<Rightarrow> string \<Rightarrow> py_exc + x509_cert" where
  "load_one_certificate L data maximum label =
     (if data = [] then issued_error (label @ '' must not be empty'')
      else if length data > maximum then issued_error (label @ '' exceeds the size limit'')
      else catchE
        (if startswith ''-----BEGIN'' (lstrip_of ascii_spaces data)
         then (if \<not> single_pem_match data then issued_error (label @ '' is malformed'')
               else bindE (load_pems L data) (\<lambda>cs. case cs of
                   [c] \<Rightarrow> Inr c
                 | _ \<Rightarrow> issued_error (label @ '' must contain exactly one certificate'')))
         else load_der L data)
        (\<lambda>e. if is_IssuedCertificateValidationError e then Inl e
             else if e = TypeError \<or> is_ValueError e then issued_error (label @ '' is malformed'')
             else Inl e))"

definition check_trust_certificate :: "x509_cert \<Rightarrow> py_exc + unit" where
  "check_trust_certificate c = bindE (c_extensions c) (\<lambda>es.
     case basic_constraints_of es of
       None \<Rightarrow> issued_error ''trusted CA certificate is missing Basic Constraints''
     | Some ca \<Rightarrow>
       if \<not> ca then issued_error ''trusted CA data contains a non-CA certificate''
       else (case key_usage_of es of
           None \<Rightarrow> Inr ()
         | Some u \<Rightarrow> if \<not> key_cert_sign u
             then issued_error ''trusted CA certificate cannot sign certificates'' else Inr ()))"

definition load_trust_certificates :: "x509_lib \<Rightarrow> bytes \<Rightarrow> py_exc + x509_cert list" where
  "load_trust_certificates L data =
     (if data = [] then issued_error ''trusted CA data must not be empty''
      else if length data > MAX_TRUST_BUNDLE_BYTES then issued_error ''trusted CA data exceeds the size limit''
      else bindE (catchE
        (bindE (if startswith ''-----BEGIN'' (lstrip_of ascii_spaces data)
                then bindE (validate_trust_pem_structure data) (\<lambda>_. load_pems L data)
                else bindE (load_der L data) (\<lambda>c. Inr [c]))
         (\<lambda>cs. bindE (forE check_trust_certificate cs) (\<lambda>_. Inr cs)))
        (\<lambda>e. if is_IssuedCertificateValidationError e then Inl e
             else if e = TypeError \<or> is_ValueError e then issued_error ''trusted CA data is malformed''
             else Inl e))
        (\<lambda>cs. if cs = [] then issued_error ''trusted CA data contains no certificates'' else Inr cs))"

section \<open>Policy of an issued leaf\<close>

definition require_extension :: "x509_cert \<Rightarrow> (extension list \<Rightarrow> 'a option) \<Rightarrow> string \<Rightarrow> py_exc + 'a" where
  "require_extension c get label = bindE (c_extensions c) (\<lambda>es. case get es of
     None \<Rightarrow> issued_error (''issued certificate is missing '' @ label) | Some v \<Rightarrow> Inr v)"

definition validate_exact_sans :: "x509_cert \<Rightarrow> csr_info \<Rightarrow> py_exc + unit" where
  "validate_exact_sans c q = bindE (require_extension c san_of ''Subject Alternative Name'') (\<lambda>ns.
     if other_types ns \<noteq> [] then issued_error ''issued certificate SAN contains an unsupported identity type''
     else if length (dns_values ns) \<noteq> length (q_dns_sans q) \<or>
             set (map lower (dns_values ns)) \<noteq> set (map lower (q_dns_sans q))
     then issued_error ''issued certificate DNS SANs do not exactly match the CSR''
     else bindE (mapE ip_address (q_ip_sans q)) (\<lambda>expected.
       if length (ip_values ns) \<noteq> length expected \<or> set (ip_values ns) \<noteq> set expected
       then issued_error ''issued certificate IP SANs do not exactly match the CSR''
       else Inr ()))"

definition leaf_key_usage :: "key_usage \<Rightarrow> bool" where
  "leaf_key_usage u \<longleftrightarrow> digital_signature u \<and> key_encipherment u \<and> \<not> content_commitment u \<and>
     \<not> data_encipherment u \<and> \<not> key_agreement u \<and> \<not> key_cert_sign u \<and> \<not> crl_sign u"

definition validate_leaf_extensions :: "x509_cert \<Rightarrow> py_exc + unit" where
  "validate_leaf_extensions c =
     bindE (require_extension c basic_constraints_of ''Basic Constraints'') (\<lambda>ca.
     if ca then issued_error ''issued certificate Basic Constraints must set CA to FALSE''
     else bindE (require_extension c extended_key_usage_of ''Extended Key Usage'') (\<lambda>eku.
     if \<not> distinct eku \<or> set eku \<notin> set allowed_server_eku_profiles
     then issued_error ''issued certificate Extended Key Usage profile is not accepted''
     else bindE (require_extension c key_usage_of ''Key Usage'') (\<lambda>u.
     if \<not> leaf_key_usage u then issued_error ''issued certificate Key Usage profile is not accepted''
     else Inr ())))"

definition validate_lifetime_days :: "int \<Rightarrow> py_exc + unit" where
  "validate_lifetime_days n =
     (if \<not> (MIN_CERTIFICATE_LIFETIME_DAYS \<le> n \<and> n \<le> MAX_CERTIFICATE_LIFETIME_DAYS)
      then Inl ValueError else Inr ())"

definition validation_time :: "instant \<Rightarrow> datetime option \<Rightarrow> py_exc + instant" where
  "validation_time clock now = (case now of
     None \<Rightarrow> Inr clock | Some (Aware t) \<Rightarrow> Inr t | Some (Naive _) \<Rightarrow> Inl ValueError)"

definition validate_validity ::
  "x509_cert \<Rightarrow> int \<Rightarrow> instant \<Rightarrow> instant \<Rightarrow> int \<Rightarrow> py_exc + unit" where
  "validate_validity c lifetime_days now freshness skew =
     (let nb = c_not_valid_before c; na = c_not_valid_after c
      in if na \<le> nb then issued_error ''issued certificate validity period is invalid''
         else if nb > now then issued_error ''issued certificate is not yet valid''
         else if na \<le> now then issued_error ''issued certificate has expired''
         else if nb < freshness - skew then issued_error ''issued certificate is too far backdated''
         else if nb > freshness then issued_error ''issued certificate postdates freshness reference''
         else if na - nb \<noteq> days lifetime_days
         then issued_error ''issued certificate validity period does not match the requested lifetime''
         else Inr ())"

definition validate_signature_hash :: "x509_cert \<Rightarrow> py_exc + unit" where
  "validate_signature_hash c = bindE
     (catchE (c_signature_hash c) (\<lambda>e. if e = UnsupportedAlgorithm
        then issued_error ''issued certificate signature hash algorithm is unsupported'' else Inl e))
     (\<lambda>h. case h of
        None \<Rightarrow> issued_error ''issued certificate signature hash is not allowed''
      | Some name \<Rightarrow> if name \<in> set allowed_signature_hashes then Inr ()
          else issued_error ''issued certificate signature hash is not allowed'')"

definition trust_identity :: "csr_info \<Rightarrow> py_exc + general_name" where
  "trust_identity q = (case q_dns_sans q of
      d # _ \<Rightarrow> if isascii d then Inr (DNSName d) else Inl ValueError
    | [] \<Rightarrow> (case q_ip_sans q of
        a # _ \<Rightarrow> bindE (ip_address a) (\<lambda>i. Inr (IPAddress i))
      | [] \<Rightarrow> issued_error ''CSR must contain at least one DNS or IP SAN''))"

definition verify_ca_trust :: "x509_lib \<Rightarrow> x509_cert \<Rightarrow> bytes \<Rightarrow> csr_info \<Rightarrow> instant \<Rightarrow> py_exc + unit" where
  "verify_ca_trust L c ca_data q now =
     bindE (load_trust_certificates L ca_data) (\<lambda>trusted.
     bindE (trust_identity q) (\<lambda>identity.
     catchE (server_verify L trusted now identity c) (\<lambda>e.
       if e = TypeError \<or> is_ValueError e \<or> e = VerificationError
       then issued_error ''issued certificate failed verification against the configured CA''
       else Inl e)))"

definition validate_issued_certificate ::
  "x509_lib \<Rightarrow> instant \<Rightarrow> bytes \<Rightarrow> csr_info \<Rightarrow> bytes \<Rightarrow> int \<Rightarrow> string \<Rightarrow> string \<Rightarrow>
   datetime \<Rightarrow> datetime option \<Rightarrow> int \<Rightarrow> py_exc + certificate_info" where
  "validate_issued_certificate L clock data q ca_data lifetime_days sig_hash sig_oid freshness now skew =
     bindE (validate_lifetime_days lifetime_days) (\<lambda>_.
     if sig_hash \<notin> set allowed_signature_hashes \<or> sig_oid = [] then Inl ValueError
     else bindE (validation_time clock now) (\<lambda>time.
     bindE (validation_time clock (Some freshness)) (\<lambda>reference.
     if skew < 0 then Inl ValueError
     else
     bindE (load_one_certificate L data MAX_ISSUED_CERTIFICATE_BYTES ''issued certificate'') (\<lambda>c.
     bindE (certificate_info L c) (\<lambda>info.
     if public_key_algorithm info \<noteq> ''RSA'' \<or> public_key_size info \<notin> Some ` set supported_rsa_key_sizes
     then issued_error ''issued certificate public key is unsupported for this signing policy''
     else if q_unsupported_san_types q \<noteq> [] then issued_error ''CSR contains an unsupported SAN identity type''
     else if info_spki_sha256 info \<noteq> q_spki_sha256 q
     then issued_error ''issued certificate public key does not match the CSR''
     else if subject info \<noteq> q_info_subject q
     then issued_error ''issued certificate subject does not match the CSR''
     else
     bindE (validate_exact_sans c q) (\<lambda>_.
     bindE (validate_leaf_extensions c) (\<lambda>_.
     bindE (validate_validity c lifetime_days time reference skew) (\<lambda>_.
     bindE (validate_signature_hash c) (\<lambda>_.
     if signature_hash_algorithm info \<noteq> Some sig_hash \<or> signature_algorithm_oid info \<noteq> sig_oid
     then issued_error ''issued certificate signature differs from requested policy''
     else
     bindE (verify_ca_trust L c ca_data q time) (\<lambda>_. Inr info))))))))))"

section \<open>Installation\<close>

definition validate_installation_ca :: "x509_lib \<Rightarrow> instant \<Rightarrow> bytes \<Rightarrow> datetime option \<Rightarrow> py_exc + bytes" where
  "validate_installation_ca L clock ca_data now =
     bindE (load_trust_certificates L ca_data) (\<lambda>cs. case cs of
       [ca] \<Rightarrow>
         bindE (catchE (directly_issued_by L ca ca) (\<lambda>e.
           if is_ValueError e \<or> e \<in> {TypeError, InvalidSignature, UnsupportedAlgorithm}
           then issued_error ''installation requires a self-signed issuing CA'' else Inl e)) (\<lambda>_.
         bindE (validation_time clock now) (\<lambda>time.
         if \<not> (c_not_valid_before ca \<le> time \<and> time < c_not_valid_after ca)
         then issued_error ''installation CA is not currently valid''
         else bindE (validate_signature_hash ca) (\<lambda>_. Inr (c_pem ca))))
     | _ \<Rightarrow> issued_error ''installation requires exactly one configured CA'')"

definition validate_issued_signature_policy ::
  "x509_lib \<Rightarrow> instant \<Rightarrow> bytes \<Rightarrow> string \<Rightarrow> string \<Rightarrow> datetime option \<Rightarrow> py_exc + bytes" where
  "validate_issued_signature_policy L clock ca_data digest oid now =
     bindE (validate_installation_ca L clock ca_data now) (\<lambda>ca_pem.
     bindE (catchE (bindE (load_pem L ca_pem) (\<lambda>ca. bindE (c_public_key ca) public_key_algorithm_and_size))
        (\<lambda>e. if is_ValueError e \<or> e = UnsupportedAlgorithm
             then issued_error ''unsupported issuing CA public key'' else Inl e)) (\<lambda>(algorithm, _).
     case issued_signature_oids algorithm of
       None \<Rightarrow> issued_error ''unsupported issuing CA public key''
     | Some oids \<Rightarrow> (case map_of oids digest of
         None \<Rightarrow> issued_error ''invalid signing digest policy''
       | Some expected \<Rightarrow> if oid \<noteq> expected then issued_error ''invalid issued signature policy''
           else Inr ca_pem)))"

definition build_validated_certificate_reply ::
  "x509_lib \<Rightarrow> instant \<Rightarrow> bytes \<Rightarrow> csr_info \<Rightarrow> bytes \<Rightarrow> int \<Rightarrow> string \<Rightarrow> string \<Rightarrow> datetime \<Rightarrow>
   datetime option \<Rightarrow> py_exc + certificate_info \<times> bytes list \<times> bytes" where
  "build_validated_certificate_reply L clock data q ca_data lifetime_days sig_hash sig_oid freshness now =
     bindE (validate_installation_ca L clock ca_data now) (\<lambda>ca_pem.
     bindE (validate_issued_certificate L clock data q ca_pem lifetime_days sig_hash sig_oid freshness now
              DEFAULT_CLOCK_SKEW) (\<lambda>info.
     bindE (load_one_certificate L data MAX_ISSUED_CERTIFICATE_BYTES ''issued certificate'') (\<lambda>leaf.
     bindE (load_pem L ca_pem) (\<lambda>ca.
     let reply = c_pem leaf @ ca_pem
     in if length reply > MAX_ISSUED_CERTIFICATE_BYTES + MAX_TRUST_BUNDLE_BYTES
        then issued_error ''certificate reply exceeds the size limit''
        else Inr (info, [c_der leaf, c_der ca], reply)))))"

section \<open>What an accepted leaf satisfies\<close>

definition exact_sans :: "general_name list \<Rightarrow> csr_info \<Rightarrow> bool" where
  "exact_sans ns q \<longleftrightarrow> other_types ns = [] \<and>
     length (dns_values ns) = length (q_dns_sans q) \<and>
     lower ` set (dns_values ns) = lower ` set (q_dns_sans q) \<and>
     (\<exists>ips. list_all2 (\<lambda>a i. ip_address a = Inr i) (q_ip_sans q) ips \<and>
        length (ip_values ns) = length ips \<and> set (ip_values ns) = set ips)"

definition leaf_profile :: "extension list \<Rightarrow> bool" where
  "leaf_profile es \<longleftrightarrow> basic_constraints_of es = Some False \<and>
     (\<exists>eku. extended_key_usage_of es = Some eku \<and> distinct eku \<and>
        (set eku = {SERVER_AUTH} \<or> set eku = {SERVER_AUTH, OPNSENSE_IKE_INTERMEDIATE_EKU_OID})) \<and>
     (\<exists>u. key_usage_of es = Some u \<and> leaf_key_usage u)"

definition fresh_validity :: "x509_cert \<Rightarrow> int \<Rightarrow> instant \<Rightarrow> instant \<Rightarrow> int \<Rightarrow> bool" where
  "fresh_validity c lifetime_days now reference skew \<longleftrightarrow>
     c_not_valid_before c \<le> now \<and> now < c_not_valid_after c \<and>
     reference - skew \<le> c_not_valid_before c \<and> c_not_valid_before c \<le> reference \<and>
     c_not_valid_after c - c_not_valid_before c = days lifetime_days"

definition acceptable_leaf ::
  "x509_lib \<Rightarrow> csr_info \<Rightarrow> bytes \<Rightarrow> int \<Rightarrow> string \<Rightarrow> string \<Rightarrow> instant \<Rightarrow> instant \<Rightarrow> int \<Rightarrow>
   x509_cert \<Rightarrow> certificate_info \<Rightarrow> bool" where
  "acceptable_leaf L q ca_data lifetime_days sig_hash sig_oid now reference skew c info \<longleftrightarrow>
     certificate_info L c = Inr info \<and>
     public_key_algorithm info = ''RSA'' \<and> public_key_size info \<in> {Some 2048, Some 3072, Some 4096} \<and>
     info_spki_sha256 info = q_spki_sha256 q \<and> subject info = q_info_subject q \<and>
     q_unsupported_san_types q = [] \<and>
     (\<exists>es ns. c_extensions c = Inr es \<and> san_of es = Some ns \<and> exact_sans ns q \<and> leaf_profile es) \<and>
     fresh_validity c lifetime_days now reference skew \<and>
     c_signature_hash c = Inr (Some sig_hash) \<and> c_signature_algorithm_oid c = sig_oid \<and>
     (\<exists>trusted identity. load_trust_certificates L ca_data = Inr trusted \<and> trust_identity q = Inr identity \<and>
        server_verify L trusted now identity c = Inr ())"

lemma catchE_always_Inl: "(\<And>e. \<exists>e'. h e = Inl e') \<Longrightarrow> catchE m h = Inr x \<longleftrightarrow> m = Inr x"
  by (cases m) (auto, metis Inl_Inr_False)

lemma require_extension_ok:
  "require_extension c get label = Inr v \<longleftrightarrow> (\<exists>es. c_extensions c = Inr es \<and> get es = Some v)"
  by (auto simp: require_extension_def split: option.splits)

lemma validate_exact_sans_ok:
  "validate_exact_sans c q = Inr () \<longleftrightarrow>
   (\<exists>es ns. c_extensions c = Inr es \<and> san_of es = Some ns \<and> exact_sans ns q)"
  by (auto simp: validate_exact_sans_def require_extension_ok exact_sans_def mapE_Inr)

lemma validate_leaf_extensions_ok:
  "validate_leaf_extensions c = Inr () \<longleftrightarrow> (\<exists>es. c_extensions c = Inr es \<and> leaf_profile es)"
  by (auto simp: validate_leaf_extensions_def require_extension_ok leaf_profile_def
      allowed_server_eku_profiles_def)

lemma validate_validity_ok:
  "0 < lifetime_days \<Longrightarrow> validate_validity c lifetime_days now reference skew = Inr () \<longleftrightarrow>
   fresh_validity c lifetime_days now reference skew"
  by (auto simp: validate_validity_def fresh_validity_def Let_def days_def)

lemma validate_signature_hash_ok:
  "validate_signature_hash c = Inr () \<longleftrightarrow>
   (\<exists>h. c_signature_hash c = Inr (Some h) \<and> h \<in> set allowed_signature_hashes)"
proof -
  have "catchE (c_signature_hash c) (\<lambda>e. if e = UnsupportedAlgorithm
      then issued_error ''issued certificate signature hash algorithm is unsupported'' else Inl e) = Inr h
    \<longleftrightarrow> c_signature_hash c = Inr h" for h
    by (rule catchE_always_Inl) auto
  then show ?thesis by (auto simp: validate_signature_hash_def split: option.splits)
qed

lemma verify_ca_trust_ok:
  "verify_ca_trust L c ca_data q now = Inr () \<longleftrightarrow>
   (\<exists>trusted identity. load_trust_certificates L ca_data = Inr trusted \<and> trust_identity q = Inr identity \<and>
      server_verify L trusted now identity c = Inr ())"
proof -
  have "catchE m (\<lambda>e. if e = TypeError \<or> is_ValueError e \<or> e = VerificationError
      then issued_error ''issued certificate failed verification against the configured CA''
      else Inl e) = Inr () \<longleftrightarrow> m = Inr ()" for m :: "py_exc + unit"
    by (rule catchE_always_Inl) auto
  then show ?thesis by (simp add: verify_ca_trust_def)
qed

lemma certificate_info_hash:
  assumes "certificate_info L c = Inr info"
  shows "c_signature_hash c = Inr (signature_hash_algorithm info)"
    and "signature_algorithm_oid info = c_signature_algorithm_oid c"
    and "certificate_sha256 info = sha256 L (c_der c)"
proof -
  obtain x where x: "certificate_info_parts L c = Inr x" using assms by (auto simp: certificate_info_def)
  have "c_signature_hash c = Inr (fst (snd (snd (snd x))))"
    using x unfolding certificate_info_parts_def
    by (subst (asm) catchE_always_Inl; auto)
  with assms x show "c_signature_hash c = Inr (signature_hash_algorithm info)"
    "signature_algorithm_oid info = c_signature_algorithm_oid c"
    "certificate_sha256 info = sha256 L (c_der c)"
    by (auto simp: certificate_info_def split: prod.splits)
qed

lemma accepted_leaf:
  assumes "validate_issued_certificate L clock data q ca_data lifetime_days sig_hash sig_oid freshness now skew
     = Inr info"
  shows "(1 \<le> lifetime_days \<and> lifetime_days \<le> 397 \<and> sig_hash \<in> {''sha256'', ''sha384'', ''sha512''} \<and> sig_oid \<noteq> [] \<and>
    0 \<le> skew \<and>
    (\<exists>time reference c. validation_time clock now = Inr time \<and> freshness = Aware reference \<and>
       load_one_certificate L data MAX_ISSUED_CERTIFICATE_BYTES ''issued certificate'' = Inr c \<and>
       acceptable_leaf L q ca_data lifetime_days sig_hash sig_oid time reference skew c info))"
proof -
  from assms obtain time reference c where a:
    "validate_lifetime_days lifetime_days = Inr ()" "sig_hash \<in> set allowed_signature_hashes" "sig_oid \<noteq> []"
    "validation_time clock now = Inr time" "validation_time clock (Some freshness) = Inr reference" "0 \<le> skew"
    "load_one_certificate L data MAX_ISSUED_CERTIFICATE_BYTES ''issued certificate'' = Inr c"
    "certificate_info L c = Inr info" "public_key_algorithm info = ''RSA''"
    "public_key_size info \<in> Some ` set supported_rsa_key_sizes" "q_unsupported_san_types q = []"
    "info_spki_sha256 info = q_spki_sha256 q" "subject info = q_info_subject q"
    "validate_exact_sans c q = Inr ()" "validate_leaf_extensions c = Inr ()"
    "validate_validity c lifetime_days time reference skew = Inr ()" "validate_signature_hash c = Inr ()"
    "signature_hash_algorithm info = Some sig_hash" "signature_algorithm_oid info = sig_oid"
    "verify_ca_trust L c ca_data q time = Inr ()"
    by (fastforce simp: validate_issued_certificate_def)
  have "1 \<le> lifetime_days" "lifetime_days \<le> 397"
    using a(1) by (auto simp: validate_lifetime_days_def MIN_CERTIFICATE_LIFETIME_DAYS_def
        MAX_CERTIFICATE_LIFETIME_DAYS_def split: if_splits)
  moreover have "freshness = Aware reference"
    using a(5) by (cases freshness) (auto simp: validation_time_def)
  ultimately show ?thesis
    using a certificate_info_hash[OF a(8)]
    by (auto simp: acceptable_leaf_def validate_exact_sans_ok validate_leaf_extensions_ok
        validate_validity_ok verify_ca_trust_ok supported_rsa_key_sizes_def allowed_signature_hashes_def)
qed

lemma leaf_accepted:
  assumes "(1 \<le> lifetime_days \<and> lifetime_days \<le> 397 \<and> sig_hash \<in> {''sha256'', ''sha384'', ''sha512''} \<and> sig_oid \<noteq> [] \<and>
    0 \<le> skew \<and>
    (\<exists>time reference c. validation_time clock now = Inr time \<and> freshness = Aware reference \<and>
       load_one_certificate L data MAX_ISSUED_CERTIFICATE_BYTES ''issued certificate'' = Inr c \<and>
       acceptable_leaf L q ca_data lifetime_days sig_hash sig_oid time reference skew c info))"
  shows "validate_issued_certificate L clock data q ca_data lifetime_days sig_hash sig_oid freshness now skew
     = Inr info"
proof -
  note s = assms
  then obtain time reference c where c: "validation_time clock now = Inr time" "freshness = Aware reference"
    "load_one_certificate L data MAX_ISSUED_CERTIFICATE_BYTES ''issued certificate'' = Inr c"
    "acceptable_leaf L q ca_data lifetime_days sig_hash sig_oid time reference skew c info" by blast
  then have i: "certificate_info L c = Inr info" by (simp add: acceptable_leaf_def)
  have "validate_lifetime_days lifetime_days = Inr ()"
    using s by (simp add: validate_lifetime_days_def MIN_CERTIFICATE_LIFETIME_DAYS_def
        MAX_CERTIFICATE_LIFETIME_DAYS_def)
  moreover have "validate_exact_sans c q = Inr ()" "validate_leaf_extensions c = Inr ()"
    "validate_signature_hash c = Inr ()" "verify_ca_trust L c ca_data q time = Inr ()"
    "validate_validity c lifetime_days time reference skew = Inr ()"
    "sig_hash \<in> set allowed_signature_hashes"
    using s c(4) by (auto simp: acceptable_leaf_def validate_exact_sans_ok validate_leaf_extensions_ok
        validate_validity_ok verify_ca_trust_ok validate_signature_hash_ok allowed_signature_hashes_def)
  moreover have "signature_hash_algorithm info = Some sig_hash" "signature_algorithm_oid info = sig_oid"
    using c(4) certificate_info_hash[OF i] by (auto simp: acceptable_leaf_def)
  ultimately show ?thesis
    using s c i by (auto simp: validate_issued_certificate_def validation_time_def acceptable_leaf_def
        supported_rsa_key_sizes_def)
qed

text \<open>
  C22. An issued certificate is accepted exactly when the requested lifetime, digest and times are
  well formed, the data holds one certificate within the size limit, and that leaf is acceptable: an
  RSA key of a supported size equal to the request's key, the request's subject and exactly its DNS
  and IP names, the server leaf profile, a validity that has started, is not over, has exactly the
  requested length and starts at most the clock skew before the freshness reference and not after it,
  the requested signature algorithm, and a chain to the configured CA for the request's first name.
\<close>

theorem issued_certificate_accepted_iff:
  "validate_issued_certificate L clock data q ca_data lifetime_days sig_hash sig_oid freshness now skew
     = Inr info \<longleftrightarrow>
   (1 \<le> lifetime_days \<and> lifetime_days \<le> 397 \<and> sig_hash \<in> {''sha256'', ''sha384'', ''sha512''} \<and> sig_oid \<noteq> [] \<and>
    0 \<le> skew \<and>
    (\<exists>time reference c. validation_time clock now = Inr time \<and> freshness = Aware reference \<and>
       load_one_certificate L data MAX_ISSUED_CERTIFICATE_BYTES ''issued certificate'' = Inr c \<and>
       acceptable_leaf L q ca_data lifetime_days sig_hash sig_oid time reference skew c info))"
  by (rule iffI[OF accepted_leaf leaf_accepted])

end
