(* ===== verification/Json.thy ===== *)
theory Json
  imports PyText "HOL-Library.List_Lexorder" "HOL-Library.Char_ord"
begin

text \<open>
  JSON values as Python sees them, \<open>json.dumps(value, sort_keys=True, separators=(",", ":"))\<close> and
  \<open>json.loads(text, object_pairs_hook=unique)\<close>, where \<open>unique\<close> is the hook with which every reader
  of the program rejects a repeated object key. An object keeps its fields in file order. A number
  with a fraction or an exponent is kept as its text. The reader is written with fuel; \<open>loads\<close>
  gives it one more than twice the length of the text: each step that does not consume a character
  (from an array to its first element) is followed by one that does, and \<open>parse_fuel\<close> shows that
  more fuel never changes a result.
\<close>

datatype json =
    JNull
  | JBool bool
  | JInt int
  | JFloat string
  | JStr string
  | JArr "json list"
  | JObj "(string \<times> json) list"

section \<open>Writing\<close>

fun code_points :: "string \<Rightarrow> nat list" where
  "code_points [] = []"
| "code_points (a # s) =
     (if ordc a < 128 then ordc a # code_points s
      else (case s of
        [] \<Rightarrow> [ordc a]
      | b # s1 \<Rightarrow>
        if ordc a < 224 then ((ordc a - 192) * 64 + (ordc b - 128)) # code_points s1
        else (case s1 of
          [] \<Rightarrow> [ordc a, ordc b]
        | c # s2 \<Rightarrow>
          if ordc a < 240
          then ((ordc a - 224) * 4096 + (ordc b - 128) * 64 + (ordc c - 128)) # code_points s2
          else (case s2 of
            [] \<Rightarrow> [ordc a, ordc b, ordc c]
          | d # s3 \<Rightarrow> ((ordc a - 240) * 262144 + (ordc b - 128) * 4096 +
                        (ordc c - 128) * 64 + (ordc d - 128)) # code_points s3))))"

definition utf8_encode :: "nat \<Rightarrow> string" where
  "utf8_encode n =
     (if n < 128 then [char_of n]
      else if n < 2048 then [char_of (192 + n div 64), char_of (128 + n mod 64)]
      else if n < 65536 then [char_of (224 + n div 4096), char_of (128 + n div 64 mod 64),
                              char_of (128 + n mod 64)]
      else [char_of (240 + n div 262144), char_of (128 + n div 4096 mod 64),
            char_of (128 + n div 64 mod 64), char_of (128 + n mod 64)])"

definition hex_digit :: "nat \<Rightarrow> char" where
  "hex_digit d = (if d < 10 then char_of (48 + d) else char_of (87 + d))"

definition u_escape :: "nat \<Rightarrow> string" where
  "u_escape n = [CHR 0x5C, CHR ''u'', hex_digit (n div 4096 mod 16), hex_digit (n div 256 mod 16),
     hex_digit (n div 16 mod 16), hex_digit (n mod 16)]"

definition escape :: "nat \<Rightarrow> string" where
  "escape n =
     (if n = 34 then [CHR 0x5C, CHR 0x22]
      else if n = 92 then [CHR 0x5C, CHR 0x5C]
      else if n = 10 then [CHR 0x5C, CHR ''n'']
      else if n = 13 then [CHR 0x5C, CHR ''r'']
      else if n = 9 then [CHR 0x5C, CHR ''t'']
      else if n = 12 then [CHR 0x5C, CHR ''f'']
      else if n = 8 then [CHR 0x5C, CHR ''b'']
      else if 32 \<le> n \<and> n < 127 then [char_of n]
      else if n < 65536 then u_escape n
      else u_escape (55296 + (n - 65536) div 1024) @ u_escape (56320 + (n - 65536) mod 1024))"

definition dump_string :: "string \<Rightarrow> string" where
  "dump_string s = CHR 0x22 # concat (map escape (code_points s)) @ [CHR 0x22]"

definition show_int :: "int \<Rightarrow> string" where
  "show_int i = (if i < 0 then CHR ''-'' # show_nat (nat (- i)) else show_nat (nat i))"

fun dumps :: "json \<Rightarrow> string" where
  "dumps JNull = ''null''"
| "dumps (JBool b) = (if b then ''true'' else ''false'')"
| "dumps (JInt i) = show_int i"
| "dumps (JFloat t) = t"
| "dumps (JStr s) = dump_string s"
| "dumps (JArr vs) = ''['' @ join '','' (map dumps vs) @ '']''"
| "dumps (JObj ps) = ''{'' @ join '','' (map (\<lambda>p. dump_string (fst p) @ '':'' @ snd p)
     (sort_key fst (map (\<lambda>p. (fst p, dumps (snd p))) ps))) @ ''}''"

section \<open>Reading\<close>

fun skip_ws :: "string \<Rightarrow> string" where
  "skip_ws [] = []"
| "skip_ws (c # s) = (if c \<in> {CHR 0x20, CHR 0x09, CHR 0x0A, CHR 0x0D} then skip_ws s else c # s)"

definition hex_val :: "char \<Rightarrow> nat" where
  "hex_val c = (if is_digit c then ordc c - 48 else if is_lhex c then ordc c - 87 else ordc c - 55)"

fun read_u :: "string \<Rightarrow> (nat \<times> string) option" where
  "read_u (a # b # c # d # s) =
     (if is_hex a \<and> is_hex b \<and> is_hex c \<and> is_hex d
      then Some (hex_val a * 4096 + hex_val b * 256 + hex_val c * 16 + hex_val d, s) else None)"
| "read_u _ = None"

fun low_surrogate :: "string \<Rightarrow> (nat \<times> string) option" where
  "low_surrogate (x # y # s) = (if x = CHR 0x5C \<and> y = CHR ''u''
     then (case read_u s of
             Some (n, t) \<Rightarrow> if 56320 \<le> n \<and> n < 57344 then Some (n, t) else None
           | None \<Rightarrow> None)
     else None)"
| "low_surrogate _ = None"

definition simple_escape :: "char \<Rightarrow> char option" where
  "simple_escape e =
     (if e = CHR 0x22 \<or> e = CHR 0x5C \<or> e = CHR ''/'' then Some e
      else if e = CHR ''b'' then Some (CHR 0x08)
      else if e = CHR ''f'' then Some (CHR 0x0C)
      else if e = CHR ''n'' then Some (CHR 0x0A)
      else if e = CHR ''r'' then Some (CHR 0x0D)
      else if e = CHR ''t'' then Some (CHR 0x09) else None)"

text \<open>One element of a string literal: the end, or a decoded code point and the rest.\<close>

datatype string_item = SEnd string | SItem string string | SBad

definition string_item :: "string \<Rightarrow> string_item" where
  "string_item s = (case s of
      [] \<Rightarrow> SBad
    | c # r \<Rightarrow>
      if c = CHR 0x22 then SEnd r
      else if c = CHR 0x5C then (case r of
          [] \<Rightarrow> SBad
        | e # r1 \<Rightarrow>
          if e = CHR ''u'' then (case read_u r1 of
              None \<Rightarrow> SBad
            | Some (n, r2) \<Rightarrow>
              if 55296 \<le> n \<and> n < 56320 then (case low_surrogate r2 of
                  Some (m, r3) \<Rightarrow> SItem (utf8_encode (65536 + (n - 55296) * 1024 + (m - 56320))) r3
                | None \<Rightarrow> SItem (utf8_encode n) r2)
              else SItem (utf8_encode n) r2)
          else (case simple_escape e of None \<Rightarrow> SBad | Some x \<Rightarrow> SItem [x] r1))
      else if ordc c < 32 then SBad
      else SItem [c] r)"

fun parse_string :: "nat \<Rightarrow> string \<Rightarrow> py_exc + string \<times> string" where
  "parse_string 0 s = Inl ValueError"
| "parse_string (Suc n) s = (case string_item s of
      SEnd r \<Rightarrow> Inr ([], r)
    | SItem x r \<Rightarrow> bindE (parse_string n r) (\<lambda>(t, u). Inr (x @ t, u))
    | SBad \<Rightarrow> Inl ValueError)"

text \<open>
  Numbers. Python refuses to convert more than 4300 digits to an \<open>int\<close>. \<open>take_digits\<close> and the
  pattern of the scanner: an optional minus sign, \<open>0\<close> or digits without a leading zero, an optional
  fraction, an optional exponent.
\<close>

definition take_digits :: "string \<Rightarrow> string \<times> string" where
  "take_digits s = (takeWhile is_digit s, dropWhile is_digit s)"

definition int_part :: "string \<Rightarrow> string \<times> string" where
  "int_part s = (case s of CHR ''0'' # r \<Rightarrow> (''0'', r) | _ \<Rightarrow> take_digits s)"

definition fraction :: "string \<Rightarrow> string \<times> string" where
  "fraction s = (case s of
      CHR ''.'' # r \<Rightarrow> (if fst (take_digits r) = [] then ([], s)
                       else (CHR ''.'' # fst (take_digits r), snd (take_digits r)))
    | _ \<Rightarrow> ([], s))"

definition exponent :: "string \<Rightarrow> string \<times> string" where
  "exponent s = (case s of
      e # r \<Rightarrow> if e = CHR ''e'' \<or> e = CHR ''E''
        then (let sg = (case r of c # _ \<Rightarrow> if c = CHR ''-'' \<or> c = CHR ''+'' then [c] else [] | [] \<Rightarrow> []);
                  ds = take_digits (drop (length sg) r)
              in if fst ds = [] then ([], s) else (e # sg @ fst ds, snd ds))
        else ([], s)
    | [] \<Rightarrow> ([], s))"

definition parse_number :: "string \<Rightarrow> py_exc + json \<times> string" where
  "parse_number s =
     (let neg = startswith ''-'' s;
          ip = int_part (if neg then tl s else s);
          fr = fraction (snd ip);
          ex = exponent (snd fr)
      in if fst ip = [] then Inl ValueError
         else if fst fr = [] \<and> fst ex = []
         then (if length (fst ip) > 4300 then Inl ValueError
               else Inr (JInt (if neg then - int (read_nat (fst ip)) else int (read_nat (fst ip))),
                         snd ip))
         else Inr (JFloat ((if neg then ''-'' else []) @ fst ip @ fst fr @ fst ex), snd ex))"

definition parse_atom :: "string \<Rightarrow> py_exc + json \<times> string" where
  "parse_atom s =
     (if startswith ''null'' s then Inr (JNull, drop 4 s)
      else if startswith ''true'' s then Inr (JBool True, drop 4 s)
      else if startswith ''false'' s then Inr (JBool False, drop 5 s)
      else if startswith ''NaN'' s then Inr (JFloat ''NaN'', drop 3 s)
      else if startswith ''Infinity'' s then Inr (JFloat ''Infinity'', drop 8 s)
      else if startswith ''-Infinity'' s then Inr (JFloat ''-Infinity'', drop 9 s)
      else parse_number s)"

text \<open>\<open>expect c s\<close> skips white space and the character \<open>c\<close>.\<close>

definition expect :: "char \<Rightarrow> string \<Rightarrow> py_exc + string" where
  "expect c s = (case skip_ws s of [] \<Rightarrow> Inl ValueError
     | x # r \<Rightarrow> if x = c then Inr r else Inl ValueError)"

fun parse_value :: "py_exc \<Rightarrow> nat \<Rightarrow> string \<Rightarrow> py_exc + json \<times> string"
and parse_elems :: "py_exc \<Rightarrow> nat \<Rightarrow> string \<Rightarrow> py_exc + json list \<times> string"
and parse_members :: "py_exc \<Rightarrow> nat \<Rightarrow> string \<Rightarrow> py_exc + (string \<times> json) list \<times> string" where
  "parse_value dup 0 s = Inl ValueError"
| "parse_value dup (Suc n) s = (case s of
      [] \<Rightarrow> Inl ValueError
    | c # r \<Rightarrow>
      if c = CHR 0x22 then bindE (parse_string n r) (\<lambda>(t, u). Inr (JStr t, u))
      else if c = CHR ''['' then
        (if startswith '']'' (skip_ws r) then Inr (JArr [], tl (skip_ws r))
         else bindE (parse_elems dup n (skip_ws r)) (\<lambda>(vs, u). Inr (JArr vs, u)))
      else if c = CHR ''{'' then
        (if startswith ''}'' (skip_ws r) then Inr (JObj [], tl (skip_ws r))
         else bindE (parse_members dup n (skip_ws r)) (\<lambda>(ps, u).
           if distinct (map fst ps) then Inr (JObj ps, u) else Inl dup))
      else parse_atom s)"
| "parse_elems dup 0 s = Inl ValueError"
| "parse_elems dup (Suc n) s = bindE (parse_value dup n s) (\<lambda>(v, r).
     if startswith '','' (skip_ws r)
     then bindE (parse_elems dup n (skip_ws (tl (skip_ws r)))) (\<lambda>(vs, u). Inr (v # vs, u))
     else bindE (expect (CHR '']'') r) (\<lambda>u. Inr ([v], u)))"
| "parse_members dup 0 s = Inl ValueError"
| "parse_members dup (Suc n) s = (case s of
      [] \<Rightarrow> Inl ValueError
    | c # r \<Rightarrow>
      if c \<noteq> CHR 0x22 then Inl ValueError
      else bindE (parse_string n r) (\<lambda>(k, r1).
        bindE (expect (CHR '':'') r1) (\<lambda>r2.
        bindE (parse_value dup n (skip_ws r2)) (\<lambda>(v, r3).
        if startswith '','' (skip_ws r3)
        then bindE (parse_members dup n (skip_ws (tl (skip_ws r3)))) (\<lambda>(ps, u). Inr ((k, v) # ps, u))
        else bindE (expect (CHR ''}'') r3) (\<lambda>u. Inr ([(k, v)], u))))))"

definition loads :: "py_exc \<Rightarrow> string \<Rightarrow> py_exc + json" where
  "loads dup s = bindE (parse_value dup (2 * length s + 1) (skip_ws s)) (\<lambda>(v, r).
     if skip_ws r = [] then Inr v else Inl ValueError)"

text \<open>
  \<open>json.loads(data)\<close> on bytes decodes them first. Data whose first bytes announce UTF-16 or UTF-32
  is outside the model and refused here; the program writes ASCII only.
\<close>

definition loads_bytes :: "py_exc \<Rightarrow> bytes \<Rightarrow> py_exc + json" where
  "loads_bytes dup b = bindE (decode_utf8 b) (loads dup)"

section \<open>Objects as dictionaries\<close>

definition jget :: "string \<Rightarrow> (string \<times> json) list \<Rightarrow> json option" where
  "jget k ps = map_of ps k"

text \<open>\<open>set(value) != fields\<close> on an object: its keys are exactly the given ones.\<close>

definition has_fields :: "string list \<Rightarrow> (string \<times> json) list \<Rightarrow> bool" where
  "has_fields fs ps \<longleftrightarrow> list_all (\<lambda>f. f \<in> set (map fst ps)) fs \<and> list_all (\<lambda>p. fst p \<in> set fs) ps"

definition exact_dict :: "string list \<Rightarrow> json \<Rightarrow> py_exc + (string \<times> json) list" where
  "exact_dict fs v = (case v of
      JObj ps \<Rightarrow> (if has_fields fs ps then Inr ps else Inl ValueError)
    | _ \<Rightarrow> Inl ValueError)"

section \<open>What is written is read back\<close>

text \<open>
  The values the program writes: ASCII strings, distinct keys, integers within Python's conversion
  limit, no fractions. \<open>norm\<close> is what sorting the keys does to a value.
\<close>

fun plain :: "json \<Rightarrow> bool" where
  "plain JNull = True"
| "plain (JBool b) = True"
| "plain (JInt i) = (length (show_nat (nat \<bar>i\<bar>)) \<le> 4300)"
| "plain (JFloat t) = False"
| "plain (JStr s) = isascii s"
| "plain (JArr vs) = list_all plain vs"
| "plain (JObj ps) = (distinct (map fst ps) \<and> list_all (\<lambda>p. isascii (fst p)) ps \<and>
     list_all plain (map snd ps))"

fun norm :: "json \<Rightarrow> json" where
  "norm (JArr vs) = JArr (map norm vs)"
| "norm (JObj ps) = JObj (sort_key fst (map (\<lambda>p. (fst p, norm (snd p))) ps))"
| "norm v = v"

lemma code_points_ascii: "isascii s \<Longrightarrow> code_points s = map ordc s"
  by (induction s) (auto simp: isascii_def is_ascii_def)

lemma ordc_inj: "ordc c = ordc d \<longleftrightarrow> c = d"
  by (simp add: ordc_def)

lemma char_of_ordc [simp]: "char_of (ordc c) = c"
  by (simp add: ordc_def)

lemma ordc_consts:
  "ordc (CHR 0x22) = 34" "ordc (CHR 0x5C) = 92" "ordc (CHR 0x0A) = 10" "ordc (CHR 0x0D) = 13"
  "ordc (CHR 0x09) = 9" "ordc (CHR 0x0C) = 12" "ordc (CHR 0x08) = 8"
  by (simp_all add: ordc_def)

lemma hex_digit_facts:
  assumes "d < 16"
  shows "is_hex (hex_digit d)" "hex_val (hex_digit d) = d"
  using assms
  by (auto simp: hex_digit_def is_hex_def is_lhex_def hex_val_def is_digit_def ordc_char_of)

lemma read_u_escape:
  assumes "n < 65536"
  shows "read_u (drop 2 (u_escape n) @ s) = Some (n, s)"
proof -
  let ?a = "n div 16" let ?b = "?a div 16" let ?c = "?b div 16"
  have q: "n div 256 = ?b" "n div 4096 = ?c"
    by (simp_all flip: div_mult2_eq)
  have "n = 16 * ?a + n mod 16" "?a = 16 * ?b + ?a mod 16" "?b = 16 * ?c + ?b mod 16"
    by simp_all
  moreover have "?c mod 16 = ?c" using assms by simp
  ultimately have "n div 4096 mod 16 * 4096 + n div 256 mod 16 * 256 + ?a mod 16 * 16 + n mod 16 = n"
    unfolding q by linarith
  with assms show ?thesis by (simp add: u_escape_def hex_digit_facts)
qed

lemma string_item_u:
  assumes "n < 55296"
  shows "string_item (u_escape n @ s) = SItem (utf8_encode n) s"
proof -
  have "string_item (u_escape n @ s) =
      (case read_u (drop 2 (u_escape n) @ s) of
         None \<Rightarrow> SBad
       | Some (m, r2) \<Rightarrow>
         if 55296 \<le> m \<and> m < 56320 then (case low_surrogate r2 of
             Some (k, r3) \<Rightarrow> SItem (utf8_encode (65536 + (m - 55296) * 1024 + (k - 56320))) r3
           | None \<Rightarrow> SItem (utf8_encode m) r2)
         else SItem (utf8_encode m) r2)"
    by (simp add: u_escape_def string_item_def del: read_u.simps)
  with assms show ?thesis by (simp add: read_u_escape)
qed

lemma string_item_escape:
  assumes "is_ascii c"
  shows "string_item (escape (ordc c) @ s) = SItem [c] s"
proof -
  have neq: "ordc c \<noteq> 34 \<Longrightarrow> c \<noteq> CHR 0x22" "ordc c \<noteq> 92 \<Longrightarrow> c \<noteq> CHR 0x5C"
    by (auto simp: ordc_consts)
  have eq: "ordc c = 34 \<Longrightarrow> c = CHR 0x22" "ordc c = 92 \<Longrightarrow> c = CHR 0x5C"
    "ordc c = 10 \<Longrightarrow> c = CHR 0x0A" "ordc c = 13 \<Longrightarrow> c = CHR 0x0D" "ordc c = 9 \<Longrightarrow> c = CHR 0x09"
    "ordc c = 12 \<Longrightarrow> c = CHR 0x0C" "ordc c = 8 \<Longrightarrow> c = CHR 0x08"
    using ordc_inj by (simp_all flip: ordc_consts)
  have b: "ordc c < 128" using assms by (simp add: is_ascii_def)
  consider "ordc c = 34" | "ordc c = 92" | "ordc c = 10" | "ordc c = 13" | "ordc c = 9"
    | "ordc c = 12" | "ordc c = 8" | "32 \<le> ordc c" "ordc c < 127" "ordc c \<noteq> 34" "ordc c \<noteq> 92"
    | "ordc c \<notin> {34, 92, 10, 13, 9, 12, 8}" "\<not> (32 \<le> ordc c \<and> ordc c < 127)"
    by auto
  then show ?thesis
  proof cases
    case 8
    then show ?thesis using neq by (simp add: escape_def string_item_def)
  next
    case 9
    then have "escape (ordc c) = u_escape (ordc c)" using b by (auto simp: escape_def)
    then show ?thesis using b by (simp add: string_item_u utf8_encode_def)
  qed (auto simp: escape_def string_item_def simple_escape_def dest: eq)
qed

lemma parse_string_dump:
  assumes "isascii s" "length s < n"
  shows "parse_string n (concat (map escape (map ordc s)) @ CHR 0x22 # r) = Inr (s, r)"
  using assms
proof (induction s arbitrary: n)
  case Nil
  then show ?case by (cases n) (auto simp: string_item_def)
next
  case (Cons c s)
  then show ?case
    by (cases n) (auto simp: isascii_def string_item_escape)
qed

lemma dump_string_ascii:
  "isascii s \<Longrightarrow> dump_string s = CHR 0x22 # concat (map escape (map ordc s)) @ [CHR 0x22]"
  by (simp add: dump_string_def code_points_ascii)

lemma escape_nonempty: "escape n \<noteq> []"
  by (simp add: escape_def u_escape_def)

lemma length_escapes: "length s \<le> length (concat (map escape (map ordc s)))"
proof (induction s)
  case (Cons c s)
  then show ?case using escape_nonempty[of "ordc c"] by (cases "escape (ordc c)") auto
qed simp

text \<open>\<open>stops\<close>: a rest that cannot extend a number.\<close>

definition stops :: "string \<Rightarrow> bool" where
  "stops r \<longleftrightarrow> (case r of [] \<Rightarrow> True | c # _ \<Rightarrow> c \<in> {CHR '','', CHR '']'', CHR ''}''})"

lemma stops_simps [simp]:
  "stops []" "stops (CHR '','' # r)" "stops (CHR '']'' # r)" "stops (CHR ''}'' # r)"
  by (simp_all add: stops_def)

lemma stops_cases:
  assumes "stops r"
  obtains "r = []" | t where "r = CHR '','' # t" | t where "r = CHR '']'' # t" | t where "r = CHR ''}'' # t"
  using assms by (cases r) (auto simp: stops_def)

lemma take_digits_show:
  assumes "stops r"
  shows "take_digits (show_nat n @ r) = (show_nat n, r)"
proof -
  have "takeWhile is_digit r = []" "dropWhile is_digit r = r"
    using assms by (auto elim!: stops_cases simp: is_digit_def ordc_def)
  moreover have "\<forall>c\<in>set (show_nat n). is_digit c"
    using show_nat_digits by (simp add: list_all_iff)
  ultimately show ?thesis by (simp add: take_digits_def takeWhile_append dropWhile_append)
qed

lemma int_part_show:
  assumes "stops r"
  shows "int_part (show_nat n @ r) = (show_nat n, r)"
proof (cases "n = 0")
  case True
  have "show_nat 0 = ''0''" by (subst show_nat.simps) (simp add: zero_char)
  with True show ?thesis by (simp add: int_part_def)
next
  case False
  then obtain c t where ct: "show_nat n = c # t" "c \<noteq> CHR ''0''"
    using show_nat_leading[of n] by (cases "show_nat n") auto
  then have "int_part (show_nat n @ r) = take_digits (show_nat n @ r)"
    by (auto simp: int_part_def split: char.splits bool.splits)
  then show ?thesis using assms by (simp add: take_digits_show)
qed

lemma no_suffix:
  assumes "stops r"
  shows "fraction r = ([], r)" "exponent r = ([], r)"
  using assms by (auto elim!: stops_cases simp: fraction_def exponent_def)

lemma show_nat_head: "\<exists>c t. show_nat n = c # t \<and> is_digit c"
  using show_nat_digits[of n] by (cases "show_nat n") auto

lemma digit_not:
  "is_digit c \<Longrightarrow> c \<notin> {CHR ''-'', CHR ''n'', CHR ''t'', CHR ''f'', CHR ''N'', CHR ''I'', CHR 0x22,
     CHR ''['', CHR ''{'', CHR '']'', CHR ''}'', CHR '','', CHR 0x20, CHR 0x09, CHR 0x0A, CHR 0x0D}"
  by (auto simp: is_digit_def ordc_def)

lemma parse_number_show:
  assumes "stops r" "length (show_nat (nat \<bar>i\<bar>)) \<le> 4300"
  shows "parse_number (show_int i @ r) = Inr (JInt i, r)"
proof -
  obtain c t where ct: "show_nat (nat i) = c # t" "is_digit c" using show_nat_head by blast
  then have neg: "\<not> startswith ''-'' (show_nat (nat i) @ r)" using digit_not[of c] by auto
  show ?thesis
  proof (cases "i < 0")
    case True
    then show ?thesis using assms
      by (simp add: parse_number_def show_int_def int_part_show no_suffix)
  next
    case False
    then show ?thesis using assms neg
      by (simp add: parse_number_def show_int_def int_part_show no_suffix)
  qed
qed

lemma parse_atom_show:
  assumes "stops r" "length (show_nat (nat \<bar>i\<bar>)) \<le> 4300"
  shows "parse_atom (show_int i @ r) = Inr (JInt i, r)"
proof -
  obtain c t where ct: "show_nat (nat i) = c # t" "is_digit c" using show_nat_head by blast
  obtain d u where du: "show_nat (nat (- i)) = d # u" "is_digit d" using show_nat_head by blast
  have "parse_atom (show_int i @ r) = parse_number (show_int i @ r)"
    using ct du digit_not[of c] digit_not[of d] by (auto simp: parse_atom_def show_int_def)
  then show ?thesis using assms by (simp add: parse_number_show)
qed

lemma dumps_head:
  assumes "plain v"
  shows "\<exists>c t. dumps v = c # t \<and>
    c \<notin> {CHR '']'', CHR ''}'', CHR '','', CHR 0x20, CHR 0x09, CHR 0x0A, CHR 0x0D}"
proof (cases v)
  case (JInt i)
  obtain c t where ct: "show_nat (nat i) = c # t" "is_digit c" using show_nat_head by blast
  then show ?thesis using JInt digit_not[of c] by (auto simp: show_int_def)
qed (use assms in \<open>auto simp: dump_string_def\<close>)

lemma skip_ws_dumps: "plain v \<Longrightarrow> skip_ws (dumps v @ s) = dumps v @ s"
  using dumps_head[of v] by auto

lemma insort_key_map: "insort_key f (g x) (map g xs) = map g (insort_key (\<lambda>x. f (g x)) x xs)"
  by (induction xs) auto

lemma sort_key_map: "sort_key f (map g xs) = map g (sort_key (\<lambda>x. f (g x)) xs)"
  by (induction xs) (auto simp: insort_key_map sort_key_def)

definition dump_member :: "string \<times> json \<Rightarrow> string" where
  "dump_member p = dump_string (fst p) @ '':'' @ dumps (snd p)"

lemma dumps_JObj:
  "dumps (JObj ps) = ''{'' @ join '','' (map dump_member (sort_key fst ps)) @ ''}''"
  by (simp add: sort_key_map comp_def dump_member_def[abs_def])

lemma norm_JObj: "norm (JObj ps) = JObj (map (\<lambda>p. (fst p, norm (snd p))) (sort_key fst ps))"
  by (simp add: sort_key_map comp_def)

text \<open>The induction hypothesis, for one value.\<close>

definition reads_back :: "py_exc \<Rightarrow> json \<Rightarrow> bool" where
  "reads_back dup v \<longleftrightarrow> plain v \<and> (\<forall>n r. stops r \<longrightarrow> 2 * length (dumps v) < n \<longrightarrow>
     parse_value dup n (dumps v @ r) = Inr (norm v, r))"

lemma reads_backD:
  "reads_back dup v \<Longrightarrow> stops r \<Longrightarrow> 2 * length (dumps v) < n \<Longrightarrow>
   parse_value dup n (dumps v @ r) = Inr (norm v, r)"
  by (simp add: reads_back_def)

lemma expect_simps [simp]: "c \<notin> {CHR 0x20, CHR 0x09, CHR 0x0A, CHR 0x0D} \<Longrightarrow> expect c (c # r) = Inr r"
  by (simp add: expect_def)

lemma parse_elems_dumps:
  assumes "vs \<noteq> []" "\<forall>v\<in>set vs. reads_back dup v"
    "2 * length (join '','' (map dumps vs)) + 1 < n"
  shows "parse_elems dup n (join '','' (map dumps vs) @ CHR '']'' # r) = Inr (map norm vs, r)"
  using assms
proof (induction vs arbitrary: n rule: induct_list012)
  case (2 v)
  then obtain m where "n = Suc m" by (cases n) auto
  with 2 show ?case by (simp add: reads_backD)
next
  case (3 v w vs)
  then obtain m where n: "n = Suc m" by (cases n) auto
  let ?rest = "join '','' (map dumps (w # vs))"
  have "parse_value dup m (dumps v @ CHR '','' # ?rest @ CHR '']'' # r) =
      Inr (norm v, CHR '','' # ?rest @ CHR '']'' # r)"
    using 3 n by (intro reads_backD) auto
  moreover have "parse_elems dup m (?rest @ CHR '']'' # r) = Inr (map norm (w # vs), r)"
    using 3 n by (intro "3.IH") auto
  moreover have "plain w" using 3 by (simp add: reads_back_def)
  then have "skip_ws (?rest @ CHR '']'' # r) = ?rest @ CHR '']'' # r"
    using skip_ws_dumps[of w] by (cases vs) auto
  ultimately show ?case using n by simp
qed simp

lemma parse_member_dumps:
  assumes "isascii k" "reads_back dup v" "stops r" "2 * length (dump_member (k, v)) < n"
  shows "parse_string n (tl (dump_member (k, v)) @ r) = Inr (k, CHR '':'' # dumps v @ r)"
    and "parse_value dup n (dumps v @ r) = Inr (norm v, r)"
  using assms length_escapes[of k]
  by (auto simp: dump_member_def dump_string_ascii parse_string_dump intro!: reads_backD
      simp del: map_map)

lemma dump_member_cons: "dump_member p = CHR 0x22 # tl (dump_member p)"
  by (simp add: dump_member_def dump_string_def)

lemma parse_members_dumps:
  assumes "ps \<noteq> []" "\<forall>p\<in>set ps. isascii (fst p) \<and> reads_back dup (snd p)"
    "2 * length (join '','' (map dump_member ps)) + 1 < n"
  shows "parse_members dup n (join '','' (map dump_member ps) @ CHR ''}'' # r) =
    Inr (map (\<lambda>p. (fst p, norm (snd p))) ps, r)"
  using assms
proof (induction ps arbitrary: n rule: induct_list012)
  case (2 p)
  then obtain m where n: "n = Suc m" by (cases n) auto
  obtain k v where p: "p = (k, v)" by (cases p)
  note facts = parse_member_dumps[of k dup v "CHR ''}'' # r" m]
  have "plain v" using 2 p by (simp add: reads_back_def)
  then show ?case using 2 n p facts dump_member_cons[of "(k, v)"] skip_ws_dumps[of v]
    by (cases "dump_member (k, v)") auto
next
  case (3 p q ps)
  then obtain m where n: "n = Suc m" by (cases n) auto
  obtain k v where p: "p = (k, v)" by (cases p)
  let ?rest = "join '','' (map dump_member (q # ps)) @ CHR ''}'' # r"
  have len: "2 * length (dump_member (k, v)) < m" using 3 n p by auto
  have kv: "isascii k" "reads_back dup v" "plain v" using 3 p by (auto simp: reads_back_def)
  note facts = parse_member_dumps[OF kv(1,2) _ len, of "CHR '','' # ?rest"]
  have "parse_members dup m ?rest = Inr (map (\<lambda>p. (fst p, norm (snd p))) (q # ps), r)"
    using 3 n by (intro "3.IH") auto
  moreover have "skip_ws ?rest = ?rest"
    using dump_member_cons[of q] by (cases ps; cases "dump_member q") auto
  moreover have "skip_ws (dumps v @ CHR '','' # ?rest) = dumps v @ CHR '','' # ?rest"
    by (rule skip_ws_dumps[OF kv(3)])
  ultimately show ?case using n p facts dump_member_cons[of "(k, v)"]
    by (cases "dump_member (k, v)") auto
qed simp

lemma reads_backI:
  assumes "plain v"
    "\<And>m r. stops r \<Longrightarrow> 2 * length (dumps v) \<le> m \<Longrightarrow>
      parse_value dup (Suc m) (dumps v @ r) = Inr (norm v, r)"
  shows "reads_back dup v"
  unfolding reads_back_def
proof (intro conjI allI impI)
  fix n r assume "stops r" "2 * length (dumps v) < n"
  then show "parse_value dup n (dumps v @ r) = Inr (norm v, r)"
    using assms(2) by (cases n) auto
qed (rule assms(1))

lemma plain_reads_back:
  "plain v \<Longrightarrow> reads_back dup v"
proof (induction v rule: dumps.induct)
  case (6 vs)
  then have all: "\<forall>v\<in>set vs. reads_back dup v" by (auto simp: list_all_iff)
  show ?case
  proof (cases "vs = []")
    case True
    then show ?thesis by (intro reads_backI) auto
  next
    case False
    have "parse_value dup n (dumps (JArr vs) @ r) = Inr (norm (JArr vs), r)"
      if n: "2 * length (dumps (JArr vs)) < n" for n r
    proof -
      let ?body = "join '','' (map dumps vs) @ CHR '']'' # r"
      obtain m where m: "n = Suc m" using n by (cases n) auto
      have "parse_elems dup m ?body = Inr (map norm vs, r)"
        using False all n m by (intro parse_elems_dumps) auto
      moreover obtain v ws where vs: "vs = v # ws" using False by (cases vs) auto
      then have "plain v" using 6 by simp
      then have "skip_ws ?body = ?body \<and> \<not> startswith '']'' ?body"
        using vs skip_ws_dumps[of v] dumps_head[of v] by (cases ws) auto
      ultimately show ?thesis using m by simp
    qed
    then show ?thesis using 6 by (simp add: reads_back_def)
  qed
next
  case (7 ps)
  let ?qs = "sort_key fst ps"
  have set: "set ?qs = set ps" by simp
  have all: "\<forall>p\<in>set ?qs. isascii (fst p) \<and> reads_back dup (snd p)"
    using 7 by (auto simp: list_all_iff)
  have dist: "distinct (map fst ?qs)"
    using 7 by (metis distinct_map distinct_sort plain.simps(7) set_sort)
  show ?case
  proof (cases "ps = []")
    case True
    then show ?thesis by (intro reads_backI) auto
  next
    case False
    then have ne: "?qs \<noteq> []" by (metis set set_empty)
    have "parse_value dup n (dumps (JObj ps) @ r) = Inr (norm (JObj ps), r)"
      if n: "2 * length (dumps (JObj ps)) < n" for n r
    proof -
      let ?body = "join '','' (map dump_member ?qs) @ CHR ''}'' # r"
      obtain m where m: "n = Suc m" using n by (cases n) auto
      have "parse_members dup m ?body = Inr (map (\<lambda>p. (fst p, norm (snd p))) ?qs, r)"
        using ne all n m unfolding dumps_JObj by (intro parse_members_dumps) auto
      moreover obtain q qs where q: "?qs = q # qs" using ne by (cases ?qs) auto
      then have "skip_ws ?body = ?body \<and> \<not> startswith ''}'' ?body"
        using dump_member_cons[of q] by (cases qs; cases "dump_member q") auto
      ultimately show ?thesis using m dist unfolding dumps_JObj norm_JObj
        by (simp add: comp_def)
    qed
    then show ?thesis using 7 by (simp add: reads_back_def)
  qed
next
  case (3 i)
  have "parse_value dup n (show_int i @ r) = Inr (JInt i, r)" if r: "stops r" and n: "0 < n" for n r
  proof -
    obtain c t where ct: "show_nat (nat i) = c # t" "is_digit c" using show_nat_head by blast
    obtain m where m: "n = Suc m" using n by (cases n) auto
    have "parse_value dup n (show_int i @ r) = parse_atom (show_int i @ r)"
      using ct digit_not[of c] m by (auto simp: show_int_def)
    then show ?thesis using parse_atom_show[of r i] 3 r by simp
  qed
  with 3 show ?case by (simp add: reads_back_def)
next
  case (5 s)
  have "parse_value dup n (dump_string s @ r) = Inr (JStr s, r)"
    if n: "2 * length (dump_string s) < n" for n r
  proof -
    obtain m where m: "n = Suc m" using n by (cases n) auto
    have "length s < m"
      using n m 5 length_escapes[of s] by (simp add: dump_string_ascii del: map_map)
    then show ?thesis using m 5 parse_string_dump[of s m r] by (simp add: dump_string_ascii del: map_map)
  qed
  with 5 show ?case by (simp add: reads_back_def)
qed (auto simp: parse_atom_def intro!: reads_backI)

lemma loads_dumps:
  assumes "plain v"
  shows "loads dup (dumps v) = Inr (norm v)"
proof -
  have "skip_ws (dumps v) = dumps v" using skip_ws_dumps[OF assms, of "[]"] by simp
  moreover have "parse_value dup (2 * length (dumps v) + 1) (dumps v @ []) = Inr (norm v, [])"
    using plain_reads_back[OF assms] by (rule reads_backD) simp_all
  ultimately show ?thesis by (simp add: loads_def)
qed

section \<open>The fuel is enough\<close>

lemma skip_ws_length: "length (skip_ws s) \<le> length s"
  by (induction s) auto

lemma read_u_length: "read_u s = Some (n, r) \<Longrightarrow> length r < length s"
  by (induction s rule: read_u.induct) (auto split: if_splits)

lemma low_surrogate_length: "low_surrogate s = Some (n, r) \<Longrightarrow> length r < length s"
  by (induction s rule: low_surrogate.induct)
    (auto split: if_splits option.splits dest: read_u_length)

lemma string_item_length:
  "string_item s = SEnd r \<Longrightarrow> length r < length s"
  "string_item s = SItem x r \<Longrightarrow> length r < length s"
  by (auto simp: string_item_def split: list.splits if_splits option.splits
      dest!: read_u_length low_surrogate_length)

lemma parse_string_length: "parse_string n s = Inr (t, u) \<Longrightarrow> length u < length s"
proof (induction n arbitrary: s t)
  case (Suc n)
  then show ?case
    by (auto split: string_item.splits dest: string_item_length)
      (meson less_trans string_item_length(2))
qed simp

lemma take_digits_length: "length (snd (take_digits s)) \<le> length s"
  by (simp add: take_digits_def length_dropWhile_le)

lemma int_part_length: "fst (int_part s) \<noteq> [] \<Longrightarrow> length (snd (int_part s)) < length s"
proof (cases "\<exists>r. s = CHR ''0'' # r")
  case False
  assume "fst (int_part s) \<noteq> []"
  moreover have i: "int_part s = take_digits s"
    using False by (auto simp: int_part_def split: list.splits char.splits bool.splits)
  ultimately have "takeWhile is_digit s \<noteq> []" by (simp add: take_digits_def)
  then show ?thesis unfolding i take_digits_def snd_conv
    by (metis add.commute length_append length_greater_0_conv less_add_same_cancel1
        takeWhile_dropWhile_id)
qed (auto simp: int_part_def)

lemma fraction_length: "length (snd (fraction s)) \<le> length s"
proof (cases "\<exists>r. s = CHR ''.'' # r")
  case True
  then obtain r where "s = CHR ''.'' # r" ..
  then show ?thesis using take_digits_length[of r] by (simp add: fraction_def)
next
  case False
  then have "fraction s = ([], s)"
    by (auto simp: fraction_def split: list.splits char.splits bool.splits)
  then show ?thesis by simp
qed

lemma exponent_length: "length (snd (exponent s)) \<le> length s"
proof (cases s)
  case (Cons e r)
  have "length (snd (take_digits (drop k r))) \<le> length s" for k
    using take_digits_length[of "drop k r"] Cons by simp
  then show ?thesis using Cons by (simp add: exponent_def Let_def)
qed (simp add: exponent_def)

lemma parse_number_length:
  assumes "parse_number s = Inr (v, r)"
  shows "length r < length s"
proof -
  let ?t = "if startswith ''-'' s then tl s else s"
  have "fst (int_part ?t) \<noteq> []" using assms by (auto simp: parse_number_def Let_def split: if_splits)
  from int_part_length[OF this] have "length (snd (int_part ?t)) < length s" by (cases s) auto
  moreover have "r = snd (int_part ?t) \<or> r = snd (exponent (snd (fraction (snd (int_part ?t)))))"
    using assms by (auto simp: parse_number_def Let_def split: if_splits)
  ultimately show ?thesis
    using fraction_length exponent_length le_trans le_less_trans by metis
qed

lemma parse_atom_length:
  assumes "parse_atom s = Inr (v, r)"
  shows "length r < length s"
proof -
  have "s \<noteq> []" using assms by (auto simp: parse_atom_def parse_number_def int_part_def take_digits_def)
  then show ?thesis using assms parse_number_length
    by (auto simp: parse_atom_def split: if_splits)
qed

lemma expect_length: "expect c s = Inr r \<Longrightarrow> length r < length s"
  using skip_ws_length[of s] by (auto simp: expect_def split: list.splits if_splits)

lemma tl_skip_length: "startswith p (skip_ws s) \<Longrightarrow> p \<noteq> [] \<Longrightarrow> length (tl (skip_ws s)) < length s"
  using skip_ws_length[of s] by (cases "skip_ws s"; cases p) auto

lemma after_comma_length:
  "startswith '','' (skip_ws s) \<Longrightarrow> length (skip_ws (tl (skip_ws s))) < length s"
  using tl_skip_length[of "'',''" s] skip_ws_length[of "tl (skip_ws s)"] by simp

lemma parse_length:
  "parse_value dup n s = Inr (v, r) \<Longrightarrow> length r < length s"
  "parse_elems dup n s = Inr (vs, r) \<Longrightarrow> length r < length s"
  "parse_members dup n s = Inr (ps, r) \<Longrightarrow> length r < length s"
proof (induction n arbitrary: s v vs ps r)
  case (Suc n)
  note IH = Suc.IH
  {
    case 1
    then obtain c t where s: "s = c # t" by (cases s) auto
    have "length (tl (skip_ws t)) \<le> length t" using skip_ws_length[of t] by simp
    then show ?case using 1 skip_ws_length[of t] unfolding s
      by (auto split: if_splits dest!: parse_string_length parse_atom_length IH)
  next
    case 2
    then obtain w t where t: "parse_value dup n s = Inr (w, t)" by auto
    with 2 IH(1)[OF t] show ?case
      by (auto split: if_splits dest!: IH(2) expect_length after_comma_length)
  next
    case 3
    then obtain c t where s: "s = c # t" by (cases s) auto
    with 3 obtain k r1 r2 w r3 where
      k: "parse_string n t = Inr (k, r1)" "expect (CHR '':'') r1 = Inr r2"
        "parse_value dup n (skip_ws r2) = Inr (w, r3)"
      by (auto split: if_splits)
    have "length r1 < length t" "length r2 < length r1" "length r3 < length (skip_ws r2)"
      using k parse_string_length expect_length IH(1) by blast+
    with 3 s k skip_ws_length[of r2] show ?case
      by (auto split: if_splits dest!: IH(3) expect_length after_comma_length)
  }
qed simp_all

lemma parse_string_fuel: "length s < n \<Longrightarrow> length s < m \<Longrightarrow> parse_string n s = parse_string m s"
proof (induction n arbitrary: s m)
  case (Suc n)
  then obtain m' where m: "m = Suc m'" by (cases m) auto
  have "parse_string n r = parse_string m' r" if "string_item s = SItem x r" for x r
    using string_item_length(2)[OF that] Suc.prems m by (intro Suc.IH) auto
  with m show ?case by (auto split: string_item.splits)
qed simp

lemma parse_fuel:
  "2 * length s + 1 \<le> n \<Longrightarrow> 2 * length s + 1 \<le> m \<Longrightarrow> parse_value dup n s = parse_value dup m s"
  "2 * length s + 2 \<le> n \<Longrightarrow> 2 * length s + 2 \<le> m \<Longrightarrow> parse_elems dup n s = parse_elems dup m s"
  "2 * length s + 2 \<le> n \<Longrightarrow> 2 * length s + 2 \<le> m \<Longrightarrow> parse_members dup n s = parse_members dup m s"
proof (induction n arbitrary: s m)
  case (Suc n)
  note IH = Suc.IH
  {
    case 1
    then obtain m' where m: "m = Suc m'" by (cases m) auto
    show ?case
    proof (cases s)
      case (Cons c t)
      have "parse_string n t = parse_string m' t" using 1 m Cons by (intro parse_string_fuel) auto
      moreover have "parse_elems dup n (skip_ws t) = parse_elems dup m' (skip_ws t)"
        using 1 m Cons skip_ws_length[of t] by (intro IH(2)) auto
      moreover have "parse_members dup n (skip_ws t) = parse_members dup m' (skip_ws t)"
        using 1 m Cons skip_ws_length[of t] by (intro IH(3)) auto
      ultimately show ?thesis using Cons m by simp
    qed (simp add: m)
  next
    case 2
    then obtain m' where m: "m = Suc m'" by (cases m) auto
    have v: "parse_value dup n s = parse_value dup m' s" using 2 m by (intro IH(1)) auto
    have "parse_elems dup n (skip_ws (tl (skip_ws r))) = parse_elems dup m' (skip_ws (tl (skip_ws r)))"
      if "parse_value dup m' s = Inr (w, r)" "startswith '','' (skip_ws r)" for w r
      using 2 m parse_length(1)[OF that(1)] after_comma_length[OF that(2)] by (intro IH(2)) auto
    then show ?case unfolding m parse_elems.simps v by (intro bindE_cong) (auto split: prod.splits)
  next
    case 3
    then obtain m' where m: "m = Suc m'" by (cases m) auto
    show ?case
    proof (cases s)
      case (Cons c t)
      have k: "parse_string n t = parse_string m' t" using 3 m Cons by (intro parse_string_fuel) auto
      have v: "parse_value dup n (skip_ws r2) = parse_value dup m' (skip_ws r2)"
        if "parse_string m' t = Inr (k, r1)" "expect (CHR '':'') r1 = Inr r2" for k r1 r2
        using 3 m Cons parse_string_length[OF that(1)] expect_length[OF that(2)] skip_ws_length[of r2]
        by (intro IH(1)) auto
      have p: "parse_members dup n (skip_ws (tl (skip_ws r3))) =
          parse_members dup m' (skip_ws (tl (skip_ws r3)))"
        if "parse_string m' t = Inr (k, r1)" "expect (CHR '':'') r1 = Inr r2"
          "parse_value dup m' (skip_ws r2) = Inr (w, r3)" "startswith '','' (skip_ws r3)" for k r1 r2 w r3
        using 3 m Cons parse_string_length[OF that(1)] expect_length[OF that(2)] skip_ws_length[of r2]
          parse_length(1)[OF that(3)] after_comma_length[OF that(4)]
        by (intro IH(3)) auto
      show ?thesis unfolding m Cons parse_members.simps k list.case
        by (auto intro!: bindE_cong simp: v p split: prod.splits)
    qed (simp add: m)
  }
qed simp_all

end
