(* ===== verification/UnifiClient.thy ===== *)
theory UnifiClient
  imports Certificate Json
begin

text \<open>
  \<open>unifi_client.py\<close>: keytool metadata, the certificate request command, the preparation and
  verification of an import, and the client that composes the operations of an execution boundary.
  The boundary is a record of operations on a state; the executor and the socket client provide one each.
\<close>

section \<open>Constants and data\<close>

definition MAX_KEYTOOL_OUTPUT_CHARS :: nat where "MAX_KEYTOOL_OUTPUT_CHARS = 1024 * 1024"
definition MAX_METADATA_VALUE_CHARS :: nat where "MAX_METADATA_VALUE_CHARS = 256"
definition EXPECTED_ENTRY_TYPE :: string where "EXPECTED_ENTRY_TYPE = ''PrivateKeyEntry''"
definition MAX_ALIAS_CHARS :: nat where "MAX_ALIAS_CHARS = 256"
definition MAX_KEYSTORE_PATH_CHARS :: nat where "MAX_KEYSTORE_PATH_CHARS = 4096"
definition MAX_SUBJECT_DN_CHARS :: nat where "MAX_SUBJECT_DN_CHARS = 4096"
definition MAX_DNS_SAN_CHARS :: nat where "MAX_DNS_SAN_CHARS = 253"
definition MAX_IP_SAN_CHARS :: nat where "MAX_IP_SAN_CHARS = 64"
definition MAX_SAN_ENTRIES :: nat where "MAX_SAN_ENTRIES = 100"
definition MAX_PASSWORD_ENV_NAME_CHARS :: nat where "MAX_PASSWORD_ENV_NAME_CHARS = 128"
definition UNIFI_ALIAS :: string where "UNIFI_ALIAS = ''unifi''"
definition UNIFI_KEYSTORE_PATH :: string where "UNIFI_KEYSTORE_PATH = ''/config/data/keystore''"
definition UNIFI_PASSWORD_ENV_NAME :: string where "UNIFI_PASSWORD_ENV_NAME = ''UNIFI_KEYSTORE_PASSWORD''"
definition MAX_PUBLIC_CHAIN_LENGTH :: nat where "MAX_PUBLIC_CHAIN_LENGTH = 10"

record keystore_metadata =
  keystore_type :: string
  provider :: string

record alias_metadata =
  alias_name :: string
  entry_type :: string
  certificate_chain_length :: nat

record unifi_inspection =
  i_keystore :: keystore_metadata
  i_alias :: alias_metadata
  i_certificate :: certificate_info

record certificate_policy =
  expected_spki_sha256 :: string
  p_subject :: string
  p_dns_sans :: "string list"
  p_ip_sans :: "string list"

record public_keystore_state =
  keytool_output :: string
  certificate_chain_der :: "bytes list"

record certificate_import_request =
  before :: public_keystore_state
  policy :: certificate_policy
  csr_pem :: bytes
  issued_certificate :: bytes
  trusted_ca_data :: bytes
  lifetime_days :: int
  expected_signature_hash :: string
  expected_signature_oid :: string
  freshness_reference_time :: datetime

record certificate_import_plan =
  reply_pem :: bytes
  plan_chain_der :: "bytes list"
  issued :: certificate_info

abbreviation unifi_error :: "string \<Rightarrow> py_exc + 'a" where
  "unifi_error m \<equiv> Inl (UnifiOperationError m)"

abbreviation keytool_error :: "string \<Rightarrow> py_exc + 'a" where
  "keytool_error m \<equiv> Inl (KeytoolMetadataError m)"

abbreviation certreq_error :: "string \<Rightarrow> py_exc + 'a" where
  "certreq_error m \<equiv> Inl (CertreqCommandError m)"

section \<open>Keytool metadata\<close>

definition validate_metadata_value :: "string \<Rightarrow> string \<Rightarrow> py_exc + unit" where
  "validate_metadata_value value label =
     (if value = [] then keytool_error (label @ '' must not be empty'')
      else if py_len value > MAX_METADATA_VALUE_CHARS then keytool_error (label @ '' exceeds the size limit'')
      else if list_ex is_control value then keytool_error (label @ '' contains control characters'')
      else Inr ())"

text \<open>The occurrences of a label; the label of a message is lower case.\<close>

definition optional_single_value :: "string list \<Rightarrow> string \<Rightarrow> py_exc + string option" where
  "optional_single_value occurrences label = (case occurrences of
      [] \<Rightarrow> Inr None
    | [value] \<Rightarrow> bindE (validate_metadata_value value (lower label)) (\<lambda>_. Inr (Some value))
    | _ \<Rightarrow> keytool_error (lower label @ '' metadata is duplicated''))"

definition require_single_value :: "string list \<Rightarrow> string \<Rightarrow> py_exc + string" where
  "require_single_value occurrences label = bindE (optional_single_value occurrences label) (\<lambda>v.
     case v of None \<Rightarrow> keytool_error (lower label @ '' metadata is missing'') | Some x \<Rightarrow> Inr x)"

record alias_section =
  s_name :: "string list"
  s_entry_type :: "string list"
  s_chain_length :: "string list"

record keytool_scan =
  k_type :: "string list"
  k_provider :: "string list"
  k_sections :: "alias_section list"

definition on_last :: "('a \<Rightarrow> 'a) \<Rightarrow> 'a list \<Rightarrow> 'a list" where
  "on_last f xs = (if xs = [] then [] else butlast xs @ [f (last xs)])"

definition scan_line :: "keytool_scan \<Rightarrow> string \<Rightarrow> keytool_scan" where
  "scan_line k line = (case partition_char (CHR '':'') line of (raw_label, separator, raw_value) \<Rightarrow>
     let label = str_strip raw_label; value = str_strip raw_value
     in if \<not> separator then k
        else if label = ''Keystore type'' then k\<lparr> k_type := k_type k @ [value] \<rparr>
        else if label = ''Keystore provider'' then k\<lparr> k_provider := k_provider k @ [value] \<rparr>
        else if label = ''Alias name''
        then k\<lparr> k_sections := k_sections k @ [\<lparr> s_name = [value], s_entry_type = [], s_chain_length = [] \<rparr>] \<rparr>
        else if label = ''Entry type''
        then k\<lparr> k_sections := on_last (\<lambda>s. s\<lparr> s_entry_type := s_entry_type s @ [value] \<rparr>) (k_sections k) \<rparr>
        else if label = ''Certificate chain length''
        then k\<lparr> k_sections := on_last (\<lambda>s. s\<lparr> s_chain_length := s_chain_length s @ [value] \<rparr>) (k_sections k) \<rparr>
        else k)"

definition scan_keytool :: "string \<Rightarrow> keytool_scan" where
  "scan_keytool output =
     foldl scan_line \<lparr> k_type = [], k_provider = [], k_sections = [] \<rparr> (splitlines output)"

definition parse_keytool_metadata :: "string \<Rightarrow> string \<Rightarrow> py_exc + keystore_metadata \<times> alias_metadata" where
  "parse_keytool_metadata output expected_alias =
     (if output = [] then keytool_error ''keytool output must not be empty''
      else if py_len output > MAX_KEYTOOL_OUTPUT_CHARS then keytool_error ''keytool output exceeds the size limit''
      else
      bindE (validate_metadata_value expected_alias ''expected alias'') (\<lambda>_.
      let k = scan_keytool output in
      bindE (require_single_value (k_type k) ''Keystore type'') (\<lambda>ktype.
      bindE (require_single_value (k_provider k) ''Keystore provider'') (\<lambda>prov.
      bindE (mapE (\<lambda>s. bindE (optional_single_value (s_name s) ''Alias name'') (\<lambda>v. Inr (v, s))) (k_sections k)) (\<lambda>named.
      case filter (\<lambda>p. fst p = Some expected_alias) named of
        [] \<Rightarrow> Inl (ExpectedAliasNotFoundError ''expected alias is missing'')
      | [p] \<Rightarrow>
        bindE (require_single_value (s_name (snd p)) ''Alias name'') (\<lambda>name.
        bindE (require_single_value (s_entry_type (snd p)) ''Entry type'') (\<lambda>entry.
        if entry \<noteq> EXPECTED_ENTRY_TYPE
        then Inl (UnexpectedEntryTypeError ''expected alias does not contain a PrivateKeyEntry'')
        else bindE (require_single_value (s_chain_length (snd p)) ''Certificate chain length'') (\<lambda>text.
        if \<not> list_all is_digit text then keytool_error ''certificate chain length is not a valid integer''
        else if read_nat text < 1 then keytool_error ''certificate chain length must be positive''
        else Inr (\<lparr> keystore_type = ktype, provider = prov \<rparr>,
                  \<lparr> alias_name = name, entry_type = entry, certificate_chain_length = read_nat text \<rparr>))))
      | _ \<Rightarrow> keytool_error ''expected alias metadata is duplicated'')))))"

definition inspect_unifi_certificate :: "x509_lib \<Rightarrow> string \<Rightarrow> bytes \<Rightarrow> py_exc + unifi_inspection" where
  "inspect_unifi_certificate L output der =
     bindE (parse_keytool_metadata output UNIFI_ALIAS) (\<lambda>(keystore, alias).
     bindE (inspect_certificate L der) (\<lambda>certificate.
     Inr \<lparr> i_keystore = keystore, i_alias = alias, i_certificate = certificate \<rparr>))"

definition inspect_public_keystore_state :: "x509_lib \<Rightarrow> public_keystore_state \<Rightarrow> py_exc + unifi_inspection" where
  "inspect_public_keystore_state L state =
     (let chain = certificate_chain_der state in
      if \<not> (1 \<le> length chain \<and> length chain \<le> MAX_PUBLIC_CHAIN_LENGTH)
      then unifi_error ''invalid public certificate chain length''
      else
      bindE (forE (\<lambda>der. if length der > MAX_CERTIFICATE_DER_BYTES
                        then unifi_error ''invalid public certificate chain data''
                        else bindE (inspect_certificate L der) (\<lambda>_. Inr ())) chain) (\<lambda>_.
      bindE (inspect_unifi_certificate L (keytool_output state) (hd chain)) (\<lambda>inspection.
      if i_keystore inspection \<noteq> \<lparr> keystore_type = ''PKCS12'', provider = ''SUN'' \<rparr>
      then unifi_error ''unsupported UniFi keystore type or provider''
      else if certificate_chain_length (i_alias inspection) \<noteq> length chain
      then unifi_error ''public chain does not match keytool chain length''
      else Inr inspection)))"

section \<open>The certificate request command\<close>

definition unsafe_text_char :: "x509_lib \<Rightarrow> nat \<Rightarrow> bool" where
  "unsafe_text_char L n \<longleftrightarrow> n < 32 \<or> n = 127 \<or> 128 \<le> n \<and> unsafe_category L n"

definition validate_bounded_text :: "x509_lib \<Rightarrow> string \<Rightarrow> string \<Rightarrow> nat \<Rightarrow> py_exc + unit" where
  "validate_bounded_text L value label maximum =
     (if value = [] then certreq_error (label @ '' must not be empty'')
      else if py_len value > maximum then certreq_error (label @ '' exceeds the size limit'')
      else if list_ex (unsafe_text_char L) (code_points value)
      then certreq_error (label @ '' contains control characters'')
      else Inr ())"

definition validate_keystore_path :: "x509_lib \<Rightarrow> string \<Rightarrow> py_exc + unit" where
  "validate_keystore_path L path =
     bindE (validate_bounded_text L path ''keystore path'' MAX_KEYSTORE_PATH_CHARS) (\<lambda>_.
     if \<not> startswith ''/'' path then certreq_error ''keystore path must be an absolute POSIX path''
     else if ''..'' \<in> set (split_char (CHR ''/'') path)
     then certreq_error ''keystore path must not contain parent traversal''
     else Inr ())"

definition posix_identifier :: "string \<Rightarrow> bool" where
  "posix_identifier s \<longleftrightarrow> s \<noteq> [] \<and> (is_upper (hd s) \<or> is_lower (hd s) \<or> hd s = CHR ''_'') \<and>
     list_all (\<lambda>c. is_alnum c \<or> c = CHR ''_'') s"

definition validate_password_env_name :: "string \<Rightarrow> py_exc + unit" where
  "validate_password_env_name name =
     (if py_len name > MAX_PASSWORD_ENV_NAME_CHARS
      then certreq_error ''password environment-variable name exceeds the size limit''
      else if \<not> posix_identifier name
      then certreq_error ''password environment-variable name must be a POSIX identifier''
      else Inr ())"

text \<open>\<open>[A-Za-z0-9](?:[A-Za-z0-9-]{0,61}[A-Za-z0-9])?\<close>\<close>

definition dns_label :: "string \<Rightarrow> bool" where
  "dns_label s \<longleftrightarrow> s \<noteq> [] \<and> length s \<le> 63 \<and> is_alnum (hd s) \<and> is_alnum (last s) \<and>
     list_all (\<lambda>c. is_alnum c \<or> c = CHR ''-'') s"

definition check_dns_san :: "x509_lib \<Rightarrow> string list \<Rightarrow> string \<Rightarrow> py_exc + string list" where
  "check_dns_san L seen value =
     bindE (validate_bounded_text L value ''DNS SAN'' MAX_DNS_SAN_CHARS) (\<lambda>_.
     if \<not> isascii value then certreq_error ''DNS SAN must be an ASCII DNS name''
     else if \<not> list_all dns_label (split_char (CHR ''.'') value)
     then certreq_error ''DNS SAN is not a valid DNS name''
     else if lower value \<in> set seen then certreq_error ''duplicate DNS SAN is not allowed''
     else Inr (seen @ [lower value]))"

definition validate_dns_sans :: "x509_lib \<Rightarrow> string list \<Rightarrow> py_exc + string list" where
  "validate_dns_sans L values =
     (if length values > MAX_SAN_ENTRIES then certreq_error ''DNS SAN count exceeds the size limit''
      else bindE (foldE (check_dns_san L) [] values) (\<lambda>_. Inr values))"

definition check_ip_san :: "x509_lib \<Rightarrow> string list \<Rightarrow> string \<Rightarrow> py_exc + string list" where
  "check_ip_san L seen value =
     bindE (validate_bounded_text L value ''IP SAN'' MAX_IP_SAN_CHARS) (\<lambda>_.
     if CHR ''%'' \<in> set value then certreq_error ''IP SAN must not contain a scope identifier''
     else case ip_address value of
       Inl _ \<Rightarrow> certreq_error ''IP SAN is not a valid IP address''
     | Inr a \<Rightarrow> if show_ip a \<in> set seen then certreq_error ''duplicate IP SAN is not allowed''
         else Inr (seen @ [show_ip a]))"

definition validate_ip_sans :: "x509_lib \<Rightarrow> string list \<Rightarrow> py_exc + string list" where
  "validate_ip_sans L values =
     (if length values > MAX_SAN_ENTRIES then certreq_error ''IP SAN count exceeds the size limit''
      else foldE (check_ip_san L) [] values)"

definition san_extension :: "string list \<Rightarrow> string list \<Rightarrow> string" where
  "san_extension dns ips = ''SAN='' @ join '','' (map (\<lambda>n. ''DNS:'' @ n) dns @ map (\<lambda>a. ''IP:'' @ a) ips)"

definition certreq_argv :: "string \<Rightarrow> string \<Rightarrow> string \<Rightarrow> string \<Rightarrow> string \<Rightarrow> string list" where
  "certreq_argv alias path env_name subj ext =
     [''keytool'', ''-certreq'', ''-alias'', alias, ''-keystore'', path, ''-storepass:env'', env_name,
      ''-keypass:env'', env_name, ''-dname'', subj, ''-ext'', ext, ''-rfc'']"

definition build_keytool_certreq_command ::
  "x509_lib \<Rightarrow> string \<Rightarrow> string \<Rightarrow> string \<Rightarrow> string \<Rightarrow> string list \<Rightarrow> string list \<Rightarrow> py_exc + string list" where
  "build_keytool_certreq_command L alias path env_name subj dns ips =
     bindE (validate_bounded_text L alias ''alias'' MAX_ALIAS_CHARS) (\<lambda>_.
     bindE (validate_keystore_path L path) (\<lambda>_.
     bindE (validate_bounded_text L subj ''subject DN'' MAX_SUBJECT_DN_CHARS) (\<lambda>_.
     bindE (validate_password_env_name env_name) (\<lambda>_.
     bindE (validate_dns_sans L dns) (\<lambda>vdns.
     bindE (validate_ip_sans L ips) (\<lambda>vips.
     if length vdns + length vips > MAX_SAN_ENTRIES then certreq_error ''SAN count exceeds the size limit''
     else if vdns = [] \<and> vips = [] then certreq_error ''at least one DNS or IP SAN is required''
     else Inr (certreq_argv alias path env_name subj (san_extension vdns vips))))))))"

definition build_unifi_csr_command :: "x509_lib \<Rightarrow> certificate_policy \<Rightarrow> py_exc + string list" where
  "build_unifi_csr_command L p =
     (if \<not> hex_string 64 (expected_spki_sha256 p) then unifi_error ''invalid expected SPKI SHA-256''
      else
      bindE (build_keytool_certreq_command L UNIFI_ALIAS UNIFI_KEYSTORE_PATH UNIFI_PASSWORD_ENV_NAME
               (p_subject p) (p_dns_sans p) (p_ip_sans p)) (\<lambda>argv.
      bindE (catchE (rfc4514_name L (p_subject p)) (\<lambda>e. if is_ValueError e
               then unifi_error ''invalid configured subject DN'' else Inl e)) (\<lambda>_.
      Inr (''/usr/bin/keytool'' # tl argv @ [''-sigalg'', ''SHA384withRSA'']))))"

definition validate_requested_csr :: "x509_lib \<Rightarrow> bytes \<Rightarrow> certificate_policy \<Rightarrow> py_exc + csr_info" where
  "validate_requested_csr L pem p =
     bindE (build_unifi_csr_command L p) (\<lambda>_.
     bindE (inspect_csr L pem) (\<lambda>info.
     bindE (validate_csr_spki info (expected_spki_sha256 p)) (\<lambda>_.
     bindE (rfc4514_name L (p_subject p)) (\<lambda>expected_subject.
     if q_info_subject info \<noteq> expected_subject then unifi_error ''CSR subject differs from configured policy''
     else
     bindE (mapE ip_address (p_ip_sans p)) (\<lambda>ips.
     if q_unsupported_san_types info \<noteq> [] \<or>
        length (q_dns_sans info) \<noteq> length (p_dns_sans p) \<or>
        set (map lower (q_dns_sans info)) \<noteq> set (map lower (p_dns_sans p)) \<or>
        length (q_ip_sans info) \<noteq> length (p_ip_sans p) \<or>
        set (q_ip_sans info) \<noteq> set (map show_ip ips)
     then unifi_error ''CSR SANs differ from configured policy''
     else if q_public_key_algorithm info \<noteq> ''RSA'' \<or>
             q_public_key_size info \<notin> {Some 2048, Some 3072, Some 4096}
     then unifi_error ''CSR key is unsupported for signing''
     else if q_signature_hash_algorithm info \<notin> {Some ''sha256'', Some ''sha384'', Some ''sha512''}
     then unifi_error ''CSR signature hash is unsupported for signing''
     else Inr info)))))"

section \<open>Preparing and verifying an import\<close>

definition prepare_certificate_import ::
  "x509_lib \<Rightarrow> instant \<Rightarrow> certificate_import_request \<Rightarrow> datetime option \<Rightarrow> py_exc + certificate_import_plan" where
  "prepare_certificate_import L clock r now =
     bindE (inspect_public_keystore_state L (before r)) (\<lambda>b.
     bindE (validate_requested_csr L (csr_pem r) (policy r)) (\<lambda>q.
     bindE (validate_csr_spki q (info_spki_sha256 (i_certificate b))) (\<lambda>_.
     bindE (build_validated_certificate_reply L clock (issued_certificate r) q (trusted_ca_data r)
              (lifetime_days r) (expected_signature_hash r) (expected_signature_oid r)
              (freshness_reference_time r) now) (\<lambda>(info, chain, reply).
     Inr \<lparr> reply_pem = reply, plan_chain_der = chain, issued = info \<rparr>))))"

definition verify_certificate_import ::
  "x509_lib \<Rightarrow> instant \<Rightarrow> public_keystore_state \<Rightarrow> certificate_import_request \<Rightarrow> datetime option \<Rightarrow>
   py_exc + unifi_inspection" where
  "verify_certificate_import L clock found r now =
     bindE (prepare_certificate_import L clock r now) (\<lambda>plan.
     bindE (inspect_public_keystore_state L found) (\<lambda>inspection.
     if info_spki_sha256 (i_certificate inspection) \<noteq> info_spki_sha256 (issued plan)
     then unifi_error ''post-import public key changed''
     else if certificate_sha256 (i_certificate inspection) \<noteq> certificate_sha256 (issued plan)
     then unifi_error ''post-import certificate fingerprint differs from issued''
     else if i_certificate inspection \<noteq> issued plan
     then unifi_error ''post-import certificate metadata differs from issued''
     else if certificate_chain_der found \<noteq> plan_chain_der plan
     then unifi_error ''post-import public certificate chain differs from issued''
     else Inr inspection))"

section \<open>Lemmas on the request command\<close>

lemma foldE_all:
  "foldE f b xs = Inr r \<Longrightarrow> (\<And>b x b'. f b x = Inr b' \<Longrightarrow> P x) \<Longrightarrow> list_all P xs"
  by (induction xs arbitrary: b) auto

lemma check_dns_san_ok:
  "check_dns_san L seen v = Inr seen' \<longleftrightarrow> validate_bounded_text L v ''DNS SAN'' MAX_DNS_SAN_CHARS = Inr () \<and>
   isascii v \<and> list_all dns_label (split_char (CHR ''.'') v) \<and> lower v \<notin> set seen \<and> seen' = seen @ [lower v]"
  by (auto simp: check_dns_san_def)

lemma dns_sans_fold:
  "foldE (check_dns_san L) seen vs = Inr seen' \<Longrightarrow> distinct seen \<Longrightarrow>
   seen' = seen @ map lower vs \<and> distinct seen'"
proof (induction vs arbitrary: seen)
  case (Cons v vs)
  then have "lower v \<notin> set seen" "foldE (check_dns_san L) (seen @ [lower v]) vs = Inr seen'"
    by (auto simp: check_dns_san_ok)
  moreover from this(1) Cons.prems(2) have "distinct (seen @ [lower v])" by simp
  ultimately have "seen' = (seen @ [lower v]) @ map lower vs \<and> distinct seen'" by (intro Cons.IH)
  then show ?case by (elim conjE) simp
qed simp

lemma check_ip_san_ok:
  "check_ip_san L seen v = Inr seen' \<longleftrightarrow> validate_bounded_text L v ''IP SAN'' MAX_IP_SAN_CHARS = Inr () \<and>
   CHR ''%'' \<notin> set v \<and> (\<exists>a. ip_address v = Inr a \<and> show_ip a \<notin> set seen \<and> seen' = seen @ [show_ip a])"
  by (auto simp: check_ip_san_def split: sum.splits)

lemma ip_sans_fold:
  "foldE (check_ip_san L) seen vs = Inr seen' \<Longrightarrow> distinct seen \<Longrightarrow>
   (\<exists>as. list_all2 (\<lambda>v a. ip_address v = Inr a \<and> CHR ''%'' \<notin> set v) vs as \<and> seen' = seen @ map show_ip as) \<and>
   distinct seen'"
proof (induction vs arbitrary: seen)
  case (Cons v vs)
  then obtain a where a: "ip_address v = Inr a" "show_ip a \<notin> set seen" "CHR ''%'' \<notin> set v"
    "foldE (check_ip_san L) (seen @ [show_ip a]) vs = Inr seen'"
    by (auto simp: check_ip_san_ok)
  then obtain as where "list_all2 (\<lambda>v a. ip_address v = Inr a \<and> CHR ''%'' \<notin> set v) vs as"
    "seen' = (seen @ [show_ip a]) @ map show_ip as" "distinct seen'"
    using Cons by fastforce
  then show ?case using a by (intro conjI exI[of _ "a # as"]) auto
qed simp

lemma dns_label_chars: "dns_label s \<Longrightarrow> CHR '','' \<notin> set s"
  by (auto simp: dns_label_def list_all_iff is_alnum_def is_digit_def is_upper_def is_lower_def ordc_def)

lemma split_char_set: "x \<in> set s \<Longrightarrow> x \<noteq> c \<Longrightarrow> \<exists>p\<in>set (split_char c s). x \<in> set p"
proof (induction s)
  case (Cons y s)
  then show ?case by (cases "split_char c s") (auto split: if_splits)
qed simp

lemma dns_san_no_comma: "list_all dns_label (split_char (CHR ''.'') v) \<Longrightarrow> CHR '','' \<notin> set v"
  using split_char_set[of "CHR '',''" v "CHR ''.''"] dns_label_chars
  by (auto simp: list_all_iff)

lemma comma_not_digit: "\<not> is_digit (CHR '','')"
  by (simp add: is_digit_def ordc_def)

lemma show_hex_no_comma: "CHR '','' \<notin> set (show_hex n)"
proof (induction n rule: show_hex.induct)
  case (1 n)
  have "CHR '','' \<noteq> char_of (48 + n mod 16)" "CHR '','' \<noteq> char_of (87 + n mod 16)"
    by (auto dest!: arg_cong[where f = ordc] simp: ordc_char_of) (auto simp: ordc_def)
  with 1 show ?case by (subst show_hex.simps) (auto simp: Let_def)
qed

lemma join_no: "(\<And>p. p \<in> set ps \<Longrightarrow> c \<notin> set p) \<Longrightarrow> c \<notin> set sep \<Longrightarrow> c \<notin> set (join sep ps)"
  by (induction ps rule: induct_list012) auto

lemma show_ipv4_no_comma: "CHR '','' \<notin> set (show_ipv4 n)"
  unfolding show_ipv4_def by (rule join_no) (auto simp: show_nat_no[OF comma_not_digit])

lemma compress_in: "p \<in> set (compress_hextets hs) \<Longrightarrow> p = [] \<or> p \<in> set hs"
  by (auto simp: compress_hextets_def split: prod.splits if_splits dest: in_set_takeD in_set_dropD)

lemma show_ipv6_no_comma: "CHR '','' \<notin> set (show_ipv6_int n)"
  unfolding show_ipv6_int_def
  by (rule join_no) (auto dest!: compress_in simp: show_hex_no_comma)

lemma partition_char_no_sep: "c \<notin> set s \<Longrightarrow> partition_char c s = (s, False, [])"
  by (induction s) auto

lemma ip_address_no_scope:
  "ip_address v = Inr a \<Longrightarrow> CHR ''%'' \<notin> set v \<Longrightarrow> (\<exists>n. a = IPv4 n) \<or> (\<exists>n. a = IPv6 n None)"
  by (auto simp: ip_address_def parse_ipv6_def Let_def partition_char_no_sep
      split: if_splits option.splits prod.splits)

lemma ip_san_no_comma:
  assumes "ip_address v = Inr a" "CHR ''%'' \<notin> set v"
  shows "CHR '','' \<notin> set (show_ip a)"
  using ip_address_no_scope[OF assms]
  by (auto simp: show_ipv4_no_comma show_ipv6_no_comma split: if_splits)

lemma split_join:
  assumes "ps \<noteq> []" "\<And>p. p \<in> set ps \<Longrightarrow> c \<notin> set p"
  shows "split_char c (join [c] ps) = ps"
  using assms by (induction ps rule: induct_list012) (auto simp: split_char_join)

lemma build_keytool_certreq_command_ok:
  assumes "build_keytool_certreq_command L alias path env_name subj dns ips = Inr argv"
  obtains canonical where
    "argv = certreq_argv alias path env_name subj (san_extension dns (map show_ip canonical))"
    "list_all2 (\<lambda>v a. ip_address v = Inr a \<and> CHR ''%'' \<notin> set v) ips canonical"
    "list_all (\<lambda>v. list_all dns_label (split_char (CHR ''.'') v)) dns"
    "distinct (map lower dns)" "distinct (map show_ip canonical)" "dns \<noteq> [] \<or> canonical \<noteq> []"
    "length dns + length canonical \<le> MAX_SAN_ENTRIES"
proof -
  obtain seen vips where f: "foldE (check_dns_san L) [] dns = Inr seen"
      "foldE (check_ip_san L) [] ips = Inr vips"
      "length dns + length vips \<le> MAX_SAN_ENTRIES" "dns \<noteq> [] \<or> vips \<noteq> []"
    and a: "argv = certreq_argv alias path env_name subj (san_extension dns vips)"
    using assms by (auto simp: build_keytool_certreq_command_def validate_dns_sans_def validate_ip_sans_def)
  from ip_sans_fold[OF f(2)] obtain canonical where c:
    "list_all2 (\<lambda>v a. ip_address v = Inr a \<and> CHR ''%'' \<notin> set v) ips canonical"
    "vips = map show_ip canonical" "distinct vips" by auto
  have "list_all (\<lambda>v. list_all dns_label (split_char (CHR ''.'') v)) dns"
    by (rule foldE_all[OF f(1)]) (simp add: check_dns_san_ok)
  moreover have "distinct (map lower dns)" using dns_sans_fold[OF f(1)] by auto
  ultimately show thesis using that[of canonical] c f a by auto
qed

text \<open>
  C11. No name of the policy can smuggle another name or option into the request: the command is the
  fixed argument vector of the fixed alias, key store and password variable, and splitting its subject
  alternative name option at commas gives back exactly one \<open>DNS\<close> entry per configured DNS name and one
  \<open>IP\<close> entry per configured address in canonical form, all of them distinct.
\<close>

theorem csr_command_names_exactly_the_policy:
  assumes "build_unifi_csr_command L p = Inr argv"
  shows "\<exists>addresses. list_all2 (\<lambda>v a. ip_address v = Inr a) (p_ip_sans p) addresses \<and>
    (\<exists>names. split_char (CHR '','') names =
        map (\<lambda>d. ''DNS:'' @ d) (p_dns_sans p) @ map (\<lambda>a. ''IP:'' @ show_ip a) addresses \<and>
      argv = [''/usr/bin/keytool'', ''-certreq'', ''-alias'', ''unifi'', ''-keystore'', ''/config/data/keystore'',
        ''-storepass:env'', ''UNIFI_KEYSTORE_PASSWORD'', ''-keypass:env'', ''UNIFI_KEYSTORE_PASSWORD'',
        ''-dname'', p_subject p, ''-ext'', ''SAN='' @ names, ''-rfc'', ''-sigalg'', ''SHA384withRSA'']) \<and>
    distinct (map lower (p_dns_sans p)) \<and> distinct (map show_ip addresses)"
proof -
  obtain inner where i: "build_keytool_certreq_command L UNIFI_ALIAS UNIFI_KEYSTORE_PATH
      UNIFI_PASSWORD_ENV_NAME (p_subject p) (p_dns_sans p) (p_ip_sans p) = Inr inner"
    and argv: "argv = ''/usr/bin/keytool'' # tl inner @ [''-sigalg'', ''SHA384withRSA'']"
    using assms by (auto simp: build_unifi_csr_command_def)
  from build_keytool_certreq_command_ok[OF i] obtain as where as:
    "inner = certreq_argv UNIFI_ALIAS UNIFI_KEYSTORE_PATH UNIFI_PASSWORD_ENV_NAME (p_subject p)
       (san_extension (p_dns_sans p) (map show_ip as))"
    "list_all2 (\<lambda>v a. ip_address v = Inr a \<and> CHR ''%'' \<notin> set v) (p_ip_sans p) as"
    "list_all (\<lambda>v. list_all dns_label (split_char (CHR ''.'') v)) (p_dns_sans p)"
    "distinct (map lower (p_dns_sans p))" "distinct (map show_ip as)" "p_dns_sans p \<noteq> [] \<or> as \<noteq> []"
    by blast
  let ?parts = "map (\<lambda>d. ''DNS:'' @ d) (p_dns_sans p) @ map (\<lambda>a. ''IP:'' @ show_ip a) as"
  have "CHR '','' \<notin> set (show_ip a)" if "a \<in> set as" for a
    using as(2) that ip_san_no_comma by (auto simp: list_all2_conv_all_nth in_set_conv_nth)
  moreover have "CHR '','' \<notin> set d" if "d \<in> set (p_dns_sans p)" for d
    using as(3) that dns_san_no_comma by (auto simp: list_all_iff)
  ultimately have "split_char (CHR '','') (join '','' ?parts) = ?parts"
    using as(6) by (intro split_join) auto
  moreover have "san_extension (p_dns_sans p) (map show_ip as) = ''SAN='' @ join '','' ?parts"
    by (simp add: san_extension_def comp_def)
  moreover have "list_all2 (\<lambda>v a. ip_address v = Inr a) (p_ip_sans p) as"
    using as(2) by (rule list_all2_mono) simp
  ultimately show ?thesis using argv as(1,4,5)
    by (intro exI[of _ as] conjI exI[of _ "join '','' ?parts"])
      (simp_all add: certreq_argv_def UNIFI_ALIAS_def UNIFI_KEYSTORE_PATH_def UNIFI_PASSWORD_ENV_NAME_def)
qed

section \<open>Lemmas on imports\<close>

lemma certificate_info_spki_hex:
  assumes "sha256_hex L" "certificate_info L c = Inr info"
  shows "lhex_string 64 (info_spki_sha256 info)"
proof -
  obtain x where x: "certificate_info_parts L c = Inr x" "info_spki_sha256 info = snd (snd (snd (snd x)))"
    using assms(2) by (auto simp: certificate_info_def split: prod.splits)
  have "\<exists>k. spki_sha256 L k = Inr (snd (snd (snd (snd x))))"
    using x(1) unfolding certificate_info_parts_def by (subst (asm) catchE_always_Inl; auto)
  with x(2) spki_sha256_hex[OF assms(1)] show ?thesis by auto
qed

lemma inspect_certificate_ok:
  assumes "inspect_certificate L der = Inr info"
  shows "\<exists>c. load_der L der = Inr c \<and> certificate_info L c = Inr info"
  using assms unfolding inspect_certificate_def
  by (auto split: if_splits simp: catchE_always_Inl)

lemma inspect_public_state_ok:
  assumes "inspect_public_keystore_state L st = Inr i"
  shows "1 \<le> length (certificate_chain_der st) \<and> length (certificate_chain_der st) \<le> 10 \<and>
    parse_keytool_metadata (keytool_output st) ''unifi'' = Inr (i_keystore i, i_alias i) \<and>
    inspect_certificate L (hd (certificate_chain_der st)) = Inr (i_certificate i) \<and>
    i_keystore i = \<lparr> keystore_type = ''PKCS12'', provider = ''SUN'' \<rparr> \<and>
    certificate_chain_length (i_alias i) = length (certificate_chain_der st)"
  using assms
  by (auto simp: inspect_public_keystore_state_def inspect_unifi_certificate_def Let_def
      MAX_PUBLIC_CHAIN_LENGTH_def UNIFI_ALIAS_def split: prod.splits)

lemma reply_ok:
  assumes "build_validated_certificate_reply L clock data q ca_data ld h oid fr now = Inr (info, chain, reply)"
  shows "\<exists>ca_pem leaf ca. validate_installation_ca L clock ca_data now = Inr ca_pem \<and>
    validate_issued_certificate L clock data q ca_pem ld h oid fr now DEFAULT_CLOCK_SKEW = Inr info \<and>
    load_one_certificate L data MAX_ISSUED_CERTIFICATE_BYTES ''issued certificate'' = Inr leaf \<and>
    load_pem L ca_pem = Inr ca \<and> chain = [c_der leaf, c_der ca] \<and> reply = c_pem leaf @ ca_pem"
  using assms by (auto simp: build_validated_certificate_reply_def Let_def split: if_splits)

lemma issued_key_is_the_request:
  assumes "validate_issued_certificate L clock data q ca ld h oid fr now skew = Inr info"
  shows "info_spki_sha256 info = q_spki_sha256 q" "subject info = q_info_subject q"
    "signature_hash_algorithm info = Some h" "signature_algorithm_oid info = oid"
  using assms by (auto simp: validate_issued_certificate_def)

lemma validate_requested_csr_ok:
  assumes "validate_requested_csr L pem p = Inr q"
  shows "inspect_csr L pem = Inr q" "validate_csr_spki q (expected_spki_sha256 p) = Inr ()"
    "rfc4514_name L (p_subject p) = Inr (q_info_subject q)"
  using assms by (auto simp: validate_requested_csr_def)

lemma prepare_ok:
  assumes "prepare_certificate_import L clock r now = Inr plan"
  obtains b q where "inspect_public_keystore_state L (before r) = Inr b"
    "validate_requested_csr L (csr_pem r) (policy r) = Inr q"
    "validate_csr_spki q (info_spki_sha256 (i_certificate b)) = Inr ()"
    "build_validated_certificate_reply L clock (issued_certificate r) q (trusted_ca_data r)
       (lifetime_days r) (expected_signature_hash r) (expected_signature_oid r)
       (freshness_reference_time r) now = Inr (issued plan, plan_chain_der plan, reply_pem plan)"
  using assms by (auto simp: prepare_certificate_import_def)

lemma prepared_spki:
  assumes "sha256_hex L" "prepare_certificate_import L clock r now = Inr plan"
    "inspect_public_keystore_state L (before r) = Inr b"
  shows "info_spki_sha256 (issued plan) = info_spki_sha256 (i_certificate b)"
    "info_spki_sha256 (issued plan) = lower (expected_spki_sha256 (policy r))"
proof -
  from prepare_ok[OF assms(2)] assms(3) obtain q where q:
    "validate_requested_csr L (csr_pem r) (policy r) = Inr q"
    "validate_csr_spki q (info_spki_sha256 (i_certificate b)) = Inr ()"
    "build_validated_certificate_reply L clock (issued_certificate r) q (trusted_ca_data r)
       (lifetime_days r) (expected_signature_hash r) (expected_signature_oid r)
       (freshness_reference_time r) now = Inr (issued plan, plan_chain_der plan, reply_pem plan)"
    by auto
  have i: "info_spki_sha256 (issued plan) = q_spki_sha256 q"
    using reply_ok[OF q(3)] issued_key_is_the_request(1) by blast
  obtain c where "certificate_info L c = Inr (i_certificate b)"
    using inspect_public_state_ok[OF assms(3)] inspect_certificate_ok by blast
  then have "lhex_string 64 (info_spki_sha256 (i_certificate b))"
    using certificate_info_spki_hex assms(1) by blast
  then show "info_spki_sha256 (issued plan) = info_spki_sha256 (i_certificate b)"
    using q(2) i lower_lhex_string by (simp add: validate_csr_spki_ok)
  show "info_spki_sha256 (issued plan) = lower (expected_spki_sha256 (policy r))"
    using validate_requested_csr_ok(2)[OF q(1)] i by (simp add: validate_csr_spki_ok)
qed

lemma verify_ok:
  assumes "verify_certificate_import L clock st r now = Inr i"
  obtains plan where "prepare_certificate_import L clock r now = Inr plan"
    "inspect_public_keystore_state L st = Inr i" "i_certificate i = issued plan"
    "certificate_chain_der st = plan_chain_der plan"
  using assms by (auto simp: verify_certificate_import_def)

text \<open>
  C7. A key store that passes the post-import verification holds the same private key entry as before
  with the issued certificate in it: its PKCS12 entry has the key fingerprint of the key store before
  the import, which is the configured one, and its chain is exactly the issued leaf, which satisfied the
  full leaf policy against the request, followed by the single configured CA.
\<close>

theorem verified_import_is_the_issued_chain:
  assumes "sha256_hex L" "verify_certificate_import L clock st r now = Inr i"
  shows "\<exists>b q ca_pem leaf ca time reference.
    inspect_public_keystore_state L (before r) = Inr b \<and>
    inspect_csr L (csr_pem r) = Inr q \<and>
    validate_installation_ca L clock (trusted_ca_data r) now = Inr ca_pem \<and> load_pem L ca_pem = Inr ca \<and>
    load_one_certificate L (issued_certificate r) MAX_ISSUED_CERTIFICATE_BYTES ''issued certificate'' = Inr leaf \<and>
    acceptable_leaf L q ca_pem (lifetime_days r) (expected_signature_hash r) (expected_signature_oid r)
      time reference DEFAULT_CLOCK_SKEW leaf (i_certificate i) \<and>
    certificate_chain_der st = [c_der leaf, c_der ca] \<and>
    certificate_sha256 (i_certificate i) = sha256 L (c_der leaf) \<and>
    info_spki_sha256 (i_certificate i) = info_spki_sha256 (i_certificate b) \<and>
    info_spki_sha256 (i_certificate i) = lower (expected_spki_sha256 (policy r)) \<and>
    i_keystore i = \<lparr> keystore_type = ''PKCS12'', provider = ''SUN'' \<rparr> \<and>
    certificate_chain_length (i_alias i) = 2"
proof -
  from verify_ok[OF assms(2)] obtain plan where plan: "prepare_certificate_import L clock r now = Inr plan"
    "inspect_public_keystore_state L st = Inr i" "i_certificate i = issued plan"
    "certificate_chain_der st = plan_chain_der plan" .
  from prepare_ok[OF plan(1)] obtain b q where b: "inspect_public_keystore_state L (before r) = Inr b"
    "validate_requested_csr L (csr_pem r) (policy r) = Inr q"
    "build_validated_certificate_reply L clock (issued_certificate r) q (trusted_ca_data r)
       (lifetime_days r) (expected_signature_hash r) (expected_signature_oid r)
       (freshness_reference_time r) now = Inr (issued plan, plan_chain_der plan, reply_pem plan)" .
  from reply_ok[OF b(3)] obtain ca_pem leaf ca where c:
    "validate_installation_ca L clock (trusted_ca_data r) now = Inr ca_pem"
    "validate_issued_certificate L clock (issued_certificate r) q ca_pem (lifetime_days r)
       (expected_signature_hash r) (expected_signature_oid r) (freshness_reference_time r) now
       DEFAULT_CLOCK_SKEW = Inr (issued plan)"
    "load_one_certificate L (issued_certificate r) MAX_ISSUED_CERTIFICATE_BYTES ''issued certificate'' = Inr leaf"
    "load_pem L ca_pem = Inr ca" "plan_chain_der plan = [c_der leaf, c_der ca]"
    by blast
  from accepted_leaf[OF c(2)] c(3) obtain time reference where a:
    "acceptable_leaf L q ca_pem (lifetime_days r) (expected_signature_hash r) (expected_signature_oid r)
      time reference DEFAULT_CLOCK_SKEW leaf (issued plan)" by auto
  then have "certificate_info L leaf = Inr (issued plan)" by (simp add: acceptable_leaf_def)
  note hash = certificate_info_hash(3)[OF this]
  show ?thesis
    using b(1) validate_requested_csr_ok(1)[OF b(2)] c a plan hash
      prepared_spki[OF assms(1) plan(1) b(1)] inspect_public_state_ok[OF plan(2)]
    by (intro exI[of _ b] exI[of _ q] exI[of _ ca_pem] exI[of _ leaf] exI[of _ ca] exI[of _ time]
        exI[of _ reference]) simp
qed

section \<open>The client\<close>

text \<open>
  The operations of \<open>UnifiExecutionBoundary\<close> on a state \<open>'s\<close>. \<open>exclusive\<close> is a context manager: it takes
  the body of the \<open>with\<close> statement. \<open>get_clock\<close> reads the wall clock of the caller; \<open>get_stage\<close> and
  \<open>set_stage\<close> access the caller's local variable \<open>stage\<close>, which only names the failed stage.
\<close>

record 's boundary =
  b_exclusive :: "public_keystore_state \<Rightarrow> ('s, unifi_inspection) exec \<Rightarrow> ('s, unifi_inspection) exec"
  b_inspect_public_state :: "('s, public_keystore_state) exec"
  b_generate_csr :: "certificate_policy \<Rightarrow> ('s, bytes) exec"
  b_import_certificate_reply :: "certificate_import_request \<Rightarrow> public_keystore_state \<Rightarrow> ('s, int) exec"
  b_verify_pending :: "('s, string) exec"
  get_clock :: "'s \<Rightarrow> instant"
  get_stage :: "'s \<Rightarrow> string"
  set_stage :: "string \<Rightarrow> 's \<Rightarrow> 's"

text \<open>\<open>except Exception: raise UnifiOperationError(message) from None\<close>\<close>

definition wrap_exception :: "('s \<Rightarrow> string) \<Rightarrow> ('s, 'a) exec \<Rightarrow> ('s, 'a) exec" where
  "wrap_exception message m = handle m (\<lambda>e s.
     if is_Exception e then throw (UnifiOperationError (message s)) s else throw e s)"

definition client_inspect_current ::
  "x509_lib \<Rightarrow> 's boundary \<Rightarrow> certificate_policy \<Rightarrow> ('s, public_keystore_state) exec" where
  "client_inspect_current L B p = wrap_exception (\<lambda>_. ''UniFi public inspection failed'')
     (seqx (liftE (build_unifi_csr_command L p)) (\<lambda>_.
      seqx (b_inspect_public_state B) (\<lambda>st.
      seqx (liftE (inspect_public_keystore_state L st)) (\<lambda>i.
      seqx (raise_if (info_spki_sha256 (i_certificate i) \<noteq> lower (expected_spki_sha256 p))
              (UnifiOperationError ''current public key differs from expected'')) (\<lambda>_.
      ret st)))))"

definition client_request_csr ::
  "x509_lib \<Rightarrow> 's boundary \<Rightarrow> certificate_policy \<Rightarrow> ('s, bytes) exec" where
  "client_request_csr L B p = wrap_exception (\<lambda>_. ''UniFi CSR generation or validation failed'')
     (seqx (liftE (build_unifi_csr_command L p)) (\<lambda>_.
      seqx (b_generate_csr B p) (\<lambda>pem.
      seqx (liftE (validate_requested_csr L pem p)) (\<lambda>_.
      ret pem))))"

definition install_body ::
  "x509_lib \<Rightarrow> 's boundary \<Rightarrow> certificate_import_request \<Rightarrow> ('s, unifi_inspection) exec" where
  "install_body L B r =
     seqx (gets (get_clock B)) (\<lambda>t0.
     seqx (liftE (prepare_certificate_import L t0 r None)) (\<lambda>_.
     seqx (b_inspect_public_state B) (\<lambda>current.
     seqx (liftE (inspect_public_keystore_state L (before r))) (\<lambda>old_info.
     seqx (liftE (inspect_public_keystore_state L current)) (\<lambda>current_info.
     seqx (raise_if (current_info \<noteq> old_info \<or>
              certificate_chain_der current \<noteq> certificate_chain_der (before r))
             (UnifiOperationError ''public keystore state changed before import'')) (\<lambda>_.
     seqx (modify (set_stage B ''certificate import; keystore may have changed'')) (\<lambda>_.
     seqx (b_import_certificate_reply B r current) (\<lambda>status.
     seqx (raise_if (status \<noteq> 0) (UnifiOperationError ''keytool certificate import failed'')) (\<lambda>_.
     seqx (modify (set_stage B ''post-import verification; keystore may have changed'')) (\<lambda>_.
     seqx (b_inspect_public_state B) (\<lambda>st.
     seqx (gets (get_clock B)) (\<lambda>t1.
     liftE (verify_certificate_import L t1 st r None)))))))))))))"

definition client_install_certificate ::
  "x509_lib \<Rightarrow> 's boundary \<Rightarrow> certificate_import_request \<Rightarrow> ('s, unifi_inspection) exec" where
  "client_install_certificate L B r =
     seqx (modify (set_stage B ''pre-import validation'')) (\<lambda>_.
     wrap_exception (\<lambda>s. ''UniFi '' @ get_stage B s @ '' failed'')
       (b_exclusive B (before r) (install_body L B r)))"

definition client_verify_pending :: "'s boundary \<Rightarrow> ('s, unit) exec" where
  "client_verify_pending B = wrap_exception (\<lambda>_. ''UniFi live-verification finalisation failed'')
     (seqx (b_verify_pending B) (\<lambda>outcome.
      raise_if (outcome \<noteq> ''renewal_finalized'') (UnifiOperationError ''unexpected verification result'')))"

end
