(* ===== verification/Machine.thy ===== *)
theory Machine
  imports PyText
begin

text \<open>
  The machine under the effectful code. Every system call takes one step, and a schedule gives the
  verdict of each step: the call proceeds, it raises, or the process dies there. Theorems quantify
  over the schedule, so they cover a failure and a death at every point of a run. A death after the
  effect of a call is a death at the next call. The trace records, latest first, the events on which
  ordering claims rest; the program never reads it.
\<close>

datatype verdict = Proceed | Fails py_exc | Killed

datatype event =
    Renamed string string
  | Unlinked string
  | DirectorySynced
  | KeytoolRan string "string list"
  | ServiceDown
  | ServiceUp
  | ObservedStopped
  | TlsAttempt
  | TlsServed bytes

record machine =
  step :: nat
  sched :: "nat \<Rightarrow> verdict"
  trace :: "event list"

text \<open>
  \<open>syscall act\<close> consults the schedule and, when the call proceeds, performs \<open>act\<close>. A scheduled failure
  never claims that a name exists or is missing, nor that a process has gone: those errors come from the
  state and from the answers of the host only.
\<close>

definition fault :: "py_exc \<Rightarrow> py_exc" where
  "fault e = (if e = FileNotFoundError \<or> e = FileExistsError \<or> e = ProcessDisappeared then OSError else e)"

definition syscall :: "('m machine_scheme, 'a) exec \<Rightarrow> ('m machine_scheme, 'a) exec" where
  "syscall act s = (let s' = s\<lparr> step := Suc (step s) \<rparr> in
     case sched s (step s) of
       Proceed \<Rightarrow> act s'
     | Fails e \<Rightarrow> (Raise (fault e), s')
     | Killed \<Rightarrow> (Died, s'))"

definition record_event :: "event \<Rightarrow> ('m machine_scheme, unit) exec" where
  "record_event e = modify (\<lambda>s. s\<lparr> trace := e # trace s \<rparr>)"

text \<open>
  Error numbers that the code tells apart, and a call whose answer is given by the host as a function of
  the step. Python turns an error number into the subclass of \<open>OSError\<close> that stands for it.
\<close>

datatype errno = ENOENT | ESRCH | EACCES | ELOOP | EOTHER

primrec os_error :: "errno \<Rightarrow> py_exc" where
  "os_error ENOENT = FileNotFoundError"
| "os_error ESRCH = OSError"
| "os_error EACCES = PermissionError"
| "os_error ELOOP = OSError"
| "os_error EOTHER = OSError"

definition host_call :: "(nat \<Rightarrow> errno + 'a) \<Rightarrow> ('m machine_scheme, 'a) exec" where
  "host_call f = syscall (seqx (gets step) (\<lambda>n. case f n of Inl e \<Rightarrow> throw (os_error e) | Inr x \<Rightarrow> ret x))"

section \<open>Computations that leave a part of the state alone\<close>

text \<open>\<open>keeps f m\<close>: however \<open>m\<close> ends, the view \<open>f\<close> of the state is the one it started from.\<close>

definition keeps :: "('s \<Rightarrow> 'v) \<Rightarrow> ('s, 'a) exec \<Rightarrow> bool" where
  "keeps f m \<longleftrightarrow> (\<forall>s. f (snd (m s)) = f s)"

text \<open>A view that does not see the step counter.\<close>

definition stepless :: "('m machine_scheme \<Rightarrow> 'v) \<Rightarrow> bool" where
  "stepless f \<longleftrightarrow> (\<forall>s n. f (s\<lparr> step := n \<rparr>) = f s)"

named_theorems keeps_intros \<open>computations that leave a view of the state alone\<close>

lemma keepsD: "keeps f m \<Longrightarrow> m s = (r, t) \<Longrightarrow> f t = f s"
  unfolding keeps_def by (metis snd_conv)

lemma keepsI: "(\<And>s r t. m s = (r, t) \<Longrightarrow> f t = f s) \<Longrightarrow> keeps f m"
  unfolding keeps_def by (metis surjective_pairing)

lemma keeps_pure [keeps_intros]:
  "keeps f (ret x)" "keeps f (throw e)" "keeps f (gets g)" "keeps f (liftE r)" "keeps f (raise_if c e)"
  by (auto simp: keeps_def ret_def throw_def gets_def liftE_def raise_if_def split: sum.splits)

lemma keeps_seqx [keeps_intros]:
  assumes "keeps f m" "\<And>x. keeps f (g x)"
  shows "keeps f (seqx m g)"
proof (rule keepsI)
  fix s r t assume "seqx m g s = (r, t)"
  then show "f t = f s"
    by (cases rule: seqx_cases) (use assms keepsD in metis)+
qed

lemma keeps_handle [keeps_intros]:
  "keeps f m \<Longrightarrow> (\<And>e. keeps f (h e)) \<Longrightarrow> keeps f (handle m h)"
  unfolding keeps_def handle_def by (auto split: prod.splits outcome.splits) (metis snd_conv)+

lemma keeps_finally [keeps_intros]:
  "keeps f m \<Longrightarrow> keeps f g \<Longrightarrow> keeps f (finally_do m g)"
  unfolding keeps_def finally_do_def by (auto split: prod.splits outcome.splits) (metis snd_conv)+

lemma keeps_if [keeps_intros]:
  "(c \<Longrightarrow> keeps f m) \<Longrightarrow> (\<not> c \<Longrightarrow> keeps f m') \<Longrightarrow> keeps f (if c then m else m')"
  by simp

lemma keeps_option [keeps_intros]:
  "(x = None \<Longrightarrow> keeps f m) \<Longrightarrow> (\<And>y. x = Some y \<Longrightarrow> keeps f (g y)) \<Longrightarrow>
   keeps f (case x of None \<Rightarrow> m | Some y \<Rightarrow> g y)"
  by (cases x) auto

lemma keeps_prod [keeps_intros]: "(\<And>a b. keeps f (g a b)) \<Longrightarrow> keeps f (case p of (a, b) \<Rightarrow> g a b)"
  by (cases p) simp

lemma keeps_forx [keeps_intros]: "(\<And>x. keeps f (g x)) \<Longrightarrow> keeps f (forx g xs)"
  by (induction xs) (auto intro: keeps_intros)

lemma keeps_anyx [keeps_intros]: "(\<And>x. keeps f (g x)) \<Longrightarrow> keeps f (anyx g xs)"
  by (induction xs) (auto intro!: keeps_intros)

lemma keeps_modify: "(\<And>s. f (g s) = f s) \<Longrightarrow> keeps f (modify g)"
  by (simp add: keeps_def modify_def)

lemma keeps_syscall [keeps_intros]:
  assumes "stepless f" "keeps f act"
  shows "keeps f (syscall act)"
  using assms unfolding keeps_def stepless_def syscall_def
  by (auto simp: Let_def split: verdict.splits)

lemma triple_keeps: "keeps f m \<Longrightarrow> triple (\<lambda>s. P (f s)) m (\<lambda>_ s. P (f s)) (\<lambda>s. P (f s))"
  unfolding triple_def keeps_def after_def by (auto split: outcome.splits)

text \<open>A quiet computation changes nothing but the step counter.\<close>

definition quiet :: "('m machine_scheme, 'a) exec \<Rightarrow> bool" where
  "quiet m \<longleftrightarrow> keeps (\<lambda>s. s\<lparr> step := 0 \<rparr>) m"

lemma stepless_erase: "stepless (\<lambda>s. s\<lparr> step := 0 \<rparr>)"
  by (simp add: stepless_def)

lemma quiet_keeps: "quiet m \<Longrightarrow> stepless f \<Longrightarrow> keeps f m"
  unfolding quiet_def keeps_def stepless_def by metis

lemma quietD: "quiet m \<Longrightarrow> m s = (r, t) \<Longrightarrow> t\<lparr> step := 0 \<rparr> = s\<lparr> step := 0 \<rparr>"
  unfolding quiet_def by (rule keepsD)

text \<open>Assertions that do not look at the step counter survive quiet computations.\<close>

lemma triple_quiet:
  assumes "quiet m" "stepless P"
  shows "triple P m (\<lambda>_. P) P"
  using triple_keeps[OF quiet_keeps[OF assms], of "\<lambda>b. b"] by simp

lemma stepless_intros [simp]:
  "stepless (\<lambda>s. c)" "stepless (\<lambda>s. trace s)" "stepless (\<lambda>s. sched s)" "stepless (\<lambda>s. machine.more s)"
  by (simp_all add: stepless_def)

lemma stepless_compose:
  "stepless f \<Longrightarrow> stepless (\<lambda>s. g (f s))"
  "stepless f \<Longrightarrow> stepless h \<Longrightarrow> stepless (\<lambda>s. g2 (f s) (h s))"
  by (simp_all add: stepless_def)

lemma quiet_syscall: "quiet act \<Longrightarrow> quiet (syscall act)"
  unfolding quiet_def by (rule keeps_syscall[OF stepless_erase])

section \<open>Evaluating a system call\<close>

lemma syscall_Return:
  "syscall act s = (Return x, t) \<longleftrightarrow>
   sched s (step s) = Proceed \<and> act (s\<lparr> step := Suc (step s) \<rparr>) = (Return x, t)"
  by (auto simp: syscall_def Let_def split: verdict.splits)

lemma triple_syscall:
  assumes "triple P' act Q E" "\<And>s n. P s \<Longrightarrow> P' (s\<lparr> step := n \<rparr>)" "\<And>s. P' s \<Longrightarrow> E s"
  shows "triple P (syscall act) Q E"
proof (rule tripleI)
  fix s assume "P s"
  then have "P' (s\<lparr> step := Suc (step s) \<rparr>)" by (rule assms(2))
  with assms(1,3) show "after Q E (syscall act s)"
    by (auto simp: syscall_def Let_def triple_def split: verdict.splits)
qed

section \<open>The exceptions a computation can raise\<close>

definition raises :: "(py_exc \<Rightarrow> bool) \<Rightarrow> ('s, 'a) exec \<Rightarrow> bool" where
  "raises P m \<longleftrightarrow> (\<forall>s e t. m s = (Raise e, t) \<longrightarrow> P e)"

named_theorems raises_intros \<open>the exceptions a computation can raise\<close>

lemma raisesD: "raises P m \<Longrightarrow> m s = (Raise e, t) \<Longrightarrow> P e"
  by (auto simp: raises_def)

lemma raises_pure [raises_intros]:
  "raises P (ret x)" "raises P (gets g)" "raises P (modify h)"
  by (simp_all add: raises_def ret_def gets_def modify_def)

lemma raises_throw [raises_intros]: "P e \<Longrightarrow> raises P (throw e)"
  by (simp add: raises_def throw_def)

lemma raises_raise_if [raises_intros]: "(c \<Longrightarrow> P e) \<Longrightarrow> raises P (raise_if c e)"
  by (auto simp: raises_def raise_if_def throw_def ret_def)

lemma raises_liftE [raises_intros]: "(\<And>e. r = Inl e \<Longrightarrow> P e) \<Longrightarrow> raises P (liftE r)"
  by (auto simp: raises_def liftE_def split: sum.splits)

lemma raises_seqx [raises_intros]:
  "raises P m \<Longrightarrow> (\<And>x. raises P (f x)) \<Longrightarrow> raises P (seqx m f)"
  unfolding raises_def seqx_def by (auto split: prod.splits outcome.splits)

lemma raises_handle:
  "raises Q m \<Longrightarrow> (\<And>e. Q e \<Longrightarrow> raises P (h e)) \<Longrightarrow> raises P (handle m h)"
  unfolding raises_def handle_def by (auto split: prod.splits outcome.splits) blast

lemma raises_finally [raises_intros]:
  "raises P m \<Longrightarrow> raises P f \<Longrightarrow> raises P (finally_do m f)"
  unfolding raises_def finally_do_def by (auto split: prod.splits outcome.splits) blast+

lemma raises_if [raises_intros]:
  "(c \<Longrightarrow> raises P m) \<Longrightarrow> (\<not> c \<Longrightarrow> raises P m') \<Longrightarrow> raises P (if c then m else m')"
  by simp

lemma raises_prod [raises_intros]: "(\<And>a b. raises P (g a b)) \<Longrightarrow> raises P (case p of (a, b) \<Rightarrow> g a b)"
  by (cases p) simp

lemma raises_option [raises_intros]:
  "(x = None \<Longrightarrow> raises P m) \<Longrightarrow> (\<And>y. x = Some y \<Longrightarrow> raises P (g y)) \<Longrightarrow>
   raises P (case x of None \<Rightarrow> m | Some y \<Rightarrow> g y)"
  by (cases x) auto

lemma raises_forx [raises_intros]: "(\<And>x. raises P (g x)) \<Longrightarrow> raises P (forx g xs)"
  by (induction xs) (auto intro: raises_intros)

lemma raises_syscall [raises_intros]:
  "raises P act \<Longrightarrow> (\<And>e. P (fault e)) \<Longrightarrow> raises P (syscall act)"
  by (auto simp: raises_def syscall_def Let_def split: verdict.splits)

lemma raises_mono: "raises Q m \<Longrightarrow> (\<And>e. Q e \<Longrightarrow> P e) \<Longrightarrow> raises P m"
  by (auto simp: raises_def)

section \<open>Inversion of returning runs\<close>

named_theorems returns \<open>what the return of a computation tells\<close>

lemma basic_Return [returns]:
  "ret x s = (Return y, t) \<longleftrightarrow> y = x \<and> t = s"
  "gets f s = (Return y, t) \<longleftrightarrow> y = f s \<and> t = s"
  "modify g s = (Return u, t) \<longleftrightarrow> t = g s"
  "throw e s = (Return z, t) \<longleftrightarrow> False"
  "raise_if c e s = (Return u, t) \<longleftrightarrow> \<not> c \<and> t = s"
  "liftE r s = (Return y, t) \<longleftrightarrow> r = Inr y \<and> t = s"
  by (auto simp: ret_def gets_def modify_def throw_def raise_if_def liftE_def split: sum.splits)

lemma handle_Return [returns]:
  "handle m h s = (Return x, t) \<longleftrightarrow>
   m s = (Return x, t) \<or> (\<exists>e s'. m s = (Raise e, s') \<and> h e s' = (Return x, t))"
  by (auto simp: handle_def split: prod.splits outcome.splits)

lemma finally_Return [returns]:
  "finally_do m f s = (Return x, t) \<longleftrightarrow> (\<exists>s' u. m s = (Return x, s') \<and> f s' = (Return u, t))"
  by (auto simp: finally_do_def split: prod.splits outcome.splits)

declare seqx_Return [returns] syscall_Return [returns]

lemma host_call_Return [returns]:
  "host_call f s = (Return x, t) \<longleftrightarrow>
   sched s (step s) = Proceed \<and> f (Suc (step s)) = Inr x \<and> t = s\<lparr> step := Suc (step s) \<rparr>"
  by (auto simp: host_call_def returns split: sum.splits)

lemma fst_run: "fst p = Return x \<Longrightarrow> p = (Return x, snd p)"
  by (metis prod.collapse)

text \<open>A machine on which every call proceeds, for concrete runs.\<close>

definition calm :: machine where
  "calm = \<lparr> step = 0, sched = \<lambda>_. Proceed, trace = [] \<rparr>"

end
