(* ===== verification/Files.thy ===== *)
theory Files
  imports Machine Json
begin

unbundle bit_operations_syntax

text \<open>
  The dirfd-relative filesystem primitives inside the UniFi appdata directory
  (\<open>unifi_executor_files.py\<close>). The directory maps the names to inode numbers; an open descriptor is
  the number of the inode it refers to; numbers are not reused. \<open>history\<close> lists the directories
  since the last synchronisation of the directory, the current one first: directory updates reach
  the disk in order, so after a power failure the directory is one of them. \<open>unsynced\<close> tells which
  inodes have content that was not synchronised and may be lost. \<open>chunk\<close> is the number of bytes
  that a partial copy or write moves at a step. Every call to \<open>os\<close> is one \<open>syscall\<close>.
\<close>

section \<open>Names and state\<close>

definition CANONICAL :: string where "CANONICAL = ''keystore''"
definition STAGE :: string where "STAGE = ''.cert-renewer-stage''"
definition ROLLBACK :: string where "ROLLBACK = ''.cert-renewer-rollback''"
definition JOURNAL :: string where "JOURNAL = ''.cert-renewer-journal''"
definition JOURNAL_NEW :: string where "JOURNAL_NEW = ''.cert-renewer-journal-new''"
definition LOCK :: string where "LOCK = ''.cert-renewer-lock''"

definition NAMES :: "string list" where
  "NAMES = [CANONICAL, STAGE, ROLLBACK, JOURNAL, JOURNAL_NEW, LOCK]"

definition MAX_STORE :: nat where "MAX_STORE = 16 * 1024 * 1024"
definition MAX_JOURNAL :: nat where "MAX_JOURNAL = 16384"

record stat_result =
  st_dev :: nat
  st_ino :: nat
  st_size :: nat
  st_mode :: nat
  st_uid :: nat
  st_gid :: nat
  st_mtime_ns :: nat
  st_ctime_ns :: nat
  st_nlink :: nat

record inode =
  i_mode :: nat
  i_uid :: nat
  i_gid :: nat
  i_data :: bytes
  i_mtime :: nat
  i_ctime :: nat
  i_outer :: nat

type_synonym directory = "string \<Rightarrow> nat option"

record fsys = machine +
  device :: nat
  path_stats :: "stat_result list"
  root_stat :: stat_result
  fd_stat :: stat_result
  fdinfo :: bytes
  mountinfo :: bytes
  dir :: directory
  inodes :: "nat \<Rightarrow> inode"
  next_ino :: nat
  ticks :: nat
  history :: "directory list"
  unsynced :: "nat \<Rightarrow> bool"
  chunk :: "nat \<Rightarrow> nat \<Rightarrow> nat"

definition S_ISREG :: "nat \<Rightarrow> bool" where "S_ISREG mode \<longleftrightarrow> mode AND 0xF000 = 0x8000"
definition S_ISLNK :: "nat \<Rightarrow> bool" where "S_ISLNK mode \<longleftrightarrow> mode AND 0xF000 = 0xA000"
definition S_ISDIR :: "nat \<Rightarrow> bool" where "S_ISDIR mode \<longleftrightarrow> mode AND 0xF000 = 0x4000"
definition S_IMODE :: "nat \<Rightarrow> nat" where "S_IMODE mode = mode AND 0xFFF"

text \<open>\<open>st_mode & 0o022\<close>: writable by the group or by others.\<close>

definition shared_write :: "nat \<Rightarrow> bool" where "shared_write mode \<longleftrightarrow> mode AND 0x12 \<noteq> 0"

definition nlink :: "'a fsys_scheme \<Rightarrow> nat \<Rightarrow> nat" where
  "nlink s i = length (filter (\<lambda>n. dir s n = Some i) NAMES) + i_outer (inodes s i)"

definition stat_of :: "'a fsys_scheme \<Rightarrow> nat \<Rightarrow> stat_result" where
  "stat_of s i = (let n = inodes s i in
     \<lparr> st_dev = device s, st_ino = i, st_size = length (i_data n), st_mode = i_mode n, st_uid = i_uid n,
       st_gid = i_gid n, st_mtime_ns = i_mtime n, st_ctime_ns = i_ctime n, st_nlink = nlink s i \<rparr>)"

text \<open>The identity of a file is its whole status; \<open>_inode\<close> is the pair of device and number.\<close>

definition identity :: "stat_result \<Rightarrow> nat list" where
  "identity v = [st_dev v, st_ino v, st_size v, st_mode v, st_uid v, st_gid v, st_mtime_ns v,
     st_ctime_ns v, st_nlink v]"

section \<open>System calls\<close>

definition set_dir :: "directory \<Rightarrow> 'a fsys_scheme \<Rightarrow> 'a fsys_scheme" where
  "set_dir d s = s\<lparr> dir := d, history := d # history s \<rparr>"

definition set_inode :: "nat \<Rightarrow> inode \<Rightarrow> 'a fsys_scheme \<Rightarrow> 'a fsys_scheme" where
  "set_inode i n s = s\<lparr> inodes := (inodes s)(i := n), ticks := Suc (ticks s) \<rparr>"

definition touch :: "nat \<Rightarrow> 'a fsys_scheme \<Rightarrow> 'a fsys_scheme" where
  "touch i s = set_inode i ((inodes s i)\<lparr> i_ctime := ticks s \<rparr>) s"

text \<open>New content: the times move and the content is not yet on the disk.\<close>

definition set_data :: "nat \<Rightarrow> bytes \<Rightarrow> 'a fsys_scheme \<Rightarrow> 'a fsys_scheme" where
  "set_data i b s = (set_inode i ((inodes s i)\<lparr> i_data := b, i_mtime := ticks s, i_ctime := ticks s \<rparr>) s)
     \<lparr> unsynced := (unsynced s)(i := True) \<rparr>"

definition os_stat_root :: "('a fsys_scheme, stat_result) exec" where
  "os_stat_root = syscall (gets root_stat)"

definition os_fstat_dir :: "('a fsys_scheme, stat_result) exec" where
  "os_fstat_dir = syscall (gets fd_stat)"

definition os_stat :: "string \<Rightarrow> ('a fsys_scheme, stat_result) exec" where
  "os_stat name = syscall (seqx (gets (\<lambda>s. dir s name)) (\<lambda>i. case i of
     None \<Rightarrow> throw FileNotFoundError | Some i \<Rightarrow> gets (\<lambda>s. stat_of s i)))"

definition os_fstat :: "nat \<Rightarrow> ('a fsys_scheme, stat_result) exec" where
  "os_fstat fd = syscall (gets (\<lambda>s. stat_of s fd))"

definition os_open_read :: "string \<Rightarrow> ('a fsys_scheme, nat) exec" where
  "os_open_read name = syscall (seqx (gets (\<lambda>s. dir s name)) (\<lambda>i. case i of
     None \<Rightarrow> throw FileNotFoundError
   | Some i \<Rightarrow> seqx (gets (\<lambda>s. S_ISLNK (i_mode (inodes s i)))) (\<lambda>link. if link then throw OSError else ret i)))"

definition new_inode :: "'a fsys_scheme \<Rightarrow> inode" where
  "new_inode s = \<lparr> i_mode = 0x8180, i_uid = 0, i_gid = 0, i_data = [], i_mtime = ticks s,
     i_ctime = ticks s, i_outer = 0 \<rparr>"

definition create_file :: "string \<Rightarrow> 'a fsys_scheme \<Rightarrow> 'a fsys_scheme" where
  "create_file name s = (let i = next_ino s in
     set_dir ((dir s)(name := Some i)) (set_inode i (new_inode s)
       (s\<lparr> next_ino := Suc i, unsynced := (unsynced s)(i := True) \<rparr>)))"

definition os_open_create :: "string \<Rightarrow> ('a fsys_scheme, nat) exec" where
  "os_open_create name = syscall (seqx (gets (\<lambda>s. dir s name)) (\<lambda>i. case i of
     Some _ \<Rightarrow> throw FileExistsError
   | None \<Rightarrow> seqx (gets next_ino) (\<lambda>fd. seqx (modify (create_file name)) (\<lambda>_. ret fd))))"

definition os_fchown :: "nat \<Rightarrow> nat \<Rightarrow> nat \<Rightarrow> ('a fsys_scheme, unit) exec" where
  "os_fchown fd uid gid = syscall (modify (\<lambda>s.
     set_inode fd ((inodes s fd)\<lparr> i_uid := uid, i_gid := gid, i_ctime := ticks s \<rparr>) s))"

definition os_fchmod :: "nat \<Rightarrow> nat \<Rightarrow> ('a fsys_scheme, unit) exec" where
  "os_fchmod fd mode = syscall (modify (\<lambda>s.
     set_inode fd ((inodes s fd)\<lparr> i_mode := (i_mode (inodes s fd) AND 0xF000) OR mode, i_ctime := ticks s \<rparr>) s))"

definition os_close :: "nat \<Rightarrow> ('a fsys_scheme, unit) exec" where
  "os_close fd = syscall (ret ())"

definition os_fsync_file :: "nat \<Rightarrow> ('a fsys_scheme, unit) exec" where
  "os_fsync_file fd = syscall (modify (\<lambda>s. s\<lparr> unsynced := (unsynced s)(fd := False) \<rparr>))"

definition os_fsync_dir :: "('a fsys_scheme, unit) exec" where
  "os_fsync_dir = syscall (seqx (modify (\<lambda>s. s\<lparr> history := [dir s] \<rparr>)) (\<lambda>_. record_event DirectorySynced))"

definition os_link :: "string \<Rightarrow> string \<Rightarrow> ('a fsys_scheme, unit) exec" where
  "os_link source target = syscall (seqx (gets (\<lambda>s. (dir s source, dir s target))) (\<lambda>p. case p of
     (None, _) \<Rightarrow> throw FileNotFoundError
   | (Some i, Some _) \<Rightarrow> throw FileExistsError
   | (Some i, None) \<Rightarrow> modify (\<lambda>s. touch i (set_dir ((dir s)(target := Some i)) s))))"

text \<open>Renaming onto another name of the same file does nothing.\<close>

definition os_replace :: "string \<Rightarrow> string \<Rightarrow> ('a fsys_scheme, unit) exec" where
  "os_replace source target = syscall (seqx (gets (\<lambda>s. (dir s source, dir s target))) (\<lambda>p. case p of
     (None, _) \<Rightarrow> throw FileNotFoundError
   | (Some i, j) \<Rightarrow>
     seqx (if j = Some i then ret ()
           else modify (\<lambda>s. touch i (set_dir ((dir s)(source := None, target := Some i)) s))) (\<lambda>_.
     record_event (Renamed source target))))"

definition os_unlink :: "string \<Rightarrow> ('a fsys_scheme, unit) exec" where
  "os_unlink name = syscall (seqx (gets (\<lambda>s. dir s name)) (\<lambda>i. case i of
     None \<Rightarrow> throw FileNotFoundError
   | Some i \<Rightarrow> seqx (modify (\<lambda>s. touch i (set_dir ((dir s)(name := None)) s))) (\<lambda>_.
       record_event (Unlinked name))))"

definition os_read :: "nat \<Rightarrow> nat \<Rightarrow> ('a fsys_scheme, bytes) exec" where
  "os_read fd n = syscall (gets (\<lambda>s. take n (i_data (inodes s fd))))"

text \<open>One partial copy of at most \<open>n\<close> bytes from position \<open>pos\<close>, and one partial write.\<close>

definition os_copy_file_range :: "nat \<Rightarrow> nat \<Rightarrow> nat \<Rightarrow> nat \<Rightarrow> ('a fsys_scheme, nat) exec" where
  "os_copy_file_range source dest pos n = syscall (
     seqx (gets (\<lambda>s. take (min n (chunk s (step s) n)) (drop pos (i_data (inodes s source))))) (\<lambda>b.
     seqx (modify (\<lambda>s. set_data dest (i_data (inodes s dest) @ b) s)) (\<lambda>_. ret (length b))))"

definition os_write :: "nat \<Rightarrow> bytes \<Rightarrow> ('a fsys_scheme, nat) exec" where
  "os_write fd data = syscall (
     seqx (gets (\<lambda>s. take (chunk s (step s) (length data)) data)) (\<lambda>b.
     seqx (modify (\<lambda>s. set_data fd (i_data (inodes s fd) @ b) s)) (\<lambda>_. ret (length b))))"

section \<open>The mounted filesystem\<close>

definition is_space :: "char \<Rightarrow> bool" where
  "is_space c \<longleftrightarrow> c \<in> {CHR 0x20, CHR 0x09, CHR 0x0A, CHR 0x0D, CHR 0x0B, CHR 0x0C}"

text \<open>\<open>line.split()\<close>: the runs of bytes between white space.\<close>

function bytes_split :: "bytes \<Rightarrow> bytes list" where
  "bytes_split s = (if dropWhile is_space s = [] then []
     else takeWhile (\<lambda>c. \<not> is_space c) (dropWhile is_space s) #
          bytes_split (dropWhile (\<lambda>c. \<not> is_space c) (dropWhile is_space s)))"
  by pat_completeness auto
termination
proof (relation "measure length", goal_cases)
  case (2 s)
  obtain c t where ct: "dropWhile is_space s = c # t" using 2 by (cases "dropWhile is_space s") auto
  then have "\<not> is_space c" by (metis dropWhile_eq_Cons_conv)
  then show ?case
    using ct length_dropWhile_le[of "\<lambda>c. \<not> is_space c" t] length_dropWhile_le[of is_space s] by simp
qed simp

declare bytes_split.simps [simp del]

definition bytes_isdigit :: "bytes \<Rightarrow> bool" where
  "bytes_isdigit b \<longleftrightarrow> b \<noteq> [] \<and> list_all is_digit b"

abbreviation no_filesystem :: "py_exc + 'a" where
  "no_filesystem \<equiv> Inl (UnifiOperationError ''cannot identify appdata filesystem'')"

definition mount_id_line :: "bytes option \<Rightarrow> bytes \<Rightarrow> py_exc + bytes option" where
  "mount_id_line found line = (let parts = bytes_split line in
     if parts = [] \<or> hd parts \<noteq> ''mnt_id:'' then Inr found
     else if found \<noteq> None \<or> length parts \<noteq> 2 \<or> \<not> bytes_isdigit (parts ! 1) \<or>
             length (parts ! 1) > 20 \<or> startswith ''0'' (parts ! 1) then no_filesystem
     else Inr (Some (parts ! 1)))"

definition mount_line :: "bytes \<Rightarrow> bytes list option \<Rightarrow> bytes \<Rightarrow> py_exc + bytes list option" where
  "mount_line mount_id found line = (let parts = bytes_split line in
     if parts \<noteq> [] \<and> hd parts = mount_id
     then (if found \<noteq> None then no_filesystem else Inr (Some parts))
     else Inr found)"

fun index_from :: "nat \<Rightarrow> bytes \<Rightarrow> bytes list \<Rightarrow> nat option" where
  "index_from i x [] = None"
| "index_from i x (y # ys) = (if y = x then Some i else index_from (Suc i) x ys)"

definition mount_type :: "bytes list \<Rightarrow> py_exc + string" where
  "mount_type parts =
     (if length parts < 10 \<or> \<not> bytes_isdigit (parts ! 1) \<or>
         length (filter (\<lambda>c. c = CHR '':'') (parts ! 2)) \<noteq> 1 \<or>
         \<not> list_all bytes_isdigit (split_char (CHR '':'') (parts ! 2)) then no_filesystem
      else case index_from 6 ''-'' (drop 6 parts) of
        None \<Rightarrow> no_filesystem
      | Some separator \<Rightarrow>
        if length parts \<noteq> separator + 4 then no_filesystem
        else if parts ! (separator + 1) = [] \<or> length (parts ! (separator + 1)) > 64 then no_filesystem
        else (case decode_ascii (parts ! (separator + 1)) of Inl _ \<Rightarrow> no_filesystem | Inr t \<Rightarrow> Inr t))"

definition filesystem_of :: "bytes \<Rightarrow> bytes \<Rightarrow> py_exc + string" where
  "filesystem_of info mounts =
     bindE (foldE mount_id_line None (split_char (CHR 0x0A) info)) (\<lambda>m. case m of
       None \<Rightarrow> no_filesystem
     | Some mount_id \<Rightarrow>
       bindE (foldE (mount_line mount_id) None (split_char (CHR 0x0A) mounts)) (\<lambda>f. case f of
         None \<Rightarrow> no_filesystem
       | Some parts \<Rightarrow> mount_type parts))"

definition read_proc :: "('a fsys_scheme \<Rightarrow> bytes) \<Rightarrow> ('a fsys_scheme, bytes) exec" where
  "read_proc file = handle (syscall (gets file)) (\<lambda>e. if is_OSError e
     then throw (UnifiOperationError ''cannot identify appdata filesystem'') else throw e)"

definition filesystem :: "('a fsys_scheme, string) exec" where
  "filesystem = seqx (read_proc fdinfo) (\<lambda>info. seqx (read_proc mountinfo) (\<lambda>mounts.
     liftE (filesystem_of info mounts)))"

section \<open>Files\<close>

record files =
  f_uid :: nat
  f_gid :: nat
  f_filesystem :: string

text \<open>Opening the fixed path component by component; each component must be owned by root or the user.\<close>

definition files_init :: "nat \<Rightarrow> nat \<Rightarrow> ('a fsys_scheme, files) exec" where
  "files_init uid gid =
     seqx (syscall (gets path_stats)) (\<lambda>parts.
     handle
       (seqx (forx (\<lambda>info. seqx (syscall (ret ())) (\<lambda>_. seqx (os_close 0) (\<lambda>_. seqx (syscall (ret info)) (\<lambda>info.
          raise_if (st_uid info \<notin> {0, uid} \<or> shared_write (st_mode info))
            (UnifiOperationError ''untrusted appdata directory''))))) parts) (\<lambda>_.
        seqx filesystem (\<lambda>t. ret \<lparr> f_uid = uid, f_gid = gid, f_filesystem = t \<rparr>)))
       (\<lambda>e. seqx (os_close 0) (\<lambda>_. throw e)))"

definition files_name :: "files \<Rightarrow> string \<Rightarrow> ('a fsys_scheme, unit) exec" where
  "files_name F name =
     seqx os_stat_root (\<lambda>directory. seqx os_fstat_dir (\<lambda>opened.
     seqx (raise_if ((st_dev directory, st_ino directory) \<noteq> (st_dev opened, st_ino opened) \<or>
             st_uid directory \<notin> {0, f_uid F} \<or> shared_write (st_mode directory))
            (UnifiOperationError ''appdata directory identity changed'')) (\<lambda>_.
     raise_if (name \<notin> set NAMES) (UnifiOperationError ''invalid internal filesystem operation''))))"

definition owner_of :: "files \<Rightarrow> string \<Rightarrow> nat \<times> nat" where
  "owner_of F name = (if name \<in> {CANONICAL, STAGE, ROLLBACK} then (f_uid F, f_gid F) else (0, 0))"

definition files_status :: "files \<Rightarrow> string \<Rightarrow> ('a fsys_scheme, stat_result) exec" where
  "files_status F name =
     seqx (files_name F name) (\<lambda>_. seqx (os_stat name) (\<lambda>v.
     seqx (raise_if (\<not> S_ISREG (st_mode v) \<or> S_IMODE (st_mode v) \<noteq> 0x180 \<or>
             (st_uid v, st_gid v) \<noteq> owner_of F name) (UnifiOperationError ''unsafe transaction file'')) (\<lambda>_.
     seqx os_fstat_dir (\<lambda>d.
     seqx (raise_if (st_dev v \<noteq> st_dev d \<or> st_size v > MAX_STORE \<or>
             st_nlink v \<notin> (if name \<in> {CANONICAL, ROLLBACK} then {1, 2} else {1}))
            (UnifiOperationError ''unsafe transaction file'')) (\<lambda>_.
     ret v)))))"

definition files_exists :: "files \<Rightarrow> string \<Rightarrow> ('a fsys_scheme, bool) exec" where
  "files_exists F name =
     seqx (files_name F name) (\<lambda>_.
     handle (seqx (os_stat name) (\<lambda>_. ret True))
       (\<lambda>e. if e = FileNotFoundError then ret False else throw e))"

text \<open>\<open>with files.opened(name) as fd: body\<close>, and the same with \<open>create=True\<close>.\<close>

definition check_opened :: "files \<Rightarrow> string \<Rightarrow> nat \<Rightarrow> ('a fsys_scheme, unit) exec" where
  "check_opened F name fd =
     seqx (os_fstat fd) (\<lambda>a. seqx (files_status F name) (\<lambda>b.
     raise_if (identity a \<noteq> identity b) (UnifiOperationError ''transaction file changed while opening'')))"

definition files_opened :: "files \<Rightarrow> string \<Rightarrow> (nat \<Rightarrow> ('a fsys_scheme, 'b) exec) \<Rightarrow> ('a fsys_scheme, 'b) exec" where
  "files_opened F name body =
     seqx (files_name F name) (\<lambda>_. seqx (os_open_read name) (\<lambda>fd.
     finally_do (seqx (check_opened F name fd) (\<lambda>_. body fd)) (os_close fd)))"

definition files_created :: "files \<Rightarrow> string \<Rightarrow> (nat \<Rightarrow> ('a fsys_scheme, 'b) exec) \<Rightarrow> ('a fsys_scheme, 'b) exec" where
  "files_created F name body =
     seqx (files_name F name) (\<lambda>_. seqx (os_open_create name) (\<lambda>fd.
     finally_do
       (seqx (if name = STAGE then os_fchown fd (f_uid F) (f_gid F) else os_fchown fd 0 0) (\<lambda>_.
        seqx (os_fchmod fd 0x180) (\<lambda>_.
        seqx (check_opened F name fd) (\<lambda>_. body fd))))
       (os_close fd)))"

definition files_same :: "files \<Rightarrow> string \<Rightarrow> stat_result \<Rightarrow> ('a fsys_scheme, unit) exec" where
  "files_same F name expected =
     seqx (files_status F name) (\<lambda>v.
     raise_if (identity v \<noteq> identity expected) (UnifiOperationError ''transaction file identity changed''))"

function copy_loop :: "nat \<Rightarrow> nat \<Rightarrow> nat \<Rightarrow> nat \<Rightarrow> ('a fsys_scheme, unit) exec" where
  "copy_loop source dest pos remaining =
     (if remaining = 0 then ret ()
      else seqx (os_copy_file_range source dest pos (min remaining (1024 * 1024))) (\<lambda>copied.
        if copied = 0 then throw (UnifiOperationError ''incomplete staged copy'')
        else copy_loop source dest (pos + copied) (remaining - copied)))"
  by pat_completeness auto
termination by (relation "measure (\<lambda>(_, _, _, r). r)") auto

declare copy_loop.simps [simp del]

definition copy_stage :: "files \<Rightarrow> ('a fsys_scheme, unit) exec" where
  "copy_stage F =
     files_opened F CANONICAL (\<lambda>source. files_created F STAGE (\<lambda>dest.
     seqx (files_status F CANONICAL) (\<lambda>initial.
     seqx (raise_if (st_nlink initial \<noteq> 1) (UnifiOperationError ''unexpected canonical hard link'')) (\<lambda>_.
     seqx (copy_loop source dest 0 (st_size initial)) (\<lambda>_.
     seqx (files_same F CANONICAL initial) (\<lambda>_.
     seqx (os_fstat dest) (\<lambda>d.
     raise_if (st_ino d = st_ino initial) (UnifiOperationError ''stage must be an independent inode''))))))))"

definition sync_file :: "files \<Rightarrow> string \<Rightarrow> ('a fsys_scheme, unit) exec" where
  "sync_file F name = files_opened F name os_fsync_file"

definition sync_directory :: "('a fsys_scheme, unit) exec" where
  "sync_directory = os_fsync_dir"

definition link_rollback :: "files \<Rightarrow> ('a fsys_scheme, unit) exec" where
  "link_rollback F = seqx (files_status F CANONICAL) (\<lambda>_. os_link CANONICAL ROLLBACK)"

definition replacements :: "(string \<times> string) list" where
  "replacements = [(STAGE, CANONICAL), (ROLLBACK, CANONICAL), (JOURNAL_NEW, JOURNAL)]"

definition files_replace :: "files \<Rightarrow> string \<Rightarrow> string \<Rightarrow> ('a fsys_scheme, unit) exec" where
  "files_replace F source target =
     (if (source, target) \<notin> set replacements then throw (UnifiOperationError ''invalid internal replacement'')
      else seqx (files_status F source) (\<lambda>_. os_replace source target))"

definition files_remove :: "files \<Rightarrow> string \<Rightarrow> ('a fsys_scheme, unit) exec" where
  "files_remove F name =
     (if name \<notin> {STAGE, ROLLBACK, JOURNAL, JOURNAL_NEW} then throw (UnifiOperationError ''invalid internal cleanup'')
      else seqx (files_exists F name) (\<lambda>there.
        if there then seqx (files_status F name) (\<lambda>_. os_unlink name) else ret ()))"

function write_loop :: "nat \<Rightarrow> bytes \<Rightarrow> ('a fsys_scheme, unit) exec" where
  "write_loop fd view =
     (if view = [] then ret ()
      else seqx (os_write fd view) (\<lambda>written.
        if written = 0 then throw (UnifiOperationError ''journal write failed'')
        else write_loop fd (drop written view)))"
  by pat_completeness auto
termination by (relation "measure (\<lambda>(_, v). length v)") auto

declare write_loop.simps [simp del]

definition write_journal :: "files \<Rightarrow> json \<Rightarrow> ('a fsys_scheme, unit) exec" where
  "write_journal F v =
     seqx (liftE (encode_ascii (dumps v))) (\<lambda>data.
     seqx (raise_if (length data > MAX_JOURNAL) (UnifiOperationError ''journal exceeds limit'')) (\<lambda>_.
     seqx (files_remove F JOURNAL_NEW) (\<lambda>_.
     seqx (files_created F JOURNAL_NEW (\<lambda>fd. seqx (write_loop fd data) (\<lambda>_. os_fsync_file fd))) (\<lambda>_.
     seqx (files_replace F JOURNAL_NEW JOURNAL) (\<lambda>_.
     sync_directory)))))"

definition read_journal :: "files \<Rightarrow> ('a fsys_scheme, json) exec" where
  "read_journal F =
     seqx (files_opened F JOURNAL (\<lambda>fd. os_read fd (MAX_JOURNAL + 1))) (\<lambda>data.
     seqx (raise_if (length data > MAX_JOURNAL) (UnifiOperationError ''journal exceeds limit'')) (\<lambda>_.
     liftE (loads_bytes ValueError data)))"

section \<open>Calls that only look\<close>

lemmas quiet_rules = keeps_intros[where f = "\<lambda>s. s\<lparr> step := 0 \<rparr>", folded quiet_def]

lemma quiet_os:
  "quiet os_stat_root" "quiet os_fstat_dir" "quiet (os_stat n)" "quiet (os_fstat i)" "quiet (os_open_read n)"
  "quiet (os_close i)" "quiet (os_read i k)"
  unfolding os_stat_root_def os_fstat_dir_def os_stat_def os_fstat_def os_open_read_def os_close_def os_read_def
  by (auto intro!: quiet_rules quiet_syscall)

lemma quiet_files_name: "quiet (files_name F n)"
  unfolding files_name_def by (intro quiet_rules quiet_os)

lemma quiet_files_status: "quiet (files_status F n)"
  unfolding files_status_def by (intro quiet_rules quiet_os quiet_files_name)

lemma quiet_files_exists: "quiet (files_exists F n)"
  unfolding files_exists_def by (intro quiet_rules quiet_os quiet_files_name)

lemma quiet_check_opened: "quiet (check_opened F n fd)"
  unfolding check_opened_def by (intro quiet_rules quiet_os quiet_files_status)

lemma quiet_files_opened: "(\<And>fd. quiet (body fd)) \<Longrightarrow> quiet (files_opened F n body)"
  unfolding files_opened_def by (intro quiet_rules quiet_os quiet_files_name quiet_check_opened)

lemma quiet_files_same: "quiet (files_same F n v)"
  unfolding files_same_def by (intro quiet_rules quiet_files_status)

lemma quiet_read_journal: "quiet (read_journal F)"
  unfolding read_journal_def by (intro quiet_rules quiet_files_opened quiet_os)

lemmas quiet_files = quiet_os quiet_files_name quiet_files_status quiet_files_exists quiet_check_opened
  quiet_files_opened quiet_files_same quiet_read_journal

lemma identity_eq: "identity v = identity w \<longleftrightarrow> v = w"
  by (cases v; cases w) (simp add: identity_def)

lemma stat_of_step [simp]: "stat_of (s\<lparr> step := n \<rparr>) i = stat_of s i"
  by (simp add: stat_of_def nlink_def)

lemma quiet_fields:
  assumes "quiet m" "m s = (r, t)"
  shows "dir t = dir s" "inodes t = inodes s" "history t = history s" "next_ino t = next_ino s"
    "unsynced t = unsynced s" "device t = device s" "trace t = trace s" "stat_of t i = stat_of s i"
    "fsys.more t = fsys.more s" "fd_stat t = fd_stat s"
proof -
  have e: "t\<lparr> step := 0 \<rparr> = s\<lparr> step := 0 \<rparr>" using assms by (rule quietD)
  show "dir t = dir s" "inodes t = inodes s" "history t = history s" "next_ino t = next_ino s"
    "unsynced t = unsynced s" "device t = device s" "trace t = trace s" "fsys.more t = fsys.more s"
    "fd_stat t = fd_stat s"
    using e by (cases t; cases s; simp)+
  show "stat_of t i = stat_of s i" using arg_cong[OF e, of "\<lambda>s. stat_of s i"] by simp
qed

lemma os_stat_Return:
  "os_stat n s = (Return v, t) \<Longrightarrow> \<exists>i. dir s n = Some i \<and> v = stat_of s i"
  by (auto simp: os_stat_def syscall_Return seqx_Return gets_def throw_def split: option.splits)

text \<open>What a returned status says about the file.\<close>

definition sound_status :: "files \<Rightarrow> string \<Rightarrow> stat_result \<Rightarrow> 'a fsys_scheme \<Rightarrow> bool" where
  "sound_status F n v s \<longleftrightarrow> n \<in> set NAMES \<and> dir s n = Some (st_ino v) \<and> v = stat_of s (st_ino v) \<and>
     S_ISREG (st_mode v) \<and> S_IMODE (st_mode v) = 0x180 \<and> (st_uid v, st_gid v) = owner_of F n \<and>
     st_dev v = device s \<and> st_size v \<le> MAX_STORE \<and>
     st_nlink v \<in> (if n \<in> {CANONICAL, ROLLBACK} then {1, 2} else {1})"

lemma raise_if_Return [simp]: "raise_if c e s = (Return x, t) \<longleftrightarrow> \<not> c \<and> t = s"
  by (auto simp: raise_if_def throw_def ret_def)

lemma ret_Return [simp]: "ret y s = (Return x, t) \<longleftrightarrow> x = y \<and> t = s"
  by (auto simp: ret_def)

lemma throw_Return [simp]: "\<not> throw e s = (Return x, t)"
  by (simp add: throw_def)

lemma files_status_Return:
  assumes "files_status F n s = (Return v, t)"
  shows "sound_status F n v s"
proof -
  obtain s1 s2 s3 d where s: "files_name F n s = (Return (), s1)" "os_stat n s1 = (Return v, s2)"
    "S_ISREG (st_mode v)" "S_IMODE (st_mode v) = 0x180" "(st_uid v, st_gid v) = owner_of F n"
    "os_fstat_dir s2 = (Return d, s3)" "st_size v \<le> MAX_STORE"
    "st_nlink v \<in> (if n \<in> {CANONICAL, ROLLBACK} then {1, 2} else {1})"
    using assms by (auto simp: files_status_def seqx_Return)
  have q: "dir s1 = dir s" "stat_of s1 i = stat_of s i" for i
    using quiet_fields[OF quiet_files_name s(1)] by auto
  obtain i where i: "dir s1 n = Some i" "v = stat_of s1 i" using os_stat_Return[OF s(2)] by auto
  have "n \<in> set NAMES" using s(1) by (auto simp: files_name_def seqx_Return)
  moreover have "st_ino v = i" "st_dev v = device s" using i q by (auto simp: stat_of_def Let_def)
  ultimately show ?thesis using s i q by (simp add: sound_status_def)
qed

lemma stat_of_sel [simp]:
  "st_ino (stat_of s i) = i" "st_size (stat_of s i) = length (i_data (inodes s i))"
  "st_dev (stat_of s i) = device s" "st_nlink (stat_of s i) = nlink s i"
  by (simp_all add: stat_of_def Let_def)

lemma sound_status_size: "sound_status F n v s \<Longrightarrow> st_size v = length (i_data (inodes s (st_ino v)))"
  unfolding sound_status_def by (metis stat_of_sel(2))

lemma sound_status_quiet:
  "quiet m \<Longrightarrow> m s = (r, t) \<Longrightarrow> sound_status F n v t = sound_status F n v s"
  by (simp add: sound_status_def quiet_fields)

lemma files_exists_Return:
  assumes "files_exists F n s = (Return b, t)"
  shows "b \<longleftrightarrow> dir s n \<noteq> None"
proof -
  obtain s1 where s1: "files_name F n s = (Return (), s1)"
    "handle (seqx (os_stat n) (\<lambda>_. ret True)) (\<lambda>e. if e = FileNotFoundError then ret False else throw e) s1
       = (Return b, t)"
    using assms by (auto simp: files_exists_def seqx_Return)
  have d: "dir s1 = dir s" using quiet_fields[OF quiet_files_name s1(1)] by simp
  show ?thesis
  proof (cases "os_stat n s1" rule: outcome_pair_cases)
    case (ok v u)
    then show ?thesis using s1(2) os_stat_Return[OF ok] d by (auto simp: handle_def seqx_def ret_def)
  next
    case (raised e u)
    then have "e = FileNotFoundError" "\<not> b"
      using s1(2) by (auto simp: handle_def seqx_def ret_def throw_def split: if_splits)
    moreover have "dir s1 n = None"
      using raised \<open>e = FileNotFoundError\<close>
      by (auto simp: os_stat_def syscall_def Let_def fault_def seqx_def gets_def throw_def
          split: verdict.splits option.splits if_splits)
    ultimately show ?thesis using d by simp
  next
    case (died u)
    then show ?thesis using s1(2) by (auto simp: handle_def seqx_def)
  qed
qed

section \<open>A store that can always be recovered\<close>

text \<open>
  \<open>orig\<close> is the inode of the key store before a transaction. An inode is protected when it is
  \<open>orig\<close> or a journal of some directory that may survive. A directory is recoverable when the
  canonical name still has the original, or the rollback name has it and a durable journal with the
  property \<open>A\<close> is in place. The store invariant asks this of every directory that may survive a
  power failure, and keeps the content \<open>D\<close> of the original durable. \<open>R\<close> is a condition on the device
  and on the state outside the filesystem, which no file operation touches.
\<close>

definition protected :: "nat \<Rightarrow> 'a fsys_scheme \<Rightarrow> nat \<Rightarrow> bool" where
  "protected orig s i \<longleftrightarrow> i = orig \<or> (\<exists>d\<in>set (history s). d JOURNAL = Some i)"

definition well_placed :: "nat \<Rightarrow> 'a fsys_scheme \<Rightarrow> bool" where
  "well_placed orig s \<longleftrightarrow> history s \<noteq> [] \<and> hd (history s) = dir s \<and> orig < next_ino s \<and>
     (\<forall>d\<in>set (history s). (\<forall>n i. d n = Some i \<longrightarrow> i < next_ino s) \<and> d JOURNAL \<noteq> Some orig) \<and>
     (\<forall>i. dir s STAGE = Some i \<longrightarrow> \<not> protected orig s i \<and> dir s JOURNAL_NEW \<noteq> Some i) \<and>
     (\<forall>i. dir s JOURNAL_NEW = Some i \<longrightarrow> \<not> protected orig s i)"

definition journalled :: "(bytes \<Rightarrow> bool) \<Rightarrow> 'a fsys_scheme \<Rightarrow> directory \<Rightarrow> bool" where
  "journalled A s d \<longleftrightarrow> (\<exists>j. d JOURNAL = Some j \<and> \<not> unsynced s j \<and> A (i_data (inodes s j)))"

definition recoverable :: "nat \<Rightarrow> (bytes \<Rightarrow> bool) \<Rightarrow> 'a fsys_scheme \<Rightarrow> directory \<Rightarrow> bool" where
  "recoverable orig A s d \<longleftrightarrow>
     d CANONICAL = Some orig \<or> d ROLLBACK = Some orig \<and> journalled A s d"

definition store ::
  "nat \<Rightarrow> bytes \<Rightarrow> (bytes \<Rightarrow> bool) \<Rightarrow> (nat \<Rightarrow> 'a \<Rightarrow> bool) \<Rightarrow> 'a fsys_scheme \<Rightarrow> bool" where
  "store orig D A R s \<longleftrightarrow> well_placed orig s \<and> i_data (inodes s orig) = D \<and> \<not> unsynced s orig \<and>
     (\<forall>d\<in>set (history s). recoverable orig A s d) \<and> R (device s) (fsys.more s)"

lemma names_distinct [simp]:
  "CANONICAL \<noteq> STAGE" "CANONICAL \<noteq> ROLLBACK" "CANONICAL \<noteq> JOURNAL" "CANONICAL \<noteq> JOURNAL_NEW" "CANONICAL \<noteq> LOCK"
  "STAGE \<noteq> CANONICAL" "STAGE \<noteq> ROLLBACK" "STAGE \<noteq> JOURNAL" "STAGE \<noteq> JOURNAL_NEW" "STAGE \<noteq> LOCK"
  "ROLLBACK \<noteq> CANONICAL" "ROLLBACK \<noteq> STAGE" "ROLLBACK \<noteq> JOURNAL" "ROLLBACK \<noteq> JOURNAL_NEW" "ROLLBACK \<noteq> LOCK"
  "JOURNAL \<noteq> CANONICAL" "JOURNAL \<noteq> STAGE" "JOURNAL \<noteq> ROLLBACK" "JOURNAL \<noteq> JOURNAL_NEW" "JOURNAL \<noteq> LOCK"
  "JOURNAL_NEW \<noteq> CANONICAL" "JOURNAL_NEW \<noteq> STAGE" "JOURNAL_NEW \<noteq> ROLLBACK" "JOURNAL_NEW \<noteq> JOURNAL" "JOURNAL_NEW \<noteq> LOCK"
  "LOCK \<noteq> CANONICAL" "LOCK \<noteq> STAGE" "LOCK \<noteq> ROLLBACK" "LOCK \<noteq> JOURNAL" "LOCK \<noteq> JOURNAL_NEW"
  by (simp_all add: CANONICAL_def STAGE_def ROLLBACK_def JOURNAL_def JOURNAL_NEW_def LOCK_def)

lemma stepless_store: "stepless (store orig D A R)"
  unfolding stepless_def store_def well_placed_def protected_def recoverable_def journalled_def by simp

text \<open>Changes below the directory: the protected inodes keep their content.\<close>

definition keeps_protected :: "nat \<Rightarrow> 'a fsys_scheme \<Rightarrow> 'a fsys_scheme \<Rightarrow> bool" where
  "keeps_protected orig s t \<longleftrightarrow> next_ino s \<le> next_ino t \<and> device t = device s \<and> fsys.more t = fsys.more s \<and>
     (\<forall>i. protected orig s i \<longrightarrow> i_data (inodes t i) = i_data (inodes s i) \<and> (unsynced t i \<longrightarrow> unsynced s i))"

lemma journalled_kept:
  "journalled A s d \<Longrightarrow> d \<in> set (history s) \<Longrightarrow> keeps_protected orig s t \<Longrightarrow> journalled A t d"
  unfolding journalled_def keeps_protected_def protected_def by metis

lemma recoverable_kept:
  "recoverable orig A s d \<Longrightarrow> d \<in> set (history s) \<Longrightarrow> keeps_protected orig s t \<Longrightarrow> recoverable orig A t d"
  unfolding recoverable_def using journalled_kept by blast

lemma recoverable_cong:
  "d CANONICAL = e CANONICAL \<Longrightarrow> d ROLLBACK = e ROLLBACK \<Longrightarrow> d JOURNAL = e JOURNAL \<Longrightarrow>
   recoverable orig A t d \<longleftrightarrow> recoverable orig A t e"
  by (simp add: recoverable_def journalled_def)

lemma store_below:
  assumes "store orig D A R s" "keeps_protected orig s t" "dir t = dir s" "history t = history s"
  shows "store orig D A R t"
proof -
  have w: "well_placed orig s" using assms(1) by (simp add: store_def)
  have p: "protected orig t i \<longleftrightarrow> protected orig s i" for i using assms(4) by (simp add: protected_def)
  have n: "next_ino s \<le> next_ino t" using assms(2) by (simp add: keeps_protected_def)
  have "well_placed orig t"
    using w n unfolding well_placed_def p assms(3,4) by (auto intro: order.strict_trans2[OF _ n])
  moreover have "protected orig s orig" by (simp add: protected_def)
  ultimately show ?thesis
    using assms recoverable_kept[of orig A s _ t]
    unfolding store_def by (auto simp: keeps_protected_def)
qed

text \<open>A change of the directory.\<close>

lemma store_directory:
  assumes s: "store orig D A R s" and k: "keeps_protected orig s t"
    and t: "dir t = d" "history t = d # history s"
    and d: "\<And>n i. d n = Some i \<Longrightarrow> i < next_ino t" "d JOURNAL \<noteq> Some orig"
      "\<And>i. d STAGE = Some i \<Longrightarrow> \<not> protected orig s i \<and> d JOURNAL \<noteq> Some i \<and> d JOURNAL_NEW \<noteq> Some i"
      "\<And>i. d JOURNAL_NEW = Some i \<Longrightarrow> \<not> protected orig s i \<and> d JOURNAL \<noteq> Some i"
    and r: "recoverable orig A t d"
  shows "store orig D A R t"
proof -
  have w: "well_placed orig s" using s by (simp add: store_def)
  have p: "protected orig t i \<longleftrightarrow> protected orig s i \<or> d JOURNAL = Some i" for i
    using t by (auto simp: protected_def)
  have n: "next_ino s \<le> next_ino t" using k by (simp add: keeps_protected_def)
  have "\<forall>e\<in>set (history s). (\<forall>m i. e m = Some i \<longrightarrow> i < next_ino t) \<and> e JOURNAL \<noteq> Some orig"
    using w order.strict_trans2[OF _ n] unfolding well_placed_def by blast
  moreover have "orig < next_ino t" using w n by (simp add: well_placed_def)
  ultimately have "well_placed orig t"
    unfolding well_placed_def p using t d by auto
  moreover have "\<forall>e\<in>set (history t). recoverable orig A t e"
    using s k t r recoverable_kept[of orig A s _ t] by (auto simp: store_def)
  moreover have "protected orig s orig" by (simp add: protected_def)
  ultimately show ?thesis using s k unfolding store_def keeps_protected_def by auto
qed

lemma storeD:
  assumes "store orig D A R s"
  shows "well_placed orig s" "recoverable orig A s (dir s)" "dir s \<in> set (history s)"
proof -
  show w: "well_placed orig s" using assms by (simp add: store_def)
  then show "dir s \<in> set (history s)" unfolding well_placed_def by (metis list.set_sel(1))
  then show "recoverable orig A s (dir s)" using assms by (simp add: store_def)
qed

lemma well_placedD:
  assumes "well_placed orig s"
  shows "dir s n = Some i \<Longrightarrow> i < next_ino s" "dir s JOURNAL \<noteq> Some orig"
    "dir s STAGE = Some i \<Longrightarrow> \<not> protected orig s i \<and> dir s JOURNAL_NEW \<noteq> Some i \<and> dir s JOURNAL \<noteq> Some i"
    "dir s JOURNAL_NEW = Some i \<Longrightarrow> \<not> protected orig s i \<and> dir s JOURNAL \<noteq> Some i"
    "protected orig s i \<Longrightarrow> i < next_ino s"
  using assms unfolding well_placed_def protected_def by (metis list.set_sel(1))+

lemma record_event_sel [simp]:
  "dir (s\<lparr> trace := x \<rparr>) = dir s" "store orig D A R (s\<lparr> trace := x \<rparr>) = store orig D A R s"
  by (simp_all add: store_def well_placed_def protected_def recoverable_def journalled_def)

lemma set_inode_sel [simp]:
  "dir (set_inode i n s) = dir s" "history (set_inode i n s) = history s"
  "inodes (set_inode i n s) = (inodes s)(i := n)" "unsynced (set_inode i n s) = unsynced s"
  "next_ino (set_inode i n s) = next_ino s" "device (set_inode i n s) = device s"
  "fsys.more (set_inode i n s) = fsys.more s" "trace (set_inode i n s) = trace s"
  by (simp_all add: set_inode_def)

lemma set_dir_sel [simp]:
  "dir (set_dir d s) = d" "history (set_dir d s) = d # history s"
  "inodes (set_dir d s) = inodes s" "unsynced (set_dir d s) = unsynced s"
  "next_ino (set_dir d s) = next_ino s" "device (set_dir d s) = device s"
  "fsys.more (set_dir d s) = fsys.more s" "trace (set_dir d s) = trace s"
  by (simp_all add: set_dir_def)

lemma touch_sel [simp]:
  "dir (touch i s) = dir s" "history (touch i s) = history s"
  "i_data (inodes (touch i s) j) = i_data (inodes s j)" "unsynced (touch i s) = unsynced s"
  "next_ino (touch i s) = next_ino s" "device (touch i s) = device s"
  "fsys.more (touch i s) = fsys.more s"
  by (simp_all add: touch_def)

lemma set_data_sel [simp]:
  "dir (set_data i b s) = dir s" "history (set_data i b s) = history s"
  "i_data (inodes (set_data i b s) j) = (if j = i then b else i_data (inodes s j))"
  "unsynced (set_data i b s) = (unsynced s)(i := True)"
  "next_ino (set_data i b s) = next_ino s" "device (set_data i b s) = device s"
  "fsys.more (set_data i b s) = fsys.more s"
  by (simp_all add: set_data_def)

lemma create_file_sel [simp]:
  "dir (create_file n s) = (dir s)(n := Some (next_ino s))"
  "history (create_file n s) = (dir s)(n := Some (next_ino s)) # history s"
  "inodes (create_file n s) = (inodes s)(next_ino s := new_inode (s\<lparr> next_ino := Suc (next_ino s),
     unsynced := (unsynced s)(next_ino s := True) \<rparr>))"
  "unsynced (create_file n s) = (unsynced s)(next_ino s := True)"
  "next_ino (create_file n s) = Suc (next_ino s)" "device (create_file n s) = device s"
  "fsys.more (create_file n s) = fsys.more s"
  by (simp_all add: create_file_def Let_def new_inode_def)

lemma triple_file_call:
  assumes "triple P act Q E" "stepless P" "\<And>s. P s \<Longrightarrow> E s"
  shows "triple P (syscall act) Q E"
  using assms by (intro triple_syscall[OF assms(1)]) (auto simp: stepless_def)

text \<open>Calls that give a protected inode no new content.\<close>

lemma store_attributes:
  "store orig D A R s \<Longrightarrow> i_data n = i_data (inodes s i) \<Longrightarrow> store orig D A R (set_inode i n s)"
  by (erule store_below) (auto simp: keeps_protected_def)

lemma store_synced: "store orig D A R s \<Longrightarrow> store orig D A R (s\<lparr> unsynced := (unsynced s)(i := False) \<rparr>)"
  by (erule store_below) (auto simp: keeps_protected_def)

lemma store_written:
  "store orig D A R s \<Longrightarrow> \<not> protected orig s i \<Longrightarrow> store orig D A R (set_data i b s)"
  by (erule store_below) (auto simp: keeps_protected_def)

lemma store_created:
  assumes "store orig D A R s" "n \<in> {STAGE, JOURNAL_NEW, LOCK}" "dir s n = None"
  shows "store orig D A R (create_file n s)"
proof (rule store_directory[OF assms(1) _ create_file_sel(1,2)])
  note w = storeD(1)[OF assms(1)]
  show k: "keeps_protected orig s (create_file n s)"
    using well_placedD(5)[OF w] by (auto simp: keeps_protected_def)
  have "recoverable orig A (create_file n s) (dir s)"
    using recoverable_kept[OF storeD(2,3)[OF assms(1)] k] .
  then show "recoverable orig A (create_file n s) ((dir s)(n := Some (next_ino s)))"
    by (subst recoverable_cong[of _ "dir s"]) (use assms(2) in auto)
qed (use assms(2) well_placedD[OF storeD(1)[OF assms(1)]] less_SucI in \<open>fastforce split: if_splits\<close>)+

lemma store_synced_directory:
  assumes "store orig D A R s"
  shows "store orig D A R (s\<lparr> history := [dir s] \<rparr>)"
proof -
  have "\<not> protected orig (s\<lparr> history := [dir s] \<rparr>) i" if "\<not> protected orig s i" for i
    using that storeD(3)[OF assms] by (auto simp: protected_def)
  moreover have "recoverable orig A (s\<lparr> history := [dir s] \<rparr>) (dir s)"
    using storeD(2)[OF assms] by (simp add: recoverable_def journalled_def)
  ultimately show ?thesis
    using assms well_placedD[OF storeD(1)[OF assms]]
    unfolding store_def well_placed_def by (simp add: storeD(3)[OF assms])
qed

lemma store_renamed_journal:
  assumes s: "store orig D A R s" and i: "dir s JOURNAL_NEW = Some i"
    and ok: "dir s CANONICAL = Some orig \<or> \<not> unsynced s i \<and> A (i_data (inodes s i))"
  shows "store orig D A R (touch i (set_dir ((dir s)(JOURNAL_NEW := None, JOURNAL := Some i)) s))"
proof (rule store_directory[OF s])
  note w = well_placedD[OF storeD(1)[OF s]]
  have "dir s CANONICAL = Some orig \<or> dir s ROLLBACK = Some orig"
    using storeD(2)[OF s] by (auto simp: recoverable_def)
  with ok show "recoverable orig A (touch i (set_dir ((dir s)(JOURNAL_NEW := None, JOURNAL := Some i)) s))
      ((dir s)(JOURNAL_NEW := None, JOURNAL := Some i))"
    by (auto simp: recoverable_def journalled_def)
  show "((dir s)(JOURNAL_NEW := None, JOURNAL := Some i)) JOURNAL \<noteq> Some orig"
    using w(4)[OF i] by (auto simp: protected_def)
qed (use i well_placedD[OF storeD(1)[OF s]] in \<open>auto simp: keeps_protected_def split: if_splits\<close>)

lemma store_unlinked:
  assumes s: "store orig D A R s" and n: "n \<in> {STAGE, JOURNAL_NEW} \<or> n = ROLLBACK \<and> dir s CANONICAL = Some orig \<or>
    n = JOURNAL \<and> dir s CANONICAL = Some orig"
  shows "store orig D A R (touch i (set_dir ((dir s)(n := None)) s))"
proof (rule store_directory[OF s])
  have "recoverable orig A (touch i (set_dir ((dir s)(n := None)) s)) (dir s)"
    using storeD(2)[OF s] by (simp add: recoverable_def journalled_def)
  then show "recoverable orig A (touch i (set_dir ((dir s)(n := None)) s)) ((dir s)(n := None))"
    using n by (auto simp: recoverable_def journalled_def)
qed (use well_placedD[OF storeD(1)[OF s]] in \<open>auto simp: keeps_protected_def split: if_splits\<close>)

lemma store_linked:
  assumes s: "store orig D A R s" and i: "dir s CANONICAL = Some i" "dir s ROLLBACK = None"
  shows "store orig D A R (touch i (set_dir ((dir s)(ROLLBACK := Some i)) s))"
proof (rule store_directory[OF s])
  show "recoverable orig A (touch i (set_dir ((dir s)(ROLLBACK := Some i)) s)) ((dir s)(ROLLBACK := Some i))"
    using storeD(2)[OF s] i by (auto simp: recoverable_def)
qed (use i well_placedD[OF storeD(1)[OF s]] in \<open>auto simp: keeps_protected_def split: if_splits\<close>)

text \<open>The two replacements of the canonical name.\<close>

lemma store_committed:
  assumes s: "store orig D A R s" and i: "dir s STAGE = Some i"
    and r: "dir s ROLLBACK = Some orig" and j: "journalled A s (dir s)"
  shows "store orig D A R (touch i (set_dir ((dir s)(STAGE := None, CANONICAL := Some i)) s))"
proof (rule store_directory[OF s])
  show "recoverable orig A (touch i (set_dir ((dir s)(STAGE := None, CANONICAL := Some i)) s))
      ((dir s)(STAGE := None, CANONICAL := Some i))"
    using r j by (auto simp: recoverable_def journalled_def)
qed (use i well_placedD[OF storeD(1)[OF s]] in \<open>auto simp: keeps_protected_def split: if_splits\<close>)

lemma store_restored:
  assumes s: "store orig D A R s" and i: "dir s ROLLBACK = Some orig"
  shows "store orig D A R (touch orig (set_dir ((dir s)(ROLLBACK := None, CANONICAL := Some orig)) s))"
proof (rule store_directory[OF s])
  show "recoverable orig A (touch orig (set_dir ((dir s)(ROLLBACK := None, CANONICAL := Some orig)) s))
      ((dir s)(ROLLBACK := None, CANONICAL := Some orig))"
    by (simp add: recoverable_def)
qed (use i well_placedD[OF storeD(1)[OF s]] in \<open>auto simp: keeps_protected_def split: if_splits\<close>)

section \<open>The calls keep the store\<close>

lemmas exec_eval = seqx_def gets_def modify_def throw_def ret_def record_event_def

lemma store_step [simp]: "store orig D A R (s\<lparr> step := n \<rparr>) = store orig D A R s"
  using stepless_store unfolding stepless_def by blast

lemma journalled_step [simp]: "journalled A (s\<lparr> step := n \<rparr>) d = journalled A s d"
  by (simp add: journalled_def)

lemma triple_os_open_create:
  assumes "n \<in> {STAGE, JOURNAL_NEW, LOCK}"
  shows "triple (store orig D A R) (os_open_create n)
    (\<lambda>fd s. store orig D A R s \<and> dir s n = Some fd \<and> i_data (inodes s fd) = []) (store orig D A R)"
  unfolding os_open_create_def
  by (rule triple_file_call, rule tripleI)
    (auto simp: exec_eval store_created[OF _ assms] new_inode_def stepless_store split: option.splits)

lemma triple_attributes:
  "triple (\<lambda>s. store orig D A R s \<and> dir s n = Some fd \<and> i_data (inodes s fd) = b) (os_fchown fd u g)
     (\<lambda>_ s. store orig D A R s \<and> dir s n = Some fd \<and> i_data (inodes s fd) = b) (store orig D A R)"
  "triple (\<lambda>s. store orig D A R s \<and> dir s n = Some fd \<and> i_data (inodes s fd) = b) (os_fchmod fd m)
     (\<lambda>_ s. store orig D A R s \<and> dir s n = Some fd \<and> i_data (inodes s fd) = b) (store orig D A R)"
  unfolding os_fchown_def os_fchmod_def
  by (rule triple_file_call, rule tripleI;
      simp add: exec_eval store_attributes stepless_def)+

lemma unprotected_name:
  "store orig D A R s \<Longrightarrow> n \<in> {STAGE, JOURNAL_NEW} \<Longrightarrow> dir s n = Some i \<Longrightarrow> \<not> protected orig s i"
  using well_placedD(3,4)[OF storeD(1)] by blast

lemma triple_os_write:
  assumes "n \<in> {STAGE, JOURNAL_NEW}"
  shows "triple (\<lambda>s. store orig D A R s \<and> dir s n = Some fd \<and> i_data (inodes s fd) = b) (os_write fd view)
    (\<lambda>k s. store orig D A R s \<and> dir s n = Some fd \<and> i_data (inodes s fd) = b @ take k view) (store orig D A R)"
  unfolding os_write_def
  by (rule triple_file_call, rule tripleI)
    (auto simp: exec_eval stepless_def min_def intro!: store_written dest: unprotected_name[OF _ assms])

lemma triple_write_loop:
  assumes "n \<in> {STAGE, JOURNAL_NEW}"
  shows "triple (\<lambda>s. store orig D A R s \<and> dir s n = Some fd \<and> i_data (inodes s fd) = b) (write_loop fd view)
    (\<lambda>_ s. store orig D A R s \<and> dir s n = Some fd \<and> i_data (inodes s fd) = b @ view) (store orig D A R)"
proof (induction "length view" arbitrary: view b rule: less_induct)
  case less
  show ?case
  proof (cases "view = []")
    case True
    then show ?thesis by (subst write_loop.simps) (auto intro: triple_ret)
  next
    case False
    have "triple (\<lambda>s. store orig D A R s \<and> dir s n = Some fd \<and> i_data (inodes s fd) = b @ take k view)
      (if k = 0 then throw (UnifiOperationError ''journal write failed'') else write_loop fd (drop k view))
      (\<lambda>_ s. store orig D A R s \<and> dir s n = Some fd \<and> i_data (inodes s fd) = b @ view) (store orig D A R)" for k
      using less[of "drop k view" "b @ take k view"] False by (auto intro: triple_throw)
    from triple_seqx[OF triple_os_write[OF assms] this] False show ?thesis
      by (subst write_loop.simps) simp
  qed
qed

lemma triple_os_fsync_file:
  "triple (\<lambda>s. store orig D A R s \<and> dir s n = Some fd \<and> i_data (inodes s fd) = b) (os_fsync_file fd)
     (\<lambda>_ s. store orig D A R s \<and> dir s n = Some fd \<and> i_data (inodes s fd) = b \<and> \<not> unsynced s fd) (store orig D A R)"
  unfolding os_fsync_file_def
  by (rule triple_file_call, rule tripleI) (auto simp: exec_eval stepless_def store_synced)

lemma triple_os_fsync_dir:
  "triple (\<lambda>s. store orig D A R s \<and> P (dir s) (inodes s) (unsynced s)) os_fsync_dir
     (\<lambda>_ s. store orig D A R s \<and> P (dir s) (inodes s) (unsynced s) \<and> history s = [dir s]) (store orig D A R)"
  unfolding os_fsync_dir_def
  by (rule triple_file_call, rule tripleI) (auto simp: exec_eval stepless_def store_synced_directory)

lemma triple_replace_journal:
  "triple (\<lambda>s. store orig D A R s \<and> dir s JOURNAL_NEW = Some i \<and> i_data (inodes s i) = b \<and> \<not> unsynced s i \<and>
       (dir s CANONICAL = Some orig \<or> A b)) (os_replace JOURNAL_NEW JOURNAL)
     (\<lambda>_ s. store orig D A R s \<and> dir s JOURNAL = Some i \<and> i_data (inodes s i) = b \<and> \<not> unsynced s i) (store orig D A R)"
  unfolding os_replace_def
  by (rule triple_file_call, rule tripleI)
    (auto simp: exec_eval stepless_def store_renamed_journal split: option.splits)

lemma triple_unlink:
  assumes "n \<in> {STAGE, JOURNAL_NEW} \<or> n \<in> {ROLLBACK, JOURNAL} \<and> C"
  shows "triple (\<lambda>s. store orig D A R s \<and> (C \<longrightarrow> dir s CANONICAL = Some orig)) (os_unlink n)
    (\<lambda>_ s. store orig D A R s \<and> (C \<longrightarrow> dir s CANONICAL = Some orig)) (store orig D A R)"
proof -
  have "n \<noteq> CANONICAL" using assms by auto
  then show ?thesis
  unfolding os_unlink_def
  by (intro triple_file_call tripleI)
    (use assms in \<open>auto simp: exec_eval stepless_def intro!: store_unlinked split: option.splits\<close>)
qed

lemma triple_link_rollback_call:
  "triple (store orig D A R) (os_link CANONICAL ROLLBACK)
     (\<lambda>_ s. store orig D A R s \<and> dir s ROLLBACK = dir s CANONICAL) (store orig D A R)"
  unfolding os_link_def
  by (rule triple_file_call, rule tripleI)
    (auto simp: exec_eval stepless_store store_linked split: option.splits)

lemma triple_commit_call:
  "triple (\<lambda>s. store orig D A R s \<and> dir s ROLLBACK = Some orig \<and> journalled A s (dir s)) (os_replace STAGE CANONICAL)
     (\<lambda>_. store orig D A R) (store orig D A R)"
  unfolding os_replace_def
  by (rule triple_file_call, rule tripleI)
    (auto simp: exec_eval stepless_def store_committed split: option.splits)

lemma triple_restore_call:
  "triple (\<lambda>s. store orig D A R s \<and> dir s ROLLBACK = Some orig) (os_replace ROLLBACK CANONICAL)
     (\<lambda>_ s. store orig D A R s \<and> dir s CANONICAL = Some orig) (store orig D A R)"
  unfolding os_replace_def
  by (rule triple_file_call, rule tripleI)
    (auto simp: exec_eval stepless_def store_restored split: option.splits)

section \<open>The operations keep the store\<close>

text \<open>A quiet computation in front of another one, with what its value reveals.\<close>

lemma triple_look:
  assumes m: "quiet m" and P: "stepless P" and Ob: "\<And>x. stepless (Ob x)"
    and sees: "\<And>s x t. P s \<Longrightarrow> m s = (Return x, t) \<Longrightarrow> Ob x s"
    and f: "\<And>x. triple (\<lambda>s. P s \<and> Ob x s) (f x) Q E" and E: "\<And>s. P s \<Longrightarrow> E s"
  shows "triple P (seqx m f) Q E"
proof (rule triple_seqx)
  show "triple P m (\<lambda>x s. P s \<and> Ob x s) E"
  proof (rule tripleI)
    fix s assume s: "P s"
    have same: "g t = g s" if "m s = (r, t)" "stepless g" for r t and g :: "'a machine_scheme \<Rightarrow> bool"
      using keepsD[OF quiet_keeps[OF m that(2)] that(1)] .
    show "after (\<lambda>x s. P s \<and> Ob x s) E (m s)"
    proof (cases "m s" rule: outcome_pair_cases)
      case (ok x t)
      then show ?thesis using sees[OF s ok] same[OF ok Ob] same[OF ok P] s by simp
    next
      case (raised e t)
      then show ?thesis using same[OF raised P] E s by simp
    next
      case (died t)
      then show ?thesis using same[OF died P] E s by simp
    qed
  qed
qed (rule f)

lemma triple_pass:
  "quiet m \<Longrightarrow> stepless P \<Longrightarrow> (\<And>x. triple P (f x) Q E) \<Longrightarrow> (\<And>s. P s \<Longrightarrow> E s) \<Longrightarrow> triple P (seqx m f) Q E"
  by (rule triple_look[where Ob = "\<lambda>_ _. True"]) auto

text \<open>A guard in front of a computation.\<close>

lemma triple_guard:
  "(\<not> c \<Longrightarrow> triple P (f ()) Q E) \<Longrightarrow> (\<And>s. P s \<Longrightarrow> E s) \<Longrightarrow> triple P (seqx (raise_if c e) f) Q E"
  by (cases c) (auto simp: raise_if_def intro: triple_throw)

lemma triple_closing:
  assumes "triple P m Q E" "\<And>x. stepless (Q x)" "stepless E" "\<And>x s. Q x s \<Longrightarrow> E s"
  shows "triple P (finally_do m (os_close fd)) Q E"
proof (rule triple_finally[OF assms(1)])
  show "triple (Q x) (os_close fd) (\<lambda>_. Q x) E" for x
    by (rule triple_weaken[OF triple_quiet[OF quiet_os(6) assms(2)]]) (auto dest: assms(4))
  show "triple E (os_close fd) (\<lambda>_. E) E" by (rule triple_quiet[OF quiet_os(6) assms(3)])
qed

lemma triple_files_created:
  assumes n: "n \<in> {STAGE, JOURNAL_NEW, LOCK}" and Q: "\<And>x. stepless (Q x)"
    and body: "\<And>fd. triple (\<lambda>s. store orig D A R s \<and> dir s n = Some fd \<and> i_data (inodes s fd) = []) (body fd)
      (\<lambda>x s. store orig D A R s \<and> Q x s) (store orig D A R)"
  shows "triple (store orig D A R) (files_created F n body) (\<lambda>x s. store orig D A R s \<and> Q x s) (store orig D A R)"
proof -
  let ?S = "store orig D A R"
  let ?P = "\<lambda>fd s. ?S s \<and> dir s n = Some fd \<and> i_data (inodes s fd) = []"
  have P: "stepless (?P fd)" for fd by (simp add: stepless_def)
  have "triple (?P fd) (seqx (if n = STAGE then os_fchown fd (f_uid F) (f_gid F) else os_fchown fd 0 0) (\<lambda>_.
        seqx (os_fchmod fd 0x180) (\<lambda>_. seqx (check_opened F n fd) (\<lambda>_. body fd))))
      (\<lambda>x s. ?S s \<and> Q x s) ?S" for fd
    by (rule triple_seqx[where R = "\<lambda>_. ?P fd"], simp add: triple_attributes(1),
        rule triple_seqx[OF triple_attributes(2)], rule triple_pass[OF quiet_check_opened P body]) simp
  then show ?thesis unfolding files_created_def
    by (intro triple_pass[OF quiet_files_name stepless_store] triple_seqx[OF triple_os_open_create[OF n]]
        triple_closing) (use Q in \<open>auto simp: stepless_def\<close>)
qed

lemma triple_files_remove:
  assumes "n \<in> {STAGE, JOURNAL_NEW} \<or> n \<in> {ROLLBACK, JOURNAL} \<and> C"
  shows "triple (\<lambda>s. store orig D A R s \<and> (C \<longrightarrow> dir s CANONICAL = Some orig)) (files_remove F n)
    (\<lambda>_ s. store orig D A R s \<and> (C \<longrightarrow> dir s CANONICAL = Some orig)) (store orig D A R)"
proof -
  have p: "stepless (\<lambda>s. store orig D A R s \<and> (C \<longrightarrow> dir s CANONICAL = Some orig))"
    by (simp add: stepless_def)
  have "triple (\<lambda>s. store orig D A R s \<and> (C \<longrightarrow> dir s CANONICAL = Some orig))
      (if there then seqx (files_status F n) (\<lambda>_. os_unlink n) else ret ())
      (\<lambda>_ s. store orig D A R s \<and> (C \<longrightarrow> dir s CANONICAL = Some orig)) (store orig D A R)" for there
    by (rule triple_if, rule triple_pass[OF quiet_files_status p triple_unlink[OF assms]], simp)
      (rule triple_ret)
  from triple_pass[OF quiet_files_exists p this] show ?thesis unfolding files_remove_def
    by (intro triple_if triple_throw) auto
qed

lemma encode_ascii_Inr: "encode_ascii s = Inr b \<Longrightarrow> b = s"
  by (auto simp: encode_ascii_def split: if_splits)

lemma triple_frame:
  assumes "triple P m Q E" "keeps f m"
  shows "triple (\<lambda>s. P s \<and> X (f s)) m (\<lambda>x s. Q x s \<and> X (f s)) E"
  by (rule triple_weaken[OF triple_conj[OF assms(1) triple_keeps[OF assms(2)]]]) auto

text \<open>Which calls leave a name of the directory alone.\<close>

lemma stepless_dir [simp]: "stepless (\<lambda>s. dir s n)"
  by (simp add: stepless_def)

lemma keeps_dir_os:
  "n \<noteq> m \<Longrightarrow> keeps (\<lambda>s. dir s n) (os_open_create m)" "keeps (\<lambda>s. dir s n) (os_fchown fd u g)"
  "keeps (\<lambda>s. dir s n) (os_fchmod fd mode)" "keeps (\<lambda>s. dir s n) (os_write fd b)"
  "keeps (\<lambda>s. dir s n) (os_fsync_file fd)" "keeps (\<lambda>s. dir s n) os_fsync_dir"
  "n \<noteq> a \<Longrightarrow> n \<noteq> b \<Longrightarrow> keeps (\<lambda>s. dir s n) (os_replace a b)" "n \<noteq> m \<Longrightarrow> keeps (\<lambda>s. dir s n) (os_unlink m)"
  "n \<noteq> b \<Longrightarrow> keeps (\<lambda>s. dir s n) (os_link a b)" "keeps (\<lambda>s. dir s n) (os_copy_file_range i j pos k)"
  unfolding os_open_create_def os_fchown_def os_fchmod_def os_write_def os_fsync_file_def os_fsync_dir_def
    os_replace_def os_unlink_def os_link_def os_copy_file_range_def record_event_def
  by (auto intro!: keeps_intros keeps_modify)

lemma keeps_dir_quiet: "quiet m \<Longrightarrow> keeps (\<lambda>s. dir s n) m"
  by (rule quiet_keeps) simp_all

lemma keeps_dir_write_loop: "keeps (\<lambda>s. dir s n) (write_loop fd view)" (is "?K view")
proof (induction "length view" arbitrary: view rule: less_induct)
  case less
  have "?K (drop k view)" if "k \<noteq> 0" "view \<noteq> []" for k
    using less[of "drop k view"] that by simp
  then show ?case by (subst write_loop.simps) (auto intro!: keeps_intros keeps_dir_os)
qed

lemma keeps_dir_copy_loop: "keeps (\<lambda>s. dir s n) (copy_loop i j pos r)" (is "?K pos r")
proof (induction r arbitrary: pos rule: less_induct)
  case (less r)
  have "?K (pos + k) (r - k)" if "k \<noteq> 0" "r \<noteq> 0" for k
    using less[of "r - k"] that by simp
  then show ?case by (subst copy_loop.simps) (auto intro!: keeps_intros keeps_dir_os)
qed

lemmas keeps_dir_look = keeps_dir_quiet[OF quiet_files_status] keeps_dir_quiet[OF quiet_files_exists]
  keeps_dir_quiet[OF quiet_files_same] keeps_dir_quiet[OF quiet_files_name]
  keeps_dir_quiet[OF quiet_check_opened] keeps_dir_quiet[OF quiet_os(4)] keeps_dir_quiet[OF quiet_os(5)]
  keeps_dir_quiet[OF quiet_os(6)]

lemma keeps_dir_opened:
  "(\<And>fd. keeps (\<lambda>s. dir s n) (body fd)) \<Longrightarrow> keeps (\<lambda>s. dir s n) (files_opened F m body)"
  unfolding files_opened_def by (intro keeps_intros keeps_dir_look)

lemma keeps_dir_created:
  "n \<noteq> m \<Longrightarrow> (\<And>fd. keeps (\<lambda>s. dir s n) (body fd)) \<Longrightarrow> keeps (\<lambda>s. dir s n) (files_created F m body)"
  unfolding files_created_def by (intro keeps_intros keeps_dir_look keeps_dir_os)

lemma keeps_dir_replace: "n \<noteq> a \<Longrightarrow> n \<noteq> b \<Longrightarrow> keeps (\<lambda>s. dir s n) (files_replace F a b)"
  unfolding files_replace_def by (intro keeps_intros keeps_dir_look keeps_dir_os)

lemma keeps_dir_remove: "n \<noteq> m \<Longrightarrow> keeps (\<lambda>s. dir s n) (files_remove F m)"
  unfolding files_remove_def by (intro keeps_intros keeps_dir_look keeps_dir_os)

lemma keeps_dir_sync_directory: "keeps (\<lambda>s. dir s n) sync_directory"
  unfolding sync_directory_def by (rule keeps_dir_os)

lemmas keeps_dir_files = keeps_dir_look keeps_dir_opened keeps_dir_created keeps_dir_replace keeps_dir_remove
  keeps_dir_sync_directory keeps_dir_write_loop keeps_dir_copy_loop keeps_dir_os

lemma keeps_dir_write_journal: "n \<notin> {JOURNAL, JOURNAL_NEW} \<Longrightarrow> keeps (\<lambda>s. dir s n) (write_journal F v)"
  unfolding write_journal_def
  by (intro keeps_intros keeps_dir_files) auto

lemma keeps_dir_copy_stage: "n \<noteq> STAGE \<Longrightarrow> keeps (\<lambda>s. dir s n) (copy_stage F)"
  unfolding copy_stage_def
  by (intro keeps_intros keeps_dir_files) auto

text \<open>A new journal appears whole and durable, or not at all.\<close>

lemma triple_journal_body:
  "triple (\<lambda>s. store orig D A R s \<and> dir s JOURNAL_NEW = Some fd \<and> i_data (inodes s fd) = [])
     (seqx (write_loop fd data) (\<lambda>_. os_fsync_file fd))
     (\<lambda>_ s. store orig D A R s \<and>
        (\<exists>i. dir s JOURNAL_NEW = Some i \<and> i_data (inodes s i) = data \<and> \<not> unsynced s i)) (store orig D A R)"
  by (rule triple_seqx[OF triple_write_loop], simp)
    (rule triple_post[OF triple_os_fsync_file], auto)

lemma triple_write_journal:
  "triple (\<lambda>s. store orig D A R s \<and> (dir s CANONICAL = Some orig \<or> A (dumps v))) (write_journal F v)
     (\<lambda>_ s. store orig D A R s \<and> history s = [dir s] \<and>
        (\<exists>j. dir s JOURNAL = Some j \<and> \<not> unsynced s j \<and> i_data (inodes s j) = dumps v)) (store orig D A R)"
proof -
  let ?S = "store orig D A R"
  let ?X = "\<lambda>c. c = Some orig \<or> A (dumps v)"
  let ?N = "\<lambda>s. \<exists>i. dir s JOURNAL_NEW = Some i \<and> i_data (inodes s i) = dumps v \<and> \<not> unsynced s i"
  have remove: "triple (\<lambda>s. ?S s \<and> ?X (dir s CANONICAL)) (files_remove F JOURNAL_NEW)
      (\<lambda>_ s. ?S s \<and> ?X (dir s CANONICAL)) ?S"
    using triple_frame[OF triple_files_remove[of JOURNAL_NEW False orig D A R F]
        keeps_dir_remove[of CANONICAL JOURNAL_NEW], of ?X] by simp
  have create: "triple (\<lambda>s. ?S s \<and> ?X (dir s CANONICAL))
      (files_created F JOURNAL_NEW (\<lambda>fd. seqx (write_loop fd (dumps v)) (\<lambda>_. os_fsync_file fd)))
      (\<lambda>_ s. (?S s \<and> ?N s) \<and> ?X (dir s CANONICAL)) ?S"
    by (intro triple_frame triple_files_created triple_journal_body keeps_intros
        keeps_dir_files) (auto simp: stepless_def)
  have swap: "triple (\<lambda>s. ?S s \<and> dir s JOURNAL_NEW = Some i \<and> i_data (inodes s i) = dumps v \<and> \<not> unsynced s i \<and>
        ?X (dir s CANONICAL)) (files_replace F JOURNAL_NEW JOURNAL)
      (\<lambda>_ s. ?S s \<and> (\<exists>j. dir s JOURNAL = Some j \<and> \<not> unsynced s j \<and> i_data (inodes s j) = dumps v)) ?S" for i
    unfolding files_replace_def
    by (rule triple_if, simp add: replacements_def,
        rule triple_pass[OF quiet_files_status], simp add: stepless_def,
        rule triple_post[OF triple_replace_journal[where i = i]]) auto
  have replace: "triple (\<lambda>s. (?S s \<and> ?N s) \<and> ?X (dir s CANONICAL)) (files_replace F JOURNAL_NEW JOURNAL)
      (\<lambda>_ s. ?S s \<and> (\<exists>j. dir s JOURNAL = Some j \<and> \<not> unsynced s j \<and> i_data (inodes s j) = dumps v)) ?S"
    by (rule triple_pre[OF triple_ex[OF swap]]) auto
  show ?thesis unfolding write_journal_def
  proof (rule triple_seqx[where R = "\<lambda>data s. (?S s \<and> ?X (dir s CANONICAL)) \<and> data = dumps v"])
    show "triple (\<lambda>s. ?S s \<and> ?X (dir s CANONICAL)) (liftE (encode_ascii (dumps v)))
        (\<lambda>data s. (?S s \<and> ?X (dir s CANONICAL)) \<and> data = dumps v) ?S"
      by (rule triple_liftE) (auto dest: encode_ascii_Inr)
  qed (intro triple_pre_fact triple_guard, hypsubst, rule triple_seqx[OF remove],
      rule triple_seqx[OF create], rule triple_seqx[OF replace],
      use triple_os_fsync_dir[of orig D A R "\<lambda>d i u. \<exists>j. d JOURNAL = Some j \<and> \<not> u j \<and> i_data (i j) = dumps v"]
      in \<open>auto simp: sync_directory_def conj_commute intro: triple_post\<close>)
qed

lemma triple_files_opened:
  assumes "stepless P" "stepless E" "\<And>x. stepless (Q x)" "\<And>s. P s \<Longrightarrow> E s" "\<And>x s. Q x s \<Longrightarrow> E s"
    and body: "\<And>fd. triple (\<lambda>s. P s \<and> dir s n = Some fd) (body fd) Q E"
  shows "triple P (files_opened F n body) Q E"
proof -
  have look: "\<exists>i. dir s n = Some i \<and> x = i" if "os_open_read n s = (Return x, t)"
    for s :: "'a fsys_scheme" and x t
    using that by (auto simp: os_open_read_def syscall_Return seqx_Return gets_def split: option.splits if_splits)
  have st: "stepless (\<lambda>s. P s \<and> dir s n = Some fd)" for fd using assms(1) by (simp add: stepless_def)
  have "triple (\<lambda>s. P s \<and> dir s n = Some fd)
      (finally_do (seqx (check_opened F n fd) (\<lambda>_. body fd)) (os_close fd)) Q E" for fd
    by (rule triple_closing[OF triple_pass[OF quiet_check_opened st body]]) (use assms in auto)
  then show ?thesis unfolding files_opened_def
    by (intro triple_pass[OF quiet_files_name assms(1)]
        triple_look[OF quiet_os(5) assms(1), where Ob = "\<lambda>fd s. dir s n = Some fd"])
      (use look assms(4) in \<open>auto simp: stepless_def\<close>)
qed

lemma triple_copy_loop:
  "triple (\<lambda>s. store orig D A R s \<and> dir s STAGE = Some dest) (copy_loop source dest pos r)
     (\<lambda>_ s. store orig D A R s \<and> dir s STAGE = Some dest) (store orig D A R)" (is "?T pos r")
proof (induction r arbitrary: pos rule: less_induct)
  case (less r)
  have step: "triple (\<lambda>s. store orig D A R s \<and> dir s STAGE = Some dest) (os_copy_file_range source dest pos k)
      (\<lambda>_ s. store orig D A R s \<and> dir s STAGE = Some dest) (store orig D A R)" for k
    unfolding os_copy_file_range_def
    by (rule triple_file_call, rule tripleI)
      (auto simp: exec_eval stepless_def intro!: store_written dest: unprotected_name[of _ _ _ _ _ STAGE])
  have "?T (pos + k) (r - k)" if "k \<noteq> 0" "r \<noteq> 0" for k using less[of "r - k"] that by simp
  then show ?case
    by (subst copy_loop.simps)
      (auto intro!: triple_ret triple_throw triple_seqx[OF step] triple_if)
qed

lemma triple_copy_stage:
  "triple (store orig D A R) (copy_stage F) (\<lambda>_. store orig D A R) (store orig D A R)"
proof -
  let ?S = "store orig D A R"
  have S: "stepless (\<lambda>s. ?S s \<and> dir s n = Some fd)" for n fd by (simp add: stepless_def)
  have "triple (\<lambda>s. ?S s \<and> dir s STAGE = Some dest)
     (seqx (files_status F CANONICAL) (\<lambda>initial.
     seqx (raise_if (st_nlink initial \<noteq> 1) (UnifiOperationError ''unexpected canonical hard link'')) (\<lambda>_.
     seqx (copy_loop source dest 0 (st_size initial)) (\<lambda>_.
     seqx (files_same F CANONICAL initial) (\<lambda>_.
     seqx (os_fstat dest) (\<lambda>d.
     raise_if (st_ino d = st_ino initial) (UnifiOperationError ''stage must be an independent inode'')))))))
     (\<lambda>_ s. ?S s \<and> True) ?S" for source dest
    by (rule triple_pass[OF quiet_files_status S], rule triple_guard, rule triple_seqx[OF triple_copy_loop],
        rule triple_pass[OF quiet_files_same S], rule triple_pass[OF quiet_os(4) S], rule triple_raise_if) auto
  then show ?thesis unfolding copy_stage_def
    by (intro triple_files_opened stepless_store triple_weaken[OF triple_files_created[where Q = "\<lambda>_ _. True"]])
      (auto intro: triple_pre)
qed

lemma triple_sync_file: "triple (store orig D A R) (sync_file F n) (\<lambda>_. store orig D A R) (store orig D A R)"
proof -
  have "triple (\<lambda>s. store orig D A R s \<and> dir s n = Some fd) (os_fsync_file fd) (\<lambda>_. store orig D A R) (store orig D A R)" for fd
    unfolding os_fsync_file_def
    by (rule triple_file_call, rule tripleI) (auto simp: exec_eval stepless_def store_synced)
  then show ?thesis unfolding sync_file_def by (intro triple_files_opened stepless_store) auto
qed

lemma triple_link_rollback:
  "triple (store orig D A R) (link_rollback F)
     (\<lambda>_ s. store orig D A R s \<and> dir s ROLLBACK = dir s CANONICAL) (store orig D A R)"
  unfolding link_rollback_def
  by (rule triple_pass[OF quiet_files_status stepless_store triple_link_rollback_call])

lemma triple_sync_directory:
  "triple (\<lambda>s. store orig D A R s \<and> P (dir s) (inodes s) (unsynced s)) sync_directory
     (\<lambda>_ s. store orig D A R s \<and> P (dir s) (inodes s) (unsynced s) \<and> history s = [dir s]) (store orig D A R)"
  unfolding sync_directory_def by (rule triple_os_fsync_dir)

lemma triple_commit:
  "triple (\<lambda>s. store orig D A R s \<and> dir s ROLLBACK = Some orig \<and> journalled A s (dir s)) (files_replace F STAGE CANONICAL)
     (\<lambda>_. store orig D A R) (store orig D A R)"
  unfolding files_replace_def
  by (rule triple_if, simp add: replacements_def, rule triple_pass[OF quiet_files_status _ triple_commit_call])
    (auto simp: stepless_def)

lemma triple_restore:
  "triple (\<lambda>s. store orig D A R s \<and> dir s ROLLBACK = Some orig) (files_replace F ROLLBACK CANONICAL)
     (\<lambda>_ s. store orig D A R s \<and> dir s CANONICAL = Some orig) (store orig D A R)"
  unfolding files_replace_def
  by (rule triple_if, simp add: replacements_def, rule triple_pass[OF quiet_files_status _ triple_restore_call])
    (auto simp: stepless_def)

section \<open>The staged copy\<close>

text \<open>While copying: the source is untouched and the stage holds the part already copied.\<close>

definition copying :: "nat \<Rightarrow> nat \<Rightarrow> bytes \<Rightarrow> nat \<Rightarrow> 'a fsys_scheme \<Rightarrow> bool" where
  "copying source dest D pos s \<longleftrightarrow> source \<noteq> dest \<and> dir s CANONICAL = Some source \<and> dir s STAGE = Some dest \<and>
     i_data (inodes s source) = D \<and> i_data (inodes s dest) = take pos D"

lemma stepless_copying: "stepless (copying source dest D pos)"
  by (simp add: stepless_def copying_def)

lemma copy_step:
  "triple (copying source dest D pos) (os_copy_file_range source dest pos k)
     (\<lambda>n s. copying source dest D (pos + n) s \<and> n \<le> k) (\<lambda>_. True)"
  unfolding os_copy_file_range_def
  by (rule triple_file_call[OF tripleI stepless_copying])
    (auto simp: exec_eval copying_def min_def take_add)

lemma copy_loop_copies:
  "pos + r = length D \<Longrightarrow> triple (copying source dest D pos) (copy_loop source dest pos r)
     (\<lambda>_. copying source dest D (length D)) (\<lambda>_. True)" (is "_ \<Longrightarrow> ?T pos r")
proof (induction r arbitrary: pos rule: less_induct)
  case (less r)
  have "?T (pos + k) (r - k)" if "k \<noteq> 0" "r \<noteq> 0" "k \<le> r" for k
    using less(1)[of "r - k" "pos + k"] less(2) that by simp
  then show ?case
    using less(2)
    by (subst copy_loop.simps)
      (auto intro!: triple_ret triple_throw triple_seqx[OF copy_step] triple_if triple_pre_fact
        simp: min_def split: if_splits)
qed

text \<open>
  C14. When the staged copy returns, however the kernel split it into partial copies, the stage is a
  new file of its own that holds exactly the bytes of the canonical key store, and the canonical key
  store still names its old file with its old bytes.
\<close>

theorem copy_stage_copies_the_keystore:
  fixes s t :: "'a fsys_scheme"
  assumes "copy_stage F s = (Return (), t)" "dir s CANONICAL = Some c" "c < next_ino s" "i_data (inodes s c) = D"
  shows "\<exists>d. d \<noteq> c \<and> dir t STAGE = Some d \<and> i_data (inodes t d) = D \<and>
    dir t CANONICAL = Some c \<and> i_data (inodes t c) = D"
proof -
  let ?P = "\<lambda>s :: 'a fsys_scheme. dir s CANONICAL = Some c \<and> c < next_ino s \<and> i_data (inodes s c) = D"
  let ?Q = "\<lambda>(_ :: unit) (s :: 'a fsys_scheme). \<exists>d. copying c d D (length D) s"
  have P: "stepless ?P" by (simp add: stepless_def)
  have Q: "stepless (?Q x)" for x by (simp add: stepless_def copying_def)
  have body: "triple (copying c dest D 0)
     (seqx (files_status F CANONICAL) (\<lambda>initial.
     seqx (raise_if (st_nlink initial \<noteq> 1) (UnifiOperationError ''unexpected canonical hard link'')) (\<lambda>_.
     seqx (copy_loop c dest 0 (st_size initial)) (\<lambda>_.
     seqx (files_same F CANONICAL initial) (\<lambda>_.
     seqx (os_fstat dest) (\<lambda>d.
     raise_if (st_ino d = st_ino initial) (UnifiOperationError ''stage must be an independent inode'')))))))
     ?Q (\<lambda>_. True)" for dest
  proof (rule triple_look[OF quiet_files_status stepless_copying, where Ob = "\<lambda>v s. st_size v = length D"])
    fix s t :: "'a fsys_scheme" and v assume "copying c dest D 0 s" "files_status F CANONICAL s = (Return v, t)"
    then show "st_size v = length D"
      using files_status_Return[of F CANONICAL s v t] sound_status_size[of F CANONICAL v s]
      by (auto simp: copying_def sound_status_def)
  next
    fix v
    show "triple (\<lambda>s. copying c dest D 0 s \<and> st_size v = length D)
      (seqx (raise_if (st_nlink v \<noteq> 1) (UnifiOperationError ''unexpected canonical hard link'')) (\<lambda>_.
       seqx (copy_loop c dest 0 (st_size v)) (\<lambda>_.
       seqx (files_same F CANONICAL v) (\<lambda>_.
       seqx (os_fstat dest) (\<lambda>d.
       raise_if (st_ino d = st_ino v) (UnifiOperationError ''stage must be an independent inode''))))))
      ?Q (\<lambda>_. True)"
      by (intro triple_pre_fact triple_guard triple_seqx[OF copy_loop_copies]
          triple_pass[OF quiet_files_same stepless_copying] triple_pass[OF quiet_os(4) stepless_copying]
          triple_raise_if) auto
  qed (auto simp: stepless_def)
  have created: "triple ?P (os_open_create STAGE) (\<lambda>d. copying c d D 0) (\<lambda>_. True)"
    unfolding os_open_create_def
    by (rule triple_file_call[OF tripleI P])
      (auto simp: exec_eval copying_def new_inode_def split: option.splits)
  have attributes: "triple (copying c d D 0) (os_fchown d u g) (\<lambda>_. copying c d D 0) (\<lambda>_. True)"
    "triple (copying c d D 0) (os_fchmod d m) (\<lambda>_. copying c d D 0) (\<lambda>_. True)" for d u g m
    unfolding os_fchown_def os_fchmod_def
    by (rule triple_file_call[OF tripleI stepless_copying]; simp add: exec_eval copying_def)+
  have "triple (\<lambda>s. ?P s \<and> dir s CANONICAL = Some source) (files_created F STAGE (\<lambda>dest.
     seqx (files_status F CANONICAL) (\<lambda>initial.
     seqx (raise_if (st_nlink initial \<noteq> 1) (UnifiOperationError ''unexpected canonical hard link'')) (\<lambda>_.
     seqx (copy_loop source dest 0 (st_size initial)) (\<lambda>_.
     seqx (files_same F CANONICAL initial) (\<lambda>_.
     seqx (os_fstat dest) (\<lambda>d.
     raise_if (st_ino d = st_ino initial) (UnifiOperationError ''stage must be an independent inode''))))))))
     ?Q (\<lambda>_. True)" for source
  proof (cases "source = c")
    case True
    show ?thesis unfolding files_created_def True if_P[OF refl]
      by (rule triple_pre[where P' = ?P], rule triple_pass[OF quiet_files_name P],
          rule triple_seqx[OF created], rule triple_closing, rule triple_seqx[OF attributes(1)],
          rule triple_seqx[OF attributes(2)], rule triple_pass[OF quiet_check_opened stepless_copying body])
        (use Q in auto)
  next
    case False
    then show ?thesis by (intro tripleI) auto
  qed
  then have "triple ?P (copy_stage F) ?Q (\<lambda>_. True)"
    unfolding copy_stage_def by (intro triple_files_opened P Q) auto
  from triple_Return[OF this _ assms(1)] assms(2-) show ?thesis by (auto simp: copying_def)
qed

end
