(* ===== verification/SecureFile.thy ===== *)
theory SecureFile
  imports Files
begin

text \<open>
  Defensive opening of local files beneath the fixed secrets directory (\<open>secure_file.py\<close>): the
  validation of a file name, the lexical path functions it goes through, the checks of the opened
  directory and file, and the fallback for a platform without \<open>O_NOFOLLOW\<close>. What the kernel answers
  is a parameter, a function of the step of the call.
\<close>

unbundle bit_operations_syntax

definition SECURE_FILE_ROOT :: string where "SECURE_FILE_ROOT = ''/run/secrets''"
definition MAX_SECURE_FILENAME_CHARS :: nat where "MAX_SECURE_FILENAME_CHARS = 255"

abbreviation file_error :: "string \<Rightarrow> string \<Rightarrow> py_exc" where
  "file_error source_name condition \<equiv> SecureFileError (source_name @ '' '' @ condition)"

section \<open>Lexical paths\<close>

text \<open>\<open>posixpath.normpath\<close>, \<open>join\<close>, \<open>commonpath\<close> and \<open>relpath\<close> of normalised absolute paths.\<close>

definition norm_step :: "bool \<Rightarrow> string list \<Rightarrow> string \<Rightarrow> string list" where
  "norm_step absolute comps c =
     (if c = [] \<or> c = ''.'' then comps
      else if c \<noteq> ''..'' \<or> \<not> absolute \<and> comps = [] \<or> comps \<noteq> [] \<and> last comps = ''..'' then comps @ [c]
      else if comps \<noteq> [] then butlast comps else comps)"

definition normpath :: "string \<Rightarrow> string" where
  "normpath p = (if p = [] then ''.'' else
     let lead = (if \<not> startswith ''/'' p then [] else if startswith ''//'' p \<and> \<not> startswith ''///'' p then ''//'' else ''/'');
         r = lead @ join ''/'' (foldl (norm_step (lead \<noteq> [])) [] (split_char (CHR ''/'') p))
     in if r = [] then ''.'' else r)"

definition path_join :: "string \<Rightarrow> string \<Rightarrow> string" where
  "path_join a b = (if startswith ''/'' b then b else if a = [] \<or> endswith ''/'' a then a @ b else a @ ''/'' @ b)"

definition path_components :: "string \<Rightarrow> string list" where
  "path_components p = filter (\<lambda>c. c \<noteq> [] \<and> c \<noteq> ''.'') (split_char (CHR ''/'') p)"

fun common_prefix :: "string list \<Rightarrow> string list \<Rightarrow> string list" where
  "common_prefix (x # xs) (y # ys) = (if x = y then x # common_prefix xs ys else [])"
| "common_prefix _ _ = []"

definition commonpath :: "string \<Rightarrow> string \<Rightarrow> py_exc + string" where
  "commonpath a b = (if startswith ''/'' a \<noteq> startswith ''/'' b then Inl ValueError
     else Inr ((if startswith ''/'' a then ''/'' else []) @ join ''/'' (common_prefix (path_components a) (path_components b))))"

definition relpath :: "string \<Rightarrow> string \<Rightarrow> string" where
  "relpath p start = (let xs = path_components start; ys = path_components p; n = length (common_prefix xs ys);
       rel = replicate (length xs - n) ''..'' @ drop n ys
     in if rel = [] then ''.'' else join ''/'' rel)"

definition safe_filename :: "string \<Rightarrow> bool" where
  "safe_filename s \<longleftrightarrow> s \<noteq> [] \<and> is_alnum (hd s) \<and> length s \<le> MAX_SECURE_FILENAME_CHARS \<and>
     list_all (\<lambda>c. is_alnum c \<or> c = CHR ''.'' \<or> c = CHR ''_'' \<or> c = CHR ''-'') (tl s)"

definition resolve_secure_path :: "string \<Rightarrow> string \<Rightarrow> py_exc + string \<times> string \<times> string" where
  "resolve_secure_path filename source_name =
     (if \<not> safe_filename filename \<or> filename \<in> {''.'', ''..''} then Inl (file_error source_name ''filename is invalid'')
      else let trusted_root = normpath SECURE_FILE_ROOT
      in if \<not> startswith ''/'' trusted_root then Inl RuntimeError
         else let resolved_path = normpath (path_join trusted_root filename)
         in bindE (catchE (commonpath trusted_root resolved_path)
              (\<lambda>_. Inl (file_error source_name ''filename is outside the trusted root''))) (\<lambda>contained_root.
            if contained_root \<noteq> trusted_root \<or> resolved_path = trusted_root
            then Inl (file_error source_name ''filename is outside the trusted root'')
            else Inr (trusted_root, resolved_path, relpath resolved_path trusted_root)))"

definition validate_secure_filename :: "string \<Rightarrow> string \<Rightarrow> py_exc + string" where
  "validate_secure_filename filename source_name =
     bindE (resolve_secure_path filename source_name) (\<lambda>(_, _, contained_name). Inr contained_name)"

section \<open>The directory and the file\<close>

record secure_env =
  has_dir_fd :: bool
  has_nofollow :: bool
  effective_uid :: "nat option"
  root_lstat :: "nat \<Rightarrow> errno + stat_result"
  root_open :: "nat \<Rightarrow> errno + unit"
  root_fstat :: "nat \<Rightarrow> errno + stat_result"
  file_lstat :: "string \<Rightarrow> nat \<Rightarrow> errno + stat_result"
  file_open :: "string \<Rightarrow> nat \<Rightarrow> errno + unit"
  file_fstat :: "string \<Rightarrow> nat \<Rightarrow> errno + stat_result"
  file_fdopen :: "string \<Rightarrow> nat \<Rightarrow> errno + unit"
  file_data :: "string \<Rightarrow> nat \<Rightarrow> bytes"

definition on_OSError :: "('s, 'a) exec \<Rightarrow> ('s, 'a) exec \<Rightarrow> ('s, 'a) exec" where
  "on_OSError m h = handle m (\<lambda>e. if is_OSError e then h else throw e)"

definition check_trusted_root_metadata :: "secure_env \<Rightarrow> stat_result \<Rightarrow> py_exc + unit" where
  "check_trusted_root_metadata E v =
     (if \<not> S_ISDIR (st_mode v) then Inl (SecureFileError ''secure-file root is not a trusted directory'')
      else case effective_uid E of
        None \<Rightarrow> Inl (SecureFileError ''secure-file root ownership cannot be validated'')
      | Some uid \<Rightarrow>
        if st_uid v \<notin> {0, uid} then Inl (SecureFileError ''secure-file root has an untrusted owner'')
        else if shared_write (st_mode v) then Inl (SecureFileError ''secure-file root has unsafe permissions'')
        else Inr ())"

definition open_trusted_root :: "secure_env \<Rightarrow> ('m machine_scheme, unit) exec" where
  "open_trusted_root E =
     seqx (raise_if (\<not> has_dir_fd E) RuntimeError) (\<lambda>_.
     seqx (if has_nofollow E then ret None
           else seqx (on_OSError (host_call (root_lstat E)) (throw (SecureFileError ''secure-file root could not be read''))) (\<lambda>v.
             seqx (raise_if (S_ISLNK (st_mode v)) (SecureFileError ''secure-file root is not a trusted directory'')) (\<lambda>_.
             ret (Some v)))) (\<lambda>before_open.
     seqx (on_OSError (host_call (root_open E)) (throw (SecureFileError ''secure-file root could not be read''))) (\<lambda>_.
     handle
       (seqx (on_OSError (host_call (root_fstat E)) (throw (SecureFileError ''secure-file root cannot be inspected safely''))) (\<lambda>opened.
        seqx (liftE (check_trusted_root_metadata E opened)) (\<lambda>_.
        case before_open of
          None \<Rightarrow> ret ()
        | Some initial \<Rightarrow>
          seqx (on_OSError (host_call (root_lstat E)) (throw (SecureFileError ''secure-file root changed while being opened''))) (\<lambda>now.
          raise_if (S_ISLNK (st_mode now) \<or> (st_dev now, st_ino now) \<noteq> (st_dev initial, st_ino initial) \<or>
              (st_dev opened, st_ino opened) \<noteq> (st_dev initial, st_ino initial))
            (SecureFileError ''secure-file root changed while being opened'')))))
       (\<lambda>e. seqx (syscall (ret ())) (\<lambda>_. throw e)))))"

definition check_opened_metadata :: "secure_env \<Rightarrow> stat_result \<Rightarrow> string \<Rightarrow> bool \<Rightarrow> py_exc + unit" where
  "check_opened_metadata E v source_name require_private =
     (if \<not> S_ISREG (st_mode v) then Inl (file_error source_name ''is not a regular file'')
      else case effective_uid E of
        None \<Rightarrow> Inl (file_error source_name ''ownership cannot be validated'')
      | Some uid \<Rightarrow>
        if st_uid v \<notin> {0, uid} then Inl (file_error source_name ''has an untrusted owner'')
        else if st_mode v AND 0x10 \<noteq> 0 then Inl (file_error source_name ''is group-writable'')
        else if st_mode v AND 0x2 \<noteq> 0 then Inl (file_error source_name ''is world-writable'')
        else if require_private \<and> st_mode v AND 0x20 \<noteq> 0 then Inl (file_error source_name ''is group-readable'')
        else if require_private \<and> st_mode v AND 0x4 \<noteq> 0 then Inl (file_error source_name ''is world-readable'')
        else Inr ())"

definition lstat_for_fallback :: "secure_env \<Rightarrow> string \<Rightarrow> string \<Rightarrow> ('m machine_scheme, stat_result) exec" where
  "lstat_for_fallback E name source_name =
     seqx (on_OSError (host_call (file_lstat E name)) (throw (file_error source_name ''could not be read''))) (\<lambda>v.
     seqx (raise_if (S_ISLNK (st_mode v)) (file_error source_name ''is a symbolic link'')) (\<lambda>_.
     seqx (raise_if (\<not> S_ISREG (st_mode v)) (file_error source_name ''is not a regular file'')) (\<lambda>_.
     ret v)))"

definition raise_classified_open_error :: "secure_env \<Rightarrow> string \<Rightarrow> string \<Rightarrow> ('m machine_scheme, 'a) exec" where
  "raise_classified_open_error E name source_name =
     seqx (lstat_for_fallback E name source_name) (\<lambda>_. throw (file_error source_name ''could not be read''))"

text \<open>
  \<open>open_secure_file\<close> returns the name of the opened file, the stream; the root descriptor is closed
  however the call ends. The error number of the failed \<open>os.open\<close> decides between two messages.
\<close>

definition open_contained :: "secure_env \<Rightarrow> string \<Rightarrow> string \<Rightarrow> ('m machine_scheme, unit) exec" where
  "open_contained E name source_name =
     seqx (on_OSError (syscall (gets (\<lambda>s. file_open E name (step s)))) (ret (Inl EOTHER))) (\<lambda>r. case r of
       Inr _ \<Rightarrow> ret ()
     | Inl e \<Rightarrow> if has_nofollow E \<and> e = ELOOP then throw (file_error source_name ''is a symbolic link'')
                else raise_classified_open_error E name source_name)"

definition check_contained :: "secure_env \<Rightarrow> string \<Rightarrow> string \<Rightarrow> bool \<Rightarrow> stat_result option \<Rightarrow> ('m machine_scheme, stat_result) exec" where
  "check_contained E name source_name require_private before_open =
     seqx (on_OSError (host_call (file_fstat E name)) (throw (file_error source_name ''cannot be inspected safely''))) (\<lambda>opened.
     seqx (liftE (check_opened_metadata E opened source_name require_private)) (\<lambda>_.
     seqx (case before_open of
         None \<Rightarrow> ret ()
       | Some initial \<Rightarrow>
         seqx (on_OSError (host_call (file_lstat E name)) (throw (file_error source_name ''changed while being opened''))) (\<lambda>now.
         raise_if (S_ISLNK (st_mode now) \<or> (st_dev now, st_ino now) \<noteq> (st_dev initial, st_ino initial) \<or>
             (st_dev opened, st_ino opened) \<noteq> (st_dev initial, st_ino initial))
           (file_error source_name ''changed while being opened''))) (\<lambda>_.
     seqx (on_OSError (host_call (file_fdopen E name)) (throw (file_error source_name ''could not be read''))) (\<lambda>_.
     ret opened))))"

definition open_secure_file :: "secure_env \<Rightarrow> string \<Rightarrow> string \<Rightarrow> bool \<Rightarrow> ('m machine_scheme, string \<times> stat_result) exec" where
  "open_secure_file E filename source_name require_private =
     seqx (liftE (resolve_secure_path filename source_name)) (\<lambda>(_, _, name).
     seqx (open_trusted_root E) (\<lambda>_.
     finally_do
       (seqx (if has_nofollow E then ret None
              else seqx (lstat_for_fallback E name source_name) (\<lambda>v. ret (Some v))) (\<lambda>before_open.
        seqx (open_contained E name source_name) (\<lambda>_.
        handle (seqx (check_contained E name source_name require_private before_open) (\<lambda>v. ret (name, v)))
          (\<lambda>e. seqx (syscall (ret ())) (\<lambda>_. throw e)))))
       (syscall (ret ()))))"

text \<open>\<open>with open_secure_file(...) as stream: stream.read(n)\<close>\<close>

definition read_secure_file :: "secure_env \<Rightarrow> string \<Rightarrow> string \<Rightarrow> bool \<Rightarrow> nat \<Rightarrow> ('m machine_scheme, bytes) exec" where
  "read_secure_file E filename source_name require_private n =
     seqx (open_secure_file E filename source_name require_private) (\<lambda>(name, _).
     finally_do (syscall (gets (\<lambda>s. take n (file_data E name (step s))))) (syscall (ret ())))"

section \<open>A valid name stays below the root\<close>

lemma split_char_no: "c \<notin> set s \<Longrightarrow> split_char c s = [s]"
  by (induction s) auto

lemma split_char_sep: "c \<notin> set a \<Longrightarrow> split_char c (a @ c # b) = a # split_char c b"
  by (induction a) auto

lemma safe_filename_chars:
  assumes "safe_filename f"
  shows "CHR ''/'' \<notin> set f" "f \<noteq> []" "f \<noteq> ''.''" "f \<noteq> ''..''" "\<not> startswith ''/'' f"
proof -
  have sl: "\<not> is_alnum (CHR ''/'')" "\<not> is_alnum (CHR ''.'')" by code_simp+
  have "hd f # tl f = f" "f \<noteq> []" using assms by (auto simp: safe_filename_def)
  then have "set f = insert (hd f) (set (tl f))" by (metis list.simps(15))
  then show "CHR ''/'' \<notin> set f" "f \<noteq> []" "f \<noteq> ''.''" "f \<noteq> ''..''" "\<not> startswith ''/'' f"
    using assms sl by (auto simp: safe_filename_def list_all_iff startswith_def take_Suc split: if_splits)
qed

lemma resolve_parts:
  assumes "safe_filename f"
  shows "split_char (CHR ''/'') (''/run/secrets/'' @ f) = [[], ''run'', ''secrets'', f]"
    "normpath (''/run/secrets/'' @ f) = ''/run/secrets/'' @ f"
    "path_components (''/run/secrets/'' @ f) = [''run'', ''secrets'', f]"
proof -
  note f = safe_filename_chars[OF assms]
  show sp: "split_char (CHR ''/'') (''/run/secrets/'' @ f) = [[], ''run'', ''secrets'', f]"
    using split_char_no[OF f(1)] by simp
  show "path_components (''/run/secrets/'' @ f) = [''run'', ''secrets'', f]"
    unfolding path_components_def sp using f by simp
  have "foldl (norm_step True) [] [[], ''run'', ''secrets'', f] = [''run'', ''secrets'', f]"
    using f by (simp add: norm_step_def)
  then show "normpath (''/run/secrets/'' @ f) = ''/run/secrets/'' @ f"
    unfolding normpath_def Let_def sp by (simp add: startswith_def)
qed

lemma root_parts:
  "normpath SECURE_FILE_ROOT = ''/run/secrets''" "path_components ''/run/secrets'' = [''run'', ''secrets'']"
  by code_simp+

lemma resolve_secure_path_iff:
  "resolve_secure_path filename source_name =
    (if safe_filename filename then Inr (''/run/secrets'', ''/run/secrets/'' @ filename, filename)
     else Inl (file_error source_name ''filename is invalid''))"
proof (cases "safe_filename filename")
  case True
  note f = safe_filename_chars[OF True] and r = resolve_parts[OF True]
  have "path_join ''/run/secrets'' filename = ''/run/secrets/'' @ filename"
    using f(5) by (simp add: path_join_def endswith_def)
  moreover have "commonpath ''/run/secrets'' (''/run/secrets/'' @ filename) = Inr ''/run/secrets''"
    unfolding commonpath_def r(3) root_parts by (simp add: startswith_def)
  moreover have "relpath (''/run/secrets/'' @ filename) ''/run/secrets'' = filename"
    unfolding relpath_def r(3) root_parts by simp
  ultimately show ?thesis
    using True f(3,4) r(2) by (simp add: resolve_secure_path_def root_parts startswith_def Let_def)
qed (simp add: resolve_secure_path_def)

text \<open>
  C27. The validation of a secret's file name accepts exactly the names of the documented alphabet, and
  an accepted name is resolved to itself, one level below the fixed root: the later containment checks
  are never the ones that decide.
\<close>

theorem secure_name_stays_below_the_root:
  "resolve_secure_path filename source_name =
    (if safe_filename filename then Inr (''/run/secrets'', ''/run/secrets/'' @ filename, filename)
     else Inl (file_error source_name ''filename is invalid'')) \<and>
   (safe_filename filename = (filename \<noteq> [] \<and> is_alnum (hd filename) \<and> length filename \<le> 255 \<and> CHR ''/'' \<notin> set filename \<and>
      list_all (\<lambda>c. is_alnum c \<or> c \<in> {CHR ''.'', CHR ''_'', CHR ''-''}) (tl filename)))"
  using resolve_secure_path_iff safe_filename_chars(1)
  by (auto simp: safe_filename_def MAX_SECURE_FILENAME_CHARS_def)

section \<open>What an opened secret guarantees\<close>

definition private_file :: "secure_env \<Rightarrow> stat_result \<Rightarrow> bool" where
  "private_file E v \<longleftrightarrow> S_ISREG (st_mode v) \<and> (\<exists>uid. effective_uid E = Some uid \<and> st_uid v \<in> {0, uid}) \<and>
     st_mode v AND 0x10 = 0 \<and> st_mode v AND 0x2 = 0 \<and> st_mode v AND 0x20 = 0 \<and> st_mode v AND 0x4 = 0"

definition trusted_directory :: "secure_env \<Rightarrow> stat_result \<Rightarrow> bool" where
  "trusted_directory E v \<longleftrightarrow> S_ISDIR (st_mode v) \<and> (\<exists>uid. effective_uid E = Some uid \<and> st_uid v \<in> {0, uid}) \<and>
     \<not> shared_write (st_mode v)"

lemma on_OSError_Return:
  "on_OSError m (throw e) s = (Return x, t) \<longleftrightarrow> m s = (Return x, t)"
  by (auto simp: on_OSError_def returns split: if_splits)

lemma open_trusted_root_Return:
  assumes "open_trusted_root E s = (Return u, t)"
  shows "\<exists>n v. root_fstat E n = Inr v \<and> trusted_directory E v"
proof -
  obtain n v where "root_fstat E n = Inr v" "check_trusted_root_metadata E v = Inr ()"
    using assms unfolding open_trusted_root_def
    by (auto simp: seqx_Return handle_Return basic_Return on_OSError_Return host_call_Return split: option.splits)
  then show ?thesis
    by (auto simp: check_trusted_root_metadata_def trusted_directory_def split: option.splits if_splits)
qed

lemma check_contained_Return:
  assumes "check_contained E name src True before_open s = (Return v, t)"
  shows "\<exists>n. file_fstat E name n = Inr v \<and> private_file E v"
proof -
  obtain n where "file_fstat E name n = Inr v" "check_opened_metadata E v src True = Inr ()"
    using assms unfolding check_contained_def
    by (auto simp: seqx_Return basic_Return on_OSError_Return host_call_Return split: option.splits)
  then show ?thesis
    by (auto simp: check_opened_metadata_def private_file_def split: option.splits if_splits)
qed

text \<open>
  C28. A secret is handed out only if it was opened under its own name inside a directory that is owned
  by root or the service account and not writable by others, and the opened descriptor is a regular file
  of such an owner that neither the group nor others can read or write.
\<close>

theorem opened_secret_is_private:
  assumes "open_secure_file E filename source_name True s = (Return (name, v), t)"
  shows "name = filename \<and> safe_filename filename \<and> (\<exists>n d. root_fstat E n = Inr d \<and> trusted_directory E d) \<and>
    (\<exists>n. file_fstat E filename n = Inr v \<and> private_file E v)"
proof -
  obtain root path n0 s1 s2 where p: "resolve_secure_path filename source_name = Inr (root, path, n0)"
    "open_trusted_root E s = (Return (), s1)" "name = n0"
    "\<exists>b s3 s4. check_contained E n0 source_name True b (s3 :: 'a machine_scheme) = (Return v, s4)"
    using assms unfolding open_secure_file_def
    by (auto simp: seqx_Return handle_Return basic_Return finally_Return split: prod.splits) blast+
  have "safe_filename filename \<and> n0 = filename"
    using p(1) by (auto simp: resolve_secure_path_iff split: if_splits)
  with p open_trusted_root_Return[OF p(2)] show ?thesis by (auto dest: check_contained_Return)
qed

definition secret_host :: secure_env where
  "secret_host = \<lparr> has_dir_fd = True, has_nofollow = True, effective_uid = Some 1000,
     root_lstat = \<lambda>_. Inl EOTHER, root_open = \<lambda>_. Inr (),
     root_fstat = \<lambda>_. Inr \<lparr> st_dev = 1, st_ino = 2, st_size = 0, st_mode = 0x41C0, st_uid = 0, st_gid = 0, st_mtime_ns = 0, st_ctime_ns = 0, st_nlink = 2 \<rparr>,
     file_lstat = \<lambda>_ _. Inl EOTHER, file_open = \<lambda>_ _. Inr (),
     file_fstat = \<lambda>_ _. Inr \<lparr> st_dev = 1, st_ino = 3, st_size = 4, st_mode = 0x8180, st_uid = 1000, st_gid = 0, st_mtime_ns = 0, st_ctime_ns = 0, st_nlink = 1 \<rparr>,
     file_fdopen = \<lambda>_ _. Inr (), file_data = \<lambda>_ _. ''pass'' \<rparr>"

definition secret_stat :: stat_result where
  "secret_stat = \<lparr> st_dev = 1, st_ino = 3, st_size = 4, st_mode = 0x8180, st_uid = 1000, st_gid = 0, st_mtime_ns = 0, st_ctime_ns = 0, st_nlink = 1 \<rparr>"

theorem opened_secret_witness:
  "fst (open_secure_file secret_host ''token'' ''key'' True calm) = Return (''token'', secret_stat) \<and>
   (''token'' = ''token'' \<and> safe_filename ''token'' \<and> (\<exists>n d. root_fstat secret_host n = Inr d \<and> trusted_directory secret_host d) \<and>
    (\<exists>n. file_fstat secret_host ''token'' n = Inr secret_stat \<and> private_file secret_host secret_stat))"
proof -
  have r: "fst (open_secure_file secret_host ''token'' ''key'' True calm) = Return (''token'', secret_stat)" by code_simp
  from opened_secret_is_private[OF fst_run[OF r]] r show ?thesis by blast
qed

end
