(* ===== verification/UnifiTls.thy ===== *)
theory UnifiTls
  imports Complex_Main UnifiClient SecureFile
begin

text \<open>
  Live TLS verification of the UniFi endpoint (\<open>unifi_tls.py\<close>) and the client TLS context
  (\<open>tls_policy.py\<close>). Endpoint and readiness fields are the JSON values of the deployment
  policy, which the validation inspects. Seconds are rational numbers; the rounding of a decimal to
  a double is not modelled, its overflow to infinity and its underflow to zero are. The TLS
  library and the network are parameters: a handshake answers with the leaf of the peer or an exception.
\<close>

section \<open>Numbers\<close>

definition float_limit :: rat where "float_limit = 2 ^ 1024 - 2 ^ 970"

text \<open>An integer that does not fit a double; the equation for evaluation decides small ones at once.\<close>

definition exceeds_double :: "int \<Rightarrow> bool" where
  "exceeds_double i \<longleftrightarrow> float_limit \<le> \<bar>of_int i\<bar>"

lemma float_limit_large: "1000000000 < float_limit"
  by (simp add: float_limit_def)

lemma exceeds_double_code [code]:
  "exceeds_double i = (if \<bar>i\<bar> < 1000000000 then False else float_limit \<le> \<bar>of_int i\<bar>)"
proof (cases "\<bar>i\<bar> < 1000000000")
  case True
  then have "\<bar>of_int i\<bar> < (1000000000 :: rat)" by linarith
  with float_limit_large True show ?thesis by (simp add: exceeds_double_def)
qed (simp add: exceeds_double_def)

definition decimal_value :: "string \<Rightarrow> rat" where
  "decimal_value t = (let neg = startswith ''-'' t;
      body = (if neg then tl t else t);
      ip = takeWhile is_digit body; r = dropWhile is_digit body;
      fr = (case r of c # r' \<Rightarrow> if c = CHR ''.'' then takeWhile is_digit r' else [] | [] \<Rightarrow> []);
      r2 = (if fr = [] then r else drop (Suc (length fr)) r);
      ex = (case r2 of _ # x \<Rightarrow> x | [] \<Rightarrow> []);
      en = startswith ''-'' ex;
      e = read_nat (if en \<or> startswith ''+'' ex then tl ex else ex);
      m = of_nat (read_nat (ip @ fr)) / 10 ^ length fr;
      v = (if en then m / 10 ^ e else m * 10 ^ e)
    in if neg then - v else v)"

definition float_value :: "string \<Rightarrow> rat option" where
  "float_value t = (if t \<in> {''NaN'', ''Infinity'', ''-Infinity''} then None
     else let v = decimal_value t
     in if float_limit \<le> \<bar>v\<bar> then None else if \<bar>v\<bar> * 2 ^ 1075 \<le> 1 then Some 0 else Some v)"

fun seconds_of :: "json \<Rightarrow> rat" where
  "seconds_of (JInt i) = of_int i"
| "seconds_of (JFloat t) = (case float_value t of Some v \<Rightarrow> v | None \<Rightarrow> 0)"
| "seconds_of _ = 0"

fun text_of :: "json \<Rightarrow> string" where
  "text_of (JStr s) = s"
| "text_of _ = []"

fun int_of :: "json \<Rightarrow> int" where
  "int_of (JInt i) = i"
| "int_of _ = 0"

section \<open>Configuration\<close>

definition MAX_HOST_CHARS :: nat where "MAX_HOST_CHARS = 253"
definition MAX_LEAF_DER_BYTES :: nat where "MAX_LEAF_DER_BYTES = 64 * 1024"
definition MAX_ATTEMPTS :: int where "MAX_ATTEMPTS = 1000"

record live_endpoint =
  e_address :: json
  e_server_hostname :: json
  e_port :: json

record readiness_policy =
  timeout_seconds :: json
  attempt_timeout_seconds :: json
  retry_delay_seconds :: json
  max_attempts :: json

abbreviation tls_error :: "string \<Rightarrow> py_exc + 'a" where
  "tls_error m \<equiv> Inl (LiveTLSVerificationError m)"

fun validate_host :: "json \<Rightarrow> string \<Rightarrow> py_exc + unit" where
  "validate_host (JStr value) label =
     (if value = [] \<or> py_len value > MAX_HOST_CHARS \<or> CHR ''%'' \<in> set value then tls_error (''invalid UniFi TLS '' @ label)
      else case ip_address value of
        Inr _ \<Rightarrow> Inr ()
      | Inl _ \<Rightarrow>
        if \<not> isascii value then tls_error (''invalid UniFi TLS '' @ label)
        else let name = (if endswith ''.'' value then butlast value else value)
          in if name = [] \<or> \<not> list_all dns_label (split_char (CHR ''.'') name)
             then tls_error (''invalid UniFi TLS '' @ label) else Inr ())"
| "validate_host _ label = tls_error (''invalid UniFi TLS '' @ label)"

fun validate_ip_address :: "json \<Rightarrow> py_exc + unit" where
  "validate_ip_address (JStr value) =
     (if value = [] \<or> py_len value > MAX_HOST_CHARS \<or> CHR ''%'' \<in> set value
      then tls_error ''invalid UniFi TLS connection address''
      else case ip_address value of
        Inr _ \<Rightarrow> Inr ()
      | Inl _ \<Rightarrow> tls_error ''UniFi TLS connection address must be numeric'')"
| "validate_ip_address _ = tls_error ''invalid UniFi TLS connection address''"

text \<open>\<open>math.isfinite\<close> of an integer outside the range of a double raises \<open>OverflowError\<close>.\<close>

fun validate_seconds :: "json \<Rightarrow> string \<Rightarrow> bool \<Rightarrow> py_exc + unit" where
  "validate_seconds (JInt i) label allow_zero =
     (if exceeds_double i then Inl OverflowError
      else if i < 0 \<or> \<not> allow_zero \<and> i = 0 then tls_error (''invalid UniFi readiness '' @ label) else Inr ())"
| "validate_seconds (JFloat t) label allow_zero = (case float_value t of
      None \<Rightarrow> tls_error (''invalid UniFi readiness '' @ label)
    | Some v \<Rightarrow> if v < 0 \<or> \<not> allow_zero \<and> v = 0 then tls_error (''invalid UniFi readiness '' @ label) else Inr ())"
| "validate_seconds _ label allow_zero = tls_error (''invalid UniFi readiness '' @ label)"

fun int_between :: "int \<Rightarrow> int \<Rightarrow> json \<Rightarrow> bool" where
  "int_between lo hi (JInt i) = (lo \<le> i \<and> i \<le> hi)"
| "int_between lo hi _ = False"

definition validate_live_tls_configuration :: "live_endpoint \<Rightarrow> readiness_policy \<Rightarrow> py_exc + unit" where
  "validate_live_tls_configuration endpoint readiness =
     bindE (validate_ip_address (e_address endpoint)) (\<lambda>_.
     bindE (validate_host (e_server_hostname endpoint) ''server identity'') (\<lambda>_.
     if \<not> int_between 1 65535 (e_port endpoint) then tls_error ''invalid UniFi TLS port''
     else bindE (validate_seconds (timeout_seconds readiness) ''timeout'' False) (\<lambda>_.
     bindE (validate_seconds (attempt_timeout_seconds readiness) ''attempt timeout'' False) (\<lambda>_.
     bindE (validate_seconds (retry_delay_seconds readiness) ''retry delay'' True) (\<lambda>_.
     if \<not> int_between 1 MAX_ATTEMPTS (max_attempts readiness) then tls_error ''invalid UniFi readiness attempt limit''
     else Inr ())))))"

section \<open>The client context\<close>

definition MAX_TLS_CA_FILE_BYTES :: nat where "MAX_TLS_CA_FILE_BYTES = 256 * 1024"

text \<open>The trust anchors of a context: the default ones of the system, or exactly the loaded text.\<close>

record tls_context =
  ctx_ca :: "string option"
  ctx_check_hostname :: bool
  ctx_cert_required :: bool
  ctx_tls12_floor :: bool

record ssl_lib =
  default_context :: "py_exc + tls_context"
  client_context :: tls_context
  load_verify_locations :: "string \<Rightarrow> py_exc + unit"

abbreviation tls_config_error :: "string \<Rightarrow> py_exc + 'a" where
  "tls_config_error m \<equiv> Inl (TLSConfigurationError m)"

definition context_with_ca :: "ssl_lib \<Rightarrow> string \<Rightarrow> bytes \<Rightarrow> py_exc + tls_context" where
  "context_with_ca S source ca_data =
     (if ca_data = [] then tls_config_error (source @ '' is empty'')
      else if length ca_data > MAX_TLS_CA_FILE_BYTES then tls_config_error (source @ '' exceeds the size limit'')
      else case decode_ascii ca_data of
        Inl _ \<Rightarrow> tls_config_error (source @ '' must be ASCII PEM'')
      | Inr ca_text \<Rightarrow> bindE (load_verify_locations S ca_text) (\<lambda>_. Inr ((client_context S)\<lparr> ctx_ca := Some ca_text \<rparr>)))"

fun tls_context_error :: "py_exc \<Rightarrow> py_exc" where
  "tls_context_error (TLSConfigurationError m) = TLSConfigurationError m"
| "tls_context_error (SecureFileError m) = TLSConfigurationError m"
| "tls_context_error e = (if is_OSError e then TLSConfigurationError ''TLS CA file could not be loaded'' else e)"

fun is_TLSConfigurationError :: "py_exc \<Rightarrow> bool" where
  "is_TLSConfigurationError (TLSConfigurationError m) = True"
| "is_TLSConfigurationError e = False"

definition finish_context :: "tls_context \<Rightarrow> py_exc + tls_context" where
  "finish_context c = (if \<not> ctx_check_hostname c \<or> \<not> ctx_cert_required c then Inl RuntimeError
     else Inr (c\<lparr> ctx_tls12_floor := True \<rparr>))"

definition create_client_tls_context ::
  "ssl_lib \<Rightarrow> secure_env \<Rightarrow> string option \<Rightarrow> bytes option \<Rightarrow> ('m machine_scheme, tls_context) exec" where
  "create_client_tls_context S E ca_name ca_data =
     seqx (handle (case (ca_name, ca_data) of
         (Some _, Some _) \<Rightarrow> throw (TLSConfigurationError ''TLS CA sources are mutually exclusive'')
       | (None, None) \<Rightarrow> liftE (default_context S)
       | (Some name, None) \<Rightarrow> seqx (read_secure_file E name ''TLS CA file'' False (MAX_TLS_CA_FILE_BYTES + 1)) (\<lambda>data.
           liftE (context_with_ca S ''TLS CA file'' data))
       | (None, Some data) \<Rightarrow> liftE (context_with_ca S ''TLS CA data'' data))
       (\<lambda>e. throw (tls_context_error e))) (\<lambda>c.
     liftE (finish_context c))"

section \<open>Verification\<close>

record net_env =
  monotonic :: "nat \<Rightarrow> rat"
  tcp_connect :: "nat \<Rightarrow> string \<Rightarrow> int \<Rightarrow> py_exc + unit"
  handshake :: "nat \<Rightarrow> tls_context \<Rightarrow> string \<Rightarrow> py_exc + bytes"

record prepared_tls =
  pt_endpoint :: live_endpoint
  pt_readiness :: readiness_policy
  pt_context :: tls_context

text \<open>Reading the clock cannot fail; time passes with the steps.\<close>

definition clock :: "net_env \<Rightarrow> ('m machine_scheme, rat) exec" where
  "clock N = seqx (modify (\<lambda>s. s\<lparr> step := Suc (step s) \<rparr>)) (\<lambda>_. gets (\<lambda>s. monotonic N (step s)))"

definition prepare_live_tls_verification ::
  "x509_lib \<Rightarrow> instant \<Rightarrow> ssl_lib \<Rightarrow> secure_env \<Rightarrow> live_endpoint \<Rightarrow> readiness_policy \<Rightarrow> bytes \<Rightarrow> ('m machine_scheme, prepared_tls) exec" where
  "prepare_live_tls_verification L now S E endpoint readiness tls_ca_data =
     seqx (liftE (validate_live_tls_configuration endpoint readiness)) (\<lambda>_.
     seqx (raise_if (tls_ca_data = []) (LiveTLSVerificationError ''explicit UniFi TLS CA data is required'')) (\<lambda>_.
     seqx (handle (seqx (liftE (validate_installation_ca L now tls_ca_data None)) (\<lambda>ca_pem.
           create_client_tls_context S E None (Some ca_pem)))
         (\<lambda>e. throw (if is_CertificateInspectionError e \<or> is_TLSConfigurationError e
            then LiveTLSVerificationError ''invalid UniFi TLS trust configuration'' else e))) (\<lambda>context.
     ret \<lparr> pt_endpoint = endpoint, pt_readiness = readiness, pt_context = context \<rparr>)))"

definition canonical_leaf :: "x509_lib \<Rightarrow> bytes \<Rightarrow> py_exc + bytes" where
  "canonical_leaf L value =
     (if value = [] \<or> length value > MAX_LEAF_DER_BYTES then tls_error ''invalid expected UniFi certificate''
      else bindE (catchE (load_der L value) (\<lambda>e. if is_ValueError e then tls_error ''invalid expected UniFi certificate'' else Inl e)) (\<lambda>c.
        if c_der c \<noteq> value then tls_error ''expected UniFi certificate is not canonical DER'' else Inr (c_der c)))"

text \<open>One fresh connection; the raw and the TLS socket are closed however it ends.\<close>

definition before_deadline :: "net_env \<Rightarrow> rat \<Rightarrow> ('m machine_scheme, unit) exec" where
  "before_deadline N deadline = seqx (clock N) (\<lambda>t. raise_if (deadline - t \<le> 0) TimeoutError)"

definition tls_exchange :: "net_env \<Rightarrow> live_endpoint \<Rightarrow> tls_context \<Rightarrow> rat \<Rightarrow> ('m machine_scheme, bytes) exec" where
  "tls_exchange N endpoint context deadline =
     seqx (syscall (seqx (gets step) (\<lambda>n. liftE (tcp_connect N n (text_of (e_address endpoint)) (int_of (e_port endpoint)))))) (\<lambda>_.
     seqx (before_deadline N deadline) (\<lambda>_.
     seqx (syscall (seqx (gets step) (\<lambda>n. liftE (handshake N n context (text_of (e_server_hostname endpoint)))))) (\<lambda>leaf.
     seqx (record_event (TlsServed leaf)) (\<lambda>_. seqx (syscall (ret ())) (\<lambda>_. ret leaf)))))"

definition connect_and_get_leaf :: "net_env \<Rightarrow> live_endpoint \<Rightarrow> tls_context \<Rightarrow> rat \<Rightarrow> ('m machine_scheme, bytes) exec" where
  "connect_and_get_leaf N endpoint context deadline =
     seqx (liftE (ip_address (text_of (e_address endpoint)))) (\<lambda>_.
     seqx (syscall (ret ())) (\<lambda>_.
     seqx (finally_do
       (seqx (before_deadline N deadline) (\<lambda>_.
        seqx (record_event TlsAttempt) (\<lambda>_. tls_exchange N endpoint context deadline)))
       (syscall (ret ()))) (\<lambda>leaf.
     seqx (raise_if (leaf = [] \<or> length leaf > MAX_LEAF_DER_BYTES)
       (TLSHandshakeError ''UniFi TLS peer returned invalid certificate data'')) (\<lambda>_. ret leaf))))"

abbreviation not_ready :: py_exc where
  "not_ready \<equiv> EndpointNotReadyError ''UniFi TLS endpoint did not become ready within the bounded policy''"

definition connect_once :: "net_env \<Rightarrow> prepared_tls \<Rightarrow> rat \<Rightarrow> ('m machine_scheme, bytes option) exec" where
  "connect_once N P deadline =
     handle (seqx (connect_and_get_leaf N (pt_endpoint P) (pt_context P) deadline) (\<lambda>leaf. ret (Some leaf)))
       (\<lambda>e. if e = SSLCertVerificationError then throw (TLSAuthenticationError ''UniFi TLS chain or hostname validation failed'')
            else if e = SSLError then throw (TLSHandshakeError ''UniFi TLS handshake failed'')
            else if is_OSError e then ret None else throw e)"

definition retry_pause :: "net_env \<Rightarrow> prepared_tls \<Rightarrow> rat \<Rightarrow> ('m machine_scheme, unit) exec" where
  "retry_pause N P deadline = seqx (clock N) (\<lambda>t.
     if min (seconds_of (retry_delay_seconds (pt_readiness P))) (max 0 (deadline - t)) \<noteq> 0 then syscall (ret ()) else ret ())"

text \<open>The loop over the attempts; the argument counts those that are left.\<close>

primrec tls_attempts :: "x509_lib \<Rightarrow> net_env \<Rightarrow> prepared_tls \<Rightarrow> bytes \<Rightarrow> rat \<Rightarrow> nat \<Rightarrow> ('m machine_scheme, string) exec" where
  "tls_attempts L N P expected deadline 0 = throw not_ready"
| "tls_attempts L N P expected deadline (Suc left) =
     seqx (clock N) (\<lambda>t. if deadline - t \<le> 0 then throw not_ready
     else seqx (clock N) (\<lambda>t2.
       seqx (connect_once N P (min deadline (t2 + seconds_of (attempt_timeout_seconds (pt_readiness P))))) (\<lambda>r. case r of
         None \<Rightarrow> if left = 0 then throw not_ready
                 else seqx (retry_pause N P deadline) (\<lambda>_. tls_attempts L N P expected deadline left)
       | Some served \<Rightarrow>
           seqx (raise_if (served \<noteq> expected)
             (ServedCertificateMismatchError ''UniFi served certificate differs from the issued certificate'')) (\<lambda>_.
           ret (sha256 L served)))))"

definition verify_prepared_live_tls_certificate ::
  "x509_lib \<Rightarrow> net_env \<Rightarrow> prepared_tls \<Rightarrow> bytes \<Rightarrow> ('m machine_scheme, string) exec" where
  "verify_prepared_live_tls_certificate L N P expected_leaf_der =
     seqx (liftE (canonical_leaf L expected_leaf_der)) (\<lambda>expected.
     seqx (clock N) (\<lambda>t.
     tls_attempts L N P expected (t + seconds_of (timeout_seconds (pt_readiness P)))
       (nat (int_of (max_attempts (pt_readiness P))))))"

definition verify_live_tls_certificate ::
  "x509_lib \<Rightarrow> instant \<Rightarrow> ssl_lib \<Rightarrow> secure_env \<Rightarrow> net_env \<Rightarrow> live_endpoint \<Rightarrow> readiness_policy \<Rightarrow> bytes \<Rightarrow> bytes \<Rightarrow>
    ('m machine_scheme, string) exec" where
  "verify_live_tls_certificate L now S E N endpoint readiness tls_ca_data expected_leaf_der =
     seqx (prepare_live_tls_verification L now S E endpoint readiness tls_ca_data) (\<lambda>prepared.
     verify_prepared_live_tls_certificate L N prepared expected_leaf_der)"

section \<open>Bounded attempts\<close>

text \<open>\<open>attempts_le k m\<close>: however \<open>m\<close> ends, it has recorded at most \<open>k\<close> connection attempts.\<close>

definition attempts_le :: "nat \<Rightarrow> ('m machine_scheme, 'a) exec \<Rightarrow> bool" where
  "attempts_le k m \<longleftrightarrow> (\<forall>s. count_list (trace (snd (m s))) TlsAttempt \<le> count_list (trace s) TlsAttempt + k)"

lemma withinI:
  "(\<And>s r t. m s = (r, t) \<Longrightarrow> count_list (trace t) TlsAttempt \<le> count_list (trace s) TlsAttempt + k) \<Longrightarrow> attempts_le k m"
  unfolding attempts_le_def by (metis prod.collapse)

lemma withinD:
  "attempts_le k m \<Longrightarrow> m s = (r, t) \<Longrightarrow> count_list (trace t) TlsAttempt \<le> count_list (trace s) TlsAttempt + k"
  unfolding attempts_le_def by (metis snd_conv)

lemma within_none: "keeps trace m \<Longrightarrow> attempts_le k m"
  by (simp add: attempts_le_def keeps_def)

lemma within_seqx:
  assumes "attempts_le a m" "\<And>x. attempts_le b (f x)" "a + b \<le> k"
  shows "attempts_le k (seqx m f)"
proof (rule withinI)
  fix s r t assume "seqx m f s = (r, t)"
  then show "count_list (trace t) TlsAttempt \<le> count_list (trace s) TlsAttempt + k"
  proof (cases rule: seqx_cases)
    case (ok x s')
    from withinD[OF assms(1) ok(1)] withinD[OF assms(2) ok(2)] assms(3) show ?thesis by simp
  next
    case (raised e)
    from withinD[OF assms(1) raised(1)] assms(3) show ?thesis by simp
  next
    case died
    from withinD[OF assms(1) died(1)] assms(3) show ?thesis by simp
  qed
qed

lemma within_quiet_first: "keeps trace m \<Longrightarrow> (\<And>x. attempts_le k (f x)) \<Longrightarrow> attempts_le k (seqx m f)"
  by (rule within_seqx[of 0]) (auto intro: within_none)

lemma within_handle: "attempts_le k m \<Longrightarrow> (\<And>e. keeps trace (h e)) \<Longrightarrow> attempts_le k (handle m h)"
  unfolding attempts_le_def keeps_def handle_def by (auto split: prod.splits outcome.splits) (metis snd_conv)+

lemma within_finally: "attempts_le k m \<Longrightarrow> keeps trace f \<Longrightarrow> attempts_le k (finally_do m f)"
  unfolding attempts_le_def keeps_def finally_do_def by (auto split: prod.splits outcome.splits) (metis snd_conv)+

lemma within_record:
  "attempts_le 1 (record_event e)" "e \<noteq> TlsAttempt \<Longrightarrow> attempts_le 0 (record_event e)"
  by (auto simp: attempts_le_def record_event_def modify_def)

lemma stepless_trace: "stepless trace"
  by (simp add: stepless_def)

lemma keeps_clock: "keeps trace (clock N)"
  unfolding clock_def by (intro keeps_intros keeps_modify) simp

lemma keeps_before_deadline: "keeps trace (before_deadline N d)"
  unfolding before_deadline_def by (intro keeps_intros keeps_clock)

lemma keeps_retry_pause: "keeps trace (retry_pause N P d)"
  unfolding retry_pause_def by (intro keeps_intros keeps_clock stepless_trace)

lemma keeps_call:
  "keeps trace (syscall (ret x))" "keeps trace (syscall (seqx (gets g) (\<lambda>n. liftE (f n))))"
  by (intro keeps_intros stepless_trace)+

lemmas keeps_tls = keeps_clock keeps_before_deadline keeps_retry_pause keeps_call keeps_pure

lemma within_exchange: "attempts_le 0 (tls_exchange N endpoint context deadline)"
proof -
  have served: "attempts_le 0 (seqx (record_event (TlsServed leaf)) (\<lambda>_. seqx (syscall (ret ())) (\<lambda>_. ret leaf)))" for leaf
    by (rule within_seqx[of 0 _ 0]) (auto intro: within_record within_none keeps_intros stepless_trace)
  show ?thesis
    unfolding tls_exchange_def
    by (rule within_quiet_first[OF keeps_call(2)], rule within_quiet_first[OF keeps_before_deadline],
        rule within_quiet_first[OF keeps_call(2)], rule served)
qed

lemma within_connect: "attempts_le 1 (connect_and_get_leaf N endpoint context deadline)"
proof -
  have "attempts_le 1 (seqx (record_event TlsAttempt) (\<lambda>_. tls_exchange N endpoint context deadline))"
    by (rule within_seqx[OF within_record(1) within_exchange]) simp
  then have once: "attempts_le 1 (finally_do (seqx (before_deadline N deadline) (\<lambda>_.
      seqx (record_event TlsAttempt) (\<lambda>_. tls_exchange N endpoint context deadline))) (syscall (ret ())))"
    by (rule within_finally[OF within_quiet_first[OF keeps_before_deadline] keeps_call(1)])
  show ?thesis
    unfolding connect_and_get_leaf_def
    by (rule within_quiet_first[OF keeps_pure(4)], rule within_quiet_first[OF keeps_call(1)],
        rule within_seqx[of 1 _ 0, OF once]) (auto intro: within_none keeps_intros)
qed

lemma within_connect_once: "attempts_le 1 (connect_once N P d)"
  unfolding connect_once_def
  by (intro within_handle within_seqx[of 1 _ 0, OF within_connect] within_none keeps_intros) simp

lemma within_attempts: "attempts_le n (tls_attempts L N P expected deadline n :: ('m machine_scheme, string) exec)"
proof (induction n)
  case (Suc n)
  have "attempts_le n ((case r of
         None \<Rightarrow> if n = 0 then throw not_ready
                 else seqx (retry_pause N P deadline) (\<lambda>_. tls_attempts L N P expected deadline n)
       | Some served \<Rightarrow> seqx (raise_if (served \<noteq> expected)
             (ServedCertificateMismatchError ''UniFi served certificate differs from the issued certificate'')) (\<lambda>_.
           ret (sha256 L served))) :: ('m machine_scheme, string) exec)" for r
  proof (cases r)
    case None
    then show ?thesis
      using within_quiet_first[OF keeps_retry_pause Suc] by (simp add: within_none keeps_intros)
  qed (auto intro!: within_none keeps_intros)
  note next_try = within_seqx[of 1 _ n _ "Suc n", OF within_connect_once this]
  show ?case
    unfolding tls_attempts.simps
  proof (rule within_quiet_first[OF keeps_clock])
    fix t
    show "attempts_le (Suc n) ((if deadline - t \<le> 0 then throw not_ready
     else seqx (clock N) (\<lambda>t2.
       seqx (connect_once N P (min deadline (t2 + seconds_of (attempt_timeout_seconds (pt_readiness P))))) (\<lambda>r. case r of
         None \<Rightarrow> if n = 0 then throw not_ready
                 else seqx (retry_pause N P deadline) (\<lambda>_. tls_attempts L N P expected deadline n)
       | Some served \<Rightarrow>
           seqx (raise_if (served \<noteq> expected)
             (ServedCertificateMismatchError ''UniFi served certificate differs from the issued certificate'')) (\<lambda>_.
           ret (sha256 L served))))) :: ('m machine_scheme, string) exec)"
      using within_quiet_first[OF keeps_clock next_try] by (simp add: within_none keeps_pure)
  qed
qed (auto intro: within_none keeps_intros)

text \<open>
  C9. Whatever the network does and wherever the call fails or dies, one verification opens at most
  \<open>max_attempts\<close> connections, and after a validated configuration that is at most a thousand.
\<close>

theorem tls_attempts_are_bounded:
  assumes "validate_live_tls_configuration (pt_endpoint P) (pt_readiness P) = Inr ()"
    "verify_prepared_live_tls_certificate L N P leaf s = (r, t)"
  shows "count_list (trace t) TlsAttempt \<le> count_list (trace s) TlsAttempt + nat (int_of (max_attempts (pt_readiness P))) \<and>
    nat (int_of (max_attempts (pt_readiness P))) \<in> {1..1000}"
proof -
  have "attempts_le (nat (int_of (max_attempts (pt_readiness P)))) (verify_prepared_live_tls_certificate L N P leaf)"
    unfolding verify_prepared_live_tls_certificate_def
    by (intro within_quiet_first keeps_tls within_attempts)
  from withinD[OF this assms(2)] have "count_list (trace t) TlsAttempt \<le>
    count_list (trace s) TlsAttempt + nat (int_of (max_attempts (pt_readiness P)))" .
  moreover have "nat (int_of (max_attempts (pt_readiness P))) \<in> {1..1000}"
    using assms(1) by (cases "max_attempts (pt_readiness P)") (auto simp: validate_live_tls_configuration_def MAX_ATTEMPTS_def)
  ultimately show ?thesis by blast
qed

section \<open>What a successful verification tells\<close>

lemma record_event_Return [returns]: "record_event e s = (Return u, t) \<longleftrightarrow> t = s\<lparr> trace := e # trace s \<rparr>"
  by (simp add: record_event_def returns)

lemma connect_Return:
  assumes "connect_and_get_leaf N endpoint context deadline s = (Return leaf, t)"
  shows "(\<exists>n. handshake N n context (text_of (e_server_hostname endpoint)) = Inr leaf) \<and> hd (trace t) = TlsServed leaf \<and>
    1 \<le> length leaf \<and> length leaf \<le> MAX_LEAF_DER_BYTES"
  using assms unfolding connect_and_get_leaf_def tls_exchange_def
  by (auto simp: returns Suc_le_eq not_less)

lemma connect_once_Return:
  assumes "connect_once N P deadline s = (Return (Some leaf), t)"
  shows "(\<exists>n. handshake N n (pt_context P) (text_of (e_server_hostname (pt_endpoint P))) = Inr leaf) \<and> hd (trace t) = TlsServed leaf"
  using assms by (auto simp: connect_once_def returns split: if_splits dest: connect_Return)

lemma tls_attempts_Return:
  assumes "tls_attempts L N P expected deadline n s = (Return d, t)"
  shows "d = sha256 L expected \<and> hd (trace t) = TlsServed expected \<and>
    (\<exists>m. handshake N m (pt_context P) (text_of (e_server_hostname (pt_endpoint P))) = Inr expected)"
  using assms
proof (induction n arbitrary: s)
  case (Suc n)
  then obtain r s1 s2 d1 where "connect_once N P d1 s1 = (Return r, s2)"
    "(case r of None \<Rightarrow> if n = 0 then throw not_ready
        else seqx (retry_pause N P deadline) (\<lambda>_. tls_attempts L N P expected deadline n)
      | Some served \<Rightarrow> seqx (raise_if (served \<noteq> expected)
          (ServedCertificateMismatchError ''UniFi served certificate differs from the issued certificate'')) (\<lambda>_.
          ret (sha256 L served))) s2 = (Return d, t)"
    by (auto simp: seqx_Return basic_Return split: if_splits)
  then show ?case
    using Suc.IH by (auto simp: seqx_Return basic_Return split: option.splits if_splits dest: connect_once_Return)
qed (simp add: returns)

text \<open>
  The documented behaviour of a handshake with a verifying context: a leaf comes back only from a peer
  that was authenticated against the trust anchors of the context and the requested server name.
\<close>

definition authenticates :: "net_env \<Rightarrow> (tls_context \<Rightarrow> string \<Rightarrow> bytes \<Rightarrow> bool) \<Rightarrow> bool" where
  "authenticates N auth \<longleftrightarrow> (\<forall>n c host leaf. handshake N n c host = Inr leaf \<longrightarrow>
     ctx_check_hostname c \<longrightarrow> ctx_cert_required c \<longrightarrow> auth c host leaf)"

lemma create_context_Return:
  assumes "create_client_tls_context S E None (Some data) s = (Return c, t)"
  shows "ctx_ca c = Some data \<and> ctx_check_hostname c \<and> ctx_cert_required c \<and> ctx_tls12_floor c"
  using assms
  by (auto simp: create_client_tls_context_def returns context_with_ca_def finish_context_def decode_ascii_def
      split: if_splits sum.splits)

lemma prepared_context:
  fixes s :: "'m machine_scheme"
  assumes "prepare_live_tls_verification L now S E endpoint readiness ca s = (Return P, t)"
  shows "pt_endpoint P = endpoint \<and> pt_readiness P = readiness \<and> validate_live_tls_configuration endpoint readiness = Inr () \<and>
    (\<exists>pem. validate_installation_ca L now ca None = Inr pem \<and> ctx_ca (pt_context P) = Some pem) \<and>
    ctx_check_hostname (pt_context P) \<and> ctx_cert_required (pt_context P) \<and> ctx_tls12_floor (pt_context P)"
proof -
  obtain pem and s1 s2 :: "'m machine_scheme" where "validate_live_tls_configuration endpoint readiness = Inr ()"
    "validate_installation_ca L now ca None = Inr pem"
    "create_client_tls_context S E None (Some pem) s1 = (Return (pt_context P), s2)"
    "pt_endpoint P = endpoint" "pt_readiness P = readiness"
    using assms by (auto simp: prepare_live_tls_verification_def returns)
  then show ?thesis using create_context_Return by blast
qed

lemma canonical_leaf_Inr: "canonical_leaf L v = Inr w \<longleftrightarrow> v \<noteq> [] \<and> length v \<le> MAX_LEAF_DER_BYTES \<and> w = v \<and>
    (\<exists>c. load_der L v = Inr c \<and> c_der c = v)"
  by (auto simp: canonical_leaf_def catchE_def bindE_def split: sum.splits if_splits)

text \<open>
  C8. A successful live verification means that a fresh connection, authenticated against exactly the
  configured and validated issuing CA and the configured server name by a context that checks both
  and refuses protocols below TLS 1.2, served byte for byte the expected leaf, as the last
  thing observed; the reported digest is that of this leaf.
\<close>

theorem live_verification_is_sound:
  fixes s :: "'m machine_scheme"
  assumes "authenticates N auth"
    "verify_live_tls_certificate L now S E N endpoint readiness ca leaf s = (Return d, t)"
  shows "\<exists>pem c. validate_installation_ca L now ca None = Inr pem \<and> ctx_ca c = Some pem \<and> ctx_tls12_floor c \<and>
    auth c (text_of (e_server_hostname endpoint)) leaf \<and> hd (trace t) = TlsServed leaf \<and> d = sha256 L leaf"
proof -
  obtain P s1 where P: "prepare_live_tls_verification L now S E endpoint readiness ca s = (Return P, s1)"
    "verify_prepared_live_tls_certificate L N P leaf s1 = (Return d, t)"
    using assms(2) by (auto simp: verify_live_tls_certificate_def seqx_Return)
  note p = prepared_context[OF P(1)]
  obtain dl n and s2 :: "'m machine_scheme" where "tls_attempts L N P leaf dl n s2 = (Return d, t)"
    using P(2) by (auto simp: verify_prepared_live_tls_certificate_def returns canonical_leaf_Inr)
  from tls_attempts_Return[OF this] p assms(1) show ?thesis
    unfolding authenticates_def by metis
qed

end
