(* ===== verification/RenewalPolicy.thy ===== *)
theory RenewalPolicy
  imports UnifiTls
begin

text \<open>
  The executor-owned deployment policy (\<open>renewal_policy.py\<close>): its record, the parser with
  every check in the order of the code, and the loading of the fixed file. A JSON element that is
  not a string where text is required raises \<open>TypeError\<close> inside the command builder.
\<close>

unbundle bit_operations_syntax

definition MAX_POLICY_BYTES :: nat where "MAX_POLICY_BYTES = 64 * 1024"
definition MAX_VERIFICATION_SECONDS :: rat where "MAX_VERIFICATION_SECONDS = 120"
definition SCHEMA_VERSION :: int where "SCHEMA_VERSION = 2"

record renewal_policy =
  rp_digest :: string
  rp_subject :: string
  rp_dns_sans :: "string list"
  rp_ip_sans :: "string list"
  rp_ca_pem :: bytes
  rp_lifetime_days :: int
  rp_signing_digest :: string
  rp_issued_signature_oid :: string
  rp_csr_signature_algorithm :: string
  rp_endpoint :: live_endpoint
  rp_readiness :: readiness_policy
  rp_issuing_ca_description :: string

abbreviation policy_error :: "string \<Rightarrow> py_exc + 'a" where
  "policy_error m \<equiv> Inl (PolicyError m)"

definition policy_certificate_policy :: "renewal_policy \<Rightarrow> string \<Rightarrow> py_exc + certificate_policy" where
  "policy_certificate_policy p observed_spki =
     (if \<not> hex_string 64 observed_spki then policy_error ''invalid observed public key identity''
      else Inr \<lparr> expected_spki_sha256 = observed_spki, p_subject = rp_subject p, p_dns_sans = rp_dns_sans p,
        p_ip_sans = rp_ip_sans p \<rparr>)"

fun exact_fields :: "string list \<Rightarrow> json \<Rightarrow> py_exc + (string \<times> json) list" where
  "exact_fields fs (JObj ps) = (if has_fields fs ps then Inr ps else policy_error ''invalid policy fields'')"
| "exact_fields fs _ = policy_error ''invalid policy fields''"

definition policy_fields :: "string list" where
  "policy_fields = [''schema_version'', ''subject'', ''dns_sans'', ''ip_sans'', ''issuing_ca_pem'',
     ''issuing_ca_description'', ''lifetime_days'', ''signing_digest'', ''issued_signature_oid'',
     ''csr_signature_algorithm'', ''live_tls'']"

definition live_tls_fields :: "string list" where
  "live_tls_fields = [''address'', ''server_hostname'', ''port'', ''timeout_seconds'', ''attempt_timeout_seconds'',
     ''retry_delay_seconds'', ''max_attempts'']"

definition member :: "string \<Rightarrow> (string \<times> json) list \<Rightarrow> json" where
  "member k ps = (case jget k ps of None \<Rightarrow> JNull | Some v \<Rightarrow> v)"

fun is_str :: "json \<Rightarrow> bool" where "is_str (JStr _) = True" | "is_str _ = False"
fun is_arr :: "json \<Rightarrow> bool" where "is_arr (JArr _) = True" | "is_arr _ = False"
fun elements :: "json \<Rightarrow> json list" where "elements (JArr vs) = vs" | "elements _ = []"

fun need_text :: "json \<Rightarrow> py_exc + string" where
  "need_text (JStr s) = Inr s"
| "need_text _ = Inl TypeError"

definition parse_identity :: "x509_lib \<Rightarrow> (string \<times> json) list \<Rightarrow> py_exc + string \<times> string list \<times> string list" where
  "parse_identity L ps =
     (if \<not> is_arr (member ''dns_sans'' ps) \<or> \<not> is_arr (member ''ip_sans'' ps) \<or> \<not> is_str (member ''subject'' ps)
      then policy_error ''invalid certificate identity policy''
      else let subj = text_of (member ''subject'' ps)
      in bindE (mapE need_text (elements (member ''dns_sans'' ps))) (\<lambda>dns.
         bindE (mapE need_text (elements (member ''ip_sans'' ps))) (\<lambda>ips.
         bindE (build_unifi_csr_command L \<lparr> expected_spki_sha256 = replicate 64 CHR ''0'', p_subject = subj,
              p_dns_sans = dns, p_ip_sans = ips \<rparr>) (\<lambda>_.
         if dns = [] \<and> ips = [] then policy_error ''certificate identity requires a SAN''
         else Inr (subj, dns, ips)))))"

fun issuing_failure :: "py_exc \<Rightarrow> py_exc" where
  "issuing_failure (IssuedCertificateValidationError m) = PolicyError m"
| "issuing_failure e = e"

definition parse_issuing_ca :: "x509_lib \<Rightarrow> instant \<Rightarrow> (string \<times> json) list \<Rightarrow> py_exc + bytes" where
  "parse_issuing_ca L now ps =
     (if \<not> is_str (member ''issuing_ca_pem'' ps) then policy_error ''invalid issuing CA''
      else bindE (encode_ascii (text_of (member ''issuing_ca_pem'' ps))) (\<lambda>pem.
        catchE (validate_issued_signature_policy L now pem (text_of (member ''signing_digest'' ps))
            (text_of (member ''issued_signature_oid'' ps)) None)
          (\<lambda>e. Inl (issuing_failure e))))"

definition description_ok :: "json \<Rightarrow> bool" where
  "description_ok v \<longleftrightarrow> is_str v \<and> 1 \<le> py_len (text_of v) \<and> py_len (text_of v) \<le> 255 \<and> \<not> list_ex is_control (text_of v)"

definition parse_live_tls :: "(string \<times> json) list \<Rightarrow> py_exc + live_endpoint \<times> readiness_policy" where
  "parse_live_tls ps =
     bindE (exact_fields live_tls_fields (member ''live_tls'' ps)) (\<lambda>live.
     let endpoint = \<lparr> e_address = member ''address'' live, e_server_hostname = member ''server_hostname'' live,
           e_port = member ''port'' live \<rparr>;
         readiness = \<lparr> timeout_seconds = member ''timeout_seconds'' live,
           attempt_timeout_seconds = member ''attempt_timeout_seconds'' live,
           retry_delay_seconds = member ''retry_delay_seconds'' live, max_attempts = member ''max_attempts'' live \<rparr>
     in bindE (validate_live_tls_configuration endpoint readiness) (\<lambda>_.
        if seconds_of (timeout_seconds readiness) > MAX_VERIFICATION_SECONDS
        then policy_error ''live verification exceeds executor response budget''
        else Inr (endpoint, readiness)))"

definition parse_policy_fields :: "x509_lib \<Rightarrow> instant \<Rightarrow> bytes \<Rightarrow> (string \<times> json) list \<Rightarrow> py_exc + renewal_policy" where
  "parse_policy_fields L now data ps =
     (if member ''schema_version'' ps \<noteq> JInt SCHEMA_VERSION then policy_error ''unsupported policy schema''
      else bindE (parse_identity L ps) (\<lambda>(subj, dns, ips).
      bindE (parse_issuing_ca L now ps) (\<lambda>ca_pem.
      if \<not> int_between 1 397 (member ''lifetime_days'' ps) then policy_error ''invalid certificate lifetime policy''
      else if member ''csr_signature_algorithm'' ps \<noteq> JStr ''SHA384withRSA'' then policy_error ''invalid CSR signature policy''
      else if \<not> description_ok (member ''issuing_ca_description'' ps) then policy_error ''invalid issuing CA description''
      else bindE (parse_live_tls ps) (\<lambda>(endpoint, readiness).
      Inr \<lparr> rp_digest = sha256 L data, rp_subject = subj, rp_dns_sans = dns, rp_ip_sans = ips, rp_ca_pem = ca_pem,
        rp_lifetime_days = int_of (member ''lifetime_days'' ps), rp_signing_digest = text_of (member ''signing_digest'' ps),
        rp_issued_signature_oid = text_of (member ''issued_signature_oid'' ps),
        rp_csr_signature_algorithm = text_of (member ''csr_signature_algorithm'' ps),
        rp_endpoint = endpoint, rp_readiness = readiness,
        rp_issuing_ca_description = text_of (member ''issuing_ca_description'' ps) \<rparr>))))"

fun policy_failure :: "py_exc \<Rightarrow> py_exc" where
  "policy_failure (PolicyError m) = PolicyError m"
| "policy_failure e = (if is_ValueError e \<or> e \<in> {TypeError, KeyError, OverflowError}
     then PolicyError ''invalid deployment policy'' else e)"

definition parse_policy :: "x509_lib \<Rightarrow> instant \<Rightarrow> bytes \<Rightarrow> py_exc + renewal_policy" where
  "parse_policy L now data =
     (if data = [] \<or> length data > MAX_POLICY_BYTES then policy_error ''invalid policy size''
      else catchE
        (bindE (loads_bytes (PolicyError ''duplicate policy field'') data) (\<lambda>v.
         bindE (exact_fields policy_fields v) (parse_policy_fields L now data)))
        (\<lambda>e. Inl (policy_failure e)))"

section \<open>Loading\<close>

record policy_env =
  pol_dir_open :: "nat \<Rightarrow> errno + unit"
  pol_dir_stat :: "nat \<Rightarrow> errno + stat_result"
  pol_open :: "nat \<Rightarrow> errno + unit"
  pol_fstat :: "nat \<Rightarrow> errno + stat_result"
  pol_named :: "nat \<Rightarrow> errno + stat_result"
  pol_data :: "nat \<Rightarrow> errno + bytes"

fun load_failure :: "py_exc \<Rightarrow> py_exc" where
  "load_failure (PolicyError m) = PolicyError ''deployment policy could not be loaded safely''"
| "load_failure e = (if is_OSError e then PolicyError ''deployment policy could not be loaded safely'' else e)"

text \<open>The two descriptors are closed after the handler ran, the file first.\<close>

definition read_policy_file :: "x509_lib \<Rightarrow> instant \<Rightarrow> policy_env \<Rightarrow> ('m machine_scheme, renewal_policy) exec" where
  "read_policy_file L now E =
     seqx (host_call (pol_fstat E)) (\<lambda>initial.
     seqx (raise_if (\<not> S_ISREG (st_mode initial) \<or> st_uid initial \<noteq> 0 \<or> shared_write (st_mode initial) \<or>
         st_nlink initial \<noteq> 1 \<or> st_size initial = 0 \<or> st_size initial > MAX_POLICY_BYTES) (PolicyError ''unsafe policy file'')) (\<lambda>_.
     seqx (host_call (\<lambda>n. map_sum id (take (MAX_POLICY_BYTES + 1)) (pol_data E n))) (\<lambda>data.
     seqx (host_call (pol_fstat E)) (\<lambda>now_stat.
     seqx (host_call (pol_named E)) (\<lambda>named.
     seqx (raise_if (length data \<noteq> st_size initial \<or> length data > MAX_POLICY_BYTES \<or>
         (st_dev initial, st_ino initial, st_size initial, st_mtime_ns initial) \<noteq>
           (st_dev now_stat, st_ino now_stat, st_size now_stat, st_mtime_ns now_stat) \<or>
         (st_dev initial, st_ino initial) \<noteq> (st_dev named, st_ino named)) (PolicyError ''policy changed while loading'')) (\<lambda>_.
     liftE (parse_policy L now data)))))))"

definition fail_load :: "('s, 'a) exec \<Rightarrow> ('s, 'a) exec" where
  "fail_load m = handle m (\<lambda>e. throw (load_failure e))"

definition load_policy :: "x509_lib \<Rightarrow> instant \<Rightarrow> policy_env \<Rightarrow> ('m machine_scheme, renewal_policy) exec" where
  "load_policy L now E =
     seqx (fail_load (host_call (pol_dir_open E))) (\<lambda>_.
     finally_do
       (seqx (fail_load (seqx (host_call (pol_dir_stat E)) (\<lambda>root.
          seqx (raise_if (\<not> S_ISDIR (st_mode root) \<or> st_uid root \<noteq> 0 \<or> shared_write (st_mode root))
            (PolicyError ''unsafe policy directory'')) (\<lambda>_. host_call (pol_open E))))) (\<lambda>_.
        finally_do (fail_load (read_policy_file L now E)) (syscall (ret ()))))
       (syscall (ret ())))"

section \<open>What an accepted policy guarantees\<close>

definition policy_ok :: "x509_lib \<Rightarrow> instant \<Rightarrow> renewal_policy \<Rightarrow> bool" where
  "policy_ok L now p \<longleftrightarrow>
     (\<exists>argv. build_unifi_csr_command L \<lparr> expected_spki_sha256 = replicate 64 CHR ''0'', p_subject = rp_subject p,
        p_dns_sans = rp_dns_sans p, p_ip_sans = rp_ip_sans p \<rparr> = Inr argv) \<and>
     (rp_dns_sans p \<noteq> [] \<or> rp_ip_sans p \<noteq> []) \<and>
     (\<exists>pem. validate_issued_signature_policy L now pem (rp_signing_digest p) (rp_issued_signature_oid p) None = Inr (rp_ca_pem p)) \<and>
     1 \<le> rp_lifetime_days p \<and> rp_lifetime_days p \<le> 397 \<and> rp_csr_signature_algorithm p = ''SHA384withRSA'' \<and>
     validate_live_tls_configuration (rp_endpoint p) (rp_readiness p) = Inr () \<and>
     0 < seconds_of (timeout_seconds (rp_readiness p)) \<and> seconds_of (timeout_seconds (rp_readiness p)) \<le> 120"

lemma catchE_rethrow: "catchE m (\<lambda>e. Inl (g e)) = Inr x \<longleftrightarrow> m = Inr x"
  by (cases m) auto

lemma parse_identity_Inr:
  assumes "parse_identity L ps = Inr (subj, dns, ips)"
  shows "\<exists>argv. build_unifi_csr_command L \<lparr> expected_spki_sha256 = replicate 64 CHR ''0'', p_subject = subj,
     p_dns_sans = dns, p_ip_sans = ips \<rparr> = Inr argv" "dns \<noteq> [] \<or> ips \<noteq> []"
  using assms by (auto simp: parse_identity_def Let_def split: if_splits)

lemma parse_issuing_ca_Inr:
  assumes "parse_issuing_ca L now ps = Inr ca"
  shows "\<exists>pem. validate_issued_signature_policy L now pem (text_of (member ''signing_digest'' ps))
     (text_of (member ''issued_signature_oid'' ps)) None = Inr ca"
  using assms by (auto simp: parse_issuing_ca_def catchE_rethrow)

lemma validate_seconds_positive: "validate_seconds v label False = Inr () \<Longrightarrow> 0 < seconds_of v"
  by (cases v) (auto split: if_splits option.splits)

lemma parse_live_tls_Inr:
  assumes "parse_live_tls ps = Inr (e, r)"
  shows "validate_live_tls_configuration e r = Inr ()" "0 < seconds_of (timeout_seconds r)"
    "seconds_of (timeout_seconds r) \<le> 120"
  using assms validate_seconds_positive
  by (auto simp: parse_live_tls_def Let_def validate_live_tls_configuration_def MAX_VERIFICATION_SECONDS_def split: if_splits)


end
