(* ===== verification/UnifiProcess.thy ===== *)
theory UnifiProcess
  imports Files
begin

text \<open>
  The process primitives of the key-owner-local executor (\<open>unifi_process.py\<close>): the bounded child
  runner \<open>_run\<close>, the inspection of \<open>/proc\<close> with its descent to the unprivileged account, and
  the s6 service.

  What the kernel and the children answer is a parameter. A \<open>proc_view\<close> holds the answers of one
  \<open>/proc\<close> directory, a \<open>proc_env\<close> those of the whole host, each a function of the step at which the
  call is made. A child process is given by the rounds of ready streams that the selector reports
  and its exit status. The monotonic clock passes every deadline, so a polling loop sees finitely
  many rounds; the end of a list of rounds is the passing of the deadline. The streams of a child
  that was killed are closed by \<open>_reap\<close>.
\<close>

section \<open>Constants\<close>

definition MAX_IO :: nat where "MAX_IO = 1024 * 1024"
definition SERVICE :: string where "SERVICE = ''/run/service/svc-unifi-network-application''"
definition ABC_UID :: nat where "ABC_UID = 1000"
definition ABC_GID :: nat where "ABC_GID = 1000"
definition MAX_PROCESS_STATUS :: nat where "MAX_PROCESS_STATUS = 16 * 1024"

definition PROCESS_RESULTS :: "(bytes \<times> bool \<times> bool) list" where
  "PROCESS_RESULTS = [(''N'', False, False), (''U'', True, False), (''K'', False, True), (''B'', True, True)]"

abbreviation no_exclusion :: py_exc where
  "no_exclusion \<equiv> UnifiOperationError ''cannot establish process exclusion''"

section \<open>The bounded child\<close>

datatype io = StdinTakes nat | StdinBroken | Stdout bytes | Stderr bytes

record child =
  rounds :: "io list list"
  exit_status :: "int option"

record run_state =
  r_output :: bytes
  r_errors :: nat
  r_sent :: nat
  r_in :: bool
  r_out :: bool
  r_err :: bool

definition run_start :: "bytes \<Rightarrow> run_state" where
  "run_start data = \<lparr> r_output = [], r_errors = 0, r_sent = 0, r_in = (data \<noteq> []), r_out = True, r_err = True \<rparr>"

definition registered :: "run_state \<Rightarrow> bool" where
  "registered st \<longleftrightarrow> r_in st \<or> r_out st \<or> r_err st"

definition check_io :: "run_state \<Rightarrow> py_exc + run_state" where
  "check_io st = (if length (r_output st) > MAX_IO \<or> r_errors st > MAX_IO then Inl ValueError else Inr st)"

text \<open>One ready stream. The selector does not report a stream that was unregistered.\<close>

fun io_step :: "bytes \<Rightarrow> io \<Rightarrow> run_state \<Rightarrow> py_exc + run_state" where
  "io_step data (StdinTakes n) st = (if \<not> r_in st then Inr st else
     let sent = r_sent st + min n (length (take 4096 (drop (r_sent st) data)))
     in Inr (st\<lparr> r_sent := sent, r_in := (sent \<noteq> length data) \<rparr>))"
| "io_step data StdinBroken st = (if \<not> r_in st then Inr st else Inr (st\<lparr> r_sent := length data, r_in := False \<rparr>))"
| "io_step data (Stdout c) st = (if \<not> r_out st then Inr st else
     let chunk = take 4096 c
     in check_io (if chunk = [] then st\<lparr> r_out := False \<rparr> else st\<lparr> r_output := r_output st @ chunk \<rparr>))"
| "io_step data (Stderr c) st = (if \<not> r_err st then Inr st else
     let chunk = take 4096 c
     in check_io (if chunk = [] then st\<lparr> r_err := False \<rparr> else st\<lparr> r_errors := r_errors st + length chunk \<rparr>))"

primrec run_events :: "bytes \<Rightarrow> io list \<Rightarrow> run_state \<Rightarrow> ('m machine_scheme, run_state) exec" where
  "run_events data [] st = ret st"
| "run_events data (x # xs) st = seqx (syscall (liftE (io_step data x st))) (run_events data xs)"

fun run_loop :: "bytes \<Rightarrow> io list list \<Rightarrow> run_state \<Rightarrow> ('m machine_scheme, run_state) exec" where
  "run_loop data [] st = (if \<not> registered st then ret st else throw TimeoutError)"
| "run_loop data (xs # xss) st = (if \<not> registered st then ret st
     else seqx (syscall (ret ())) (\<lambda>_. seqx (run_events data xs st) (run_loop data xss)))"

definition converse_with :: "bytes \<Rightarrow> child \<Rightarrow> ('m machine_scheme, bytes) exec" where
  "converse_with data c =
     seqx (run_loop data (rounds c) (run_start data)) (\<lambda>st.
     seqx (syscall (case exit_status c of None \<Rightarrow> throw TimeoutError | Some status \<Rightarrow> ret status)) (\<lambda>status.
     seqx (raise_if (status \<noteq> 0) ValueError) (\<lambda>_. ret (r_output st))))"

definition child_failed :: "py_exc \<Rightarrow> ('s, 'a) exec" where
  "child_failed e = throw (if is_Exception e then UnifiOperationError ''UniFi child execution failed'' else e)"

definition reap :: "('m machine_scheme, unit) exec" where
  "reap = forx (\<lambda>_. syscall (ret ()))
     [''killpg SIGTERM'', ''wait 2'', ''killpg SIGKILL'', ''wait'', ''close stdin'', ''close stdout'', ''close stderr'']"

text \<open>
  \<open>_run\<close>. \<open>effect\<close> is what the child does to the host; it happens once the child is started,
  whatever becomes of its parent.
\<close>

definition run :: "(nat \<Rightarrow> child) \<Rightarrow> (nat \<Rightarrow> 'm machine_scheme \<Rightarrow> 'm machine_scheme) \<Rightarrow> bytes \<Rightarrow>
    ('m machine_scheme, bytes) exec" where
  "run spawn effect data =
     (if length data > MAX_IO then child_failed ValueError
      else seqx (handle (syscall (seqx (gets step) (\<lambda>n. seqx (modify (effect n)) (\<lambda>_. ret (spawn n))))) child_failed) (\<lambda>c.
        finally_do (handle (converse_with data c) child_failed) reap))"

section \<open>One process directory\<close>

record proc_view =
  pv_fstat :: "nat \<Rightarrow> errno + stat_result"
  pv_exe :: "nat \<Rightarrow> errno + string"
  pv_open :: "string \<Rightarrow> nat \<Rightarrow> errno + unit"
  pv_read :: "string \<Rightarrow> nat \<Rightarrow> nat \<Rightarrow> errno + bytes"

fun target_error :: "errno \<Rightarrow> py_exc" where
  "target_error ENOENT = ProcessDisappeared"
| "target_error ESRCH = ProcessDisappeared"
| "target_error EACCES = PermissionError"
| "target_error ELOOP = OSError"
| "target_error EOTHER = OSError"

definition proc_call :: "(nat \<Rightarrow> errno + 'a) \<Rightarrow> ('m machine_scheme, 'a) exec" where
  "proc_call f = syscall (seqx (gets step) (\<lambda>n. case f n of Inl e \<Rightarrow> throw (target_error e) | Inr x \<Rightarrow> ret x))"

definition close_fd :: "('m machine_scheme, unit) exec" where
  "close_fd = syscall (ret ())"

function read_at_loop :: "proc_view \<Rightarrow> string \<Rightarrow> nat \<Rightarrow> bytes \<Rightarrow> ('m machine_scheme, bytes) exec" where
  "read_at_loop V name maximum result =
     (if length result > maximum then throw (UnifiOperationError ''process data exceeds inspection limit'')
      else seqx (proc_call (\<lambda>n. map_sum id (take (min 4096 (maximum + 1 - length result))) (pv_read V name (length result) n)))
        (\<lambda>chunk. if chunk = [] then ret result else read_at_loop V name maximum (result @ chunk)))"
  by pat_completeness auto
termination
proof (relation "measure (\<lambda>(_, _, maximum, result). maximum + 1 - length result)", goal_cases)
  case (2 V name maximum result chunk)
  then show ?case by (cases chunk) auto
qed simp

declare read_at_loop.simps [simp del]

definition read_at :: "proc_view \<Rightarrow> string \<Rightarrow> nat \<Rightarrow> ('m machine_scheme, bytes) exec" where
  "read_at V name maximum = seqx (proc_call (pv_open V name)) (\<lambda>_.
     finally_do (read_at_loop V name maximum []) close_fd)"

text \<open>\<open>Path(p).name\<close>: the last component; empty components and single dots do not count.\<close>

definition path_name :: "string \<Rightarrow> string" where
  "path_name p = (let parts = filter (\<lambda>c. c \<noteq> [] \<and> c \<noteq> ''.'') (split_char (CHR ''/'') p)
     in if parts = [] then [] else last parts)"

definition is_ace_start :: "bytes list \<Rightarrow> bool" where
  "is_ace_start args = list_ex (\<lambda>i. take 3 (drop i args) = [''-jar'', ''/usr/lib/unifi/lib/ace.jar'', ''start''])
     [0..<length args]"

definition classify :: "string \<Rightarrow> bytes \<Rightarrow> bool \<times> bool" where
  "classify executable command = (let args = split_char (CHR 0x00) command in
     (executable = ''java'' \<and> is_ace_start args,
      executable = ''keytool'' \<or> ''sun.security.tools.keytool.Main'' \<in> set args))"

definition inspect_process_fd :: "proc_view \<Rightarrow> ('m machine_scheme, bool \<times> bool) exec" where
  "inspect_process_fd V =
     seqx (proc_call (pv_exe V)) (\<lambda>target.
     let executable = path_name (removesuffix '' (deleted)'' target)
     in if executable \<notin> {''java'', ''keytool''} then ret (False, False)
        else seqx (read_at V ''cmdline'' 65536) (\<lambda>command. ret (classify executable command)))"

text \<open>\<open>int(item)\<close> on bytes: an optional sign, digits, single underscores between digits.\<close>

fun int_digits :: "bytes \<Rightarrow> bytes option" where
  "int_digits [] = None"
| "int_digits [c] = (if is_digit c then Some [c] else None)"
| "int_digits (c # d # s) = (if \<not> is_digit c then None
     else if d = CHR ''_'' then (case int_digits s of None \<Rightarrow> None | Some r \<Rightarrow> Some (c # r))
     else (case int_digits (d # s) of None \<Rightarrow> None | Some r \<Rightarrow> Some (c # r)))"

definition py_int :: "bytes \<Rightarrow> py_exc + int" where
  "py_int b = (let neg = (b \<noteq> [] \<and> hd b = CHR ''-'');
                  body = (if b \<noteq> [] \<and> hd b \<in> {CHR ''+'', CHR ''-''} then tl b else b)
     in case int_digits body of
          None \<Rightarrow> Inl ValueError
        | Some ds \<Rightarrow> if length ds > 4300 then Inl ValueError
                     else Inr (if neg then - int (read_nat ds) else int (read_nat ds)))"

definition bytes_lines :: "bytes \<Rightarrow> bytes list" where
  "bytes_lines b = split_lines_at [[CHR 0x0D, CHR 0x0A], [CHR 0x0A], [CHR 0x0D]] [] b"

definition status_line :: "int list option \<times> int list option \<Rightarrow> bytes \<Rightarrow> py_exc + int list option \<times> int list option" where
  "status_line found line = (case partition_char (CHR '':'') line of (name, separator, value) \<Rightarrow>
     if separator \<and> name \<in> {''Uid'', ''Gid''}
     then if (if name = ''Uid'' then fst found else snd found) \<noteq> None then Inl no_exclusion
          else bindE (catchE (mapE py_int (bytes_split value)) (\<lambda>_. Inl no_exclusion)) (\<lambda>ids.
            Inr (if name = ''Uid'' then (Some ids, snd found) else (fst found, Some ids)))
     else Inr found)"

definition abc_process_identity :: "proc_view \<Rightarrow> ('m machine_scheme, nat \<times> nat \<times> nat \<times> nat) exec" where
  "abc_process_identity V =
     seqx (proc_call (pv_fstat V)) (\<lambda>initial.
     seqx (raise_if ((st_uid initial, st_gid initial) \<noteq> (ABC_UID, ABC_GID)) no_exclusion) (\<lambda>_.
     seqx (read_at V ''status'' MAX_PROCESS_STATUS) (\<lambda>status.
     seqx (liftE (foldE status_line (None, None) (bytes_lines status))) (\<lambda>found.
     seqx (raise_if (found \<noteq> (Some (replicate 4 (int ABC_UID)), Some (replicate 4 (int ABC_GID)))) no_exclusion) (\<lambda>_.
     seqx (proc_call (pv_fstat V)) (\<lambda>now.
     let identity = (st_dev initial, st_ino initial, st_uid initial, st_gid initial)
     in seqx (raise_if (identity \<noteq> (st_dev now, st_ino now, st_uid now, st_gid now)) no_exclusion) (\<lambda>_.
        ret identity)))))))"

section \<open>The inspection child\<close>

record proc_env =
  proc_names :: "nat \<Rightarrow> string list"
  proc_open :: "string \<Rightarrow> nat \<Rightarrow> errno + unit"
  root_view :: "string \<Rightarrow> proc_view"
  abc_view :: "string \<Rightarrow> proc_view"
  child_fds :: "nat \<Rightarrow> string list"
  child_ids :: "nat \<Rightarrow> nat list \<times> nat list \<times> nat list"
  child_sched :: "nat \<Rightarrow> nat \<Rightarrow> verdict"
  child_rounds :: "nat \<Rightarrow> (bool \<times> int option) list"
  retained_fds :: "nat \<Rightarrow> int \<times> int"
  s6_child :: "nat \<Rightarrow> string list \<Rightarrow> child"

definition suppress_OSError :: "('s, unit) exec \<Rightarrow> ('s, unit) exec" where
  "suppress_OSError m = handle m (\<lambda>e. if is_OSError e then ret () else throw e)"

definition close_child_fds :: "proc_env \<Rightarrow> ('m machine_scheme, unit) exec" where
  "close_child_fds E =
     seqx (gets (\<lambda>s. retained_fds E (step s))) (\<lambda>retained.
     seqx (syscall (gets (\<lambda>s. child_fds E (step s)))) (\<lambda>names.
     forx (\<lambda>name. seqx (liftE (py_int name)) (\<lambda>fd.
       if fd \<noteq> fst retained \<and> fd \<noteq> snd retained then suppress_OSError close_fd else ret ())) names))"

definition drop_inspection_identity :: "proc_env \<Rightarrow> ('m machine_scheme, unit) exec" where
  "drop_inspection_identity E =
     seqx (forx (\<lambda>_. syscall (ret ())) [''setgroups'', ''setresgid'', ''setresuid'']) (\<lambda>_.
     seqx (syscall (gets (\<lambda>s. child_ids E (step s)))) (\<lambda>(groups, gids, uids).
     raise_if (groups \<noteq> [] \<or> gids \<noteq> replicate 3 ABC_GID \<or> uids \<noteq> replicate 3 ABC_UID) OSError))"

definition result_byte :: "bool \<times> bool \<Rightarrow> bytes" where
  "result_byte found = (case map_of (map (\<lambda>(k, v). (v, k)) PROCESS_RESULTS) found of Some b \<Rightarrow> b | None \<Rightarrow> [])"

definition child_inspection :: "proc_env \<Rightarrow> string \<Rightarrow> ('m machine_scheme, bytes) exec" where
  "child_inspection E name =
     seqx (handle (seqx (close_child_fds E) (\<lambda>_. seqx (drop_inspection_identity E) (\<lambda>_.
         seqx (inspect_process_fd (abc_view E name)) (\<lambda>found. ret (result_byte found)))))
       (\<lambda>e. ret (if e = ProcessDisappeared then ''D'' else ''E''))) (\<lambda>result.
     handle (syscall (ret result)) (\<lambda>e. if is_OSError e then ret [] else throw e))"

text \<open>
  The child is a fork: it runs on a copy of the state with a fate of its own, and only the byte that it
  wrote into the pipe comes back.
\<close>

definition forked :: "('m machine_scheme, bytes) exec \<Rightarrow> (nat \<Rightarrow> verdict) \<Rightarrow> 'm machine_scheme \<Rightarrow> bytes" where
  "forked m fate s = (case fst (m (s\<lparr> sched := fate \<rparr>)) of Return b \<Rightarrow> b | _ \<Rightarrow> [])"

definition kill_and_reap :: "('m machine_scheme, unit) exec" where
  "kill_and_reap = seqx (syscall (ret ())) (\<lambda>_. syscall (ret ()))"

definition receive_cleanup :: "int option \<Rightarrow> ('m machine_scheme, unit) exec" where
  "receive_cleanup status = seqx close_fd (\<lambda>_. if status = None then kill_and_reap else ret ())"

text \<open>The \<open>finally\<close> block of \<open>_receive_child\<close>, at each place where the body is left.\<close>

definition receive_guard :: "int option \<Rightarrow> ('m machine_scheme, 'a) exec \<Rightarrow> ('m machine_scheme, 'a) exec" where
  "receive_guard status m = handle m (\<lambda>e. seqx (receive_cleanup status) (\<lambda>_. throw e))"

definition receive_read :: "bool \<Rightarrow> bool \<Rightarrow> bytes \<Rightarrow> bytes \<Rightarrow> ('m machine_scheme, bytes \<times> bytes \<times> bool) exec" where
  "receive_read eof ready pipe output =
     (if eof \<or> \<not> ready then ret (pipe, output, eof)
      else seqx (syscall (ret (take 2 pipe))) (\<lambda>chunk.
        if chunk = [] then ret (pipe, output, True)
        else seqx (raise_if (length (output @ chunk) > 1) no_exclusion) (\<lambda>_.
          ret (drop (length chunk) pipe, output @ chunk, False))))"

primrec receive_loop :: "(bool \<times> int option) list \<Rightarrow> bytes \<Rightarrow> bytes \<Rightarrow> bool \<Rightarrow> int option \<Rightarrow>
    ('m machine_scheme, bytes \<times> int) exec" where
  "receive_loop [] pipe output eof status =
     (if eof \<and> status \<noteq> None then ret (output, the status) else receive_guard status (throw no_exclusion))"
| "receive_loop (r # rs) pipe output eof status =
     (if eof \<and> status \<noteq> None then ret (output, the status)
      else seqx (receive_guard status (seqx (syscall (ret ())) (\<lambda>_. receive_read eof (fst r) pipe output))) (\<lambda>(pipe', output', eof').
        seqx (if status = None then receive_guard status (syscall (ret (snd r))) else ret status) (\<lambda>status'.
        receive_loop rs pipe' output' eof' status')))"

definition receive_child :: "(bool \<times> int option) list \<Rightarrow> bytes \<Rightarrow> ('m machine_scheme, bool \<times> bool) exec" where
  "receive_child rs pipe =
     seqx (receive_loop rs pipe [] False None) (\<lambda>(output, status).
     finally_do
       (seqx (raise_if (status \<noteq> 0 \<or> length output \<noteq> 1) no_exclusion) (\<lambda>_.
        seqx (raise_if (output = ''D'') ProcessDisappeared) (\<lambda>_.
        case map_of PROCESS_RESULTS output of Some found \<Rightarrow> ret found | None \<Rightarrow> throw no_exclusion)))
       (receive_cleanup (Some status)))"

definition inspect_as_abc :: "proc_env \<Rightarrow> string \<Rightarrow> ('m machine_scheme, bool \<times> bool) exec" where
  "inspect_as_abc E name =
     seqx (syscall (ret ())) (\<lambda>_.
     seqx (handle (syscall (gets (\<lambda>s. (child_rounds E (step s), forked (child_inspection E name) (child_sched E (step s)) s))))
       (\<lambda>e. seqx close_fd (\<lambda>_. seqx close_fd (\<lambda>_. throw e)))) (\<lambda>(rs, pipe).
     seqx close_fd (\<lambda>_. receive_child rs pipe)))"

section \<open>All processes\<close>

definition inspect_opened :: "proc_env \<Rightarrow> string \<Rightarrow> ('m machine_scheme, bool \<times> bool) exec" where
  "inspect_opened E name =
     handle (inspect_process_fd (root_view E name)) (\<lambda>e. if e \<noteq> PermissionError then throw e else
       seqx (abc_process_identity (root_view E name)) (\<lambda>identity.
       seqx (handle (inspect_as_abc E name) (\<lambda>e. if e \<noteq> ProcessDisappeared then throw e else
         seqx (abc_process_identity (root_view E name)) (\<lambda>_. throw no_exclusion))) (\<lambda>found.
       seqx (abc_process_identity (root_view E name)) (\<lambda>again.
       seqx (raise_if (identity \<noteq> again) no_exclusion) (\<lambda>_. ret found)))))"

definition gone :: "py_exc \<Rightarrow> ('s, bool \<times> bool) exec" where
  "gone e = (if e = ProcessDisappeared then ret (False, False)
             else if is_OSError e then throw no_exclusion else throw e)"

definition inspect_one :: "proc_env \<Rightarrow> string \<Rightarrow> ('m machine_scheme, bool \<times> bool) exec" where
  "inspect_one E name =
     seqx (handle (seqx (proc_call (proc_open E name)) (\<lambda>_. ret True)) (\<lambda>e. seqx (gone e) (\<lambda>_. ret False))) (\<lambda>opened.
     if \<not> opened then ret (False, False)
     else finally_do (handle (inspect_opened E name) gone) close_fd)"

fun processes_loop :: "proc_env \<Rightarrow> string list \<Rightarrow> bool \<times> bool \<Rightarrow> ('m machine_scheme, bool \<times> bool) exec" where
  "processes_loop E [] acc = ret acc"
| "processes_loop E (name # names) acc =
     (if \<not> bytes_isdigit name then processes_loop E names acc
      else seqx (inspect_one E name) (\<lambda>found.
        processes_loop E names (fst acc \<or> fst found, snd acc \<or> snd found)))"

definition processes :: "proc_env \<Rightarrow> ('m machine_scheme, bool \<times> bool) exec" where
  "processes E = seqx (syscall (gets (\<lambda>s. proc_names E (step s)))) (\<lambda>names. processes_loop E names (False, False))"

section \<open>The service\<close>

definition svc_argv :: "string \<Rightarrow> string list" where
  "svc_argv action = (if action = ''status'' then [''/usr/bin/s6-svstat'', ''-o'', ''up,ready'', SERVICE]
     else if action = ''down'' then [''/usr/bin/s6-svc'', ''-wD'', ''-T'', ''25000'', ''-d'', SERVICE]
     else [''/usr/bin/s6-svc'', ''-wU'', ''-T'', ''25000'', ''-u'', SERVICE])"

definition svc_effect :: "event list \<Rightarrow> 'm machine_scheme \<Rightarrow> 'm machine_scheme" where
  "svc_effect evs s = s\<lparr> trace := evs @ trace s \<rparr>"

definition service_command :: "proc_env \<Rightarrow> string list \<Rightarrow> event list \<Rightarrow> ('m machine_scheme, bytes) exec" where
  "service_command E argv evs = run (\<lambda>n. s6_child E n argv) (\<lambda>_. svc_effect evs) []"

definition service_running :: "proc_env \<Rightarrow> ('m machine_scheme, bool) exec" where
  "service_running E =
     seqx (service_command E (svc_argv ''status'') []) (\<lambda>out.
     let result = bytes_strip out
     in if result = ''true true'' then ret True
        else if result = ''false false'' then ret False
        else throw (UnifiOperationError ''UniFi service is not in a stable state''))"

definition service_no_keytool :: "proc_env \<Rightarrow> ('m machine_scheme, unit) exec" where
  "service_no_keytool E = seqx (processes E) (\<lambda>found.
     raise_if (snd found) (UnifiOperationError ''surviving keytool prevents execution''))"

definition service_stopped :: "proc_env \<Rightarrow> ('m machine_scheme, unit) exec" where
  "service_stopped E =
     seqx (processes E) (\<lambda>(unifi, keytool).
     seqx (if unifi \<or> keytool then ret True else service_running E) (\<lambda>alive.
     seqx (raise_if alive (UnifiOperationError ''UniFi writer exclusion failed'')) (\<lambda>_.
     record_event ObservedStopped)))"

definition service_stop :: "proc_env \<Rightarrow> ('m machine_scheme, unit) exec" where
  "service_stop E = seqx (service_no_keytool E) (\<lambda>_.
     seqx (service_command E (svc_argv ''down'') [ServiceDown]) (\<lambda>_. service_stopped E))"

definition service_start :: "proc_env \<Rightarrow> ('m machine_scheme, unit) exec" where
  "service_start E = seqx (service_no_keytool E) (\<lambda>_.
     seqx (service_command E (svc_argv ''up'') [ServiceUp]) (\<lambda>_.
     seqx (service_running E) (\<lambda>up.
     seqx (if \<not> up then ret True else seqx (processes E) (\<lambda>found. ret (\<not> fst found))) (\<lambda>bad.
     raise_if bad (UnifiOperationError ''UniFi service readiness failed'')))))"

section \<open>What a returned run has collected\<close>

text \<open>The bytes a child sends on its standard output until the first empty read.\<close>

fun stdout_bytes :: "io list \<Rightarrow> bytes" where
  "stdout_bytes [] = []"
| "stdout_bytes (Stdout c # xs) = (if take 4096 c = [] then [] else take 4096 c @ stdout_bytes xs)"
| "stdout_bytes (_ # xs) = stdout_bytes xs"

fun stdout_ends :: "io list \<Rightarrow> bool" where
  "stdout_ends [] = False"
| "stdout_ends (Stdout c # xs) = (take 4096 c = [] \<or> stdout_ends xs)"
| "stdout_ends (_ # xs) = stdout_ends xs"

lemma stdout_append: "stdout_bytes (xs @ ys) = stdout_bytes xs @ (if stdout_ends xs then [] else stdout_bytes ys)"
  by (induction xs rule: stdout_bytes.induct) auto

lemma io_step_out:
  assumes "io_step data x st = Inr st'" "length (r_output st) \<le> MAX_IO"
  shows "r_output st' = r_output st @ (if r_out st then stdout_bytes [x] else [])"
    "r_out st' \<longleftrightarrow> r_out st \<and> \<not> stdout_ends [x]" "length (r_output st') \<le> MAX_IO"
  using assms by (cases x; auto simp: Let_def check_io_def split: if_splits)+

lemma run_events_out:
  assumes "run_events data xs st s = (Return st', t)" "length (r_output st) \<le> MAX_IO"
  shows "r_output st' = r_output st @ (if r_out st then stdout_bytes xs else []) \<and>
    (r_out st' \<longleftrightarrow> r_out st \<and> \<not> stdout_ends xs) \<and> length (r_output st') \<le> MAX_IO"
  using assms
proof (induction xs arbitrary: st s)
  case (Cons x xs)
  then obtain st1 s1 where 1: "io_step data x st = Inr st1" "run_events data xs st1 s1 = (Return st', t)"
    by (auto simp: returns)
  note o = io_step_out[OF 1(1) Cons.prems(2)]
  show ?case
    using Cons.IH[OF 1(2) o(3)] o(1,2) stdout_append[of "[x]" xs] by (cases x) auto
qed (simp add: returns)

lemma run_loop_out:
  assumes "run_loop data xss st s = (Return st', t)" "length (r_output st) \<le> MAX_IO"
  shows "r_output st' = r_output st @ (if r_out st then stdout_bytes (concat xss) else []) \<and>
    \<not> registered st' \<and> length (r_output st') \<le> MAX_IO"
  using assms
proof (induction data xss st arbitrary: s rule: run_loop.induct)
  case (1 data st)
  then show ?case by (auto simp: returns registered_def split: if_splits)
next
  case (2 data xs xss st)
  show ?case
  proof (cases "registered st")
    case True
    with 2 obtain st1 s1 s2 where 1: "run_events data xs st s1 = (Return st1, s2)"
      "run_loop data xss st1 s2 = (Return st', t)"
      by (auto simp: returns)
    note e = run_events_out[OF 1(1) 2(3)]
    show ?thesis using 2(1)[OF _ 1(2)] True e stdout_append[of xs "concat xss"] by auto
  qed (use 2 in \<open>auto simp: returns registered_def\<close>)
qed

lemma converse_out:
  assumes "converse_with data c s = (Return out, t)"
  shows "out = stdout_bytes (concat (rounds c)) \<and> exit_status c = Some 0 \<and> length out \<le> MAX_IO"
proof -
  obtain st s1 where "run_loop data (rounds c) (run_start data) s = (Return st, s1)" "out = r_output st"
    and "exit_status c = Some 0"
    using assms by (auto simp: converse_with_def returns split: option.splits)
  with run_loop_out[of data "rounds c" "run_start data" s st s1] show ?thesis
    by (auto simp: run_start_def)
qed

lemma child_failed_Return: "child_failed e s \<noteq> (Return x, t)"
  by (simp add: child_failed_def returns)

text \<open>
  C24. When a child run returns, the child was started, it exited with status zero, and the
  result is everything it wrote on its standard output up to the end of the stream, at most one
  mebibyte of it; a run of a failed, oversized or late child does not return.
\<close>

theorem run_returns_the_whole_output:
  assumes "run spawn effect data s = (Return out, t)"
  shows "\<exists>n. exit_status (spawn n) = Some 0 \<and> out = stdout_bytes (concat (rounds (spawn n))) \<and> length out \<le> MAX_IO"
  using assms converse_out by (fastforce simp: run_def returns child_failed_Return split: if_splits)

definition talker :: child where
  "talker = \<lparr> rounds = [[Stdout ''ab''], [StdinTakes 5, Stdout ''c''], [Stderr []], [Stdout []]], exit_status = Some 0 \<rparr>"

theorem run_returns_witness:
  "fst (run (\<lambda>_. talker) (\<lambda>_ s. s) ''input'' calm) = Return ''abc'' \<and>
   (\<exists>n::nat. exit_status talker = Some 0 \<and> ''abc'' = stdout_bytes (concat (rounds talker)) \<and> length ''abc'' \<le> MAX_IO)"
proof -
  have r: "fst (run (\<lambda>_. talker) (\<lambda>_ s. s) ''input'' calm) = Return ''abc''" by code_simp
  from run_returns_the_whole_output[OF fst_run[OF r]] r show ?thesis by blast
qed

section \<open>Every process is accounted for\<close>

text \<open>
  A call that answered that its target is gone; a file read to its end in pieces; what a view of a
  process directory tells about the process.
\<close>

definition answers_gone :: "(nat \<Rightarrow> errno + 'a) \<Rightarrow> bool" where
  "answers_gone f \<longleftrightarrow> (\<exists>n. f n = Inl ENOENT \<or> f n = Inl ESRCH)"

definition vanished :: "proc_view \<Rightarrow> bool" where
  "vanished V \<longleftrightarrow> answers_gone (pv_fstat V) \<or> answers_gone (pv_exe V) \<or>
     (\<exists>name. answers_gone (pv_open V name) \<or> (\<exists>pos. answers_gone (pv_read V name pos)))"

inductive reads_to :: "proc_view \<Rightarrow> string \<Rightarrow> nat \<Rightarrow> bytes \<Rightarrow> bool" for V name where
  read_end: "pv_read V name pos n = Inr [] \<Longrightarrow> reads_to V name pos []"
| read_more: "pv_read V name pos n = Inr c \<Longrightarrow> piece = take k c \<Longrightarrow> piece \<noteq> [] \<Longrightarrow>
    reads_to V name (pos + length piece) rest \<Longrightarrow> reads_to V name pos (piece @ rest)"

inductive observed :: "proc_view \<Rightarrow> bool \<times> bool \<Rightarrow> bool" for V where
  other: "pv_exe V n = Inr target \<Longrightarrow> path_name (removesuffix '' (deleted)'' target) \<notin> {''java'', ''keytool''} \<Longrightarrow>
    observed V (False, False)"
| program: "pv_exe V n = Inr target \<Longrightarrow> executable = path_name (removesuffix '' (deleted)'' target) \<Longrightarrow>
    executable \<in> {''java'', ''keytool''} \<Longrightarrow> reads_to V ''cmdline'' 0 command \<Longrightarrow> length command \<le> 65536 \<Longrightarrow>
    observed V (classify executable command)"

inductive accounted :: "proc_env \<Rightarrow> string \<Rightarrow> bool \<times> bool \<Rightarrow> bool" for E name where
  never_opened: "answers_gone (proc_open E name) \<Longrightarrow> accounted E name (False, False)"
| disappeared: "vanished (root_view E name) \<Longrightarrow> accounted E name (False, False)"
| seen: "observed (root_view E name) found \<Longrightarrow> accounted E name found"
| seen_as_abc: "observed (abc_view E name) found \<Longrightarrow> accounted E name found"

lemma proc_call_Return:
  "proc_call f s = (Return x, t) \<Longrightarrow> \<exists>n. f n = Inr x"
  by (auto simp: proc_call_def returns split: sum.splits)

lemma fault_not_gone [simp]: "fault e \<noteq> ProcessDisappeared"
  by (simp add: fault_def)

lemma raises_proc_call:
  "raises (\<lambda>e. e = ProcessDisappeared \<longrightarrow> answers_gone f) (proc_call f)"
proof -
  have "raises (\<lambda>e. e = ProcessDisappeared \<longrightarrow> answers_gone f)
      (case f n of Inl e \<Rightarrow> throw (target_error e) | Inr x \<Rightarrow> ret x)" for n
  proof (cases "f n")
    case (Inl e)
    then show ?thesis by (cases e) (auto intro!: raises_intros simp: answers_gone_def)
  qed (simp add: raises_intros)
  then show ?thesis unfolding proc_call_def by (auto intro!: raises_intros)
qed

lemma map_sum_Inl: "map_sum id g x = Inl e \<longleftrightarrow> x = Inl e"
  by (cases x) auto

lemma answers_gone_map: "answers_gone (\<lambda>n. map_sum id g (f n)) = answers_gone f"
  by (simp add: answers_gone_def map_sum_Inl)

lemma map_sum_Inr: "map_sum id g x = Inr y \<longleftrightarrow> (\<exists>z. x = Inr z \<and> y = g z)"
  by (cases x) auto

lemma vanishedI:
  "answers_gone (pv_fstat V) \<Longrightarrow> vanished V" "answers_gone (pv_exe V) \<Longrightarrow> vanished V"
  "answers_gone (pv_open V name) \<Longrightarrow> vanished V" "answers_gone (pv_read V name pos) \<Longrightarrow> vanished V"
  by (auto simp: vanished_def)

text \<open>\<open>steady V m\<close>: the computation reports a disappearance only when the view did.\<close>

abbreviation steady :: "proc_view \<Rightarrow> ('m machine_scheme, 'a) exec \<Rightarrow> bool" where
  "steady V m \<equiv> raises (\<lambda>e. e = ProcessDisappeared \<longrightarrow> vanished V) m"

lemma steady_call:
  "(answers_gone f \<Longrightarrow> vanished V) \<Longrightarrow> steady V (proc_call f)"
  by (rule raises_mono[OF raises_proc_call]) simp

lemma steady_close: "steady V close_fd"
  unfolding close_fd_def by (intro raises_intros) auto

lemma steady_read_at_loop: "steady V (read_at_loop V name maximum result)"
proof (induction V name maximum result rule: read_at_loop.induct)
  case (1 V name maximum result)
  have "steady V (proc_call (\<lambda>n. map_sum id (take k) (pv_read V name pos n)))" for k pos
    by (rule steady_call) (simp add: answers_gone_map vanishedI(4))
  then show ?case
    using 1 by (subst read_at_loop.simps) (auto intro!: raises_intros)
qed

lemma steady_read_at: "steady V (read_at V name maximum)"
  unfolding read_at_def
  by (intro raises_intros steady_call steady_read_at_loop steady_close) (rule vanishedI)

lemma steady_inspect: "steady V (inspect_process_fd V)"
  unfolding inspect_process_fd_def Let_def
  by (intro raises_intros steady_call steady_read_at) (rule vanishedI)

lemma foldE_status_line: "foldE status_line b ls = Inl e \<Longrightarrow> e = no_exclusion"
proof (induction ls arbitrary: b)
  case (Cons l ls)
  have "status_line b l = Inl e \<Longrightarrow> e = no_exclusion"
    by (auto simp: status_line_def catchE_def bindE_def split: prod.splits if_splits sum.splits)
  with Cons show ?case by (auto simp: bindE_def split: sum.splits)
qed simp

lemma steady_identity: "steady V (abc_process_identity V)"
  unfolding abc_process_identity_def Let_def
  by (intro raises_intros steady_call steady_read_at) (auto intro: vanishedI dest: foldE_status_line)

lemma read_at_loop_Return:
  "read_at_loop V name maximum result s = (Return b, t) \<Longrightarrow>
   \<exists>rest. b = result @ rest \<and> reads_to V name (length result) rest \<and> length b \<le> maximum"
proof (induction V name maximum result arbitrary: s rule: read_at_loop.induct)
  case (1 V name maximum result)
  let ?k = "min 4096 (maximum + 1 - length result)"
  have fits: "length result \<le> maximum"
    using 1(2) by (subst (asm) read_at_loop.simps) (auto simp: returns split: if_splits)
  obtain chunk s1 where c: "proc_call (\<lambda>n. map_sum id (take ?k) (pv_read V name (length result) n)) s = (Return chunk, s1)"
    "(if chunk = [] then ret result else read_at_loop V name maximum (result @ chunk)) s1 = (Return b, t)"
    using 1(2) fits by (subst (asm) read_at_loop.simps) (auto simp: returns)
  obtain n c0 where n: "pv_read V name (length result) n = Inr c0" "chunk = take ?k c0"
    using proc_call_Return[OF c(1)] by (auto simp: map_sum_Inr)
  show ?case
  proof (cases "chunk = []")
    case True
    with n fits have "pv_read V name (length result) n = Inr []" by auto
    with True c(2) fits show ?thesis using read_end by (simp add: returns)
  next
    case False
    then have "read_at_loop V name maximum (result @ chunk) s1 = (Return b, t)" using c(2) by simp
    from 1(1)[OF _ False this] fits obtain rest where
      "b = (result @ chunk) @ rest" "reads_to V name (length (result @ chunk)) rest" "length b \<le> maximum" by auto
    moreover have "reads_to V name (length result) (chunk @ rest)"
      by (rule read_more[OF n False]) (use calculation in simp)
    ultimately show ?thesis by auto
  qed
qed

lemma inspect_observed:
  assumes "inspect_process_fd V s = (Return found, t)"
  shows "observed V found"
proof -
  obtain target s1 where p: "proc_call (pv_exe V) s = (Return target, s1)"
    "(let executable = path_name (removesuffix '' (deleted)'' target)
      in if executable \<notin> {''java'', ''keytool''} then ret (False, False)
         else seqx (read_at V ''cmdline'' 65536) (\<lambda>command. ret (classify executable command))) s1 = (Return found, t)"
    using assms by (auto simp: inspect_process_fd_def returns)
  obtain n where n: "pv_exe V n = Inr target" using proc_call_Return[OF p(1)] by blast
  let ?x = "path_name (removesuffix '' (deleted)'' target)"
  show ?thesis
  proof (cases "?x \<in> {''java'', ''keytool''}")
    case True
    then obtain command s2 where c: "read_at V ''cmdline'' 65536 s1 = (Return command, s2)" "found = classify ?x command"
      using p(2) unfolding Let_def by (auto simp: returns)
    then have "reads_to V ''cmdline'' 0 command \<and> length command \<le> 65536"
      by (auto simp: read_at_def returns dest!: read_at_loop_Return)
    with n True c(2) show ?thesis by (metis program)
  next
    case False
    then have "found = (False, False)" using p(2) unfolding Let_def by (auto simp: returns)
    with n False show ?thesis by (auto intro: other)
  qed
qed

subsection \<open>The answer of the inspection child\<close>

lemma results_inverse: "map_of PROCESS_RESULTS (result_byte found) = Some found" "result_byte found \<noteq> ''D''"
  by (cases found; cases "fst found"; cases "snd found"; simp add: PROCESS_RESULTS_def result_byte_def)+

lemma steady_child:
  "steady V (close_child_fds E)" "steady V (drop_inspection_identity E)"
proof -
  have "py_int b = Inl e \<Longrightarrow> e = ValueError" for b e
    by (auto simp: py_int_def Let_def split: option.splits if_splits)
  then show "steady V (close_child_fds E)"
    unfolding close_child_fds_def suppress_OSError_def
    by (intro raises_intros raises_handle[OF steady_close]) auto
  show "steady V (drop_inspection_identity E)"
    unfolding drop_inspection_identity_def by (intro raises_intros) auto
qed

lemma child_inspection_Return:
  assumes "child_inspection E name s = (Return b, t)"
  shows "b = [] \<or> b = ''E'' \<or> b = ''D'' \<or> (\<exists>found. b = result_byte found \<and> observed (abc_view E name) found)"
proof -
  let ?m = "seqx (close_child_fds E) (\<lambda>_. seqx (drop_inspection_identity E) (\<lambda>_.
         seqx (inspect_process_fd (abc_view E name)) (\<lambda>found. ret (result_byte found))))"
  obtain result s1 where r: "handle ?m (\<lambda>e. ret (if e = ProcessDisappeared then ''D'' else ''E'')) s = (Return result, s1)"
    "handle (syscall (ret result)) (\<lambda>e. if is_OSError e then ret [] else throw e) s1 = (Return b, t)"
    using assms by (auto simp: child_inspection_def seqx_Return)
  have "b = result \<or> b = []" using r(2) by (auto simp: returns split: if_splits)
  moreover have "result = ''E'' \<or> result = ''D'' \<or> (\<exists>found. result = result_byte found \<and> observed (abc_view E name) found)"
    using r(1) unfolding handle_Return
  proof
    assume "?m s = (Return result, s1)"
    then show ?thesis by (auto simp: returns dest: inspect_observed)
  qed (auto simp: returns split: if_splits)
  ultimately show ?thesis by blast
qed

lemma forked_result:
  assumes "map_of PROCESS_RESULTS (forked (child_inspection E name) fate s) = Some found"
  shows "observed (abc_view E name) found"
proof -
  have none: "map_of PROCESS_RESULTS b = None" if "b \<in> {[], ''E'', ''D''}" for b
    using that by (auto simp: PROCESS_RESULTS_def)
  with assms obtain b where b: "fst (child_inspection E name (s\<lparr> sched := fate \<rparr>)) = Return b"
    "map_of PROCESS_RESULTS b = Some found"
    by (auto simp: forked_def split: outcome.splits)
  then have "child_inspection E name (s\<lparr> sched := fate \<rparr>) = (Return b, snd (child_inspection E name (s\<lparr> sched := fate \<rparr>)))"
    by (metis prod.collapse)
  from child_inspection_Return[OF this] show ?thesis
  proof (elim disjE exE conjE)
    fix f assume "b = result_byte f" "observed (abc_view E name) f"
    then show ?thesis using b(2) results_inverse(1)[of f] by simp
  qed (use none b(2) in simp_all)
qed

lemma receive_read_Return:
  assumes "receive_read eof ready pipe output s = (Return (pipe', output', eof'), t)" "eof \<longrightarrow> pipe = []"
  shows "output' @ pipe' = output @ pipe \<and> (eof' \<longrightarrow> pipe' = [])"
  using assms by (cases pipe) (auto simp: receive_read_def returns split: if_splits)

lemma receive_guard_Return [returns]: "receive_guard status m s = (Return x, t) \<longleftrightarrow> m s = (Return x, t)"
  by (auto simp: receive_guard_def returns)

lemma receive_loop_Return:
  fixes s :: "'m machine_scheme"
  assumes "receive_loop rs pipe got eof status s = (Return (out, code), t)" "eof \<longrightarrow> pipe = []"
  shows "out = got @ pipe"
  using assms
proof (induction rs arbitrary: pipe got eof status s)
  case (Cons r rs)
  show ?case
  proof (cases "eof \<and> status \<noteq> None")
    case False
    then obtain pipe' got' eof' status' and s1 s2 s3 :: "'m machine_scheme" where
      "receive_read eof (fst r) pipe got s1 = (Return (pipe', got', eof'), s2)"
      "receive_loop rs pipe' got' eof' status' s3 = (Return (out, code), t)"
      using Cons.prems(1) by (auto simp: returns split: prod.splits if_splits)
    then show ?thesis using receive_read_Return Cons.prems(2) Cons.IH by metis
  qed (use Cons.prems in \<open>auto simp: returns\<close>)
qed (auto simp: returns split: if_splits)

lemma inspect_as_abc_Return:
  fixes s :: "'m machine_scheme"
  assumes "inspect_as_abc E name s = (Return found, t)"
  shows "observed (abc_view E name) found"
proof -
  obtain rs fate and s1 s2 :: "'m machine_scheme" where "receive_child rs (forked (child_inspection E name) fate s1) s2 = (Return found, t)"
    using assms unfolding inspect_as_abc_def
    by (simp add: returns) blast
  then obtain got status and s3 :: "'m machine_scheme" where
    "receive_loop rs (forked (child_inspection E name) fate s1) [] False None s2 = (Return (got, status), s3)"
    "map_of PROCESS_RESULTS got = Some found"
    unfolding receive_child_def
    by (auto simp: seqx_Return finally_Return basic_Return split: prod.splits option.splits)
  with receive_loop_Return[of rs _ "[]"] show ?thesis by (force intro: forked_result)
qed

subsection \<open>The table\<close>

lemma inspect_opened_Return:
  fixes s :: "'m machine_scheme"
  assumes "inspect_opened E name s = (Return found, t)"
  shows "accounted E name found"
proof -
  have "inspect_process_fd (root_view E name) s = (Return found, t) \<or>
    (\<exists>(s1 :: 'm machine_scheme) s2. inspect_as_abc E name s1 = (Return found, s2))"
    using assms unfolding inspect_opened_def handle_Return
    by (auto simp: seqx_Return handle_Return basic_Return split: if_splits)
  then show ?thesis
    by (auto dest: inspect_observed inspect_as_abc_Return intro: seen seen_as_abc)
qed

lemma steady_opened: "steady (root_view E name) (inspect_opened E name)"
proof -
  let ?V = "root_view E name"
  have h: "steady ?V (if e \<noteq> ProcessDisappeared then throw e
      else seqx (abc_process_identity ?V) (\<lambda>_. throw no_exclusion))" for e
    by (intro raises_intros steady_identity) simp_all
  have "steady ?V (handle (inspect_as_abc E name) (\<lambda>e.
     if e \<noteq> ProcessDisappeared then throw e else seqx (abc_process_identity ?V) (\<lambda>_. throw no_exclusion)))"
    by (rule raises_handle[where Q = "\<lambda>_. True"]) (simp add: raises_def, rule h)
  then show ?thesis
    unfolding inspect_opened_def
    by (intro raises_handle[OF steady_inspect] raises_intros steady_identity) simp_all
qed

lemma gone_Return: "gone e s = (Return x, t) \<Longrightarrow> e = ProcessDisappeared \<and> x = (False, False)"
  by (auto simp: gone_def returns split: if_splits)

lemma inspect_one_Return:
  fixes s :: "'m machine_scheme"
  assumes "inspect_one E name s = (Return found, t)"
  shows "accounted E name found"
proof -
  let ?open = "seqx (proc_call (proc_open E name)) (\<lambda>_. ret True) :: ('m machine_scheme, bool) exec"
  obtain opened s1 where o: "handle ?open (\<lambda>e. seqx (gone e) (\<lambda>_. ret False)) s = (Return opened, s1)"
    "(if \<not> opened then ret (False, False) else finally_do (handle (inspect_opened E name) gone) close_fd) s1 = (Return found, t)"
    using assms unfolding inspect_one_def seqx_Return by (elim exE conjE) (rule that)
  show ?thesis
  proof (cases opened)
    case False
    then obtain e s2 where e: "?open s = (Raise e, s2)" "e = ProcessDisappeared"
      using o(1) unfolding handle_Return seqx_Return basic_Return by (auto dest!: gone_Return)
    have "raises (\<lambda>e. e = ProcessDisappeared \<longrightarrow> answers_gone (proc_open E name)) ?open"
      by (intro raises_intros raises_proc_call)
    from raisesD[OF this e(1)] e(2) have "answers_gone (proc_open E name)" by simp
    moreover have "found = (False, False)" using False o(2) by (simp add: basic_Return)
    ultimately show ?thesis by (simp add: never_opened)
  next
    case True
    then obtain s2 where "handle (inspect_opened E name) gone s1 = (Return found, s2)"
      using o(2) by (auto simp: finally_Return)
    then consider "inspect_opened E name s1 = (Return found, s2)"
      | e s3 where "inspect_opened E name s1 = (Raise e, s3)" "gone e s3 = (Return found, s2)"
      unfolding handle_Return by blast
    then show ?thesis
    proof cases
      case (2 e s3)
      then have "e = ProcessDisappeared" "found = (False, False)" using gone_Return[OF 2(2)] by blast+
      with raisesD[OF steady_opened 2(1)] show ?thesis by (simp add: disappeared)
    qed (rule inspect_opened_Return)
  qed
qed

lemma processes_loop_Return:
  assumes "processes_loop E names acc s = (Return (u, k), t)"
  shows "\<exists>founds. list_all2 (accounted E) (filter bytes_isdigit names) founds \<and>
    u = (fst acc \<or> (\<exists>f\<in>set founds. fst f)) \<and> k = (snd acc \<or> (\<exists>f\<in>set founds. snd f))"
  using assms
proof (induction E names acc arbitrary: s rule: processes_loop.induct)
  case (2 E name names acc)
  show ?case
  proof (cases "bytes_isdigit name")
    case True
    then obtain found s1 where f: "inspect_one E name s = (Return found, s1)"
      "processes_loop E names (fst acc \<or> fst found, snd acc \<or> snd found) s1 = (Return (u, k), t)"
      using 2(3) by (auto simp: seqx_Return)
    from 2(2)[OF _ f(2)] True obtain founds where
      "list_all2 (accounted E) (filter bytes_isdigit names) founds"
      "u = ((fst acc \<or> fst found) \<or> (\<exists>f\<in>set founds. fst f))" "k = ((snd acc \<or> snd found) \<or> (\<exists>f\<in>set founds. snd f))"
      by auto
    with True inspect_one_Return[OF f(1)] show ?thesis
      by (intro exI[of _ "found # founds"]) auto
  qed (use 2 in auto)
qed (auto simp: returns)

text \<open>
  C25. The process table never reports less than the host shows: when \<open>_processes\<close> returns, every numeric
  entry of \<open>/proc\<close> was either gone, or its executable and command line were read to the end, as root or
  as the unprivileged account, and the two flags are exactly the disjunctions over those
  observations. An entry that cannot be inspected makes the call fail.
\<close>

theorem processes_fail_closed:
  assumes "processes E s = (Return (unifi, keytool), t)"
  shows "\<exists>n founds. list_all2 (accounted E) (filter bytes_isdigit (proc_names E n)) founds \<and>
    unifi = (\<exists>f\<in>set founds. fst f) \<and> keytool = (\<exists>f\<in>set founds. snd f)"
  using assms by (auto simp: processes_def returns dest!: processes_loop_Return)

lemma service_running_Return:
  fixes s :: "'m machine_scheme"
  assumes "service_running E s = (Return b, t)"
  shows "\<exists>n. exit_status (s6_child E n (svc_argv ''status'')) = Some 0 \<and>
    bytes_strip (stdout_bytes (concat (rounds (s6_child E n (svc_argv ''status''))))) = (if b then ''true true'' else ''false false'')"
proof -
  obtain out s1 where o: "service_command E (svc_argv ''status'') [] s = (Return out, s1)"
    "bytes_strip out = (if b then ''true true'' else ''false false'')"
    using assms by (auto simp: service_running_def returns Let_def split: if_splits)
  obtain n and s2 s3 :: "'m machine_scheme" where "converse_with [] (s6_child E n (svc_argv ''status'')) s2 = (Return out, s3)"
    using o(1) by (auto simp: service_command_def run_def returns child_failed_Return split: if_splits)
  from converse_out[OF this] o(2) show ?thesis by auto
qed

text \<open>
  C26. \<open>stopped\<close> returns only when no UniFi and no keytool process was found among all the processes
  of the host and the supervisor reported the service as neither up nor ready.
\<close>

theorem stopped_excludes_writers:
  assumes "service_stopped E s = (Return u, t)"
  shows "\<exists>n m founds. list_all2 (accounted E) (filter bytes_isdigit (proc_names E n)) founds \<and>
    (\<forall>f\<in>set founds. f = (False, False)) \<and>
    exit_status (s6_child E m (svc_argv ''status'')) = Some 0 \<and>
    bytes_strip (stdout_bytes (concat (rounds (s6_child E m (svc_argv ''status''))))) = ''false false''"
proof -
  obtain s1 s2 where p: "processes E s = (Return (False, False), s1)" "service_running E s1 = (Return False, s2)"
    using assms by (auto simp: service_stopped_def returns record_event_def split: if_splits)
  obtain n founds where "list_all2 (accounted E) (filter bytes_isdigit (proc_names E n)) founds"
    "\<forall>f\<in>set founds. f = (False, False)"
    using p(1) by (fastforce simp: processes_def returns dest!: processes_loop_Return)
  with service_running_Return[OF p(2)] show ?thesis by auto
qed

definition idle_view :: proc_view where
  "idle_view = \<lparr> pv_fstat = \<lambda>_. Inl EOTHER, pv_exe = \<lambda>_. Inr ''/usr/bin/sleep'', pv_open = \<lambda>_ _. Inl EACCES,
     pv_read = \<lambda>_ _ _. Inl EACCES \<rparr>"

definition jvm_view :: proc_view where
  "jvm_view = idle_view\<lparr> pv_exe := \<lambda>_. Inr ''/usr/bin/java (deleted)'', pv_open := \<lambda>_ _. Inr (),
     pv_read := \<lambda>_ pos _. Inr (drop pos (join [CHR 0x00] [''java'', ''-jar'', ''/usr/lib/unifi/lib/ace.jar'', ''start''])) \<rparr>"

definition quiet_host :: proc_env where
  "quiet_host = \<lparr> proc_names = \<lambda>_. [''self'', ''1'', ''7''], proc_open = \<lambda>n _. if n = ''7'' then Inl ENOENT else Inr (),
     root_view = \<lambda>_. idle_view, abc_view = \<lambda>_. idle_view, child_fds = \<lambda>_. [], child_ids = \<lambda>_. ([], [], []),
     child_sched = \<lambda>_ _. Proceed, child_rounds = \<lambda>_. [], retained_fds = \<lambda>_. (3, 4),
     s6_child = \<lambda>_ _. \<lparr> rounds = [[Stdout ''false false''], [Stdout [], Stderr []]], exit_status = Some 0 \<rparr> \<rparr>"

definition busy_host :: proc_env where
  "busy_host = quiet_host\<lparr> root_view := \<lambda>n. if n = ''1'' then jvm_view else idle_view \<rparr>"

theorem processes_fail_closed_witness:
  "fst (processes busy_host calm) = Return (True, False) \<and>
   (\<exists>n founds. list_all2 (accounted busy_host) (filter bytes_isdigit (proc_names busy_host n)) founds \<and>
     True = (\<exists>f\<in>set founds. fst f) \<and> False = (\<exists>f\<in>set founds. snd f))"
proof -
  have r: "fst (processes busy_host calm) = Return (True, False)" by code_simp
  from processes_fail_closed[OF fst_run[OF r]] r show ?thesis by blast
qed

theorem stopped_excludes_writers_witness:
  "fst (service_stopped quiet_host calm) = Return () \<and>
   (\<exists>n m founds. list_all2 (accounted quiet_host) (filter bytes_isdigit (proc_names quiet_host n)) founds \<and>
    (\<forall>f\<in>set founds. f = (False, False)) \<and>
    exit_status (s6_child quiet_host m (svc_argv ''status'')) = Some 0 \<and>
    bytes_strip (stdout_bytes (concat (rounds (s6_child quiet_host m (svc_argv ''status''))))) = ''false false'')"
proof -
  have r: "fst (service_stopped quiet_host calm) = Return ()" by code_simp
  from stopped_excludes_writers[OF fst_run[OF r]] r show ?thesis by blast
qed

end
