(* ===== verification/Codec.thy ===== *)
theory Codec
  imports Json
begin

text \<open>
  The contract of a record that travels as JSON text: an encoder, a validation of arbitrary JSON
  values, and a decoder of validated values. What the contract gives is proved once here; the
  recovery journal provides it.
\<close>

locale codec =
  fixes enc :: "'a \<Rightarrow> json" and check :: "json \<Rightarrow> py_exc + json" and dec :: "json \<Rightarrow> 'a"
    and ok :: "'a \<Rightarrow> bool" and writable :: "'a \<Rightarrow> bool"
  assumes dec_enc: "dec (norm (enc x)) = x"
    and plain_enc: "ok x \<Longrightarrow> writable x \<Longrightarrow> plain (enc x)"
    and check_enc: "check (norm (enc x)) = Inr w \<longleftrightarrow> ok x \<and> w = norm (enc x)"
    and check_dec: "check v = Inr w \<Longrightarrow> ok (dec w)"
begin

lemma loads_written:
  assumes "ok x" "writable x"
  shows "loads dup (dumps (enc x)) = Inr (norm (enc x))"
  using assms by (intro loads_dumps plain_enc)

lemma read_back:
  assumes "ok x" "writable x"
  shows "\<exists>w. bindE (loads dup (dumps (enc x))) check = Inr w \<and> dec w = x"
  using assms loads_written check_enc dec_enc by (metis bindE_simps(2))

lemma written_inj:
  assumes "ok x" "writable x" "ok y" "writable y" "dumps (enc x) = dumps (enc y)"
  shows "x = y"
  by (metis assms loads_written dec_enc sum.inject(2))

lemma read_ok: "bindE (loads dup text) check = Inr w \<Longrightarrow> ok (dec w)"
  using check_dec by auto

end

end
