(* ===== verification/Journal.thy ===== *)
theory Journal
  imports Codec
begin

text \<open>
  The recovery journal: its fields as a record, its JSON form, and \<open>_validate_journal\<close> of
  \<open>unifi_executor.py\<close> on arbitrary JSON values. A journal that the program writes is read back as
  the same record; a value that the validation accepts is the JSON form of a record with the
  invariant \<open>journal_ok\<close>.
\<close>

section \<open>Data\<close>

datatype phase =
    Quiescing | Quiesced | Staging | StagedValidated | RollbackDurable | CommitPossible | Committed
  | CanonicalVerified | PendingLive | LiveVerified | RecoveryRequired | RecoveredOld

primrec phase_name :: "phase \<Rightarrow> string" where
  "phase_name Quiescing = ''quiescing''"
| "phase_name Quiesced = ''quiesced''"
| "phase_name Staging = ''staging''"
| "phase_name StagedValidated = ''staged_validated''"
| "phase_name RollbackDurable = ''rollback_durable''"
| "phase_name CommitPossible = ''commit_possible''"
| "phase_name Committed = ''committed''"
| "phase_name CanonicalVerified = ''canonical_verified''"
| "phase_name PendingLive = ''service_resumed_pending_live_verification''"
| "phase_name LiveVerified = ''live_verified''"
| "phase_name RecoveryRequired = ''recovery_required''"
| "phase_name RecoveredOld = ''recovered_old''"

definition PHASES :: "phase list" where
  "PHASES = [Quiescing, Quiesced, Staging, StagedValidated, RollbackDurable, CommitPossible, Committed,
     CanonicalVerified, PendingLive, LiveVerified, RecoveryRequired, RecoveredOld]"

record public_id =
  spki :: string
  chain :: "string list"

record journal =
  j_policy_digest :: string
  j_transaction :: string
  j_phase :: phase
  j_resume :: bool
  j_old :: public_id
  j_issued :: "public_id option"
  j_old_inode :: "nat \<times> nat"
  j_stage_inode :: "(nat \<times> nat) option"
  j_rollback_expected :: bool
  j_commit_possible :: bool

definition public_id_value :: "public_id \<Rightarrow> json" where
  "public_id_value p = JObj [(''spki'', JStr (spki p)), (''chain'', JArr (map JStr (chain p)))]"

definition inode_value :: "nat \<times> nat \<Rightarrow> json" where
  "inode_value p = JArr [JInt (int (fst p)), JInt (int (snd p))]"

definition opt_value :: "('a \<Rightarrow> json) \<Rightarrow> 'a option \<Rightarrow> json" where
  "opt_value f x = (case x of None \<Rightarrow> JNull | Some y \<Rightarrow> f y)"

definition journal_value :: "journal \<Rightarrow> json" where
  "journal_value J = JObj [
     (''version'', JInt 2),
     (''policy_digest'', JStr (j_policy_digest J)),
     (''transaction'', JStr (j_transaction J)),
     (''phase'', JStr (phase_name (j_phase J))),
     (''resume'', JBool (j_resume J)),
     (''old'', public_id_value (j_old J)),
     (''issued'', opt_value public_id_value (j_issued J)),
     (''old_inode'', inode_value (j_old_inode J)),
     (''stage_inode'', opt_value inode_value (j_stage_inode J)),
     (''rollback_expected'', JBool (j_rollback_expected J)),
     (''commit_possible'', JBool (j_commit_possible J))]"

section \<open>Validation\<close>

definition journal_fields :: "string list" where
  "journal_fields = [''version'', ''policy_digest'', ''transaction'', ''phase'', ''resume'', ''old'', ''issued'',
     ''old_inode'', ''stage_inode'', ''rollback_expected'', ''commit_possible'']"

definition jfield :: "string \<Rightarrow> (string \<times> json) list \<Rightarrow> json" where
  "jfield k ps = (case jget k ps of None \<Rightarrow> JNull | Some v \<Rightarrow> v)"

fun is_digest :: "nat \<Rightarrow> json \<Rightarrow> bool" where
  "is_digest n (JStr s) = lhex_string n s"
| "is_digest n _ = False"

fun is_bool :: "json \<Rightarrow> bool" where
  "is_bool (JBool _) = True"
| "is_bool _ = False"

fun is_public_id :: "json \<Rightarrow> bool" where
  "is_public_id (JObj qs) = (has_fields [''spki'', ''chain''] qs \<and>
     (case jfield ''chain'' qs of
        JArr cs \<Rightarrow> 1 \<le> length cs \<and> length cs \<le> 10 \<and> list_all (is_digest 64) (jfield ''spki'' qs # cs)
      | _ \<Rightarrow> False))"
| "is_public_id _ = False"

fun is_inode :: "json \<Rightarrow> bool" where
  "is_inode (JArr [JInt a, JInt b]) = (0 \<le> a \<and> 0 \<le> b)"
| "is_inode _ = False"

fun obj_field :: "string \<Rightarrow> json \<Rightarrow> json" where
  "obj_field k (JObj qs) = jfield k qs"
| "obj_field k _ = JNull"

fun arr_length :: "json \<Rightarrow> nat" where
  "arr_length (JArr vs) = length vs"
| "arr_length _ = 0"

abbreviation journal_error :: "string \<Rightarrow> py_exc + 'a" where
  "journal_error m \<equiv> Inl (UnifiOperationError m)"

definition validate_journal :: "json \<Rightarrow> py_exc + json" where
  "validate_journal v = (case v of
      JObj ps \<Rightarrow>
        let f = \<lambda>k. jfield k ps
        in if \<not> has_fields journal_fields ps then journal_error ''invalid recovery journal''
           else if f ''version'' \<noteq> JInt 2 \<or> \<not> is_digest 64 (f ''policy_digest'') \<or>
                   \<not> is_digest 32 (f ''transaction'') \<or>
                   f ''phase'' \<notin> set (map (JStr \<circ> phase_name) PHASES)
           then journal_error ''invalid recovery journal''
           else if \<not> list_all (\<lambda>k. is_bool (f k)) [''resume'', ''rollback_expected'', ''commit_possible'']
           then journal_error ''invalid recovery journal''
           else if \<not> is_public_id (f ''old'') \<or> f ''issued'' \<noteq> JNull \<and> \<not> is_public_id (f ''issued'')
           then journal_error ''invalid journal public identity''
           else if \<not> is_inode (f ''old_inode'') \<or> f ''stage_inode'' \<noteq> JNull \<and> \<not> is_inode (f ''stage_inode'')
           then journal_error ''invalid journal file identity''
           else if f ''commit_possible'' = JBool True \<and>
                   (f ''issued'' = JNull \<or> f ''stage_inode'' = JNull \<or> f ''rollback_expected'' = JBool False)
           then journal_error ''inconsistent recovery journal''
           else if f ''phase'' = JStr ''live_verified'' \<and>
                   (f ''resume'' = JBool False \<or> f ''rollback_expected'' = JBool False \<or>
                    f ''commit_possible'' = JBool False \<or> f ''issued'' = JNull \<or> f ''stage_inode'' = JNull \<or>
                    f ''old_inode'' = f ''stage_inode'' \<or>
                    obj_field ''spki'' (f ''old'') \<noteq> obj_field ''spki'' (f ''issued'') \<or>
                    arr_length (obj_field ''chain'' (f ''issued'')) \<noteq> 2)
           then journal_error ''inconsistent live-verified journal''
           else Inr v
    | _ \<Rightarrow> journal_error ''invalid recovery journal'')"

section \<open>The invariant of a journal\<close>

definition public_id_ok :: "public_id \<Rightarrow> bool" where
  "public_id_ok p \<longleftrightarrow> lhex_string 64 (spki p) \<and> 1 \<le> length (chain p) \<and> length (chain p) \<le> 10 \<and>
     list_all (lhex_string 64) (chain p)"

definition opt_all :: "('a \<Rightarrow> bool) \<Rightarrow> 'a option \<Rightarrow> bool" where
  "opt_all P x = (case x of None \<Rightarrow> True | Some y \<Rightarrow> P y)"

lemma opt_all_simps [simp]: "opt_all P None" "opt_all P (Some y) = P y"
  by (simp_all add: opt_all_def)

definition journal_ok :: "journal \<Rightarrow> bool" where
  "journal_ok J \<longleftrightarrow> lhex_string 64 (j_policy_digest J) \<and> lhex_string 32 (j_transaction J) \<and>
     public_id_ok (j_old J) \<and> opt_all public_id_ok (j_issued J) \<and>
     (j_commit_possible J \<longrightarrow> j_issued J \<noteq> None \<and> j_stage_inode J \<noteq> None \<and> j_rollback_expected J) \<and>
     (j_phase J = LiveVerified \<longrightarrow> j_resume J \<and> j_rollback_expected J \<and> j_commit_possible J \<and>
        j_stage_inode J \<noteq> Some (j_old_inode J) \<and>
        (case j_issued J of None \<Rightarrow> False | Some p \<Rightarrow> spki p = spki (j_old J) \<and> length (chain p) = 2))"

section \<open>From JSON back to the record\<close>

fun str_of :: "json \<Rightarrow> string" where
  "str_of (JStr s) = s"
| "str_of _ = []"

definition public_id_of :: "json \<Rightarrow> public_id" where
  "public_id_of v = \<lparr> spki = str_of (obj_field ''spki'' v),
     chain = (case obj_field ''chain'' v of JArr cs \<Rightarrow> map str_of cs | _ \<Rightarrow> []) \<rparr>"

fun inode_of :: "json \<Rightarrow> nat \<times> nat" where
  "inode_of (JArr [JInt a, JInt b]) = (nat a, nat b)"
| "inode_of _ = (0, 0)"

definition opt_of :: "(json \<Rightarrow> 'a) \<Rightarrow> json \<Rightarrow> 'a option" where
  "opt_of f v = (if v = JNull then None else Some (f v))"

fun phase_of :: "phase list \<Rightarrow> string \<Rightarrow> phase" where
  "phase_of [] s = RecoveryRequired"
| "phase_of (p # ps) s = (if phase_name p = s then p else phase_of ps s)"

definition journal_of :: "json \<Rightarrow> journal" where
  "journal_of v = \<lparr>
     j_policy_digest = str_of (obj_field ''policy_digest'' v),
     j_transaction = str_of (obj_field ''transaction'' v),
     j_phase = phase_of PHASES (str_of (obj_field ''phase'' v)),
     j_resume = (obj_field ''resume'' v = JBool True),
     j_old = public_id_of (obj_field ''old'' v),
     j_issued = opt_of public_id_of (obj_field ''issued'' v),
     j_old_inode = inode_of (obj_field ''old_inode'' v),
     j_stage_inode = opt_of inode_of (obj_field ''stage_inode'' v),
     j_rollback_expected = (obj_field ''rollback_expected'' v = JBool True),
     j_commit_possible = (obj_field ''commit_possible'' v = JBool True) \<rparr>"

section \<open>JSON values that stand for a journal\<close>

text \<open>
  A value \<^emph>\<open>represents\<close> a record when it is an object with exactly the fields of the record; the
  order of the fields is free, as the file is written with sorted keys.
\<close>

definition id_rep :: "json \<Rightarrow> public_id \<Rightarrow> bool" where
  "id_rep v p \<longleftrightarrow> (\<exists>qs. v = JObj qs \<and> has_fields [''spki'', ''chain''] qs \<and>
     jfield ''spki'' qs = JStr (spki p) \<and> jfield ''chain'' qs = JArr (map JStr (chain p)))"

definition opt_rep :: "(json \<Rightarrow> 'a \<Rightarrow> bool) \<Rightarrow> json \<Rightarrow> 'a option \<Rightarrow> bool" where
  "opt_rep r v x = (case x of None \<Rightarrow> v = JNull | Some y \<Rightarrow> r v y)"

definition journal_rep :: "(string \<times> json) list \<Rightarrow> journal \<Rightarrow> bool" where
  "journal_rep ps J \<longleftrightarrow> has_fields journal_fields ps \<and> jfield ''version'' ps = JInt 2 \<and>
     jfield ''policy_digest'' ps = JStr (j_policy_digest J) \<and>
     jfield ''transaction'' ps = JStr (j_transaction J) \<and>
     jfield ''phase'' ps = JStr (phase_name (j_phase J)) \<and>
     jfield ''resume'' ps = JBool (j_resume J) \<and>
     id_rep (jfield ''old'' ps) (j_old J) \<and> opt_rep id_rep (jfield ''issued'' ps) (j_issued J) \<and>
     jfield ''old_inode'' ps = inode_value (j_old_inode J) \<and>
     opt_rep (\<lambda>v n. v = inode_value n) (jfield ''stage_inode'' ps) (j_stage_inode J) \<and>
     jfield ''rollback_expected'' ps = JBool (j_rollback_expected J) \<and>
     jfield ''commit_possible'' ps = JBool (j_commit_possible J)"

subsection \<open>Objects with sorted keys\<close>

lemma map_of_sort_key:
  fixes ps :: "(string \<times> json) list"
  assumes "distinct (map fst ps)"
  shows "map_of (sort_key fst ps) = map_of ps"
proof (rule map_of_inject_set[THEN iffD2])
  show "distinct (map fst (sort_key fst ps))"
    using assms by (metis distinct_map distinct_sort set_sort)
qed (use assms in auto)

lemma jfield_sorted:
  assumes "distinct (map fst ps)"
  shows "jfield k (sort_key fst (map (\<lambda>p. (fst p, norm (snd p))) ps)) = norm (jfield k ps)"
proof -
  have "map fst (map (\<lambda>p. (fst p, norm (snd p))) ps) = map fst ps" by simp
  then have "distinct (map fst (map (\<lambda>p. (fst p, norm (snd p))) ps))" using assms by presburger
  then have "map_of (sort_key fst (map (\<lambda>p. (fst p, norm (snd p))) ps)) = map_of (map (\<lambda>p. (fst p, norm (snd p))) ps)"
    by (rule map_of_sort_key)
  moreover have "map_of (map (\<lambda>p. (fst p, norm (snd p))) ps) k = map_option norm (map_of ps k)"
    by (induction ps) auto
  ultimately have "map_of (sort_key fst (map (\<lambda>p. (fst p, norm (snd p))) ps)) k = map_option norm (map_of ps k)" by simp
  then show ?thesis by (simp add: jfield_def jget_def split: option.splits)
qed

lemma has_fields_sorted:
  "has_fields fs (sort_key fst (map (\<lambda>p. (fst p, norm (snd p))) ps)) = has_fields fs ps"
  by (auto simp: has_fields_def list_all_iff image_image)

subsection \<open>Facts of the representation\<close>

lemma phase_name_inj [simp]: "phase_name p = phase_name q \<longleftrightarrow> p = q"
  by (cases p; cases q) simp_all

lemma phase_of_name [simp]: "phase_of PHASES (phase_name p) = p"
  by (cases p) (simp_all add: PHASES_def)

lemma phase_name_in_PHASES [simp]: "phase_name p \<in> phase_name ` set PHASES"
  by (cases p) (simp_all add: PHASES_def)

lemma is_inode_inode_value [simp]: "is_inode (inode_value n)" "inode_of (inode_value n) = n" "inode_value n \<noteq> JNull"
  by (simp_all add: inode_value_def)

lemma inode_value_inj [simp]: "inode_value m = inode_value n \<longleftrightarrow> m = n"
  by (metis is_inode_inode_value(2))

lemma is_inodeD: "is_inode v \<Longrightarrow> v = inode_value (inode_of v)"
  by (cases v rule: is_inode.cases) (auto simp: inode_value_def)

lemma is_digestD: "is_digest n v \<Longrightarrow> v = JStr (str_of v) \<and> lhex_string n (str_of v)"
  by (cases v) auto

lemma is_boolD: "is_bool v \<Longrightarrow> v = JBool (v = JBool True)"
  by (cases v) auto

lemma id_rep_ok: "id_rep v p \<Longrightarrow> is_public_id v \<longleftrightarrow> public_id_ok p"
  by (auto simp: id_rep_def public_id_ok_def list_all_iff)

lemma id_rep_fields:
  assumes "id_rep v p"
  shows "v \<noteq> JNull" "obj_field ''spki'' v = JStr (spki p)" "arr_length (obj_field ''chain'' v) = length (chain p)"
    "public_id_of v = p"
proof -
  have "map (str_of \<circ> JStr) xs = xs" for xs by (rule map_idI) simp
  with assms show "public_id_of v = p" by (auto simp: id_rep_def public_id_of_def)
qed (use assms in \<open>auto simp: id_rep_def\<close>)

lemma id_rep_public_id_of:
  assumes "is_public_id v"
  shows "id_rep v (public_id_of v)"
proof -
  obtain qs cs where v: "v = JObj qs" and qs: "has_fields [''spki'', ''chain''] qs"
    "jfield ''chain'' qs = JArr cs" "is_digest 64 (jfield ''spki'' qs)" "list_all (is_digest 64) cs"
    using assms by (cases v rule: is_public_id.cases) (auto split: json.splits)
  have "map (JStr \<circ> str_of) cs = cs"
    using qs(4) by (intro map_idI) (metis comp_apply is_digestD list_all_iff)
  with v qs show ?thesis
    by (auto simp: id_rep_def public_id_of_def dest: is_digestD)
qed

lemma id_rep_value: "id_rep (public_id_value p) p" "id_rep (norm (public_id_value p)) p"
proof -
  let ?qs = "[(''spki'', JStr (spki p)), (''chain'', JArr (map JStr (chain p)))]"
  have d: "distinct (map fst ?qs)" by simp
  have h: "has_fields [''spki'', ''chain''] ?qs" by (simp add: has_fields_def)
  show "id_rep (public_id_value p) p"
    using h by (simp add: id_rep_def public_id_value_def jfield_def jget_def)
  have "norm (public_id_value p) = JObj (sort_key fst (map (\<lambda>p. (fst p, norm (snd p))) ?qs))"
    by (simp only: public_id_value_def norm.simps)
  moreover have "has_fields [''spki'', ''chain''] (sort_key fst (map (\<lambda>p. (fst p, norm (snd p))) ?qs))"
    using h by (simp only: has_fields_sorted)
  moreover have "jfield ''spki'' (sort_key fst (map (\<lambda>p. (fst p, norm (snd p))) ?qs)) = JStr (spki p)"
    unfolding jfield_sorted[OF d] by (simp add: jfield_def jget_def)
  moreover have "jfield ''chain'' (sort_key fst (map (\<lambda>p. (fst p, norm (snd p))) ?qs)) = JArr (map JStr (chain p))"
    unfolding jfield_sorted[OF d] by (simp add: jfield_def jget_def)
  ultimately show "id_rep (norm (public_id_value p)) p" unfolding id_rep_def by blast
qed

lemma opt_rep_None [simp]: "opt_rep r JNull None"
  by (simp add: opt_rep_def)

lemma opt_rep_value:
  "(\<And>y. r (f y) y) \<Longrightarrow> opt_rep r (opt_value f x) x"
  "(\<And>y. r (norm (f y)) y) \<Longrightarrow> opt_rep r (norm (opt_value f x)) x"
  by (cases x; simp add: opt_rep_def opt_value_def)+

lemma norm_inode_value [simp]: "norm (inode_value n) = inode_value n"
  by (simp add: inode_value_def)


lemma journal_keys:
  defines "fs \<equiv> \<lambda>J. case journal_value J of JObj ps \<Rightarrow> ps | _ \<Rightarrow> []"
  shows "journal_value J = JObj (fs J)" "distinct (map fst (fs J))" "has_fields journal_fields (fs J)"
  by (simp_all add: fs_def journal_value_def has_fields_def journal_fields_def)

lemma journal_rep_value:
  obtains ps qs where "journal_value J = JObj ps" "journal_rep ps J"
    "norm (journal_value J) = JObj qs" "journal_rep qs J"
proof -
  obtain ps where ps: "journal_value J = JObj ps" "distinct (map fst ps)" "has_fields journal_fields ps"
    using journal_keys by blast
  let ?qs = "sort_key fst (map (\<lambda>p. (fst p, norm (snd p))) ps)"
  have f: "jfield ''version'' ps = JInt 2" "jfield ''policy_digest'' ps = JStr (j_policy_digest J)"
    "jfield ''transaction'' ps = JStr (j_transaction J)" "jfield ''phase'' ps = JStr (phase_name (j_phase J))"
    "jfield ''resume'' ps = JBool (j_resume J)" "jfield ''old'' ps = public_id_value (j_old J)"
    "jfield ''issued'' ps = opt_value public_id_value (j_issued J)" "jfield ''old_inode'' ps = inode_value (j_old_inode J)"
    "jfield ''stage_inode'' ps = opt_value inode_value (j_stage_inode J)"
    "jfield ''rollback_expected'' ps = JBool (j_rollback_expected J)"
    "jfield ''commit_possible'' ps = JBool (j_commit_possible J)"
    using ps(1) by (auto simp: journal_value_def jfield_def jget_def)
  have "journal_rep ps J"
    using ps(3) f id_rep_value by (simp add: journal_rep_def opt_rep_value)
  moreover have "journal_rep ?qs J"
    using ps(3) f id_rep_value
    by (simp add: journal_rep_def jfield_sorted[OF ps(2)] has_fields_sorted opt_rep_value)
  ultimately show ?thesis using that ps(1) by simp
qed

lemma journal_rep_of:
  assumes "journal_rep ps J"
  shows "journal_of (JObj ps) = J"
proof -
  have "opt_of public_id_of (jfield ''issued'' ps) = j_issued J"
    using assms id_rep_fields by (cases "j_issued J") (auto simp: journal_rep_def opt_rep_def opt_of_def)
  moreover have "opt_of inode_of (jfield ''stage_inode'' ps) = j_stage_inode J"
    using assms by (cases "j_stage_inode J") (auto simp: journal_rep_def opt_rep_def opt_of_def)
  ultimately show ?thesis
    using assms id_rep_fields(4) by (simp add: journal_rep_def journal_of_def)
qed

text \<open>The validation decides the invariant on every value that represents a journal.\<close>

lemma validate_journal_JObj:
  fixes ps defines "f \<equiv> \<lambda>k. jfield k ps"
  shows "validate_journal (JObj ps) = Inr w \<longleftrightarrow> w = JObj ps \<and> has_fields journal_fields ps \<and>
    f ''version'' = JInt 2 \<and> is_digest 64 (f ''policy_digest'') \<and> is_digest 32 (f ''transaction'') \<and>
    f ''phase'' \<in> JStr ` phase_name ` set PHASES \<and>
    is_bool (f ''resume'') \<and> is_bool (f ''rollback_expected'') \<and> is_bool (f ''commit_possible'') \<and>
    is_public_id (f ''old'') \<and> (f ''issued'' = JNull \<or> is_public_id (f ''issued'')) \<and>
    is_inode (f ''old_inode'') \<and> (f ''stage_inode'' = JNull \<or> is_inode (f ''stage_inode'')) \<and>
    (f ''commit_possible'' = JBool True \<longrightarrow>
       f ''issued'' \<noteq> JNull \<and> f ''stage_inode'' \<noteq> JNull \<and> f ''rollback_expected'' \<noteq> JBool False) \<and>
    (f ''phase'' = JStr ''live_verified'' \<longrightarrow>
       f ''resume'' \<noteq> JBool False \<and> f ''rollback_expected'' \<noteq> JBool False \<and>
       f ''commit_possible'' \<noteq> JBool False \<and> f ''issued'' \<noteq> JNull \<and> f ''stage_inode'' \<noteq> JNull \<and>
       f ''old_inode'' \<noteq> f ''stage_inode'' \<and>
       obj_field ''spki'' (f ''old'') = obj_field ''spki'' (f ''issued'') \<and>
       arr_length (obj_field ''chain'' (f ''issued'')) = 2)"
  unfolding validate_journal_def f_def json.case Let_def if_Inl_Inr de_Morgan_disj de_Morgan_conj not_not
  by (simp only: set_map image_comp list.pred_inject not_imp de_Morgan_disj imp_conv_disj conj_assoc
       sum.inject simp_thms eq_commute[of w]) blast

lemma validate_journal_rep:
  assumes "journal_rep ps J"
  shows "validate_journal (JObj ps) = Inr w \<longleftrightarrow> journal_ok J \<and> w = JObj ps"
proof -
  let ?f = "\<lambda>k. jfield k ps"
  have flat: "has_fields journal_fields ps" "?f ''version'' = JInt 2" "?f ''policy_digest'' = JStr (j_policy_digest J)"
    "?f ''transaction'' = JStr (j_transaction J)" "?f ''phase'' = JStr (phase_name (j_phase J))"
    "?f ''resume'' = JBool (j_resume J)" "?f ''rollback_expected'' = JBool (j_rollback_expected J)"
    "?f ''commit_possible'' = JBool (j_commit_possible J)" "?f ''old_inode'' = inode_value (j_old_inode J)"
    using assms by (simp_all add: journal_rep_def)
  have opt: "?f ''issued'' = JNull \<longleftrightarrow> j_issued J = None" "?f ''stage_inode'' = JNull \<longleftrightarrow> j_stage_inode J = None"
    "is_public_id (?f ''issued'') \<longleftrightarrow> j_issued J \<noteq> None \<and> opt_all public_id_ok (j_issued J)"
    "is_inode (?f ''stage_inode'') \<longleftrightarrow> j_stage_inode J \<noteq> None"
    "inode_value (j_old_inode J) = ?f ''stage_inode'' \<longleftrightarrow> j_stage_inode J = Some (j_old_inode J)"
    using assms id_rep_fields(1) id_rep_ok
    by (auto simp: journal_rep_def opt_rep_def split: option.splits)
  have issued: "obj_field ''spki'' (?f ''issued'') = JStr (spki p) \<and>
    arr_length (obj_field ''chain'' (?f ''issued'')) = length (chain p)" if "j_issued J = Some p" for p
    using that assms id_rep_fields by (auto simp: journal_rep_def opt_rep_def)
  have old: "obj_field ''spki'' (?f ''old'') = JStr (spki (j_old J))" "is_public_id (?f ''old'') = public_id_ok (j_old J)"
    using assms id_rep_fields id_rep_ok by (auto simp: journal_rep_def)
  have live: "JStr (phase_name p) = JStr ''live_verified'' \<longleftrightarrow> p = LiveVerified" for p
    using phase_name_inj[of p LiveVerified] by simp
  have known: "JStr (phase_name p) \<in> JStr ` phase_name ` set PHASES" for p by simp
  show ?thesis
  proof (cases "j_issued J")
    case None
    then show ?thesis
      unfolding validate_journal_JObj flat opt old live journal_ok_def using known flat(1) by (cases "j_stage_inode J") auto
  next
    case (Some p)
    then show ?thesis
      unfolding validate_journal_JObj flat opt old live journal_ok_def
      using known flat(1) issued[OF Some] by (cases "j_stage_inode J") auto
  qed
qed


lemma journal_rep_accepted:
  assumes "validate_journal v = Inr w"
  obtains ps where "v = JObj ps" "w = v" "journal_rep ps (journal_of v)"
proof -
  obtain ps where v: "v = JObj ps" using assms by (cases v) (auto simp: validate_journal_def)
  note acc = assms[unfolded v validate_journal_JObj]
  let ?f = "\<lambda>k. jfield k ps"
  obtain ph where "?f ''phase'' = JStr (phase_name ph)" using acc by blast
  moreover have "opt_rep id_rep (?f ''issued'') (opt_of public_id_of (?f ''issued''))"
    "opt_rep (\<lambda>v n. v = inode_value n) (?f ''stage_inode'') (opt_of inode_of (?f ''stage_inode''))"
    using acc id_rep_public_id_of is_inodeD by (auto simp: opt_rep_def opt_of_def)
  moreover have "?f ''policy_digest'' = JStr (str_of (?f ''policy_digest''))"
    "?f ''transaction'' = JStr (str_of (?f ''transaction''))"
    using acc is_digestD by blast+
  moreover have "?f k = JBool (?f k = JBool True)"
    if "k \<in> {''resume'', ''rollback_expected'', ''commit_possible''}" for k
    using acc that is_boolD by auto
  ultimately have "journal_rep ps (journal_of v)"
    using acc id_rep_public_id_of is_inodeD
    unfolding v journal_rep_def journal_of_def by auto
  then show ?thesis using that v acc by blast
qed

lemma lhex_isascii: "lhex_string n s \<Longrightarrow> isascii s"
  by (auto simp: lhex_string_def isascii_def list_all_iff is_lhex_def is_ascii_def is_digit_def)

definition small_inode :: "nat \<times> nat \<Rightarrow> bool" where
  "small_inode p \<longleftrightarrow> fst p < 2 ^ 64 \<and> snd p < 2 ^ 64"

text \<open>Device and inode numbers are 64-bit values.\<close>

definition journal_writable :: "journal \<Rightarrow> bool" where
  "journal_writable J \<longleftrightarrow> small_inode (j_old_inode J) \<and> opt_all small_inode (j_stage_inode J)"

lemma plain_word: "n < 2 ^ 64 \<Longrightarrow> plain (JInt (int n))"
  using show_nat_length[of n 20] by simp

lemma plain_journal:
  assumes "journal_ok J" "journal_writable J"
  shows "plain (journal_value J)"
proof -
  have ids: "plain (public_id_value p)" if "public_id_ok p" for p
  proof -
    have "isascii ''spki''" "isascii ''chain''" by code_simp+
    with that show ?thesis using lhex_isascii by (auto simp: public_id_value_def public_id_ok_def list_all_iff)
  qed
  have inodes: "plain (inode_value n)" if "small_inode n" for n
    using that plain_word by (auto simp: inode_value_def small_inode_def simp del: plain.simps(3))
  have "plain (opt_value public_id_value (j_issued J))" "plain (opt_value inode_value (j_stage_inode J))"
    using assms ids inodes
    by (auto simp: journal_ok_def journal_writable_def opt_value_def split: option.splits)
  moreover have "isascii (phase_name p)" for p
  proof -
    have "list_all (\<lambda>q. isascii (phase_name q)) PHASES" by code_simp
    then show ?thesis by (cases p) (simp_all add: PHASES_def)
  qed
  moreover have "isascii (j_policy_digest J)" "isascii (j_transaction J)" "plain (public_id_value (j_old J))"
    "plain (inode_value (j_old_inode J))"
    using assms ids inodes lhex_isascii by (auto simp: journal_ok_def journal_writable_def)
  moreover have "length (show_nat 2) \<le> 4300" using show_nat_length[of 2 1] by simp
  moreover have "list_all isascii journal_fields" by code_simp
  ultimately show ?thesis by (simp add: journal_value_def journal_fields_def)
qed

interpretation journal: codec journal_value validate_journal journal_of journal_ok journal_writable
proof
  fix J :: journal and w
  show "journal_of (norm (journal_value J)) = J"
    by (metis journal_rep_value journal_rep_of)
  show "validate_journal (norm (journal_value J)) = Inr w \<longleftrightarrow> journal_ok J \<and> w = norm (journal_value J)"
    by (metis journal_rep_value validate_journal_rep)
next
  fix v w
  assume "validate_journal v = Inr w"
  then show "journal_ok (journal_of w)"
    by (metis journal_rep_accepted validate_journal_rep)
qed (rule plain_journal)

lemma validate_journal_value:
  "validate_journal (journal_value J) = Inr w \<longleftrightarrow> journal_ok J \<and> w = journal_value J"
  by (metis journal_rep_value validate_journal_rep)

text \<open>
  C23. A journal that the program wrote under its invariant, with 64-bit file identities, is read
  back, validated and decoded to the very same journal; and whatever bytes are found in the
  journal file, if the reader accepts them then the decoded journal satisfies the invariant.
\<close>

theorem journal_survives_the_file:
  "(\<forall>J. journal_ok J \<and> journal_writable J \<longrightarrow>
      (\<exists>w. bindE (loads ValueError (dumps (journal_value J))) validate_journal = Inr w \<and> journal_of w = J)) \<and>
   (\<forall>text w. bindE (loads ValueError text) validate_journal = Inr w \<longrightarrow> journal_ok (journal_of w))"
  using journal.read_back journal.read_ok by blast

definition sample_journal :: journal where
  "sample_journal = \<lparr> j_policy_digest = replicate 64 CHR ''a'', j_transaction = replicate 32 CHR ''b'',
     j_phase = LiveVerified, j_resume = True,
     j_old = \<lparr> spki = replicate 64 CHR ''0'', chain = [replicate 64 CHR ''1''] \<rparr>,
     j_issued = Some \<lparr> spki = replicate 64 CHR ''0'', chain = [replicate 64 CHR ''2'', replicate 64 CHR ''3''] \<rparr>,
     j_old_inode = (7, 11), j_stage_inode = Some (7, 12), j_rollback_expected = True, j_commit_possible = True \<rparr>"

theorem journal_survives_witness:
  "journal_ok sample_journal \<and> journal_writable sample_journal \<and>
   (\<exists>w. bindE (loads ValueError (dumps (journal_value sample_journal))) validate_journal = Inr w \<and>
        journal_of w = sample_journal)"
proof -
  have "journal_ok sample_journal" "journal_writable sample_journal" by code_simp+
  with journal_survives_the_file show ?thesis by blast
qed

end
