(* ===== verification/Executor.thy ===== *)
theory Executor
  imports RenewalPolicy UnifiProcess Journal
begin

text \<open>
  The key-owner-local executor (\<open>unifi_executor.py\<close>): the lock, the collection of public state through
  keytool, certificate requests, the staged import under a recovery journal, live verification and
  recovery. The state \<open>world\<close> extends the filesystem with the attributes of the executor object. The
  context managers \<open>_locked\<close> and \<open>exclusive\<close> are combinators over their bodies.

  What is outside the sources is the parameter \<open>exec_env\<close>: the libraries, the processes, the
  clock, and keytool, which answers with a child process and an effect on the file it is pointed at.
\<close>

section \<open>State and environment\<close>

text \<open>
  The last two fields are local variables of the service that its \<open>finally\<close> clauses read: the open
  descriptors of the normalisation and what the listener has set up.
\<close>

record socket_locals =
  sl_lock :: bool
  sl_listener :: bool
  sl_identity :: "(nat \<times> nat) option"

record world = fsys +
  w_files :: "files option"
  w_lock :: "nat option"
  w_owner :: "nat option"
  w_thread :: nat
  w_journal :: "journal option"
  w_service :: bool
  w_expect_stopped :: bool
  w_local_files :: bool
  w_local_lock :: bool
  w_stage :: string
  w_descriptors :: "nat list"
  w_socket :: socket_locals

datatype keytool_effect = Untouched | Rewritten bytes | Recreated bytes

record exec_env =
  x_lib :: x509_lib
  x_proc :: proc_env
  x_secure :: secure_env
  x_ssl :: ssl_lib
  x_net :: net_env
  x_wall :: "nat \<Rightarrow> instant"
  x_euid :: nat
  x_abc :: "(nat \<times> nat) option"
  x_pid :: nat
  x_dirfd :: nat
  x_uuid :: "nat \<Rightarrow> string"
  x_lock_free :: "nat \<Rightarrow> bool"
  x_keytool :: "nat \<Rightarrow> string list \<Rightarrow> bytes \<Rightarrow> string \<Rightarrow> bytes option \<Rightarrow> child \<times> keytool_effect"

abbreviation refuse :: "string \<Rightarrow> py_exc" where
  "refuse m \<equiv> UnifiOperationError m"

text \<open>An operation on an attribute that is \<open>None\<close>.\<close>

definition with_files :: "(files \<Rightarrow> (world, 'a) exec) \<Rightarrow> (world, 'a) exec" where
  "with_files f = seqx (gets w_files) (\<lambda>x. case x of None \<Rightarrow> throw TypeError | Some F \<Rightarrow> f F)"

definition the_journal :: "(world, journal) exec" where
  "the_journal = seqx (gets w_journal) (\<lambda>x. case x of None \<Rightarrow> throw TypeError | Some J \<Rightarrow> ret J)"

definition inode_id :: "stat_result \<Rightarrow> nat \<times> nat" where
  "inode_id v = (st_dev v, st_ino v)"

section \<open>Public state\<close>

definition public_identity :: "x509_lib \<Rightarrow> public_keystore_state \<Rightarrow> py_exc + public_id" where
  "public_identity L st = bindE (inspect_public_keystore_state L st) (\<lambda>i.
     Inr \<lparr> spki = info_spki_sha256 (i_certificate i), chain = map (sha256 L) (certificate_chain_der st) \<rparr>)"

definition same_public :: "x509_lib \<Rightarrow> public_keystore_state \<Rightarrow> public_keystore_state \<Rightarrow> py_exc + bool" where
  "same_public L a b =
     bindE (inspect_public_keystore_state L a) (\<lambda>i.
     bindE (inspect_public_keystore_state L b) (\<lambda>j.
     Inr (i = j \<and> certificate_chain_der a = certificate_chain_der b)))"

definition first_line_is_unifi :: "string \<Rightarrow> py_exc + bool" where
  "first_line_is_unifi part = (case splitlines part of [] \<Rightarrow> Inl IndexError | l # _ \<Rightarrow> Inr (l = ''unifi''))"

text \<open>The lines of the PEM blocks: finished blocks and the block that is open.\<close>

definition pem_line_ok :: "string \<Rightarrow> bool" where
  "pem_line_ok l \<longleftrightarrow> 1 \<le> length l \<and> length l \<le> 128 \<and> list_all is_base64 l"

definition collect_line :: "string list \<times> string list option \<Rightarrow> string \<Rightarrow> py_exc + string list \<times> string list option" where
  "collect_line acc raw = (let line = str_strip raw in
     if line = PEM_BEGIN then
       (case snd acc of Some _ \<Rightarrow> unifi_error ''nested public certificate block''
        | None \<Rightarrow> Inr (fst acc, Some [line]))
     else if line = PEM_END then
       (case snd acc of None \<Rightarrow> unifi_error ''unexpected public certificate terminator''
        | Some ls \<Rightarrow> Inr (fst acc @ [join [CHR 0x0A] (ls @ [line])], None))
     else (case snd acc of
         None \<Rightarrow> Inr acc
       | Some ls \<Rightarrow> if \<not> pem_line_ok line then unifi_error ''invalid public certificate encoding''
                    else Inr (fst acc, Some (ls @ [line]))))"

definition collection_output :: "keystore_metadata \<Rightarrow> alias_metadata \<Rightarrow> string" where
  "collection_output st a = ''Keystore type: '' @ keystore_type st @ [CHR 0x0A] @
     ''Keystore provider: '' @ provider st @ [CHR 0x0A] @ ''Alias name: '' @ alias_name a @ [CHR 0x0A] @
     ''Entry type: '' @ entry_type a @ [CHR 0x0A] @
     ''Certificate chain length: '' @ show_nat (certificate_chain_length a) @ [CHR 0x0A]"

definition parse_collection :: "x509_lib \<Rightarrow> bytes \<Rightarrow> py_exc + public_keystore_state" where
  "parse_collection L data =
     (if length data > MAX_KEYTOOL_OUTPUT_CHARS then unifi_error ''public collection exceeds limit''
      else bindE (decode_utf8 data) (\<lambda>text.
      let sections = split_at_line_start ''Alias name: '' True [] text
      in bindE (mapE (\<lambda>p. bindE (first_line_is_unifi p) (\<lambda>b. Inr (p, b))) (tl sections)) (\<lambda>tagged.
         let matches = map fst (filter snd tagged)
         in if length matches \<noteq> 1 then unifi_error ''expected alias is missing or duplicated''
         else let selected = hd sections @ ''Alias name: '' @ hd matches
         in bindE (parse_keytool_metadata selected UNIFI_ALIAS) (\<lambda>(st, a).
            bindE (foldE collect_line ([], None) (splitlines selected)) (\<lambda>(blocks, current).
            if current \<noteq> None then unifi_error ''unterminated public certificate block''
            else if \<not> (1 \<le> length blocks \<and> length blocks \<le> 10) then unifi_error ''invalid public certificate collection''
            else bindE (mapE (load_pem L) blocks) (\<lambda>cs.
            let state = \<lparr> keytool_output = collection_output st a, certificate_chain_der = map c_der cs \<rparr>
            in bindE (inspect_public_keystore_state L state) (\<lambda>_. Inr state)))))))"

section \<open>Keytool\<close>

definition password_environment :: "exec_env \<Rightarrow> (world, string) exec" where
  "password_environment E =
     seqx (read_secure_file (x_secure E) ''unifi-keystore-password'' ''UniFi password'' True 4097) (\<lambda>data.
     seqx (raise_if (data = [] \<or> length data > 4096) (refuse ''invalid UniFi password file'')) (\<lambda>_.
     seqx (liftE (decode_utf8 data)) (\<lambda>text.
     let value = removesuffix [CHR 0x0A] text
     in seqx (raise_if (value = [] \<or> list_ex is_control value) (refuse ''invalid UniFi password file'')) (\<lambda>_. ret value))))"

definition assert_locked :: "(world, unit) exec" where
  "assert_locked = seqx (gets (\<lambda>s. w_lock s = None \<or> w_owner s \<noteq> Some (w_thread s))) (\<lambda>bad.
     raise_if bad (refuse ''exclusive executor context required''))"

definition keystore_path_of :: "exec_env \<Rightarrow> string \<Rightarrow> string" where
  "keystore_path_of E name = ''/proc/'' @ show_nat (x_pid E) @ ''/fd/'' @ show_nat (x_dirfd E) @ ''/'' @ name"

definition keytool_argv :: "exec_env \<Rightarrow> string \<Rightarrow> string list \<Rightarrow> string list" where
  "keytool_argv E name op = [''/usr/bin/keytool'', ''-J-Duser.language=en'', ''-J-Duser.country=US''] @ op @
     [''-keystore'', keystore_path_of E name, ''-storetype'', ''PKCS12'', ''-storepass:env'', ''UNIFI_KEYSTORE_PASSWORD'']"

text \<open>
  The effect of keytool on the file that its path names: a file written in place keeps its inode, a
  recreated one gets a new inode under the same name.
\<close>

definition apply_keytool_effect :: "string \<Rightarrow> string list \<Rightarrow> keytool_effect \<Rightarrow> world \<Rightarrow> world" where
  "apply_keytool_effect name op e s = (let s' = s\<lparr> trace := KeytoolRan name op # trace s \<rparr> in
     case (e, dir s name) of
       (Rewritten b, Some i) \<Rightarrow> set_data i b s'
     | (Recreated b, Some i) \<Rightarrow> set_data (next_ino s) b (create_file name (touch i (set_dir ((dir s')(name := None)) s')))
     | _ \<Rightarrow> s')"

definition content_of :: "string \<Rightarrow> world \<Rightarrow> bytes option" where
  "content_of name s = map_option (\<lambda>i. i_data (inodes s i)) (dir s name)"

definition keytool :: "exec_env \<Rightarrow> string \<Rightarrow> string list \<Rightarrow> bytes \<Rightarrow> (world, bytes) exec" where
  "keytool E name op data =
     seqx assert_locked (\<lambda>_.
     seqx (raise_if (name \<notin> {CANONICAL, STAGE, ROLLBACK}) (refuse ''invalid keytool target'')) (\<lambda>_.
     seqx (raise_if (''-importcert'' \<in> set op \<and> name \<noteq> STAGE) (refuse ''canonical keytool mutation prohibited'')) (\<lambda>_.
     seqx (password_environment E) (\<lambda>password.
     seqx (gets (content_of name)) (\<lambda>content.
     let K = \<lambda>n. x_keytool E n (keytool_argv E name op) data password content
     in run (\<lambda>n. fst (K n)) (\<lambda>n. apply_keytool_effect name op (snd (K n))) data)))))"

definition collect :: "exec_env \<Rightarrow> string \<Rightarrow> (world, public_keystore_state) exec" where
  "collect E name =
     seqx assert_locked (\<lambda>_.
     seqx (raise_if (name \<notin> {CANONICAL, STAGE, ROLLBACK}) (refuse ''invalid collection target'')) (\<lambda>_.
     with_files (\<lambda>F.
     seqx (files_status F name) (\<lambda>v.
     seqx (keytool E name [''-list'', ''-rfc''] []) (\<lambda>data.
     seqx (files_same F name v) (\<lambda>_.
     liftE (parse_collection (x_lib E) data)))))))"

definition collect_id :: "exec_env \<Rightarrow> string \<Rightarrow> (world, public_id) exec" where
  "collect_id E name = seqx (collect E name) (\<lambda>st. liftE (public_identity (x_lib E) st))"

section \<open>The lock\<close>

definition local_identity :: "exec_env \<Rightarrow> (world, nat \<times> nat) exec" where
  "local_identity E =
     seqx (raise_if (x_euid E \<noteq> 0) (refuse ''key-owner executor requires local root'')) (\<lambda>_.
     case x_abc E of
       None \<Rightarrow> throw KeyError
     | Some ids \<Rightarrow> seqx (raise_if (ids \<noteq> (1000, 1000)) (refuse ''unreviewed UniFi ownership baseline'')) (\<lambda>_. ret ids))"

definition create_lock_file :: "files \<Rightarrow> (world, unit) exec" where
  "create_lock_file F =
     seqx (files_exists F LOCK) (\<lambda>there. if there then ret () else
     handle (seqx (files_created F LOCK (\<lambda>_. ret ())) (\<lambda>_. sync_directory))
       (\<lambda>e. if e = FileExistsError then ret () else throw e))"

definition acquire :: "exec_env \<Rightarrow> (world, unit) exec" where
  "acquire E =
     seqx (local_identity E) (\<lambda>(uid, gid).
     seqx (files_init uid gid) (\<lambda>F.
     seqx (modify (\<lambda>s. s\<lparr> w_local_files := True \<rparr>)) (\<lambda>_.
     seqx (create_lock_file F) (\<lambda>_.
     seqx (os_open_read LOCK) (\<lambda>lock.
     seqx (modify (\<lambda>s. s\<lparr> w_local_lock := True \<rparr>)) (\<lambda>_.
     seqx (files_status F LOCK) (\<lambda>expected.
     seqx (os_fstat lock) (\<lambda>v.
     seqx (raise_if (inode_id v \<noteq> inode_id expected) (refuse ''executor lock replaced'')) (\<lambda>_.
     seqx (syscall (seqx (gets (\<lambda>s. x_lock_free E (step s))) (\<lambda>free. raise_if (\<not> free) OSError))) (\<lambda>_.
     seqx (modify (\<lambda>s. s\<lparr> w_files := Some F, w_lock := Some lock, w_expect_stopped := False,
       w_owner := Some (w_thread s), w_service := True \<rparr>)) (\<lambda>_.
     service_no_keytool (x_proc E))))))))))))"

definition still_excluded :: "exec_env \<Rightarrow> (world, bool) exec" where
  "still_excluded E =
     seqx (gets w_service) (\<lambda>active. if \<not> active then ret True else
     handle (seqx (service_no_keytool (x_proc E)) (\<lambda>_.
        seqx (gets w_expect_stopped) (\<lambda>expect.
        seqx (if expect then service_stopped (x_proc E) else ret ()) (\<lambda>_. ret True))))
       (\<lambda>_. ret False))"

definition release :: "exec_env \<Rightarrow> (world, unit) exec" where
  "release E =
     seqx (still_excluded E) (\<lambda>safe.
     if \<not> safe then throw (refuse ''writer survives; executor lock retained'')
     else seqx (modify (\<lambda>s. s\<lparr> w_files := None, w_lock := None, w_owner := None, w_service := False, w_journal := None \<rparr>)) (\<lambda>_.
        seqx (gets w_local_lock) (\<lambda>l. seqx (if l then os_close 0 else ret ()) (\<lambda>_.
        seqx (gets w_local_files) (\<lambda>f. if f then os_close 0 else ret ())))))"

definition locked :: "exec_env \<Rightarrow> (world, 'a) exec \<Rightarrow> (world, 'a) exec" where
  "locked E body =
     seqx (gets (\<lambda>s. w_lock s \<noteq> None)) (\<lambda>active.
     seqx (raise_if active (refuse ''executor already active'')) (\<lambda>_.
     seqx (modify (\<lambda>s. s\<lparr> w_local_files := False, w_local_lock := False \<rparr>)) (\<lambda>_.
     finally_do
       (handle (seqx (acquire E) (\<lambda>_. body))
          (\<lambda>e. throw (if is_Exception e then refuse ''UniFi executor operation failed; recovery may be required'' else e)))
       (release E))))"

section \<open>Inspection and certificate requests\<close>

definition no_transaction :: "(world, unit) exec" where
  "no_transaction = with_files (\<lambda>F.
     seqx (anyx (files_exists F) [JOURNAL, JOURNAL_NEW, STAGE, ROLLBACK]) (\<lambda>found.
     raise_if found (refuse ''recovery required before another operation'')))"

definition inspect_public_state :: "exec_env \<Rightarrow> (world, public_keystore_state) exec" where
  "inspect_public_state E = seqx (gets w_lock) (\<lambda>l. if l \<noteq> None
     then seqx assert_locked (\<lambda>_. collect E CANONICAL)
     else locked E (seqx no_transaction (\<lambda>_. collect E CANONICAL)))"

fun arg_after :: "string \<Rightarrow> string list \<Rightarrow> py_exc + string" where
  "arg_after x [] = Inl ValueError"
| "arg_after x (y # ys) = (if y = x then (case ys of [] \<Rightarrow> Inl IndexError | z # _ \<Rightarrow> Inr z) else arg_after x ys)"

definition certreq_operation :: "string \<Rightarrow> string \<Rightarrow> string list" where
  "certreq_operation dname ext = [''-certreq'', ''-alias'', ''unifi'', ''-keypass:env'', ''UNIFI_KEYSTORE_PASSWORD'',
     ''-dname'', dname, ''-ext'', ext, ''-rfc'', ''-sigalg'', ''SHA384withRSA'']"

definition generate_csr :: "exec_env \<Rightarrow> renewal_policy \<Rightarrow> certificate_policy \<Rightarrow> (world, bytes) exec" where
  "generate_csr E P p =
     seqx (liftE (build_unifi_csr_command (x_lib E) p)) (\<lambda>command.
     seqx (raise_if ((p_subject p, p_dns_sans p, p_ip_sans p) \<noteq> (rp_subject P, rp_dns_sans P, rp_ip_sans P))
       (refuse ''CSR policy differs from executor authority'')) (\<lambda>_.
     locked E (seqx no_transaction (\<lambda>_. with_files (\<lambda>F.
       seqx (files_status F CANONICAL) (\<lambda>v.
       seqx (collect E CANONICAL) (\<lambda>st.
       seqx (liftE (public_identity (x_lib E) st)) (\<lambda>i.
       seqx (raise_if (spki i \<noteq> lower (expected_spki_sha256 p)) (refuse ''CSR baseline differs from current key'')) (\<lambda>_.
       seqx (liftE (arg_after ''-dname'' command)) (\<lambda>dname.
       seqx (liftE (arg_after ''-ext'' command)) (\<lambda>ext.
       seqx (keytool E CANONICAL (certreq_operation dname ext) []) (\<lambda>result.
       seqx (files_same F CANONICAL v) (\<lambda>_.
       seqx (liftE (validate_requested_csr (x_lib E) result p)) (\<lambda>q.
       seqx (raise_if (q_signature_hash_algorithm q \<noteq> Some ''sha384'' \<or> q_info_signature_algorithm_oid q \<noteq> ''1.2.840.113549.1.1.12'')
         (refuse ''CSR signature differs from executor policy'')) (\<lambda>_.
       ret result)))))))))))))))"

section \<open>The transaction\<close>

definition enter_phase :: "phase \<Rightarrow> (journal \<Rightarrow> journal) \<Rightarrow> (world, unit) exec" where
  "enter_phase ph changes =
     seqx the_journal (\<lambda>J.
     let J' = (changes J)\<lparr> j_phase := ph \<rparr>
     in seqx (modify (\<lambda>s. s\<lparr> w_journal := Some J' \<rparr>)) (\<lambda>_.
        seqx (liftE (validate_journal (journal_value J'))) (\<lambda>_.
        with_files (\<lambda>F. write_journal F (journal_value J')))))"

definition resume_service :: "exec_env \<Rightarrow> bool \<Rightarrow> (world, unit) exec" where
  "resume_service E startup = with_files (\<lambda>F.
     seqx (service_stopped (x_proc E)) (\<lambda>_.
     seqx (files_status F CANONICAL) (\<lambda>v.
     seqx (collect_id E CANONICAL) (\<lambda>public.
     seqx the_journal (\<lambda>J.
     seqx (if j_resume J \<and> \<not> startup
           then seqx (service_start (x_proc E)) (\<lambda>_. modify (\<lambda>s. s\<lparr> w_expect_stopped := False \<rparr>)) else ret ()) (\<lambda>_.
     seqx (files_same F CANONICAL v) (\<lambda>_.
     seqx (collect_id E CANONICAL) (\<lambda>again.
     raise_if (again \<noteq> public) (refuse ''canonical changed while restoring service'')))))))))"

definition new_journal :: "renewal_policy \<Rightarrow> string \<Rightarrow> bool \<Rightarrow> public_id \<Rightarrow> stat_result \<Rightarrow> journal" where
  "new_journal P transaction running old v = \<lparr> j_policy_digest = rp_digest P, j_transaction = transaction, j_phase = Quiescing,
     j_resume = running, j_old = old, j_issued = None, j_old_inode = inode_id v, j_stage_inode = None,
     j_rollback_expected = False, j_commit_possible = False \<rparr>"

definition quiesce :: "exec_env \<Rightarrow> files \<Rightarrow> stat_result \<Rightarrow> public_keystore_state \<Rightarrow> (world, unit) exec" where
  "quiesce E F v st =
     seqx (modify (\<lambda>s. s\<lparr> w_expect_stopped := True \<rparr>)) (\<lambda>_.
     seqx (service_stop (x_proc E)) (\<lambda>_.
     seqx (files_same F CANONICAL v) (\<lambda>_.
     seqx (collect E CANONICAL) (\<lambda>now.
     seqx (liftE (same_public (x_lib E) now st)) (\<lambda>same.
     seqx (raise_if (\<not> same) (refuse ''canonical changed while quiescing'')) (\<lambda>_.
     enter_phase Quiesced (\<lambda>J. J)))))))"

definition conclude :: "exec_env \<Rightarrow> files \<Rightarrow> (world, unit) exec" where
  "conclude E F =
     seqx (service_stopped (x_proc E)) (\<lambda>_.
     seqx the_journal (\<lambda>J.
     seqx (raise_if (j_phase J \<noteq> CanonicalVerified) (refuse ''transaction did not verify canonical'')) (\<lambda>_.
     seqx (collect_id E CANONICAL) (\<lambda>i.
     seqx (if Some i \<noteq> j_issued J then ret True
           else seqx (files_status F CANONICAL) (\<lambda>v. ret (Some (inode_id v) \<noteq> j_stage_inode J))) (\<lambda>bad.
     seqx (raise_if bad (refuse ''canonical changed before service resume'')) (\<lambda>_.
     seqx (resume_service E False) (\<lambda>_.
     enter_phase PendingLive (\<lambda>J. J))))))))"

definition run_transaction :: "exec_env \<Rightarrow> files \<Rightarrow> stat_result \<Rightarrow> public_keystore_state \<Rightarrow> (world, 'a) exec \<Rightarrow> (world, 'a) exec" where
  "run_transaction E F v st body =
     seqx (enter_phase Quiescing (\<lambda>J. J)) (\<lambda>_.
     handle
       (seqx (quiesce E F v st) (\<lambda>_.
        seqx body (\<lambda>x.
        seqx (conclude E F) (\<lambda>_. ret x))))
       (\<lambda>e. seqx (enter_phase RecoveryRequired (\<lambda>J. J)) (\<lambda>_. throw e)))"

definition open_transaction :: "exec_env \<Rightarrow> renewal_policy \<Rightarrow> files \<Rightarrow> stat_result \<Rightarrow> public_keystore_state \<Rightarrow> (world, 'a) exec \<Rightarrow>
    (world, 'a) exec" where
  "open_transaction E P F v expected_before body =
     seqx (collect E CANONICAL) (\<lambda>st.
     seqx (files_same F CANONICAL v) (\<lambda>_.
     seqx (liftE (same_public (x_lib E) st expected_before)) (\<lambda>same.
     seqx (raise_if (\<not> same) (refuse ''stale public import request'')) (\<lambda>_.
     seqx (raise_if (st_nlink v \<noteq> 1) (refuse ''unexpected canonical hard link'')) (\<lambda>_.
     seqx (gets (\<lambda>s. x_uuid E (step s))) (\<lambda>transaction.
     seqx (service_running (x_proc E)) (\<lambda>running.
     seqx (liftE (public_identity (x_lib E) st)) (\<lambda>old.
     seqx (modify (\<lambda>s. s\<lparr> w_journal := Some (new_journal P transaction running old v) \<rparr>)) (\<lambda>_.
     run_transaction E F v st body)))))))))"

definition exclusive :: "exec_env \<Rightarrow> renewal_policy \<Rightarrow> public_keystore_state \<Rightarrow> (world, 'a) exec \<Rightarrow> (world, 'a) exec" where
  "exclusive E P expected_before body = locked E (seqx no_transaction (\<lambda>_. with_files (\<lambda>F.
     seqx (files_status F CANONICAL) (\<lambda>v. open_transaction E P F v expected_before body))))"

section \<open>The import\<close>

definition import_operation :: "string list" where
  "import_operation = [''-importcert'', ''-alias'', ''unifi'', ''-noprompt'', ''-keypass:env'', ''UNIFI_KEYSTORE_PASSWORD'']"

definition request_differs :: "renewal_policy \<Rightarrow> certificate_import_request \<Rightarrow> csr_info \<Rightarrow> certificate_import_plan \<Rightarrow> bool" where
  "request_differs P r q plan \<longleftrightarrow>
     q_signature_hash_algorithm q \<noteq> Some ''sha384'' \<or> q_info_signature_algorithm_oid q \<noteq> ''1.2.840.113549.1.1.12'' \<or>
     p_subject (policy r) \<noteq> rp_subject P \<or> p_dns_sans (policy r) \<noteq> rp_dns_sans P \<or> p_ip_sans (policy r) \<noteq> rp_ip_sans P \<or>
     trusted_ca_data r \<noteq> rp_ca_pem P \<or> lifetime_days r \<noteq> rp_lifetime_days P \<or>
     expected_signature_hash r \<noteq> rp_signing_digest P \<or> expected_signature_oid r \<noteq> rp_issued_signature_oid P \<or>
     signature_hash_algorithm (issued plan) \<noteq> Some (rp_signing_digest P) \<or>
     signature_algorithm_oid (issued plan) \<noteq> rp_issued_signature_oid P"

definition wall_clock :: "exec_env \<Rightarrow> (world, instant) exec" where
  "wall_clock E = gets (\<lambda>s. x_wall E (step s))"

definition verify_import :: "exec_env \<Rightarrow> string \<Rightarrow> certificate_import_request \<Rightarrow> (world, unit) exec" where
  "verify_import E name r =
     seqx (collect E name) (\<lambda>st.
     seqx (wall_clock E) (\<lambda>now.
     seqx (liftE (verify_certificate_import (x_lib E) now st r None)) (\<lambda>_. ret ())))"

definition admit_import :: "exec_env \<Rightarrow> renewal_policy \<Rightarrow> certificate_import_request \<Rightarrow> public_keystore_state \<Rightarrow>
    (world, certificate_import_plan \<times> public_keystore_state \<times> stat_result) exec" where
  "admit_import E P r expected_before =
     seqx assert_locked (\<lambda>_.
     seqx (gets w_journal) (\<lambda>j.
     seqx (raise_if (map_option j_phase j \<noteq> Some Quiesced) (refuse ''new quiesced transaction required'')) (\<lambda>_.
     seqx (wall_clock E) (\<lambda>now.
     seqx (liftE (prepare_certificate_import (x_lib E) now r None)) (\<lambda>plan.
     seqx (liftE (inspect_csr (x_lib E) (csr_pem r))) (\<lambda>q.
     seqx (raise_if (request_differs P r q plan) (refuse ''certificate differs from executor policy'')) (\<lambda>_.
     seqx (service_stopped (x_proc E)) (\<lambda>_.
     seqx (collect E CANONICAL) (\<lambda>current.
     seqx (liftE (same_public (x_lib E) current (before r))) (\<lambda>a.
     seqx (if \<not> a then ret False else liftE (same_public (x_lib E) current expected_before)) (\<lambda>ok.
     seqx (raise_if (\<not> ok) (refuse ''stale public import request'')) (\<lambda>_.
     with_files (\<lambda>F.
     seqx (files_status F CANONICAL) (\<lambda>old.
     seqx the_journal (\<lambda>J.
     seqx (if inode_id old \<noteq> j_old_inode J then ret True
           else seqx (liftE (public_identity (x_lib E) current)) (\<lambda>i. ret (i \<noteq> j_old J))) (\<lambda>bad.
     seqx (raise_if bad (refuse ''canonical differs from journal'')) (\<lambda>_.
     ret (plan, current, old))))))))))))))))))"

definition issued_identity :: "x509_lib \<Rightarrow> certificate_import_plan \<Rightarrow> public_id" where
  "issued_identity L plan = \<lparr> spki = info_spki_sha256 (issued plan), chain = map (sha256 L) (plan_chain_der plan) \<rparr>"

definition stage_import :: "exec_env \<Rightarrow> files \<Rightarrow> certificate_import_request \<Rightarrow> certificate_import_plan \<Rightarrow>
    public_keystore_state \<Rightarrow> (world, stat_result \<times> stat_result) exec" where
  "stage_import E F r plan current =
     seqx (enter_phase Staging (\<lambda>J. J\<lparr> j_issued := Some (issued_identity (x_lib E) plan) \<rparr>)) (\<lambda>_.
     seqx (copy_stage F) (\<lambda>_.
     seqx (files_status F STAGE) (\<lambda>stage.
     seqx (enter_phase Staging (\<lambda>J. J\<lparr> j_stage_inode := Some (inode_id stage) \<rparr>)) (\<lambda>_.
     seqx (collect E STAGE) (\<lambda>staged.
     seqx (liftE (same_public (x_lib E) staged current)) (\<lambda>same.
     seqx (raise_if (\<not> same) (refuse ''stage differs before import'')) (\<lambda>_.
     seqx (keytool E STAGE import_operation (reply_pem plan)) (\<lambda>_.
     seqx (files_status F STAGE) (\<lambda>v.
     seqx (raise_if (inode_id v \<noteq> inode_id stage) (refuse ''stage inode replaced during import'')) (\<lambda>_.
     seqx (verify_import E STAGE r) (\<lambda>_.
     seqx (files_status F STAGE) (\<lambda>validated.
     seqx (sync_file F STAGE) (\<lambda>_.
     seqx (enter_phase StagedValidated (\<lambda>J. J)) (\<lambda>_.
     ret (stage, validated)))))))))))))))"

definition secure_rollback :: "exec_env \<Rightarrow> files \<Rightarrow> public_keystore_state \<Rightarrow> stat_result \<Rightarrow> (world, stat_result) exec" where
  "secure_rollback E F current old =
     seqx (service_stopped (x_proc E)) (\<lambda>_.
     seqx (files_same F CANONICAL old) (\<lambda>_.
     seqx (collect E CANONICAL) (\<lambda>now.
     seqx (liftE (same_public (x_lib E) now current)) (\<lambda>same.
     seqx (raise_if (\<not> same) (refuse ''canonical changed during staging'')) (\<lambda>_.
     seqx (files_same F CANONICAL old) (\<lambda>_.
     seqx (sync_file F CANONICAL) (\<lambda>_.
     seqx (link_rollback F) (\<lambda>_.
     seqx (files_status F ROLLBACK) (\<lambda>rollback.
     seqx (raise_if (inode_id rollback \<noteq> inode_id old) (refuse ''rollback inode differs'')) (\<lambda>_.
     seqx sync_directory (\<lambda>_.
     ret rollback)))))))))))"

definition commit_import :: "exec_env \<Rightarrow> files \<Rightarrow> certificate_import_request \<Rightarrow> stat_result \<Rightarrow> stat_result \<Rightarrow> stat_result \<Rightarrow>
    (world, int) exec" where
  "commit_import E F r stage validated rollback =
     seqx (enter_phase RollbackDurable (\<lambda>J. J\<lparr> j_rollback_expected := True \<rparr>)) (\<lambda>_.
     seqx (enter_phase CommitPossible (\<lambda>J. J\<lparr> j_commit_possible := True \<rparr>)) (\<lambda>_.
     seqx (service_stopped (x_proc E)) (\<lambda>_.
     seqx (files_same F CANONICAL rollback) (\<lambda>_.
     seqx (files_same F STAGE validated) (\<lambda>_.
     seqx (files_replace F STAGE CANONICAL) (\<lambda>_.
     seqx sync_directory (\<lambda>_.
     seqx (enter_phase Committed (\<lambda>J. J)) (\<lambda>_.
     seqx (files_status F CANONICAL) (\<lambda>v.
     seqx (raise_if (inode_id v \<noteq> inode_id stage) (refuse ''committed inode differs'')) (\<lambda>_.
     seqx (verify_import E CANONICAL r) (\<lambda>_.
     seqx (enter_phase CanonicalVerified (\<lambda>J. J)) (\<lambda>_.
     ret 0))))))))))))"

definition import_certificate_reply :: "exec_env \<Rightarrow> renewal_policy \<Rightarrow> certificate_import_request \<Rightarrow> public_keystore_state \<Rightarrow>
    (world, int) exec" where
  "import_certificate_reply E P r expected_before =
     seqx (admit_import E P r expected_before) (\<lambda>(plan, current, old). with_files (\<lambda>F.
     seqx (stage_import E F r plan current) (\<lambda>(stage, validated).
     seqx (secure_rollback E F current old) (\<lambda>rollback.
     commit_import E F r stage validated rollback))))"

section \<open>Live verification\<close>

definition require_current_policy :: "renewal_policy \<Rightarrow> (world, unit) exec" where
  "require_current_policy P = seqx the_journal (\<lambda>J.
     raise_if (j_policy_digest J \<noteq> rp_digest P) (refuse ''pending transaction policy differs from executor''))"

definition establish_live_verified_durability :: "files \<Rightarrow> (world, unit) exec" where
  "establish_live_verified_durability F =
     seqx the_journal (\<lambda>J.
     seqx (raise_if (j_phase J \<noteq> LiveVerified) (refuse ''transaction is not durably live verified'')) (\<lambda>_.
     seqx (files_status F JOURNAL) (\<lambda>v.
     seqx (sync_file F JOURNAL) (\<lambda>_.
     seqx (files_same F JOURNAL v) (\<lambda>_.
     seqx sync_directory (\<lambda>_.
     files_same F JOURNAL v))))))"

definition check_live_canonical :: "exec_env \<Rightarrow> files \<Rightarrow> journal \<Rightarrow> (world, unit) exec" where
  "check_live_canonical E F J =
     seqx (files_status F CANONICAL) (\<lambda>v.
     seqx (if st_nlink v \<noteq> 1 \<or> Some (inode_id v) \<noteq> j_stage_inode J then ret True
           else seqx (collect_id E CANONICAL) (\<lambda>i. ret (Some i \<noteq> j_issued J))) (\<lambda>bad.
     raise_if bad (refuse ''pending canonical certificate changed'')))"

definition check_live_rollback :: "exec_env \<Rightarrow> files \<Rightarrow> journal \<Rightarrow> bool \<Rightarrow> (world, unit) exec" where
  "check_live_rollback E F J rollback_optional =
     seqx (files_exists F ROLLBACK) (\<lambda>there.
     if there then
       seqx (files_status F ROLLBACK) (\<lambda>v.
       seqx (if st_nlink v \<noteq> 1 \<or> inode_id v \<noteq> j_old_inode J then ret True
             else seqx (collect_id E ROLLBACK) (\<lambda>i. ret (i \<noteq> j_old J))) (\<lambda>bad.
       raise_if bad (refuse ''pending rollback changed'')))
     else raise_if (\<not> rollback_optional) (refuse ''pending rollback is missing''))"

definition validate_live_verified_files :: "exec_env \<Rightarrow> files \<Rightarrow> bool \<Rightarrow> (world, unit) exec" where
  "validate_live_verified_files E F rollback_optional =
     seqx the_journal (\<lambda>J.
     seqx (check_live_canonical E F J) (\<lambda>_.
     seqx (check_live_rollback E F J rollback_optional) (\<lambda>_.
     seqx (files_exists F STAGE) (\<lambda>stage.
     seqx (raise_if stage (refuse ''unexpected pending stage'')) (\<lambda>_.
     seqx (files_exists F JOURNAL_NEW) (\<lambda>new.
     raise_if new (refuse ''unexpected pending journal replacement'')))))))"

definition finish_live_verified :: "files \<Rightarrow> (world, unit) exec" where
  "finish_live_verified F =
     seqx the_journal (\<lambda>J.
     seqx (raise_if (j_phase J \<noteq> LiveVerified) (refuse ''transaction is not durably live verified'')) (\<lambda>_.
     seqx (files_remove F ROLLBACK) (\<lambda>_.
     seqx sync_directory (\<lambda>_.
     seqx (files_remove F JOURNAL) (\<lambda>_.
     sync_directory)))))"

text \<open>\<open>self._journal = _validate_journal(self._files.read_journal())\<close>\<close>

definition load_journal :: "files \<Rightarrow> (world, unit) exec" where
  "load_journal F =
     seqx (read_journal F) (\<lambda>v.
     seqx (liftE (validate_journal v)) (\<lambda>v.
     modify (\<lambda>s. s\<lparr> w_journal := Some (journal_of v) \<rparr>)))"

fun first_of :: "'a list \<Rightarrow> py_exc + 'a" where
  "first_of [] = Inl IndexError"
| "first_of (x # xs) = Inr x"

definition observe_live :: "exec_env \<Rightarrow> renewal_policy \<Rightarrow> files \<Rightarrow> (world, unit) exec" where
  "observe_live E P F =
     seqx (collect E CANONICAL) (\<lambda>st.
     seqx (liftE (first_of (certificate_chain_der st))) (\<lambda>canonical.
     seqx the_journal (\<lambda>J.
     seqx (raise_if (Some (sha256 (x_lib E) canonical) \<noteq> map_option (\<lambda>i. hd (chain i)) (j_issued J))
       (refuse ''canonical leaf differs from pending transaction'')) (\<lambda>_.
     seqx (wall_clock E) (\<lambda>now.
     seqx (prepare_live_tls_verification (x_lib E) now (x_ssl E) (x_secure E) (rp_endpoint P) (rp_readiness P) (rp_ca_pem P)) (\<lambda>prepared.
     seqx (verify_prepared_live_tls_certificate (x_lib E) (x_net E) prepared canonical) (\<lambda>_.
     seqx (service_running (x_proc E)) (\<lambda>running.
     seqx (raise_if (\<not> running) (refuse ''UniFi service is not running'')) (\<lambda>_.
     seqx (validate_live_verified_files E F False) (\<lambda>_.
     seqx (collect E CANONICAL) (\<lambda>again.
     seqx (liftE (first_of (certificate_chain_der again))) (\<lambda>leaf.
     raise_if (leaf \<noteq> canonical) (refuse ''canonical leaf changed during verification'')))))))))))))"

definition verify_pending :: "exec_env \<Rightarrow> renewal_policy \<Rightarrow> (world, string) exec" where
  "verify_pending E P = locked E (with_files (\<lambda>F.
     seqx (files_exists F JOURNAL) (\<lambda>there.
     seqx (raise_if (\<not> there) (refuse ''no pending transaction to verify'')) (\<lambda>_.
     seqx (load_journal F) (\<lambda>_.
     seqx (require_current_policy P) (\<lambda>_.
     seqx the_journal (\<lambda>J.
     seqx (raise_if (j_phase J \<noteq> PendingLive) (refuse ''transaction is not pending live verification'')) (\<lambda>_.
     seqx (raise_if (\<not> j_resume J \<or> j_issued J = None) (refuse ''invalid pending transaction'')) (\<lambda>_.
     seqx (service_running (x_proc E)) (\<lambda>running.
     seqx (raise_if (\<not> running) (refuse ''UniFi service is not running'')) (\<lambda>_.
     seqx (validate_live_verified_files E F False) (\<lambda>_.
     seqx (observe_live E P F) (\<lambda>_.
     seqx (enter_phase LiveVerified (\<lambda>J. J)) (\<lambda>_.
     seqx (establish_live_verified_durability F) (\<lambda>_.
     seqx (finish_live_verified F) (\<lambda>_.
     ret ''renewal_finalized''))))))))))))))))"

section \<open>Recovery\<close>

definition inspect_rollback :: "exec_env \<Rightarrow> files \<Rightarrow> journal \<Rightarrow> stat_result \<Rightarrow> (world, stat_result option) exec" where
  "inspect_rollback E F J canonical_info =
     seqx (files_exists F ROLLBACK) (\<lambda>there.
     if there then
       seqx (files_status F ROLLBACK) (\<lambda>info.
       seqx (files_status F ROLLBACK) (\<lambda>v.
       seqx (if inode_id v \<noteq> j_old_inode J then ret True
             else seqx (collect_id E ROLLBACK) (\<lambda>i. ret (i \<noteq> j_old J))) (\<lambda>bad.
       seqx (raise_if bad (refuse ''unexpected rollback; operator recovery required'')) (\<lambda>_.
       ret (Some info)))))
     else seqx (raise_if (j_rollback_expected J \<and> inode_id canonical_info \<noteq> j_old_inode J)
         (refuse ''required rollback missing'')) (\<lambda>_. ret None))"

definition restore_rollback :: "exec_env \<Rightarrow> files \<Rightarrow> journal \<Rightarrow> stat_result \<Rightarrow> stat_result \<Rightarrow> (world, unit) exec" where
  "restore_rollback E F J rollback_info canonical_info =
     seqx (service_stopped (x_proc E)) (\<lambda>_.
     seqx (files_same F ROLLBACK rollback_info) (\<lambda>_.
     seqx (files_same F CANONICAL canonical_info) (\<lambda>_.
     seqx (files_replace F ROLLBACK CANONICAL) (\<lambda>_.
     seqx sync_directory (\<lambda>_.
     seqx (collect_id E CANONICAL) (\<lambda>i.
     seqx (if i \<noteq> j_old J then ret True
           else seqx (files_status F CANONICAL) (\<lambda>v. ret (inode_id v \<noteq> j_old_inode J))) (\<lambda>bad.
     raise_if bad (refuse ''rollback restoration failed''))))))))"

definition decide_recovery :: "exec_env \<Rightarrow> files \<Rightarrow> journal \<Rightarrow> public_id option \<Rightarrow> stat_result \<Rightarrow> stat_result option \<Rightarrow>
    (world, phase) exec" where
  "decide_recovery E F J canonical canonical_info rollback =
     (if canonical = Some (j_old J) \<and> inode_id canonical_info = j_old_inode J then ret RecoveredOld
      else if j_commit_possible J \<and> rollback \<noteq> None \<and> canonical = j_issued J \<and>
        Some (inode_id canonical_info) = j_stage_inode J then ret PendingLive
      else case rollback of
        Some rollback_info \<Rightarrow>
          if canonical = None \<and> j_commit_possible J \<and>
             (inode_id canonical_info = j_old_inode J \<or> Some (inode_id canonical_info) = j_stage_inode J)
          then seqx (restore_rollback E F J rollback_info canonical_info) (\<lambda>_. ret RecoveredOld)
          else throw (refuse ''unexpected canonical; operator recovery required'')
      | None \<Rightarrow> throw (refuse ''unexpected canonical; operator recovery required''))"

definition check_recovery_stage :: "files \<Rightarrow> journal \<Rightarrow> (world, unit) exec" where
  "check_recovery_stage F J =
     seqx (files_exists F STAGE) (\<lambda>there. if \<not> there then ret () else
     seqx (files_status F STAGE) (\<lambda>v.
     raise_if (j_stage_inode J \<noteq> None \<and> Some (inode_id v) \<noteq> j_stage_inode J) (refuse ''unexpected recovery stage'')))"

definition clean_up :: "files \<Rightarrow> (world, unit) exec" where
  "clean_up F =
     seqx (forx (files_remove F) [STAGE, ROLLBACK, JOURNAL_NEW]) (\<lambda>_.
     seqx sync_directory (\<lambda>_.
     seqx (files_remove F JOURNAL) (\<lambda>_.
     sync_directory)))"

definition conclude_recovery :: "exec_env \<Rightarrow> bool \<Rightarrow> files \<Rightarrow> journal \<Rightarrow> phase \<Rightarrow> (world, string) exec" where
  "conclude_recovery E startup F J outcome =
     seqx (check_recovery_stage F J) (\<lambda>_.
     seqx (service_stopped (x_proc E)) (\<lambda>_.
     seqx (resume_service E startup) (\<lambda>_.
     seqx (enter_phase outcome (\<lambda>J. J)) (\<lambda>_.
     seqx (if outcome = RecoveredOld then clean_up F else ret ()) (\<lambda>_.
     ret (phase_name outcome))))))"

definition recover_transaction :: "exec_env \<Rightarrow> bool \<Rightarrow> files \<Rightarrow> journal \<Rightarrow> (world, string) exec" where
  "recover_transaction E startup F J =
     seqx (modify (\<lambda>s. s\<lparr> w_expect_stopped := True \<rparr>)) (\<lambda>_.
     seqx (service_stop (x_proc E)) (\<lambda>_.
     seqx (files_status F CANONICAL) (\<lambda>canonical_info.
     seqx (handle (seqx (collect_id E CANONICAL) (\<lambda>i. ret (Some i)))
             (\<lambda>e. if is_Exception e then ret None else throw e)) (\<lambda>canonical.
     seqx (files_same F CANONICAL canonical_info) (\<lambda>_.
     seqx (inspect_rollback E F J canonical_info) (\<lambda>rollback.
     seqx (decide_recovery E F J canonical canonical_info rollback) (conclude_recovery E startup F J)))))))"

definition recover :: "exec_env \<Rightarrow> renewal_policy \<Rightarrow> bool \<Rightarrow> (world, string) exec" where
  "recover E P startup = locked E (with_files (\<lambda>F.
     seqx (files_exists F JOURNAL) (\<lambda>there.
     if \<not> there then
       seqx no_transaction (\<lambda>_. seqx sync_directory (\<lambda>_. ret ''no_active_transaction''))
     else
       seqx (load_journal F) (\<lambda>_.
       seqx (require_current_policy P) (\<lambda>_.
       seqx the_journal (\<lambda>J.
       if j_phase J = LiveVerified then
         seqx (establish_live_verified_durability F) (\<lambda>_.
         seqx (validate_live_verified_files E F True) (\<lambda>_.
         seqx (finish_live_verified F) (\<lambda>_.
         ret ''renewal_finalized'')))
       else recover_transaction E startup F J))))))"

section \<open>The execution boundary\<close>

definition executor_boundary :: "exec_env \<Rightarrow> renewal_policy \<Rightarrow> world boundary" where
  "executor_boundary E P = \<lparr> b_exclusive = exclusive E P, b_inspect_public_state = inspect_public_state E,
     b_generate_csr = generate_csr E P, b_import_certificate_reply = import_certificate_reply E P,
     b_verify_pending = verify_pending E P, get_clock = (\<lambda>s. x_wall E (step s)), get_stage = w_stage,
     set_stage = (\<lambda>v s. s\<lparr> w_stage := v \<rparr>) \<rparr>"

end
