(* ===== verification/ExecutorCalls.thy ===== *)
theory ExecutorCalls
  imports Executor
begin

text \<open>
  Which calls of the executor leave the files and the journal in memory alone: the process, service,
  secret and TLS calls keep every view of the state that does not see the step counter and the trace,
  and the executor's own calls around them keep the view \<open>core\<close>.
\<close>

section \<open>Views that do not see the trace\<close>

definition traceless :: "('m machine_scheme \<Rightarrow> 'v) \<Rightarrow> bool" where
  "traceless f \<longleftrightarrow> stepless f \<and> (\<forall>s tr. f (s\<lparr> trace := tr \<rparr>) = f s)"

named_theorems calls \<open>calls that keep every traceless view\<close>

lemma traceless_stepless: "traceless f \<Longrightarrow> stepless f"
  by (simp add: traceless_def)

lemma keeps_record [calls]: "traceless f \<Longrightarrow> keeps f (record_event e)"
  by (simp add: keeps_def record_event_def modify_def traceless_def)

lemma keeps_any_call [calls]: "traceless f \<Longrightarrow> keeps f act \<Longrightarrow> keeps f (syscall act)"
  by (intro keeps_syscall traceless_stepless)

lemma keeps_sum [keeps_intros]:
  "(\<And>a. x = Inl a \<Longrightarrow> keeps f (g a)) \<Longrightarrow> (\<And>b. x = Inr b \<Longrightarrow> keeps f (h b)) \<Longrightarrow>
   keeps f (case x of Inl a \<Rightarrow> g a | Inr b \<Rightarrow> h b)"
  by (cases x) auto

lemma keeps_let [keeps_intros]: "(\<And>x. keeps f (g x)) \<Longrightarrow> keeps f (let x = y in g x)"
  by simp

lemma keeps_host_call [calls]: "traceless f \<Longrightarrow> keeps f (host_call g)"
  unfolding host_call_def by (intro keeps_intros calls)

lemma keeps_proc_call [calls]: "traceless f \<Longrightarrow> keeps f (proc_call g)"
  unfolding proc_call_def by (intro keeps_intros calls)

lemma keeps_close_fd [calls]: "traceless f \<Longrightarrow> keeps f close_fd"
  unfolding close_fd_def by (intro keeps_intros calls)

lemma keeps_child_failed [calls]: "keeps f (child_failed e)"
  unfolding child_failed_def by (intro keeps_intros)

lemma keeps_run_events [calls]: "traceless f \<Longrightarrow> keeps f (run_events data xs st)"
  by (induction xs arbitrary: st) (auto intro!: keeps_intros calls)

lemma keeps_run_loop [calls]: "traceless f \<Longrightarrow> keeps f (run_loop data xss st)"
  by (induction data xss st rule: run_loop.induct) (auto intro!: keeps_intros calls)

lemma keeps_converse [calls]: "traceless f \<Longrightarrow> keeps f (converse_with data c)"
  unfolding converse_with_def by (intro keeps_intros calls)

lemma keeps_reap [calls]: "traceless f \<Longrightarrow> keeps f reap"
  unfolding reap_def by (intro keeps_intros calls)

lemma keeps_run:
  assumes "traceless f" "\<And>n s. f (effect n s) = f s"
  shows "keeps f (run spawn effect data)"
  unfolding run_def by (intro keeps_intros calls assms keeps_modify)

lemma keeps_service_command [calls]: "traceless f \<Longrightarrow> keeps f (service_command E argv evs)"
  unfolding service_command_def by (rule keeps_run) (auto simp: svc_effect_def traceless_def)

lemma keeps_read_at_loop [calls]: "traceless f \<Longrightarrow> keeps f (read_at_loop V name maximum result)"
proof (induction V name maximum result rule: read_at_loop.induct)
  case (1 V name maximum result)
  then show ?case by (subst read_at_loop.simps) (auto intro!: keeps_intros calls)
qed

lemma keeps_inspect [calls]: "traceless f \<Longrightarrow> keeps f (inspect_process_fd V)"
  unfolding inspect_process_fd_def read_at_def by (intro keeps_intros calls)

lemma keeps_identity [calls]: "traceless f \<Longrightarrow> keeps f (abc_process_identity V)"
  unfolding abc_process_identity_def read_at_def by (intro keeps_intros calls)

lemma keeps_receive_cleanup [calls]: "traceless f \<Longrightarrow> keeps f (receive_cleanup st)"
  unfolding receive_cleanup_def kill_and_reap_def by (intro keeps_intros calls)

lemma keeps_receive_guard: "traceless f \<Longrightarrow> keeps f m \<Longrightarrow> keeps f (receive_guard st m)"
  unfolding receive_guard_def by (intro keeps_intros calls)

lemma keeps_receive_loop [calls]: "traceless f \<Longrightarrow> keeps f (receive_loop rs pipe got eof st)"
proof (induction rs arbitrary: pipe got eof st)
  case (Cons r rs)
  then show ?case by (auto simp: receive_read_def intro!: keeps_intros calls keeps_receive_guard)
qed (auto intro!: keeps_intros keeps_receive_guard)

lemma keeps_inspect_as_abc [calls]: "traceless f \<Longrightarrow> keeps f (inspect_as_abc E name)"
  unfolding inspect_as_abc_def receive_child_def by (intro keeps_intros calls)

lemma keeps_inspect_one [calls]: "traceless f \<Longrightarrow> keeps f (inspect_one E name)"
  unfolding inspect_one_def inspect_opened_def gone_def by (intro keeps_intros calls)

lemma keeps_processes [calls]: "traceless f \<Longrightarrow> keeps f (processes E)"
proof -
  assume f: "traceless f"
  have "keeps f (processes_loop E names acc)" for names acc
    by (induction E names acc rule: processes_loop.induct) (auto intro!: keeps_intros calls f)
  then show ?thesis unfolding processes_def by (intro keeps_intros calls f)
qed

lemma keeps_service [calls]:
  assumes "traceless f"
  shows "keeps f (service_running E)" "keeps f (service_no_keytool E)" "keeps f (service_stopped E)"
    "keeps f (service_stop E)" "keeps f (service_start E)"
proof -
  show r: "keeps f (service_running E)"
    unfolding service_running_def by (intro keeps_intros calls assms)
  show n: "keeps f (service_no_keytool E)"
    unfolding service_no_keytool_def by (intro keeps_intros calls assms)
  show s: "keeps f (service_stopped E)"
    unfolding service_stopped_def by (intro keeps_intros calls assms r)
  show "keeps f (service_stop E)" unfolding service_stop_def by (intro keeps_intros calls assms n s)
  show "keeps f (service_start E)" unfolding service_start_def by (intro keeps_intros calls assms n r)
qed

lemma keeps_on_OSError: "keeps f m \<Longrightarrow> keeps f h \<Longrightarrow> keeps f (on_OSError m h)"
  unfolding on_OSError_def by (intro keeps_intros)

lemma keeps_read_secure_file [calls]: "traceless f \<Longrightarrow> keeps f (read_secure_file E name source priv n)"
  unfolding read_secure_file_def open_secure_file_def open_trusted_root_def open_contained_def
    check_contained_def lstat_for_fallback_def raise_classified_open_error_def
  by (intro keeps_intros calls keeps_on_OSError)

lemma keeps_view_clock [calls]: "traceless f \<Longrightarrow> keeps f (clock N)"
  unfolding clock_def by (intro keeps_intros keeps_modify) (simp add: traceless_def stepless_def)

lemma keeps_connect_once [calls]: "traceless f \<Longrightarrow> keeps f (connect_once N P d)"
  unfolding connect_once_def connect_and_get_leaf_def tls_exchange_def before_deadline_def
  by (intro keeps_intros calls)

lemma keeps_tls_attempts [calls]: "traceless f \<Longrightarrow> keeps f (tls_attempts L N P expected d n)"
  by (induction n) (auto simp: retry_pause_def intro!: keeps_intros calls)

lemma keeps_verify_prepared [calls]: "traceless f \<Longrightarrow> keeps f (verify_prepared_live_tls_certificate L N P leaf)"
  unfolding verify_prepared_live_tls_certificate_def by (intro keeps_intros calls)

lemma keeps_prepare [calls]: "traceless f \<Longrightarrow> keeps f (prepare_live_tls_verification L now S E ep r ca)"
  unfolding prepare_live_tls_verification_def create_client_tls_context_def
  by (auto intro!: keeps_intros calls)

section \<open>The view of the files, the journal and the lock\<close>

definition core :: "world \<Rightarrow> nat \<times> directory \<times> (nat \<Rightarrow> inode) \<times> nat \<times> directory list \<times> (nat \<Rightarrow> bool) \<times>
    journal option \<times> nat option" where
  "core s = (device s, dir s, inodes s, next_ino s, history s, unsynced s, w_journal s, w_lock s)"

lemma traceless_core [calls]: "traceless core"
  by (simp add: traceless_def stepless_def core_def)

lemma quiet_core: "quiet m \<Longrightarrow> keeps core m"
  by (rule quiet_keeps) (simp_all add: stepless_def core_def)

lemma keeps_core_memory [calls]:
  "keeps core (modify (\<lambda>s. s\<lparr> w_expect_stopped := b \<rparr>))" "keeps core (modify (\<lambda>s. s\<lparr> w_local_files := b \<rparr>))"
  "keeps core (modify (\<lambda>s. s\<lparr> w_local_lock := b \<rparr>))" "keeps core (modify (\<lambda>s. s\<lparr> w_local_files := b, w_local_lock := c \<rparr>))"
  by (simp_all add: keeps_def modify_def core_def)

lemma keeps_with_files: "(\<And>F. keeps f (g F)) \<Longrightarrow> keeps f (with_files g)"
  unfolding with_files_def by (intro keeps_intros)

lemma keeps_the_journal [calls]: "keeps f the_journal"
  unfolding the_journal_def by (intro keeps_intros)

lemma keeps_wall_clock [calls]: "keeps f (wall_clock E)"
  unfolding wall_clock_def by (intro keeps_intros)

lemma keeps_assert_locked [calls]: "keeps f assert_locked"
  unfolding assert_locked_def by (intro keeps_intros)

lemma keeps_password [calls]: "keeps core (password_environment E)"
  unfolding password_environment_def by (intro keeps_intros calls)

text \<open>
  The documented behaviour of keytool on which the executor relies: a command without
  \<open>-importcert\<close> does not change the key store.
\<close>

definition keytool_read_only :: "exec_env \<Rightarrow> bool" where
  "keytool_read_only E \<longleftrightarrow> (\<forall>n argv data password content.
     ''-importcert'' \<notin> set argv \<longrightarrow> snd (x_keytool E n argv data password content) = Untouched)"

lemma core_untouched [simp]: "core (apply_keytool_effect name op Untouched s) = core s"
  by (simp add: apply_keytool_effect_def core_def)

lemma path_not_import: "keystore_path_of E name \<noteq> ''-importcert''"
  by (simp add: keystore_path_of_def)

lemma keeps_keytool:
  assumes "keytool_read_only E" "''-importcert'' \<notin> set op"
  shows "keeps core (keytool E name op data)"
proof -
  have "''-importcert'' \<notin> set (keytool_argv E name op)"
    using assms(2) path_not_import[of E name] by (auto simp: keytool_argv_def)
  then have "snd (x_keytool E n (keytool_argv E name op) data pw c) = Untouched" for n pw c
    using assms(1) by (simp add: keytool_read_only_def)
  then show ?thesis
    unfolding keytool_def Let_def by (intro keeps_intros calls keeps_run) simp
qed

lemma keeps_collect [calls]:
  assumes "keytool_read_only E"
  shows "keeps core (collect E name)" "keeps core (collect_id E name)"
proof -
  show c: "keeps core (collect E name)"
    unfolding collect_def
    by (intro keeps_intros calls keeps_with_files keeps_keytool assms quiet_core quiet_files) simp
  show "keeps core (collect_id E name)"
    unfolding collect_id_def by (intro keeps_intros c)
qed

lemma keeps_look [calls]:
  "keeps core (files_status F n)" "keeps core (files_exists F n)" "keeps core (files_same F n v)"
  "keeps core (os_open_read n)" "keeps core (os_fstat i)" "keeps core (os_close i)" "keeps core (read_journal F)"
  by (intro quiet_core quiet_files)+

lemma keeps_files_init [calls]: "keeps core (files_init uid gid)"
  unfolding files_init_def filesystem_def read_proc_def by (intro keeps_intros calls)

lemma keeps_no_transaction [calls]: "keeps core no_transaction"
  unfolding no_transaction_def by (intro keeps_intros calls keeps_with_files)

lemma keeps_verify_import [calls]: "keytool_read_only E \<Longrightarrow> keeps core (verify_import E name r)"
  unfolding verify_import_def by (intro keeps_intros calls)

lemma keeps_resume_service [calls]: "keytool_read_only E \<Longrightarrow> keeps core (resume_service E startup)"
  unfolding resume_service_def by (intro keeps_intros calls keeps_with_files)

lemma keeps_admit_import [calls]: "keytool_read_only E \<Longrightarrow> keeps core (admit_import E P r st)"
  unfolding admit_import_def by (intro keeps_intros calls keeps_with_files)

lemma keeps_validate_live [calls]: "keytool_read_only E \<Longrightarrow> keeps core (validate_live_verified_files E F b)"
  unfolding validate_live_verified_files_def check_live_canonical_def check_live_rollback_def
  by (intro keeps_intros calls)

lemma keeps_observe_live [calls]: "keytool_read_only E \<Longrightarrow> keeps core (observe_live E P F)"
  unfolding observe_live_def by (intro keeps_intros calls)

lemma keeps_inspect_rollback [calls]: "keytool_read_only E \<Longrightarrow> keeps core (inspect_rollback E F J v)"
  unfolding inspect_rollback_def by (intro keeps_intros calls)

lemma keeps_check_recovery_stage [calls]: "keeps core (check_recovery_stage F J)"
  unfolding check_recovery_stage_def by (intro keeps_intros calls)

lemma keeps_local_identity [calls]: "keeps f (local_identity E)"
  unfolding local_identity_def by (intro keeps_intros)

lemma keeps_still_excluded [calls]: "keeps core (still_excluded E)"
  unfolding still_excluded_def by (intro keeps_intros calls)

lemma keeps_require_policy [calls]: "keeps f (require_current_policy P)"
  unfolding require_current_policy_def by (intro keeps_intros calls)

end
