(* ===== verification/ExecutorSafety.thy ===== *)
theory ExecutorSafety
  imports ExecutorCalls
begin

text \<open>
  Crash safety of the executor: whatever call fails and wherever the process dies, every directory
  that may be found on the disk afterwards still leads back to the original key store. The proofs are
  in the Hoare logic of the prelude over the store invariant of the files theory.
\<close>

section \<open>Assertions\<close>

text \<open>
  The content of a journal that authorises the restoration of the original inode, and the
  assertion that the store is safe while a condition on the canonical name, the journal in memory and
  the lock holds.
\<close>

definition rescue :: "nat \<Rightarrow> nat \<Rightarrow> bytes \<Rightarrow> bool" where
  "rescue dev orig data \<longleftrightarrow> (\<exists>J. data = dumps (journal_value J) \<and> journal_ok J \<and> j_commit_possible J \<and>
     j_old_inode J = (dev, orig))"

definition file_safe :: "nat \<Rightarrow> bytes \<Rightarrow> nat \<Rightarrow> world \<Rightarrow> bool" where
  "file_safe orig D dev s \<longleftrightarrow> store orig D (rescue dev orig) (\<lambda>d _. d = dev) s"

definition keeping :: "nat \<Rightarrow> bytes \<Rightarrow> nat \<Rightarrow> (nat option \<Rightarrow> journal option \<Rightarrow> nat option \<Rightarrow> bool) \<Rightarrow> world \<Rightarrow> bool" where
  "keeping orig D dev X s \<longleftrightarrow> file_safe orig D dev s \<and> X (dir s CANONICAL) (w_journal s) (w_lock s)"

definition in_transaction :: "nat \<Rightarrow> nat \<Rightarrow> nat option \<Rightarrow> journal option \<Rightarrow> nat option \<Rightarrow> bool" where
  "in_transaction orig dev c j l \<longleftrightarrow> l \<noteq> None \<and> (\<forall>J. j = Some J \<longrightarrow> j_old_inode J = (dev, orig)) \<and>
     (c = Some orig \<or> (\<exists>J. j = Some J \<and> j_commit_possible J))"

abbreviation guarded :: "nat \<Rightarrow> bytes \<Rightarrow> nat \<Rightarrow> world \<Rightarrow> bool" where
  "guarded orig D dev \<equiv> keeping orig D dev (in_transaction orig dev)"

definition core_pred :: "(world \<Rightarrow> bool) \<Rightarrow> bool" where
  "core_pred P \<longleftrightarrow> (\<forall>s t. core s = core t \<longrightarrow> P s = P t)"

lemma core_predD: "core_pred P \<Longrightarrow> core s = core t \<Longrightarrow> P s = P t"
  unfolding core_pred_def by blast

lemma core_fields:
  assumes "core s = core t"
  shows "device s = device t" "dir s = dir t" "inodes s = inodes t" "next_ino s = next_ino t" "history s = history t"
    "unsynced s = unsynced t" "w_journal s = w_journal t" "w_lock s = w_lock t"
  using assms by (simp_all add: core_def)

lemma core_file_safe: "core_pred (file_safe orig D dev)"
  unfolding core_pred_def
proof (intro allI impI)
  fix s t assume c: "core s = core t"
  show "file_safe orig D dev s = file_safe orig D dev t"
    unfolding file_safe_def store_def well_placed_def protected_def recoverable_def journalled_def core_fields[OF c] ..
qed

lemma core_keeping: "core_pred (keeping orig D dev X)"
  unfolding core_pred_def keeping_def
proof (intro allI impI)
  fix s t assume c: "core s = core t"
  show "(file_safe orig D dev s \<and> X (dir s CANONICAL) (w_journal s) (w_lock s)) =
    (file_safe orig D dev t \<and> X (dir t CANONICAL) (w_journal t) (w_lock t))"
    using core_predD[OF core_file_safe c] core_fields[OF c] by simp
qed

lemma core_simple [simp]:
  "core_pred (\<lambda>s. g (dir s))" "core_pred (\<lambda>s. w_journal s = j)"
  "core_pred (\<lambda>s. dir s n = x)" "core_pred (\<lambda>s. \<exists>J. w_journal s = Some J \<and> Q J)" "core_pred (\<lambda>s. h (w_journal s))" "core_pred (\<lambda>s. c)" "core_pred (\<lambda>s. journalled A s (dir s))"
  by (auto simp: core_pred_def core_def journalled_def)

lemma core_conj: "core_pred P \<Longrightarrow> core_pred Q \<Longrightarrow> core_pred (\<lambda>s. P s \<and> Q s)"
  unfolding core_pred_def by metis

section \<open>Rules\<close>

lemma triple_core: "keeps core m \<Longrightarrow> core_pred P \<Longrightarrow> triple P m (\<lambda>_. P) P"
proof (rule tripleI)
  fix s assume k: "keeps core m" and P: "core_pred P" "P s"
  obtain r t where r: "m s = (r, t)" by (cases "m s")
  then have "P t" using core_predD[OF P(1) keepsD[OF k r]] P(2) by simp
  then show "after (\<lambda>_. P) P (m s)" using r by (cases r) auto
qed

lemma triple_then:
  "keeps core m \<Longrightarrow> core_pred P \<Longrightarrow> (\<And>x. triple P (f x) Q E) \<Longrightarrow> (\<And>s. P s \<Longrightarrow> E s) \<Longrightarrow> triple P (seqx m f) Q E"
  by (rule triple_seqx[where R = "\<lambda>_. P"]) (auto intro: triple_weaken[OF triple_core])

text \<open>A call in front of another one, with what its value reveals.\<close>

lemma triple_see:
  assumes m: "keeps core m" and P: "core_pred P" and Ob: "\<And>x. core_pred (Ob x)"
    and sees: "\<And>s x t. P s \<Longrightarrow> m s = (Return x, t) \<Longrightarrow> Ob x s"
    and f: "\<And>x. triple (\<lambda>s. P s \<and> Ob x s) (f x) Q E" and E: "\<And>s. P s \<Longrightarrow> E s"
  shows "triple P (seqx m f) Q E"
proof (rule triple_seqx[OF tripleI])
  fix s assume s: "P s"
  obtain r t where r: "m s = (r, t)" by (cases "m s")
  then have c: "core s = core t" using keepsD[OF m r] by simp
  then have "P t" using core_predD[OF P c] s by simp
  moreover have "Ob x t" if "r = Return x" for x using sees[OF s] r that core_predD[OF Ob c] by blast
  ultimately show "after (\<lambda>x s. P s \<and> Ob x s) E (m s)" using r E by (cases r) auto
qed (rule f)

lemma triple_check: "(\<not> c \<Longrightarrow> triple P (f ()) Q E) \<Longrightarrow> (\<And>s. P s \<Longrightarrow> E s) \<Longrightarrow> triple P (seqx (raise_if c e) f) Q E"
  by (rule triple_guard)

lemma triple_frame_all:
  assumes "triple P m Q E" "keeps f m"
  shows "triple (\<lambda>s. P s \<and> X (f s)) m (\<lambda>x s. Q x s \<and> X (f s)) (\<lambda>s. E s \<and> X (f s))"
  using triple_conj[OF assms(1) triple_keeps[OF assms(2), of X]] by simp

text \<open>
  A file operation that keeps the store, the canonical name, and whatever the state holds outside the
  files, keeps every assertion of this form.
\<close>

lemma more_journal: "fsys.more s = fsys.more t \<Longrightarrow> w_journal s = w_journal t \<and> w_lock s = w_lock t" for s t :: world
  by (cases s; cases t) (simp add: world.defs)

lemma triple_file_op:
  assumes op: "\<And>R. triple (store orig D (rescue dev orig) R) op (\<lambda>_. store orig D (rescue dev orig) R) (store orig D (rescue dev orig) R)"
    and k: "keeps (\<lambda>s. dir s CANONICAL) op"
  shows "triple (keeping orig D dev X) op (\<lambda>_. keeping orig D dev X) (keeping orig D dev X)"
proof (rule tripleI)
  fix s assume s: "keeping orig D dev X s"
  let ?R = "\<lambda>d m. d = dev \<and> m = fsys.more s"
  obtain r t where r: "op s = (r, t)" by (cases "op s")
  have "store orig D (rescue dev orig) ?R s" using s by (simp add: keeping_def file_safe_def store_def)
  from tripleD[OF op this] r have t: "store orig D (rescue dev orig) ?R t" by (cases r) auto
  then have "file_safe orig D dev t" "fsys.more t = fsys.more s" by (simp_all add: file_safe_def store_def)
  moreover have "dir t CANONICAL = dir s CANONICAL" using keepsD[OF k r] .
  ultimately have "keeping orig D dev X t" using s more_journal[of t s] by (simp add: keeping_def)
  then show "after (\<lambda>_. keeping orig D dev X) (keeping orig D dev X) (op s)" using r by (cases r) auto
qed

section \<open>Journal entries\<close>

text \<open>The changes that the transaction makes to a journal never take back what recovery relies on.\<close>

definition monotone_change :: "(journal \<Rightarrow> journal) \<Rightarrow> bool" where
  "monotone_change f \<longleftrightarrow> (\<forall>J. j_old_inode (f J) = j_old_inode J \<and> (j_commit_possible J \<longrightarrow> j_commit_possible (f J)))"

lemma monotone_changes [simp]:
  "monotone_change (\<lambda>J. J)" "monotone_change (\<lambda>J. J\<lparr> j_issued := i \<rparr>)" "monotone_change (\<lambda>J. J\<lparr> j_stage_inode := n \<rparr>)"
  "monotone_change (\<lambda>J. J\<lparr> j_rollback_expected := True \<rparr>)" "monotone_change (\<lambda>J. J\<lparr> j_commit_possible := True \<rparr>)"
  by (simp_all add: monotone_change_def)

lemma keeps_dir_memory: "keeps (\<lambda>s. dir s n) (modify (\<lambda>s. s\<lparr> w_journal := j s \<rparr>))"
  by (simp add: keeps_def modify_def)

lemma keeps_dir_enter_phase:
  "n \<notin> {JOURNAL, JOURNAL_NEW} \<Longrightarrow> keeps (\<lambda>s. dir s n) (enter_phase ph f)"
  unfolding enter_phase_def Let_def
  by (intro keeps_intros calls keeps_with_files keeps_dir_memory keeps_dir_write_journal)

definition entered :: "phase \<Rightarrow> (journal \<Rightarrow> journal) \<Rightarrow> world \<Rightarrow> bool" where
  "entered ph f s \<longleftrightarrow> history s = [dir s] \<and> (\<exists>J J0. w_journal s = Some J \<and> J = (f J0)\<lparr> j_phase := ph \<rparr> \<and> journal_ok J \<and>
     (\<exists>j. dir s JOURNAL = Some j \<and> \<not> unsynced s j \<and> i_data (inodes s j) = dumps (journal_value J)))"

lemma core_entered: "core_pred (entered ph f)"
  by (auto simp: core_pred_def core_def entered_def)

lemma triple_write_inv:
  assumes J: "journal_ok J" "j_old_inode J = (dev, orig)"
  shows "triple (\<lambda>s. guarded orig D dev s \<and> w_journal s = Some J) (write_journal F (journal_value J))
     (\<lambda>_ s. guarded orig D dev s \<and> w_journal s = Some J \<and> history s = [dir s] \<and>
        (\<exists>j. dir s JOURNAL = Some j \<and> \<not> unsynced s j \<and> i_data (inodes s j) = dumps (journal_value J)))
     (guarded orig D dev)"
proof (rule tripleI)
  fix s assume s: "guarded orig D dev s \<and> w_journal s = Some J"
  let ?A = "rescue dev orig" and ?R = "\<lambda>d m. d = dev \<and> m = fsys.more s"
  obtain r t where r: "write_journal F (journal_value J) s = (r, t)" by (cases "write_journal F (journal_value J) s")
  have "store orig D ?A ?R s" using s by (simp add: keeping_def file_safe_def store_def)
  moreover have "dir s CANONICAL = Some orig \<or> ?A (dumps (journal_value J))"
    using s J by (auto simp: keeping_def in_transaction_def rescue_def)
  ultimately have t: "after (\<lambda>_ s. store orig D ?A ?R s \<and> history s = [dir s] \<and>
      (\<exists>j. dir s JOURNAL = Some j \<and> \<not> unsynced s j \<and> i_data (inodes s j) = dumps (journal_value J))) (store orig D ?A ?R) (r, t)"
    using tripleD[OF triple_write_journal, of orig D ?A ?R s "journal_value J" F] r by simp
  have "dir t CANONICAL = dir s CANONICAL" using keepsD[OF keeps_dir_write_journal r] by simp
  moreover have st: "store orig D ?A ?R t" using t by (cases r) auto
  then have "w_journal t = w_journal s" "w_lock t = w_lock s" using more_journal[of t s] by (simp_all add: store_def)
  moreover have "file_safe orig D dev t" using st by (simp add: file_safe_def store_def)
  ultimately have i: "guarded orig D dev t \<and> w_journal t = Some J" using s by (auto simp: keeping_def)
  show "after (\<lambda>_ s. guarded orig D dev s \<and> w_journal s = Some J \<and> history s = [dir s] \<and>
        (\<exists>j. dir s JOURNAL = Some j \<and> \<not> unsynced s j \<and> i_data (inodes s j) = dumps (journal_value J)))
     (guarded orig D dev) (write_journal F (journal_value J) s)"
    using t i r by (cases r) auto
qed

lemma triple_enter_phase:
  assumes "monotone_change f"
  shows "triple (guarded orig D dev) (enter_phase ph f) (\<lambda>_ s. guarded orig D dev s \<and> entered ph f s) (guarded orig D dev)"
proof -
  let ?I = "guarded orig D dev"
  let ?J = "\<lambda>J. (f J)\<lparr> j_phase := ph \<rparr>"
  have set: "triple (\<lambda>s. ?I s \<and> w_journal s = Some J) (modify (\<lambda>s. s\<lparr> w_journal := Some (?J J) \<rparr>))
      (\<lambda>_ s. ?I s \<and> w_journal s = Some (?J J)) ?I" for J
  proof (rule triple_modify)
    fix s assume s: "?I s \<and> w_journal s = Some J"
    have "file_safe orig D dev (s\<lparr> w_journal := j \<rparr>) = file_safe orig D dev s" for j
      by (simp add: file_safe_def store_def well_placed_def protected_def recoverable_def journalled_def)
    with s assms show "?I (s\<lparr> w_journal := Some (?J J) \<rparr>) \<and> w_journal (s\<lparr> w_journal := Some (?J J) \<rparr>) = Some (?J J)"
      by (auto simp: keeping_def in_transaction_def monotone_change_def)
  qed
  have body: "triple (\<lambda>s. ?I s \<and> w_journal s = Some (?J J))
      (seqx (liftE (validate_journal (journal_value (?J J)))) (\<lambda>_. with_files (\<lambda>F. write_journal F (journal_value (?J J)))))
      (\<lambda>_ s. ?I s \<and> entered ph f s) ?I" if old: "j_old_inode J = (dev, orig)" for J
  proof (rule triple_seqx[where R = "\<lambda>_ s. (?I s \<and> w_journal s = Some (?J J)) \<and> journal_ok (?J J)"])
    show "triple (\<lambda>s. ?I s \<and> w_journal s = Some (?J J)) (liftE (validate_journal (journal_value (?J J))))
       (\<lambda>_ s. (?I s \<and> w_journal s = Some (?J J)) \<and> journal_ok (?J J)) ?I"
      by (rule triple_liftE) (auto simp: validate_journal_value)
    show "triple (\<lambda>s. (?I s \<and> w_journal s = Some (?J J)) \<and> journal_ok (?J J))
       (with_files (\<lambda>F. write_journal F (journal_value (?J J)))) (\<lambda>_ s. ?I s \<and> entered ph f s) ?I"
    proof (rule triple_pre_fact)
      assume ok: "journal_ok (?J J)"
      have "j_old_inode (?J J) = (dev, orig)" using assms old by (simp add: monotone_change_def)
      note w = triple_weaken[OF triple_write_inv[OF ok this, of D]]
      show "triple (\<lambda>s. ?I s \<and> w_journal s = Some (?J J)) (with_files (\<lambda>F. write_journal F (journal_value (?J J))))
          (\<lambda>_ s. ?I s \<and> entered ph f s) ?I"
        unfolding with_files_def
      proof (rule triple_seqx[where R = "\<lambda>_ s. ?I s \<and> w_journal s = Some (?J J)"])
        show "triple (\<lambda>s. ?I s \<and> w_journal s = Some (?J J)) (gets w_files) (\<lambda>_ s. ?I s \<and> w_journal s = Some (?J J)) ?I"
          by (rule triple_gets)
        show "triple (\<lambda>s. ?I s \<and> w_journal s = Some (?J J))
            (case x of None \<Rightarrow> throw TypeError | Some F \<Rightarrow> write_journal F (journal_value (?J J))) (\<lambda>_ s. ?I s \<and> entered ph f s) ?I" for x
          using ok by (cases x) (auto intro!: triple_throw w simp: entered_def)
      qed
    qed
  qed
  show ?thesis
    unfolding enter_phase_def Let_def
  proof (rule triple_see[where Ob = "\<lambda>J s. w_journal s = Some J", OF keeps_the_journal])
    fix J
    show "triple (\<lambda>s. ?I s \<and> w_journal s = Some J)
      (seqx (modify (\<lambda>s. s\<lparr> w_journal := Some (?J J) \<rparr>)) (\<lambda>_.
       seqx (liftE (validate_journal (journal_value (?J J)))) (\<lambda>_. with_files (\<lambda>F. write_journal F (journal_value (?J J))))))
      (\<lambda>_ s. ?I s \<and> entered ph f s) ?I"
    proof (cases "j_old_inode J = (dev, orig)")
      case True
      show ?thesis by (rule triple_seqx[OF set body[OF True]])
    next
      case False
      then show ?thesis by (intro tripleI) (auto simp: keeping_def in_transaction_def)
    qed
  qed (auto simp: core_keeping the_journal_def returns split: option.splits)
qed

section \<open>Importing\<close>

lemma triple_inv_call:
  "keeps core m \<Longrightarrow> triple (guarded orig D dev) m (\<lambda>_. guarded orig D dev) (guarded orig D dev)"
  by (rule triple_core[OF _ core_keeping])

lemma triple_inv_then:
  "keeps core m \<Longrightarrow> (\<And>x. triple (guarded orig D dev) (f x) Q (guarded orig D dev)) \<Longrightarrow>
   triple (guarded orig D dev) (seqx m f) Q (guarded orig D dev)"
  by (rule triple_then[OF _ core_keeping])

lemma triple_inv_seq:
  "triple (guarded orig D dev) m (\<lambda>_. guarded orig D dev) (guarded orig D dev) \<Longrightarrow>
   (\<And>x. triple (guarded orig D dev) (f x) Q (guarded orig D dev)) \<Longrightarrow>
   triple (guarded orig D dev) (seqx m f) Q (guarded orig D dev)"
  by (rule triple_seqx[where R = "\<lambda>_. guarded orig D dev"])

lemma triple_inv_phase:
  "monotone_change f \<Longrightarrow> triple (guarded orig D dev) (enter_phase ph f) (\<lambda>_. guarded orig D dev) (guarded orig D dev)"
  by (rule triple_post[OF triple_enter_phase]) auto

lemma triple_inv_copy: "triple (keeping orig D dev X) (copy_stage F) (\<lambda>_. keeping orig D dev X) (keeping orig D dev X)"
  by (rule triple_file_op[OF triple_copy_stage keeps_dir_copy_stage]) simp

lemma keeps_dir_sync_file: "keeps (\<lambda>s. dir s n) (sync_file F m)"
  unfolding sync_file_def by (intro keeps_dir_files)

lemma triple_inv_sync_file: "triple (keeping orig D dev X) (sync_file F n) (\<lambda>_. keeping orig D dev X) (keeping orig D dev X)"
  by (rule triple_file_op[OF triple_sync_file keeps_dir_sync_file])

lemma triple_inv_sync_directory: "triple (keeping orig D dev X) sync_directory (\<lambda>_. keeping orig D dev X) (keeping orig D dev X)"
proof (rule triple_file_op[OF _ keeps_dir_sync_directory])
  show "triple (store orig D (rescue dev orig) R) sync_directory (\<lambda>_. store orig D (rescue dev orig) R) (store orig D (rescue dev orig) R)" for R
    by (rule triple_weaken[OF triple_sync_directory[where P = "\<lambda>_ _ _. True"]]) auto
qed

lemma keeps_dir_link_rollback: "keeps (\<lambda>s. dir s CANONICAL) (link_rollback F)"
  unfolding link_rollback_def by (intro keeps_intros keeps_dir_files) simp_all

lemma triple_inv_link: "triple (keeping orig D dev X) (link_rollback F) (\<lambda>_. keeping orig D dev X) (keeping orig D dev X)"
proof (rule triple_file_op[OF _ keeps_dir_link_rollback])
  show "triple (store orig D (rescue dev orig) R) (link_rollback F) (\<lambda>_. store orig D (rescue dev orig) R) (store orig D (rescue dev orig) R)" for R
    by (rule triple_post[OF triple_link_rollback]) auto
qed

text \<open>Keytool on the stage: whatever it does to the file, the store stays safe.\<close>

lemma file_safe_trace: "file_safe orig D dev (s\<lparr> trace := tr \<rparr>) = file_safe orig D dev s"
  by (simp add: file_safe_def)

lemma inv_keytool_effect:
  assumes "keeping orig D dev X s"
  shows "keeping orig D dev X (apply_keytool_effect STAGE op e s)"
proof (cases "dir s STAGE")
  case None
  with assms show ?thesis
    by (cases e) (simp_all add: apply_keytool_effect_def keeping_def file_safe_trace)
next
  case (Some i)
  let ?s = "s\<lparr> trace := KeytoolRan STAGE op # trace s \<rparr>" and ?A = "rescue dev orig" and ?R = "\<lambda>d (_ :: _). d = dev"
  have st: "store orig D ?A ?R ?s" using assms by (simp add: keeping_def file_safe_def)
  have "store orig D ?A ?R (set_data i b ?s)" for b
    using st Some by (intro store_written unprotected_name[of _ _ _ _ _ STAGE]) simp_all
  moreover have "store orig D ?A ?R (set_data (next_ino s) b (create_file STAGE (touch i (set_dir ((dir ?s)(STAGE := None)) ?s))))" for b
  proof (intro store_written unprotected_name[of _ _ _ _ _ STAGE])
    show "store orig D ?A ?R (create_file STAGE (touch i (set_dir ((dir ?s)(STAGE := None)) ?s)))"
      by (intro store_created store_unlinked st) simp_all
    then show "store orig D ?A ?R (create_file STAGE (touch i (set_dir ((dir ?s)(STAGE := None)) ?s)))" .
  qed simp_all
  moreover have "w_journal (set_data j b t) = w_journal t" "w_lock (set_data j b t) = w_lock t"
    "w_journal (create_file n t) = w_journal t" "w_lock (create_file n t) = w_lock t"
    "w_journal (touch j t) = w_journal t" "w_lock (touch j t) = w_lock t"
    "w_journal (set_dir d t) = w_journal t" "w_lock (set_dir d t) = w_lock t" for j b n d and t :: world
    using more_journal[of "set_data j b t" t] more_journal[of "create_file n t" t] more_journal[of "touch j t" t]
      more_journal[of "set_dir d t" t] by simp_all
  ultimately show ?thesis
    using assms Some by (cases e) (simp_all add: apply_keytool_effect_def keeping_def file_safe_def file_safe_trace)
qed

lemma triple_inv_import: "triple (keeping orig D dev X) (keytool E STAGE op data) (\<lambda>_. keeping orig D dev X) (keeping orig D dev X)"
proof -
  let ?K = "keeping orig D dev X"
  have eff: "triple ?K (modify (apply_keytool_effect STAGE op e)) (\<lambda>_. ?K) ?K" for e
    by (rule triple_modify) (rule inv_keytool_effect)
  have "triple ?K (syscall (seqx (gets step) (\<lambda>n. seqx (modify (apply_keytool_effect STAGE op (e n))) (\<lambda>_. ret (c n))))) (\<lambda>_. ?K) ?K" for e c
  proof (rule triple_syscall[where P' = ?K])
    show "triple ?K (seqx (gets step) (\<lambda>n. seqx (modify (apply_keytool_effect STAGE op (e n))) (\<lambda>_. ret (c n)))) (\<lambda>_. ?K) ?K"
      by (intro triple_seqx[where R = "\<lambda>_. ?K"] triple_gets eff triple_ret)
    show "?K (s\<lparr> step := n \<rparr>)" if "?K s" for s n
      using that core_predD[OF core_keeping, of "s\<lparr> step := n \<rparr>" s] by (simp add: core_def)
  qed
  then have spawn: "triple ?K (handle (syscall (seqx (gets step) (\<lambda>n. seqx (modify (apply_keytool_effect STAGE op (e n))) (\<lambda>_. ret (c n))))) child_failed) (\<lambda>_. ?K) ?K" for e c
    by (rule triple_handle) (auto intro: triple_core core_keeping calls)
  have "triple ?K (run spawn (\<lambda>n. apply_keytool_effect STAGE op (e n)) data) (\<lambda>_. ?K) ?K" for spawn e
    unfolding run_def
    by (rule triple_if) (auto intro!: triple_core core_keeping calls traceless_core keeps_intros triple_seqx[OF spawn])
  then show ?thesis
    unfolding keytool_def Let_def
    by (intro triple_then[OF _ core_keeping] calls keeps_intros)
qed

lemma triple_stage_import:
  assumes "keytool_read_only E"
  shows "triple (guarded orig D dev) (stage_import E F r plan current) (\<lambda>_. guarded orig D dev) (guarded orig D dev)"
  unfolding stage_import_def
  by (intro triple_inv_seq[OF triple_inv_phase] triple_inv_seq[OF triple_inv_copy] triple_inv_seq[OF triple_inv_import]
      triple_inv_seq[OF triple_inv_sync_file] triple_inv_then calls keeps_intros assms triple_ret) simp_all

lemma the_journal_Return: "the_journal s = (Return J, t) \<longleftrightarrow> w_journal s = Some J \<and> t = s"
  by (auto simp: the_journal_def returns split: option.splits)

lemma guarded_journal: "guarded orig D dev s \<Longrightarrow> w_journal s = Some J \<Longrightarrow> j_old_inode J = (dev, orig)"
  by (simp add: keeping_def in_transaction_def)

lemma triple_inv_with_files:
  "(\<And>F. triple (guarded orig D dev) (g F) Q (guarded orig D dev)) \<Longrightarrow> triple (guarded orig D dev) (with_files g) Q (guarded orig D dev)"
  unfolding with_files_def
  by (rule triple_inv_then[OF keeps_pure(3)]) (auto intro!: triple_throw split: option.splits)

lemma triple_admit_import:
  assumes "keytool_read_only E"
  shows "triple (guarded orig D dev) (admit_import E P r e)
    (\<lambda>x s. guarded orig D dev s \<and> inode_id (snd (snd x)) = (dev, orig)) (guarded orig D dev)"
proof -
  let ?G = "guarded orig D dev"
  have last: "triple (\<lambda>s. ?G s \<and> w_journal s = Some J)
     (seqx (if inode_id old \<noteq> j_old_inode J then ret True
           else seqx (liftE (public_identity (x_lib E) current)) (\<lambda>i. ret (i \<noteq> j_old J))) (\<lambda>bad.
     seqx (raise_if bad (refuse ''canonical differs from journal'')) (\<lambda>_.
     ret (plan, current, old)))) (\<lambda>x s. ?G s \<and> inode_id (snd (snd x)) = (dev, orig)) ?G" for J old current plan
  proof (rule triple_see[where Ob = "\<lambda>bad s. bad \<or> inode_id old = j_old_inode J"])
    show "triple (\<lambda>s. (?G s \<and> w_journal s = Some J) \<and> (bad \<or> inode_id old = j_old_inode J))
       (seqx (raise_if bad (refuse ''canonical differs from journal'')) (\<lambda>_. ret (plan, current, old)))
       (\<lambda>x s. ?G s \<and> inode_id (snd (snd x)) = (dev, orig)) ?G" for bad
      using guarded_journal by (auto intro!: triple_check triple_ret)
  qed (auto intro!: keeps_intros core_conj core_keeping simp: returns split: if_splits)
  have rest: "triple ?G (seqx the_journal (\<lambda>J. seqx (if inode_id old \<noteq> j_old_inode J then ret True
           else seqx (liftE (public_identity (x_lib E) current)) (\<lambda>i. ret (i \<noteq> j_old J))) (\<lambda>bad.
     seqx (raise_if bad (refuse ''canonical differs from journal'')) (\<lambda>_.
     ret (plan, current, old))))) (\<lambda>x s. ?G s \<and> inode_id (snd (snd x)) = (dev, orig)) ?G" for old current plan
    by (rule triple_see[where Ob = "\<lambda>J s. w_journal s = Some J", OF keeps_the_journal core_keeping _ _ last])
      (auto simp: the_journal_Return)
  show ?thesis
    unfolding admit_import_def
    by (intro triple_inv_then calls keeps_intros assms triple_inv_with_files rest)
qed

lemma files_status_dir:
  assumes "files_status F n s = (Return v, t)"
  shows "dir s n = Some (st_ino v) \<and> st_dev v = device s"
  using files_status_Return[OF assms] by (simp add: sound_status_def)

text \<open>After the link, the rollback name is the original and the directory is on the disk.\<close>

lemma triple_secure_rollback:
  assumes "keytool_read_only E" "inode_id old = (dev, orig)"
  shows "triple (guarded orig D dev) (secure_rollback E F current old)
    (\<lambda>_ s. guarded orig D dev s \<and> dir s ROLLBACK = Some orig) (guarded orig D dev)"
proof -
  let ?G = "guarded orig D dev"
  have sync: "triple (\<lambda>s. ?G s \<and> dir s ROLLBACK = Some orig) (seqx sync_directory (\<lambda>_. ret rb))
     (\<lambda>_ s. ?G s \<and> dir s ROLLBACK = Some orig) ?G" for rb :: stat_result
    by (rule triple_seqx[OF triple_frame[OF triple_inv_sync_directory keeps_dir_sync_directory, where X = "\<lambda>r. r = Some orig"]])
      (rule triple_ret)
  have look: "triple ?G (seqx (files_status F ROLLBACK) (\<lambda>rollback.
     seqx (raise_if (inode_id rollback \<noteq> inode_id old) (refuse ''rollback inode differs'')) (\<lambda>_.
     seqx sync_directory (\<lambda>_. ret rollback)))) (\<lambda>_ s. ?G s \<and> dir s ROLLBACK = Some orig) ?G"
  proof (rule triple_see[where Ob = "\<lambda>v s. dir s ROLLBACK = Some (st_ino v)"])
    show "triple (\<lambda>s. ?G s \<and> dir s ROLLBACK = Some (st_ino v))
       (seqx (raise_if (inode_id v \<noteq> inode_id old) (refuse ''rollback inode differs'')) (\<lambda>_. seqx sync_directory (\<lambda>_. ret v)))
       (\<lambda>_ s. ?G s \<and> dir s ROLLBACK = Some orig) ?G" for v
    proof (rule triple_check)
      assume "\<not> inode_id v \<noteq> inode_id old"
      then have "st_ino v = orig" using assms(2) by (simp add: inode_id_def)
      with sync[of v] show "triple (\<lambda>s. ?G s \<and> dir s ROLLBACK = Some (st_ino v)) (seqx sync_directory (\<lambda>_. ret v))
         (\<lambda>_ s. ?G s \<and> dir s ROLLBACK = Some orig) ?G" by simp
    qed simp
  qed (auto intro: calls core_keeping dest: files_status_dir)
  show ?thesis
    unfolding secure_rollback_def
    by (intro triple_inv_then calls keeps_intros assms(1) triple_inv_seq[OF triple_inv_sync_file] triple_inv_seq[OF triple_inv_link] look)
qed

text \<open>The replacement of the canonical name, under a durable journal that allows the way back.\<close>

definition committing :: "nat \<Rightarrow> bytes \<Rightarrow> nat \<Rightarrow> world \<Rightarrow> bool" where
  "committing orig D dev s \<longleftrightarrow> guarded orig D dev s \<and> dir s ROLLBACK = Some orig \<and>
     journalled (rescue dev orig) s (dir s) \<and> (\<exists>J. w_journal s = Some J \<and> j_commit_possible J)"

lemma core_committing: "core_pred (committing orig D dev)"
  unfolding committing_def[abs_def] by (intro core_conj core_keeping) simp_all

lemma entered_commit:
  assumes "guarded orig D dev s" "dir s ROLLBACK = Some orig" "entered CommitPossible (\<lambda>J. J\<lparr> j_commit_possible := True \<rparr>) s"
  shows "committing orig D dev s"
proof -
  obtain J j where J: "w_journal s = Some J" "j_commit_possible J" "journal_ok J" "dir s JOURNAL = Some j" "\<not> unsynced s j"
    "i_data (inodes s j) = dumps (journal_value J)"
    using assms(3) by (auto simp: entered_def)
  then have "rescue dev orig (i_data (inodes s j))"
    using guarded_journal[OF assms(1)] by (auto simp: rescue_def)
  then show ?thesis using assms J by (auto simp: committing_def journalled_def)
qed

lemma triple_replace_canonical:
  "triple (committing orig D dev) (files_replace F STAGE CANONICAL) (\<lambda>_. guarded orig D dev) (guarded orig D dev)"
proof (rule tripleI)
  fix s assume s: "committing orig D dev s"
  let ?R = "\<lambda>d m. d = dev \<and> m = fsys.more s"
  obtain r t where r: "files_replace F STAGE CANONICAL s = (r, t)" by (cases "files_replace F STAGE CANONICAL s")
  have "store orig D (rescue dev orig) ?R s" using s by (simp add: committing_def keeping_def file_safe_def store_def)
  then have "after (\<lambda>_. store orig D (rescue dev orig) ?R) (store orig D (rescue dev orig) ?R) (files_replace F STAGE CANONICAL s)"
    using s by (intro tripleD[OF triple_commit]) (simp add: committing_def)
  then have t: "store orig D (rescue dev orig) ?R t" using r by (cases r) auto
  then have "fsys.more t = fsys.more s" by (simp add: store_def)
  then have "guarded orig D dev t"
    using s t more_journal[of t s] by (auto simp: committing_def keeping_def in_transaction_def file_safe_def store_def)
  then show "after (\<lambda>_. guarded orig D dev) (guarded orig D dev) (files_replace F STAGE CANONICAL s)" using r by (cases r) auto
qed

lemma triple_commit_import:
  assumes "keytool_read_only E"
  shows "triple (\<lambda>s. guarded orig D dev s \<and> dir s ROLLBACK = Some orig) (commit_import E F r stage validated rollback)
    (\<lambda>_. guarded orig D dev) (guarded orig D dev)"
proof -
  let ?G = "guarded orig D dev" and ?C = "committing orig D dev"
  have cg: "?C s \<Longrightarrow> ?G s" for s by (simp add: committing_def)
  have finish: "triple ?G (seqx sync_directory (\<lambda>_.
     seqx (enter_phase Committed (\<lambda>J. J)) (\<lambda>_.
     seqx (files_status F CANONICAL) (\<lambda>v.
     seqx (raise_if (inode_id v \<noteq> inode_id stage) (refuse ''committed inode differs'')) (\<lambda>_.
     seqx (verify_import E CANONICAL r) (\<lambda>_.
     seqx (enter_phase CanonicalVerified (\<lambda>J. J)) (\<lambda>_. ret 0)))))) :: (world, int) exec) (\<lambda>_. ?G) ?G"
    by (intro triple_inv_seq[OF triple_inv_sync_directory] triple_inv_seq[OF triple_inv_phase] triple_inv_then calls keeps_intros
        assms triple_ret) simp_all
  have replace: "triple ?C (seqx (service_stopped (x_proc E)) (\<lambda>_.
     seqx (files_same F CANONICAL rollback) (\<lambda>_.
     seqx (files_same F STAGE validated) (\<lambda>_.
     seqx (files_replace F STAGE CANONICAL) (\<lambda>_. seqx sync_directory (\<lambda>_.
     seqx (enter_phase Committed (\<lambda>J. J)) (\<lambda>_.
     seqx (files_status F CANONICAL) (\<lambda>v.
     seqx (raise_if (inode_id v \<noteq> inode_id stage) (refuse ''committed inode differs'')) (\<lambda>_.
     seqx (verify_import E CANONICAL r) (\<lambda>_.
     seqx (enter_phase CanonicalVerified (\<lambda>J. J)) (\<lambda>_. ret 0)))))))))) :: (world, int) exec) (\<lambda>_. ?G) ?G"
    by (intro triple_then[OF _ core_committing] calls cg triple_seqx[OF triple_replace_canonical finish])
  have phase: "triple (\<lambda>s. ?G s \<and> dir s ROLLBACK = Some orig) (enter_phase ph f)
      (\<lambda>_ s. (?G s \<and> entered ph f s) \<and> dir s ROLLBACK = Some orig) ?G" if "monotone_change f" for ph f
    by (rule triple_frame[OF triple_enter_phase[OF that], where f = "\<lambda>s. dir s ROLLBACK" and X = "\<lambda>d. d = Some orig"])
      (rule keeps_dir_enter_phase, simp)
  show ?thesis
    unfolding commit_import_def
    by (rule triple_seqx[OF phase], simp, rule triple_pre[OF triple_seqx[OF phase triple_pre[OF replace]]])
      (auto intro: entered_commit)
qed

lemma triple_import:
  assumes "keytool_read_only E"
  shows "triple (guarded orig D dev) (import_certificate_reply E P r e) (\<lambda>_. guarded orig D dev) (guarded orig D dev)"
proof -
  let ?G = "guarded orig D dev"
  have "triple (\<lambda>s. ?G s \<and> inode_id (snd (snd x)) = (dev, orig))
     (case x of (plan, current, old) \<Rightarrow> with_files (\<lambda>F.
       seqx (stage_import E F r plan current) (\<lambda>(stage, validated).
       seqx (secure_rollback E F current old) (\<lambda>rollback. commit_import E F r stage validated rollback)))) (\<lambda>_. ?G) ?G" for x
  proof (cases x)
    case (fields plan current old)
    have "triple ?G (case y of (stage, validated) \<Rightarrow> seqx (secure_rollback E F current old) (\<lambda>rollback. commit_import E F r stage validated rollback)) (\<lambda>_. ?G) ?G"
      if "inode_id old = (dev, orig)" for F y
      using triple_seqx[OF triple_secure_rollback[OF assms that] triple_commit_import[OF assms]] by (cases y) simp
    then show ?thesis
      using fields by (auto intro!: triple_pre_fact triple_inv_with_files triple_inv_seq[OF triple_stage_import[OF assms]])
  qed
  from triple_seqx[OF triple_admit_import[OF assms] this] show ?thesis
    unfolding import_certificate_reply_def .
qed

section \<open>The lock\<close>

text \<open>Assertions on the files alone survive the release of the lock.\<close>

definition fcore :: "world \<Rightarrow> nat \<times> directory \<times> (nat \<Rightarrow> inode) \<times> nat \<times> directory list \<times> (nat \<Rightarrow> bool)" where
  "fcore s = (device s, dir s, inodes s, next_ino s, history s, unsynced s)"

definition file_pred :: "(world \<Rightarrow> bool) \<Rightarrow> bool" where
  "file_pred P \<longleftrightarrow> (\<forall>s t. fcore s = fcore t \<longrightarrow> P s = P t)"

lemma fcore_of_core: "core s = core t \<Longrightarrow> fcore s = fcore t"
  by (simp add: core_def fcore_def)

lemma file_pred_core: "file_pred P \<Longrightarrow> core_pred P"
  unfolding file_pred_def core_pred_def using fcore_of_core by blast

lemma file_pred_safe: "file_pred (file_safe orig D dev)"
  unfolding file_pred_def
proof (intro allI impI)
  fix s t assume "fcore s = fcore t"
  then have f: "device s = device t" "dir s = dir t" "inodes s = inodes t" "next_ino s = next_ino t" "history s = history t"
    "unsynced s = unsynced t" by (simp_all add: fcore_def)
  show "file_safe orig D dev s = file_safe orig D dev t"
    unfolding file_safe_def store_def well_placed_def protected_def recoverable_def journalled_def f ..
qed

lemma keeps_fcore: "keeps core m \<Longrightarrow> keeps fcore m"
  using fcore_of_core unfolding keeps_def by blast

lemma keeps_release: "keeps fcore (release E)"
proof -
  have "keeps fcore (modify (\<lambda>s. s\<lparr> w_files := None, w_lock := None, w_owner := None, w_service := False, w_journal := None \<rparr>))"
    by (simp add: keeps_def modify_def fcore_def)
  then show ?thesis
    unfolding release_def by (intro keeps_intros keeps_fcore[OF keeps_still_excluded] keeps_fcore[OF keeps_look(6)])
qed

lemma triple_release: "file_pred P \<Longrightarrow> triple P (release E) (\<lambda>_. P) P"
proof (rule tripleI)
  fix s assume P: "file_pred P" "P s"
  obtain r t where r: "release E s = (r, t)" by (cases "release E s")
  then have "P t" using P keepsD[OF keeps_release r] unfolding file_pred_def by metis
  then show "after (\<lambda>_. P) P (release E s)" using r by (cases r) auto
qed

lemma triple_with_files:
  "core_pred P \<Longrightarrow> (\<And>F. triple P (g F) Q E) \<Longrightarrow> (\<And>s. P s \<Longrightarrow> E s) \<Longrightarrow> triple P (with_files g) Q E"
  unfolding with_files_def
  by (rule triple_then[OF keeps_pure(3)]) (auto intro!: triple_throw split: option.splits)

lemma triple_create_lock: "triple (keeping orig D dev X) (create_lock_file F) (\<lambda>_. keeping orig D dev X) (keeping orig D dev X)"
proof -
  let ?K = "keeping orig D dev X"
  have "triple (store orig D A R) (files_created F LOCK (\<lambda>_. ret ())) (\<lambda>_ s. store orig D A R s \<and> True) (store orig D A R)"
    for A and R :: "nat \<Rightarrow> _ \<Rightarrow> bool"
    by (rule triple_files_created) (auto intro: triple_ret)
  then have "triple ?K (files_created F LOCK (\<lambda>_. ret ())) (\<lambda>_. ?K) ?K"
    by (intro triple_file_op) (auto intro!: keeps_dir_created keeps_intros)
  then have "triple ?K (seqx (files_created F LOCK (\<lambda>_. ret ())) (\<lambda>_. sync_directory)) (\<lambda>_. ?K) ?K"
    by (rule triple_seqx[OF _ triple_inv_sync_directory])
  then have "triple ?K (handle (seqx (files_created F LOCK (\<lambda>_. ret ())) (\<lambda>_. sync_directory))
       (\<lambda>e. if e = FileExistsError then ret () else throw e)) (\<lambda>_. ?K) ?K"
    by (rule triple_handle) (auto intro: triple_ret triple_throw)
  then show ?thesis
    unfolding create_lock_file_def
    by (intro triple_then[OF _ core_keeping] calls) (auto intro: triple_ret)
qed

lemma triple_prod: "(\<And>a b. triple P (g a b) Q E) \<Longrightarrow> triple P (case p of (a, b) \<Rightarrow> g a b) Q E"
  by (cases p) simp

lemma triple_acquire:
  assumes X: "\<And>c j l l'. X c j l = X c j l'"
  shows "triple (keeping orig D dev X) (acquire E) (\<lambda>_. keeping orig D dev (\<lambda>c j l. X c j l \<and> l \<noteq> None)) (keeping orig D dev X)"
proof -
  let ?K = "keeping orig D dev X" and ?L = "keeping orig D dev (\<lambda>c j l. X c j l \<and> l \<noteq> None)"
  have lk: "?L s \<Longrightarrow> ?K s" for s by (simp add: keeping_def)
  have set: "triple ?K (modify (\<lambda>s. s\<lparr> w_files := Some F, w_lock := Some lock, w_expect_stopped := False,
       w_owner := Some (w_thread s), w_service := True \<rparr>)) (\<lambda>_. ?L) ?K" for F lock
  proof (rule triple_modify)
    fix s assume K: "?K s"
    have "fcore (s\<lparr> w_files := Some F, w_lock := Some lock, w_expect_stopped := False,
       w_owner := Some (w_thread s), w_service := True \<rparr>) = fcore s" by (simp add: fcore_def)
    then have "file_safe orig D dev (s\<lparr> w_files := Some F, w_lock := Some lock, w_expect_stopped := False,
       w_owner := Some (w_thread s), w_service := True \<rparr>) = file_safe orig D dev s"
      using file_pred_safe unfolding file_pred_def by blast
    then show "?L (s\<lparr> w_files := Some F, w_lock := Some lock, w_expect_stopped := False,
       w_owner := Some (w_thread s), w_service := True \<rparr>)"
      using K X[of "dir s CANONICAL" "w_journal s" "w_lock s" "Some lock"] by (simp add: keeping_def)
  qed
  have "triple ?L (service_no_keytool (x_proc E)) (\<lambda>_. ?L) ?K"
    by (rule triple_weaken[OF triple_core[where P = ?L, OF keeps_service(2)[OF traceless_core] core_keeping]]) (auto intro: lk)
  note last = triple_seqx[OF set this]
  show ?thesis
    unfolding acquire_def
    by (intro triple_seqx[OF triple_create_lock] last triple_then[OF _ core_keeping] triple_prod calls keeps_intros)
qed

lemma triple_locked_from:
  assumes K: "core_pred K" and acq: "triple K (acquire E) (\<lambda>_. L) K" and f: "\<And>x. file_pred (Q x)" "file_pred E'"
    and body: "triple L body Q E'" and E': "\<And>s. K s \<Longrightarrow> E' s" "\<And>x s. Q x s \<Longrightarrow> E' s"
  shows "triple K (locked E body) Q E'"
proof -
  have "triple K (seqx (acquire E) (\<lambda>_. body)) Q E'"
    by (rule triple_seqx[OF triple_weaken[OF acq] body]) (use E' in auto)
  then have "triple K (handle (seqx (acquire E) (\<lambda>_. body))
      (\<lambda>e. throw (if is_Exception e then refuse ''UniFi executor operation failed; recovery may be required'' else e))) Q E'"
    by (rule triple_handle) (auto intro: triple_throw)
  then have fin: "triple K (finally_do (handle (seqx (acquire E) (\<lambda>_. body))
      (\<lambda>e. throw (if is_Exception e then refuse ''UniFi executor operation failed; recovery may be required'' else e))) (release E)) Q E'"
  proof (rule triple_finally)
    show "triple (Q x) (release E) (\<lambda>_. Q x) E'" for x
      by (rule triple_weaken[OF triple_release[OF f(1)]]) (auto intro: E'(2))
  qed (auto intro: triple_release f)
  show ?thesis
    unfolding locked_def
    by (intro triple_then[OF _ K] calls keeps_intros fin E'(1))
qed

lemmas triple_locked = triple_locked_from[OF core_keeping triple_acquire]

section \<open>The exclusive context\<close>

abbreviation idle :: "nat \<Rightarrow> bytes \<Rightarrow> nat \<Rightarrow> world \<Rightarrow> bool" where
  "idle orig D dev \<equiv> keeping orig D dev (\<lambda>c j l. c = Some orig)"

abbreviation held :: "nat \<Rightarrow> bytes \<Rightarrow> nat \<Rightarrow> world \<Rightarrow> bool" where
  "held orig D dev \<equiv> keeping orig D dev (\<lambda>c j l. c = Some orig \<and> l \<noteq> None)"

lemma guarded_safe: "keeping orig D dev X s \<Longrightarrow> file_safe orig D dev s"
  by (simp add: keeping_def)

lemma triple_quiesce:
  assumes "keytool_read_only E"
  shows "triple (guarded orig D dev) (quiesce E F v st) (\<lambda>_. guarded orig D dev) (guarded orig D dev)"
  unfolding quiesce_def
  by (intro triple_inv_then calls keeps_intros assms triple_inv_phase) simp_all

lemma triple_conclude:
  assumes "keytool_read_only E"
  shows "triple (guarded orig D dev) (conclude E F) (\<lambda>_. guarded orig D dev) (guarded orig D dev)"
  unfolding conclude_def
  by (intro triple_inv_then calls keeps_intros assms triple_inv_phase) simp_all

lemma triple_start_journal:
  assumes "inode_id v = (dev, orig)"
  shows "triple (held orig D dev) (modify (\<lambda>s. s\<lparr> w_journal := Some (new_journal P tr rn old v) \<rparr>))
    (\<lambda>_. guarded orig D dev) (file_safe orig D dev)"
proof (rule triple_modify)
  fix s assume s: "held orig D dev s"
  have "fcore (s\<lparr> w_journal := j \<rparr>) = fcore s" for j by (simp add: fcore_def)
  then have "file_safe orig D dev (s\<lparr> w_journal := j \<rparr>) = file_safe orig D dev s" for j
    using file_pred_safe unfolding file_pred_def by blast
  with s assms show "guarded orig D dev (s\<lparr> w_journal := Some (new_journal P tr rn old v) \<rparr>)"
    by (simp add: keeping_def in_transaction_def new_journal_def)
qed

lemma triple_run_transaction:
  assumes E: "keytool_read_only E"
    and body: "triple (guarded orig D dev) body (\<lambda>_. guarded orig D dev) (guarded orig D dev)"
  shows "triple (guarded orig D dev) (run_transaction E F v st body) (\<lambda>_. file_safe orig D dev) (file_safe orig D dev)"
proof -
  let ?G = "guarded orig D dev" and ?S = "file_safe orig D dev"
  have "triple ?G (seqx (quiesce E F v st) (\<lambda>_. seqx body (\<lambda>x. seqx (conclude E F) (\<lambda>_. ret x)))) (\<lambda>_. ?G) ?G"
    by (intro triple_inv_seq[OF triple_quiesce[OF E]] triple_inv_seq[OF body] triple_inv_seq[OF triple_conclude[OF E]] triple_ret)
  then have "triple ?G (handle (seqx (quiesce E F v st) (\<lambda>_. seqx body (\<lambda>x. seqx (conclude E F) (\<lambda>_. ret x))))
       (\<lambda>e. seqx (enter_phase RecoveryRequired (\<lambda>J. J)) (\<lambda>_. throw e))) (\<lambda>_. ?G) ?G"
    by (rule triple_handle) (auto intro!: triple_inv_seq[OF triple_inv_phase] triple_throw)
  then have "triple ?G (run_transaction E F v st body) (\<lambda>_. ?G) ?G"
    unfolding run_transaction_def by (intro triple_inv_seq[OF triple_inv_phase]) simp_all
  then show ?thesis by (rule triple_weaken) (auto dest: guarded_safe)
qed

lemma triple_open_transaction:
  assumes E: "keytool_read_only E" and v: "inode_id v = (dev, orig)"
    and body: "triple (guarded orig D dev) body (\<lambda>_. guarded orig D dev) (guarded orig D dev)"
  shows "triple (held orig D dev) (open_transaction E P F v expected body) (\<lambda>_. file_safe orig D dev) (file_safe orig D dev)"
proof -
  let ?H = "held orig D dev"
  note main = triple_seqx[OF triple_start_journal[OF v] triple_run_transaction[OF E body]]
  show ?thesis
    unfolding open_transaction_def
    by (intro triple_then[where P = ?H, OF _ core_keeping] calls keeps_intros E main) (auto dest: guarded_safe)
qed

lemma triple_exclusive:
  assumes E: "keytool_read_only E"
    and body: "triple (guarded orig D dev) body (\<lambda>_. guarded orig D dev) (guarded orig D dev)"
  shows "triple (idle orig D dev) (exclusive E P expected body) (\<lambda>_. file_safe orig D dev) (file_safe orig D dev)"
  unfolding exclusive_def
proof (rule triple_locked[OF _ file_pred_safe file_pred_safe])
  let ?H = "held orig D dev" and ?S = "file_safe orig D dev"
  have "triple (\<lambda>s. ?H s \<and> inode_id v = (dev, orig)) (open_transaction E P F v expected body) (\<lambda>_. ?S) ?S" for F v
    by (rule triple_pre_fact) (rule triple_open_transaction[OF E _ body])
  note status = triple_see[where Ob = "\<lambda>v s. inode_id v = (dev, orig)", OF keeps_look(1) core_keeping _ _ this]
  show "triple ?H (seqx no_transaction (\<lambda>_. with_files (\<lambda>F.
     seqx (files_status F CANONICAL) (\<lambda>v. open_transaction E P F v expected body)))) (\<lambda>_. ?S) ?S"
  proof (rule triple_then[where P = ?H, OF keeps_no_transaction core_keeping triple_with_files[OF core_keeping status]])
    fix F s v t assume "?H s" "files_status F CANONICAL s = (Return v, t)"
    then show "inode_id v = (dev, orig)"
      using files_status_dir[of F CANONICAL s v t] by (auto simp: keeping_def inode_id_def file_safe_def store_def)
  qed (auto dest: guarded_safe)
qed (auto dest: guarded_safe)

section \<open>The installation\<close>

lemma keeps_inspect_locked:
  assumes "keytool_read_only E"
  shows "triple (guarded orig D dev) (inspect_public_state E) (\<lambda>_. guarded orig D dev) (guarded orig D dev)"
proof -
  let ?G = "guarded orig D dev"
  have c: "core_pred (\<lambda>s. w_lock s = l)" for l by (auto simp: core_pred_def core_def)
  show ?thesis
    unfolding inspect_public_state_def
  proof (rule triple_see[where Ob = "\<lambda>l s. w_lock s = l", OF keeps_pure(3) core_keeping c])
    fix l
    show "triple (\<lambda>s. ?G s \<and> w_lock s = l) (if l \<noteq> None then seqx assert_locked (\<lambda>_. collect E CANONICAL)
       else locked E (seqx no_transaction (\<lambda>_. collect E CANONICAL))) (\<lambda>_. ?G) ?G"
    proof (cases "l = None")
      case True
      then show ?thesis by (intro tripleI) (auto simp: keeping_def in_transaction_def)
    next
      case False
      then show ?thesis
        by (auto intro!: triple_pre[OF triple_inv_then[OF keeps_assert_locked triple_inv_call[OF keeps_collect(1)[OF assms]]]])
    qed
  qed (auto simp: returns)
qed

lemma keeps_stage: "keeps core (modify (set_stage (executor_boundary E P) v))"
  by (simp add: keeps_def modify_def core_def executor_boundary_def)

lemma triple_install_body:
  assumes "keytool_read_only E"
  shows "triple (guarded orig D dev) (install_body L (executor_boundary E P) r) (\<lambda>_. guarded orig D dev) (guarded orig D dev)"
proof -
  have b: "b_inspect_public_state (executor_boundary E P) = inspect_public_state E"
    "b_import_certificate_reply (executor_boundary E P) = import_certificate_reply E P"
    by (simp_all add: executor_boundary_def)
  show ?thesis
    unfolding install_body_def b
    by (intro triple_inv_seq[OF keeps_inspect_locked[OF assms]] triple_inv_seq[OF triple_import[OF assms]]
        triple_inv_then keeps_stage keeps_intros triple_inv_call)
qed

lemma triple_wrap:
  assumes "triple P m Q E" shows "triple P (wrap_exception message m) Q E"
  unfolding wrap_exception_def
proof (rule triple_handle[OF assms])
  show "triple E (\<lambda>s. if is_Exception e then throw (UnifiOperationError (message s)) s else throw e s) Q E" for e
    by (rule tripleI) (simp add: throw_def)
qed

lemma triple_install:
  assumes "keytool_read_only E"
  shows "triple (idle orig D dev) (client_install_certificate L (executor_boundary E P) r)
    (\<lambda>_. file_safe orig D dev) (file_safe orig D dev)"
proof -
  have b: "b_exclusive (executor_boundary E P) = exclusive E P" by (simp add: executor_boundary_def)
  show ?thesis
    unfolding client_install_certificate_def b
    by (rule triple_then[OF keeps_stage core_keeping triple_wrap[OF triple_exclusive[OF assms triple_install_body[OF assms]]]])
      (rule guarded_safe)
qed

text \<open>
  What a power failure or a crash leaves: one of the directories of the history, with the content of an
  inode lost only if it was not synchronised.
\<close>

definition way_back :: "nat \<Rightarrow> bytes \<Rightarrow> world \<Rightarrow> directory \<Rightarrow> bool" where
  "way_back orig D s d \<longleftrightarrow> \<not> unsynced s orig \<and> i_data (inodes s orig) = D \<and>
     (d CANONICAL = Some orig \<or>
      d ROLLBACK = Some orig \<and> (\<exists>j J. d JOURNAL = Some j \<and> \<not> unsynced s j \<and> i_data (inodes s j) = dumps (journal_value J) \<and>
        journal_ok J \<and> j_commit_possible J \<and> j_old_inode J = (device s, orig)))"

lemma file_safe_way_back: "file_safe orig D dev s \<Longrightarrow> d \<in> set (history s) \<Longrightarrow> way_back orig D s d"
  by (auto simp: file_safe_def store_def recoverable_def journalled_def rescue_def way_back_def)

text \<open>
  C1. Crash safety of an installation. Let the original key store be durable under its name. However
  the installation ends - it returns, any system call raises, or the process is killed at any point -
  every directory that the disk may hold afterwards leads back to it: either the canonical name still is
  the original inode with its original content, or the rollback name is, and then a synchronised, valid
  journal with the commit flag names exactly that inode, so that recovery is authorised to restore it.
  Keytool is assumed to change a key store only when it imports.
\<close>

theorem installation_is_crash_safe:
  assumes "keytool_read_only E" "idle orig D (device s) s"
    and "client_install_certificate L (executor_boundary E P) r s = (outcome, t)" "d \<in> set (history t)"
  shows "way_back orig D t d"
proof -
  have "file_safe orig D (device s) t"
    using tripleD[OF triple_install[OF assms(1)] assms(2), of L P r] assms(3) by (cases outcome) auto
  then show ?thesis using assms(4) by (rule file_safe_way_back)
qed

end
