(* ===== verification/Recovery.thy ===== *)
theory Recovery
  imports ExecutorSafety
begin

text \<open>
  Recovery of an interrupted transaction (\<open>recover\<close> of \<open>unifi_executor.py\<close>). Under a journal that names the
  original inode, recovery keeps the way back to the original key store however it ends, and when it
  reports the old state the canonical name is the original inode and nothing of the transaction is left.
\<close>

section \<open>The journal on the disk\<close>

definition journal_text :: "journal \<Rightarrow> bytes \<Rightarrow> bool" where
  "journal_text J data \<longleftrightarrow> (\<exists>v. bindE (loads_bytes ValueError data) validate_journal = Inr v \<and> journal_of v = J)"

definition journal_found :: "journal \<Rightarrow> world \<Rightarrow> bool" where
  "journal_found J s \<longleftrightarrow> (\<exists>j. dir s JOURNAL = Some j \<and> j < next_ino s \<and> journal_text J (i_data (inodes s j)))"

lemma core_journal_found: "core_pred (journal_found J)"
  by (auto simp: core_pred_def core_def journal_found_def)

lemma read_journal_Return:
  assumes "read_journal F s = (Return v, t)"
  shows "\<exists>j. dir s JOURNAL = Some j \<and> loads_bytes ValueError (i_data (inodes s j)) = Inr v"
proof -
  obtain data s1 where d: "files_opened F JOURNAL (\<lambda>fd. os_read fd (MAX_JOURNAL + 1)) s = (Return data, s1)"
    "length data \<le> MAX_JOURNAL" "loads_bytes ValueError data = Inr v"
    using assms by (auto simp: read_journal_def returns)
  let ?P = "\<lambda>t. dir t = dir s \<and> inodes t = inodes s"
  let ?Q = "\<lambda>data t. \<exists>j. dir s JOURNAL = Some j \<and> data = take (MAX_JOURNAL + 1) (i_data (inodes s j))"
  have "triple ?P (files_opened F JOURNAL (\<lambda>fd. os_read fd (MAX_JOURNAL + 1))) ?Q (\<lambda>_. True)"
  proof (rule triple_files_opened)
    show "triple (\<lambda>t. ?P t \<and> dir t JOURNAL = Some fd) (os_read fd (MAX_JOURNAL + 1)) ?Q (\<lambda>_. True)" for fd
      unfolding os_read_def
      by (rule triple_file_call, rule tripleI) (simp_all add: exec_eval stepless_def, elim conjE, rule exI[of _ fd], simp)
  qed (simp_all add: stepless_def)
  from tripleD[OF this, of s] have "after ?Q (\<lambda>_. True) (Return data, s1)" unfolding d(1) by simp
  then obtain j where j: "dir s JOURNAL = Some j" "data = take (MAX_JOURNAL + 1) (i_data (inodes s j))"
    unfolding after_simps by blast
  have "data = i_data (inodes s j)" using j(2) d(2) by simp
  with d(3) have "loads_bytes ValueError (i_data (inodes s j)) = Inr v" by simp
  with j(1) show ?thesis by (intro exI conjI)
qed

lemma load_journal_Return:
  assumes "load_journal F s = (Return (), t)" "journal_found J s"
  shows "w_journal t = Some J"
proof -
  obtain v w s1 where r: "read_journal F s = (Return v, s1)" "validate_journal v = Inr w" "w_journal t = Some (journal_of w)"
    using assms(1) by (auto simp: load_journal_def returns modify_def)
  then show ?thesis using read_journal_Return[OF r(1)] assms(2) by (auto simp: journal_found_def journal_text_def)
qed

section \<open>Taking the lock\<close>

lemma stepless_found: "stepless (journal_found J)"
  by (simp add: stepless_def journal_found_def)

lemma triple_found_open: "triple (journal_found J) (os_open_create LOCK) (\<lambda>_. journal_found J) (journal_found J)"
  unfolding os_open_create_def
  by (rule triple_file_call[OF tripleI stepless_found])
    (auto simp: exec_eval journal_found_def less_SucI split: option.splits intro!: exI)

lemma triple_found_attributes:
  "triple (journal_found J) (os_fchown fd u g) (\<lambda>_. journal_found J) (journal_found J)"
  "triple (journal_found J) (os_fchmod fd m) (\<lambda>_. journal_found J) (journal_found J)"
  "triple (journal_found J) (os_fsync_file fd) (\<lambda>_. journal_found J) (journal_found J)"
  "triple (journal_found J) os_fsync_dir (\<lambda>_. journal_found J) (journal_found J)"
  unfolding os_fchown_def os_fchmod_def os_fsync_file_def os_fsync_dir_def
  by (rule triple_file_call[OF tripleI stepless_found]; auto simp: exec_eval journal_found_def record_event_def)+

lemma triple_found_created: "triple (journal_found J) (files_created F LOCK (\<lambda>_. ret ())) (\<lambda>_. journal_found J) (journal_found J)"
proof -
  let ?P = "journal_found J"
  have "triple ?P (seqx (if c then os_fchown fd u g else os_fchown fd 0 0) (\<lambda>_.
      seqx (os_fchmod fd 0x180) (\<lambda>_. seqx (check_opened F LOCK fd) (\<lambda>_. ret ())))) (\<lambda>_. ?P) ?P" for fd u g c
    by (rule triple_seqx[where R = "\<lambda>_. ?P"], rule triple_if, rule triple_found_attributes, rule triple_found_attributes,
        rule triple_seqx[OF triple_found_attributes(2)], rule triple_pass[OF quiet_check_opened stepless_found triple_ret]) simp_all
  then show ?thesis
    unfolding files_created_def
    by (intro triple_pass[OF quiet_files_name stepless_found] triple_seqx[OF triple_found_open] triple_closing stepless_found)
qed

lemma triple_found_lock: "triple (journal_found J) (create_lock_file F) (\<lambda>_. journal_found J) (journal_found J)"
proof -
  let ?P = "journal_found J"
  have sync: "triple ?P sync_directory (\<lambda>_. ?P) ?P"
    unfolding sync_directory_def by (rule triple_found_attributes)
  have "triple ?P (handle (seqx (files_created F LOCK (\<lambda>_. ret ())) (\<lambda>_. sync_directory))
      (\<lambda>e. if e = FileExistsError then ret () else throw e)) (\<lambda>_. ?P) ?P"
    by (rule triple_handle[OF triple_seqx[OF triple_found_created sync]]) (auto intro: triple_ret triple_throw)
  then show ?thesis
    unfolding create_lock_file_def
    by (intro triple_then[OF _ core_journal_found] calls) (auto intro: triple_ret)
qed

lemma triple_found_acquire: "triple (journal_found J) (acquire E) (\<lambda>_. journal_found J) (journal_found J)"
proof -
  let ?P = "journal_found J"
  have set: "triple ?P (modify (\<lambda>s. s\<lparr> w_files := Some F, w_lock := Some lock, w_expect_stopped := False,
       w_owner := Some (w_thread s), w_service := True \<rparr>)) (\<lambda>_. ?P) ?P" for F lock
    by (rule triple_modify) (simp add: journal_found_def)
  have "triple ?P (service_no_keytool (x_proc E)) (\<lambda>_. ?P) ?P"
    by (rule triple_core[OF keeps_service(2)[OF traceless_core] core_journal_found])
  note last = triple_seqx[OF set this]
  show ?thesis
    unfolding acquire_def
    by (intro triple_seqx[OF triple_found_lock] last triple_then[OF _ core_journal_found] triple_prod calls keeps_intros)
qed

section \<open>Restoring and cleaning up\<close>

text \<open>Removing a name of the transaction, once the canonical name is the original inode.\<close>

abbreviation restored :: "nat \<Rightarrow> bytes \<Rightarrow> nat \<Rightarrow> world \<Rightarrow> bool" where
  "restored orig D dev \<equiv> keeping orig D dev (\<lambda>c j l. in_transaction orig dev c j l \<and> c = Some orig)"

lemma restored_guarded: "restored orig D dev s \<Longrightarrow> guarded orig D dev s"
  by (auto simp: keeping_def)

lemma restored_canonical: "restored orig D dev s \<Longrightarrow> dir s CANONICAL = Some orig"
  by (simp add: keeping_def)

lemma triple_remove:
  assumes "n \<in> {STAGE, ROLLBACK, JOURNAL_NEW, JOURNAL}"
  shows "triple (restored orig D dev) (files_remove F n) (\<lambda>_. restored orig D dev) (restored orig D dev)"
proof (rule tripleI)
  fix s assume s: "restored orig D dev s"
  let ?S = "store orig D (rescue dev orig) (\<lambda>d m. d = dev \<and> m = fsys.more s)"
  obtain r t where r: "files_remove F n s = (r, t)" by (cases "files_remove F n s")
  have "?S s \<and> (True \<longrightarrow> dir s CANONICAL = Some orig)" using s by (simp add: keeping_def file_safe_def store_def)
  from tripleD[OF triple_files_remove[of n True] this, of F] assms r have t: "?S t" by (cases r) auto
  moreover have "dir t CANONICAL = dir s CANONICAL" using keepsD[OF keeps_dir_remove r] assms by auto
  ultimately have "restored orig D dev t"
    using s more_journal[of t s] by (auto simp: keeping_def file_safe_def store_def)
  then show "after (\<lambda>_. restored orig D dev) (restored orig D dev) (files_remove F n s)" using r by (cases r) auto
qed

lemma files_remove_gone: "files_remove F n s = (Return (), t) \<Longrightarrow> dir t n = None"
proof -
  assume "files_remove F n s = (Return (), t)"
  then obtain there s1 where e: "files_exists F n s = (Return there, s1)"
    "(if there then seqx (files_status F n) (\<lambda>_. os_unlink n) else ret ()) s1 = (Return (), t)"
    by (auto simp: files_remove_def seqx_Return split: if_splits)
  show ?thesis
  proof (cases there)
    case True
    then show ?thesis using e(2)
      by (auto simp: returns os_unlink_def record_event_def modify_def split: option.splits)
  next
    case False
    then show ?thesis
      using e(2) files_exists_Return[OF e(1)] quiet_fields(1)[OF quiet_files_exists e(1)] by simp
  qed
qed

text \<open>The clean-up leaves none of the names of the transaction, durably.\<close>

definition no_trace_left :: "world \<Rightarrow> bool" where
  "no_trace_left s \<longleftrightarrow> history s = [dir s] \<and> (\<forall>n\<in>{STAGE, ROLLBACK, JOURNAL_NEW, JOURNAL}. dir s n = None)"

lemma sync_directory_Return: "sync_directory s = (Return (), t) \<Longrightarrow> history t = [dir t] \<and> dir t = dir s"
  by (auto simp: sync_directory_def os_fsync_dir_def returns record_event_def modify_def)

lemma clean_up_Return:
  assumes "clean_up F s = (Return (), t)"
  shows "no_trace_left t"
proof -
  obtain s1 s2 s3 s4 s5 where r: "files_remove F STAGE s = (Return (), s1)" "files_remove F ROLLBACK s1 = (Return (), s2)"
    "files_remove F JOURNAL_NEW s2 = (Return (), s3)" "sync_directory s3 = (Return (), s4)"
    "files_remove F JOURNAL s4 = (Return (), s5)" "sync_directory s5 = (Return (), t)"
    using assms by (auto simp: clean_up_def seqx_Return)
  note gone = r(1,2,3,5)[THEN files_remove_gone]
  have "dir s2 n = dir s1 n" if "n \<noteq> ROLLBACK" for n using keepsD[OF keeps_dir_remove r(2)] that by simp
  moreover have "dir s3 n = dir s2 n" if "n \<noteq> JOURNAL_NEW" for n using keepsD[OF keeps_dir_remove r(3)] that by simp
  moreover have "dir s5 n = dir s4 n" if "n \<noteq> JOURNAL" for n using keepsD[OF keeps_dir_remove r(5)] that by simp
  moreover have "dir s4 = dir s3" "dir t = dir s5" "history t = [dir t]"
    using sync_directory_Return r(4,6) by blast+
  ultimately show ?thesis using gone by (simp add: no_trace_left_def)
qed

lemma triple_clean_up: "triple (restored orig D dev) (clean_up F) (\<lambda>_ s. restored orig D dev s \<and> no_trace_left s) (restored orig D dev)"
proof -
  let ?R = "restored orig D dev"
  have "triple ?R (forx (files_remove F) [STAGE, ROLLBACK, JOURNAL_NEW]) (\<lambda>_. ?R) ?R"
    by (rule triple_forx[OF triple_remove]) auto
  then have "triple ?R (clean_up F) (\<lambda>_. ?R) ?R"
    unfolding clean_up_def
    by (intro triple_seqx[where R = "\<lambda>_. ?R"] triple_inv_sync_directory triple_remove) auto
  then show ?thesis
    using clean_up_Return[OF prod_eqI, of F] by (intro tripleI) (auto dest!: tripleD simp: after_def split: outcome.splits)
qed

lemma triple_restore_call_of:
  "triple (\<lambda>s. guarded orig D dev s \<and> dir s ROLLBACK = Some orig) (files_replace F ROLLBACK CANONICAL)
     (\<lambda>_. restored orig D dev) (file_safe orig D dev)"
proof (rule tripleI)
  fix s assume s: "guarded orig D dev s \<and> dir s ROLLBACK = Some orig"
  let ?S = "store orig D (rescue dev orig) (\<lambda>d m. d = dev \<and> m = fsys.more s)"
  obtain r t where r: "files_replace F ROLLBACK CANONICAL s = (r, t)" by (cases "files_replace F ROLLBACK CANONICAL s")
  have "?S s \<and> dir s ROLLBACK = Some orig" using s by (simp add: keeping_def file_safe_def store_def)
  from tripleD[OF triple_restore this, of F]
  have t: "after (\<lambda>_ s. ?S s \<and> dir s CANONICAL = Some orig) ?S (r, t)" using r by simp
  then have st: "?S t" by (cases r) auto
  then have j: "w_journal t = w_journal s" "w_lock t = w_lock s" using more_journal[of t s] by (simp_all add: store_def)
  have "in_transaction orig dev (Some orig) (w_journal s) (w_lock s)" using s by (auto simp: keeping_def in_transaction_def)
  then have "dir t CANONICAL = Some orig \<Longrightarrow> restored orig D dev t"
    using st j by (auto simp: keeping_def file_safe_def store_def)
  moreover have "file_safe orig D dev t" using st by (simp add: file_safe_def store_def)
  ultimately show "after (\<lambda>_. restored orig D dev) (file_safe orig D dev) (files_replace F ROLLBACK CANONICAL s)"
    using t r by (cases r) auto
qed

section \<open>Deciding\<close>

lemma triple_restore_rollback:
  assumes E: "keytool_read_only E" and J: "j_old_inode J = (dev, orig)" and v: "inode_id info = j_old_inode J"
  shows "triple (guarded orig D dev) (restore_rollback E F J info canonical) (\<lambda>_. restored orig D dev) (file_safe orig D dev)"
proof -
  let ?G = "guarded orig D dev" and ?R = "restored orig D dev" and ?S = "file_safe orig D dev"
  let ?B = "\<lambda>s. ?G s \<and> dir s ROLLBACK = Some orig"
  have B: "core_pred ?B" by (intro core_conj core_keeping) simp
  have finish: "triple ?R (seqx sync_directory (\<lambda>_.
     seqx (collect_id E CANONICAL) (\<lambda>i.
     seqx (if i \<noteq> j_old J then ret True
           else seqx (files_status F CANONICAL) (\<lambda>v. ret (inode_id v \<noteq> j_old_inode J))) (\<lambda>bad.
     raise_if bad (refuse ''rollback restoration failed''))))) (\<lambda>_. ?R) ?S"
    by (rule triple_weaken[OF triple_seqx[OF triple_inv_sync_directory triple_core[OF _ core_keeping]]])
      (intro keeps_intros calls E, auto dest: guarded_safe)
  have replace: "triple ?B (seqx (files_same F CANONICAL canonical) (\<lambda>_.
     seqx (files_replace F ROLLBACK CANONICAL) (\<lambda>_. seqx sync_directory (\<lambda>_.
     seqx (collect_id E CANONICAL) (\<lambda>i.
     seqx (if i \<noteq> j_old J then ret True
           else seqx (files_status F CANONICAL) (\<lambda>v. ret (inode_id v \<noteq> j_old_inode J))) (\<lambda>bad.
     raise_if bad (refuse ''rollback restoration failed''))))))) (\<lambda>_. ?R) ?S"
    by (rule triple_then[OF _ B], rule calls, rule triple_seqx[OF triple_restore_call_of finish]) (auto dest: guarded_safe)
  have "dir s ROLLBACK = Some orig" if "files_same F ROLLBACK info s = (Return x, t)" for s x t
    using that J v by (auto simp: files_same_def returns inode_id_def identity_eq dest!: files_status_dir)
  then show ?thesis
    unfolding restore_rollback_def
    by (intro triple_then[where P = ?G, OF _ core_keeping] calls
        triple_see[where Ob = "\<lambda>_ s. dir s ROLLBACK = Some orig", OF _ core_keeping _ _ replace])
      (auto dest: guarded_safe)
qed

text \<open>What the decision establishes: an old outcome only over the original inode.\<close>

definition decided :: "nat \<Rightarrow> bytes \<Rightarrow> nat \<Rightarrow> phase \<Rightarrow> world \<Rightarrow> bool" where
  "decided orig D dev ph s \<longleftrightarrow> guarded orig D dev s \<and> ph \<in> {RecoveredOld, PendingLive} \<and>
     (ph = RecoveredOld \<longrightarrow> dir s CANONICAL = Some orig)"

lemma core_decided: "core_pred (decided orig D dev ph)"
  unfolding decided_def[abs_def]
  by (intro core_conj core_keeping core_simple(1)[where g = "\<lambda>d. ph = RecoveredOld \<longrightarrow> d CANONICAL = Some orig"]) simp

lemma restored_decided: "restored orig D dev s \<Longrightarrow> decided orig D dev RecoveredOld s"
  using restored_guarded[of orig D dev s] restored_canonical[of orig D dev s] by (simp add: decided_def)

lemma triple_decide:
  assumes E: "keytool_read_only E" and J: "j_old_inode J = (dev, orig)"
    and r: "\<And>info. rollback = Some info \<Longrightarrow> inode_id info = j_old_inode J"
  shows "triple (\<lambda>s. guarded orig D dev s \<and> dir s CANONICAL = Some (st_ino v) \<and> device s = st_dev v)
     (decide_recovery E F J canonical v rollback) (decided orig D dev) (file_safe orig D dev)"
proof -
  let ?P = "\<lambda>s. guarded orig D dev s \<and> dir s CANONICAL = Some (st_ino v) \<and> device s = st_dev v"
  have old: "decided orig D dev RecoveredOld s" if "?P s" "inode_id v = j_old_inode J" for s
    using that J by (simp add: decided_def inode_id_def)
  have "triple ?P (seqx (restore_rollback E F J info v) (\<lambda>_. ret RecoveredOld)) (decided orig D dev) (file_safe orig D dev)"
    if "rollback = Some info" for info
    by (rule triple_seqx[OF triple_pre[OF triple_restore_rollback[OF E J r[OF that]]] triple_ret])
      (simp_all add: restored_decided)
  then show ?thesis
    unfolding decide_recovery_def
    by (auto intro!: triple_if triple_ret triple_throw old simp: decided_def dest: guarded_safe split: option.splits)
qed

lemma inspect_rollback_Return:
  assumes "inspect_rollback E F J v s = (Return rollback, t)" "rollback = Some info"
  shows "inode_id info = j_old_inode J"
proof -
  obtain v2 and s1 s2 s3 :: world where r: "files_status F ROLLBACK s1 = (Return info, s2)" "files_status F ROLLBACK s2 = (Return v2, s3)"
    and "inode_id v2 = j_old_inode J"
    using assms by (auto simp: inspect_rollback_def returns split: if_splits)
  moreover have "inode_id v2 = inode_id info"
    using files_status_dir[OF r(1)] files_status_dir[OF r(2)] quiet_fields[OF quiet_files_status r(1)]
    by (simp add: inode_id_def)
  ultimately show ?thesis by simp
qed

definition recovered :: "nat \<Rightarrow> bytes \<Rightarrow> nat \<Rightarrow> string \<Rightarrow> world \<Rightarrow> bool" where
  "recovered orig D dev outcome s \<longleftrightarrow> file_safe orig D dev s \<and>
     (outcome = ''recovered_old'' \<longrightarrow> dir s CANONICAL = Some orig \<and> no_trace_left s)"

lemma file_pred_recovered: "file_pred (recovered orig D dev x)"
  unfolding file_pred_def
proof (intro allI impI)
  fix s t assume c: "fcore s = fcore t"
  then have "file_safe orig D dev s = file_safe orig D dev t"
    using file_pred_safe[of orig D dev] unfolding file_pred_def by blast
  moreover have "dir s = dir t" "history s = history t" using c by (simp_all add: fcore_def)
  ultimately show "recovered orig D dev x s = recovered orig D dev x t" by (simp add: recovered_def no_trace_left_def)
qed

lemma recovered_way_back:
  assumes "recovered orig D dev x s"
  shows "(\<forall>d\<in>set (history s). way_back orig D s d) \<and>
    (x = ''recovered_old'' \<longrightarrow> dir s CANONICAL = Some orig \<and> i_data (inodes s orig) = D \<and> no_trace_left s)"
proof -
  have "file_safe orig D dev s" using assms by (simp add: recovered_def)
  then have "i_data (inodes s orig) = D" "\<forall>d\<in>set (history s). way_back orig D s d"
    using file_safe_way_back[of orig D dev s] by (simp_all add: file_safe_def store_def)
  with assms show ?thesis by (simp add: recovered_def)
qed

lemma decided_safe: "decided orig D dev ph s \<Longrightarrow> file_safe orig D dev s"
  by (auto simp: decided_def dest: guarded_safe)

text \<open>After the decision: the service is restored, the outcome is journalled, an old outcome is cleaned up.\<close>

lemma triple_conclude_recovery:
  assumes E: "keytool_read_only E"
  shows "triple (decided orig D dev outcome) (conclude_recovery E startup F J outcome) (recovered orig D dev) (file_safe orig D dev)"
proof -
  let ?D = "decided orig D dev outcome" and ?S = "file_safe orig D dev"
  have phase: "triple ?D (enter_phase outcome (\<lambda>J. J)) (\<lambda>_. ?D) ?S"
  proof -
    have "triple (\<lambda>s. guarded orig D dev s \<and> (outcome \<in> {RecoveredOld, PendingLive} \<and> (outcome = RecoveredOld \<longrightarrow> dir s CANONICAL = Some orig)))
        (enter_phase outcome (\<lambda>J. J))
        (\<lambda>_ s. guarded orig D dev s \<and> (outcome \<in> {RecoveredOld, PendingLive} \<and> (outcome = RecoveredOld \<longrightarrow> dir s CANONICAL = Some orig)))
        (guarded orig D dev)"
      by (rule triple_frame[OF triple_inv_phase, where f = "\<lambda>s. dir s CANONICAL"])
        (auto intro: keeps_dir_enter_phase)
    then show ?thesis by (rule triple_weaken) (auto simp: decided_def dest: guarded_safe)
  qed
  have done_: "triple ?D (seqx (if outcome = RecoveredOld then clean_up F else ret ()) (\<lambda>_. ret (phase_name outcome)))
      (recovered orig D dev) ?S"
  proof (cases "outcome = RecoveredOld")
    case True
    have "triple ?D (clean_up F) (\<lambda>_. recovered orig D dev ''recovered_old'') ?S"
      by (rule triple_weaken[OF triple_clean_up])
        (auto simp: decided_def True keeping_def recovered_def)
    then show ?thesis unfolding True by (auto intro!: triple_seqx triple_ret)
  next
    case False
    then show ?thesis
      by (auto intro!: triple_seqx[where R = "\<lambda>_. ?D"] triple_ret simp: recovered_def decided_def dest: guarded_safe)
  qed
  show ?thesis
    unfolding conclude_recovery_def
    by (intro triple_then[OF _ core_decided] calls E decided_safe triple_seqx[OF phase done_])
qed

lemma triple_recover_transaction:
  assumes E: "keytool_read_only E" and J: "j_old_inode J = (dev, orig)"
  shows "triple (guarded orig D dev) (recover_transaction E startup F J) (recovered orig D dev) (file_safe orig D dev)"
proof -
  let ?G = "guarded orig D dev" and ?S = "file_safe orig D dev"
  let ?P = "\<lambda>v s. ?G s \<and> dir s CANONICAL = Some (st_ino v) \<and> device s = st_dev v"
  have P: "core_pred (?P v)" for v
    by (intro core_conj core_keeping) (auto simp: core_pred_def core_def)
  have S: "\<And>s. ?G s \<Longrightarrow> ?S s" by (rule guarded_safe)
  note decide = triple_seqx[OF triple_decide[OF E J] triple_conclude_recovery[OF E]]
  let ?decide = "\<lambda>v canonical rollback. seqx (decide_recovery E F J canonical v rollback) (conclude_recovery E startup F J)"
  have looked: "triple (?P v) (seqx (inspect_rollback E F J v) (?decide v canonical)) (recovered orig D dev) ?S" for v canonical
  proof (rule triple_see[where Ob = "\<lambda>rollback s. \<forall>info. rollback = Some info \<longrightarrow> inode_id info = j_old_inode J", OF keeps_inspect_rollback[OF E] P])
    fix rollback
    show "triple (\<lambda>s. ?P v s \<and> (\<forall>info. rollback = Some info \<longrightarrow> inode_id info = j_old_inode J))
      (?decide v canonical rollback) (recovered orig D dev) ?S"
      by (rule triple_pre_fact, rule decide) simp
  qed (auto dest: inspect_rollback_Return S)
  let ?look = "\<lambda>v. seqx (handle (seqx (collect_id E CANONICAL) (\<lambda>i. ret (Some i)))
        (\<lambda>e. if is_Exception e then ret None else throw e)) (\<lambda>canonical.
     seqx (files_same F CANONICAL v) (\<lambda>_. seqx (inspect_rollback E F J v) (?decide v canonical)))"
  have status: "triple ?G (seqx (files_status F CANONICAL) ?look) (recovered orig D dev) ?S"
  proof (rule triple_see[where Ob = "\<lambda>v s. dir s CANONICAL = Some (st_ino v) \<and> device s = st_dev v", OF keeps_look(1) core_keeping])
    show "core_pred (\<lambda>s. dir s CANONICAL = Some (st_ino v) \<and> device s = st_dev v)" for v
      by (auto simp: core_pred_def core_def)
    show "triple (?P v) (?look v) (recovered orig D dev) ?S" for v
      by (intro triple_then[OF _ P] keeps_intros calls E looked) (auto dest: S)
  qed (auto dest: files_status_dir S)
  show ?thesis
    unfolding recover_transaction_def
    by (intro triple_then[where P = ?G, OF _ core_keeping] calls status S)
qed

lemma keeps_load: "keeps (\<lambda>s. (fcore s, w_lock s)) (load_journal F)"
proof -
  have "keeps core (read_journal F)" by (rule calls)
  then have "keeps (\<lambda>s. (fcore s, w_lock s)) (read_journal F)" by (auto simp: keeps_def core_def fcore_def)
  then show ?thesis
    unfolding load_journal_def by (intro keeps_intros keeps_modify) (simp_all add: fcore_def)
qed

lemma triple_load:
  assumes "j_old_inode J = (dev, orig)"
  shows "triple (\<lambda>s. keeping orig D dev (\<lambda>c j l. (c = Some orig \<or> j_commit_possible J) \<and> l \<noteq> None) s \<and> journal_found J s)
    (load_journal F) (\<lambda>_ s. guarded orig D dev s \<and> w_journal s = Some J) (file_safe orig D dev)"
proof (rule tripleI)
  fix s
  assume s: "keeping orig D dev (\<lambda>c j l. (c = Some orig \<or> j_commit_possible J) \<and> l \<noteq> None) s \<and> journal_found J s"
  obtain r t where r: "load_journal F s = (r, t)" by (cases "load_journal F s")
  have v: "fcore t = fcore s" "w_lock t = w_lock s" using keepsD[OF keeps_load r] by simp_all
  then have safe: "file_safe orig D dev t"
    using s file_pred_safe[of orig D dev] unfolding file_pred_def keeping_def by blast
  have "guarded orig D dev t" if "w_journal t = Some J"
    using that v s safe assms by (auto simp: keeping_def in_transaction_def fcore_def)
  then show "after (\<lambda>_ s. guarded orig D dev s \<and> w_journal s = Some J) (file_safe orig D dev) (load_journal F s)"
    using r s safe load_journal_Return[of F s t J] by (cases r) auto
qed

lemma recover_loaded:
  assumes E: "keytool_read_only E" and J: "j_old_inode J = (dev, orig)" "j_phase J \<noteq> LiveVerified"
  shows "triple (\<lambda>s. guarded orig D dev s \<and> w_journal s = Some J)
     (seqx (require_current_policy P) (\<lambda>_.
       seqx the_journal (\<lambda>J.
       if j_phase J = LiveVerified then
         seqx (establish_live_verified_durability F) (\<lambda>_.
         seqx (validate_live_verified_files E F True) (\<lambda>_.
         seqx (finish_live_verified F) (\<lambda>_.
         ret ''renewal_finalized'')))
       else recover_transaction E startup F J))) (recovered orig D dev) (file_safe orig D dev)"
proof -
  let ?P = "\<lambda>s. guarded orig D dev s \<and> w_journal s = Some J"
  have P: "core_pred ?P" by (intro core_conj core_keeping) simp
  have S: "\<And>s. ?P s \<Longrightarrow> file_safe orig D dev s" using guarded_safe by blast
  have "triple ?P (recover_transaction E startup F J) (recovered orig D dev) (file_safe orig D dev)"
    by (rule triple_pre[OF triple_recover_transaction[OF E J(1)]]) simp
  then have "triple (\<lambda>s. ?P s \<and> K = J) (if j_phase K = LiveVerified then
         seqx (establish_live_verified_durability F) (\<lambda>_.
         seqx (validate_live_verified_files E F True) (\<lambda>_.
         seqx (finish_live_verified F) (\<lambda>_.
         ret ''renewal_finalized'')))
       else recover_transaction E startup F K) (recovered orig D dev) (file_safe orig D dev)" for K
    using J(2) by (intro triple_pre_fact) simp
  then show ?thesis
    by (intro triple_then[OF keeps_require_policy P] triple_see[where Ob = "\<lambda>K s. K = J", OF keeps_the_journal P])
      (auto simp: the_journal_Return S)
qed

section \<open>Recovery\<close>

lemma triple_recover:
  assumes E: "keytool_read_only E" and J: "j_old_inode J = (dev, orig)" "j_phase J \<noteq> LiveVerified"
  shows "triple (\<lambda>s. keeping orig D dev (\<lambda>c j l. c = Some orig \<or> j_commit_possible J) s \<and> journal_found J s)
    (recover E P startup) (recovered orig D dev) (file_safe orig D dev)"
proof -
  let ?X = "\<lambda>c j l. c = Some orig \<or> j_commit_possible J"
  let ?K = "\<lambda>s. keeping orig D dev ?X s \<and> journal_found J s"
  let ?L = "\<lambda>s. keeping orig D dev (\<lambda>c j l. ?X c j l \<and> l \<noteq> None) s \<and> journal_found J s"
  let ?S = "file_safe orig D dev" and ?Q = "recovered orig D dev"
  have L: "core_pred ?L" and K: "core_pred ?K" by (intro core_conj core_keeping core_journal_found)+
  have S: "\<And>s. ?L s \<Longrightarrow> ?S s" using guarded_safe by blast
  have acq: "triple ?K (acquire E) (\<lambda>_. ?L) ?K"
    by (rule triple_conj[OF triple_acquire triple_found_acquire]) simp
  have none: "triple ?L (seqx no_transaction (\<lambda>_. seqx sync_directory (\<lambda>_. ret ''no_active_transaction''))) ?Q ?S"
    by (rule triple_then[OF keeps_no_transaction L triple_weaken[OF triple_seqx[OF triple_inv_sync_directory triple_ret]]])
      (auto simp: recovered_def dest: guarded_safe)
  have loaded: "triple ?L (seqx (load_journal F) g) ?Q ?S"
    if "\<And>x. triple (\<lambda>s. guarded orig D dev s \<and> w_journal s = Some J) (g x) ?Q ?S" for F g
    by (rule triple_seqx[OF triple_load[OF J(1)] that])
  have fq: "file_pred (?Q x)" for x
    by (rule file_pred_recovered)
  show ?thesis
    unfolding recover_def
  proof (rule triple_locked_from[OF K acq fq file_pred_safe])
    show "triple ?L (with_files (\<lambda>F. seqx (files_exists F JOURNAL) (\<lambda>there.
       if \<not> there then seqx no_transaction (\<lambda>_. seqx sync_directory (\<lambda>_. ret ''no_active_transaction''))
       else seqx (load_journal F) (\<lambda>_. seqx (require_current_policy P) (\<lambda>_. seqx the_journal (\<lambda>J.
         if j_phase J = LiveVerified then seqx (establish_live_verified_durability F) (\<lambda>_.
           seqx (validate_live_verified_files E F True) (\<lambda>_. seqx (finish_live_verified F) (\<lambda>_. ret ''renewal_finalized'')))
         else recover_transaction E startup F J)))))) ?Q ?S"
      by (intro triple_with_files[OF L] triple_then[OF keeps_look(2) L] triple_if none loaded recover_loaded[OF E J] S)
  qed (auto simp: recovered_def dest: guarded_safe)
qed


end
