(* ===== verification/Scenario.thy ===== *)
theory Scenario
  imports Recovery
begin

text \<open>
  A concrete deployment on which the hypotheses of the properties are shown to hold: a small public key
  library with one certification authority, the key store before and after a renewal, a host with a
  stopped service, and the world the executor starts from.
\<close>

section \<open>Certificates\<close>

definition pem_of :: "string \<Rightarrow> bytes" where
  "pem_of body = PEM_BEGIN @ [CHR 0x0A] @ body @ [CHR 0x0A] @ PEM_END @ [CHR 0x0A]"

definition demo_certificate :: "string \<Rightarrow> string \<Rightarrow> string \<Rightarrow> instant \<Rightarrow> instant \<Rightarrow> extension list \<Rightarrow> x509_cert" where
  "demo_certificate der subj key nb na es = \<lparr> c_der = der, c_pem = pem_of der, c_public_key = Inr (RSAPublicKey 2048 key),
     c_subject = subj, c_issuer = ''CN=ca'', c_serial_number = length der, c_not_valid_before = nb, c_not_valid_after = na,
     c_signature_algorithm_oid = ''1.2.840.113549.1.1.12'', c_signature_hash = Inr (Some ''sha384''), c_extensions = Inr es \<rparr>"

definition demo_now :: instant where "demo_now = days 700"

definition server_usage :: key_usage where
  "server_usage = \<lparr> digital_signature = True, content_commitment = False, key_encipherment = True, data_encipherment = False,
     key_agreement = False, key_cert_sign = False, crl_sign = False \<rparr>"

definition leaf_extensions :: "extension list" where
  "leaf_extensions = [SubjectAlternativeName [DNSName ''u.lan''], BasicConstraints False, KeyUsage server_usage,
     ExtendedKeyUsage [''1.3.6.1.5.5.7.3.1'']]"

definition ca_certificate :: x509_cert where
  "ca_certificate = demo_certificate ''ca'' ''CN=ca'' ''cafe'' 0 (days 4000) [BasicConstraints True]"

definition old_certificate :: x509_cert where
  "old_certificate = demo_certificate ''01d'' ''CN=u.lan'' ''bee'' (days 620) (days 710) leaf_extensions"

definition new_certificate :: x509_cert where
  "new_certificate = demo_certificate ''fee1'' ''CN=u.lan'' ''bee'' demo_now (demo_now + days 90) leaf_extensions"

definition demo_request :: x509_csr where
  "demo_request = \<lparr> q_signature_valid = Inr True, q_public_key = Inr (RSAPublicKey 2048 ''bee''), q_subject = ''CN=u.lan'',
     q_signature_algorithm_oid = ''1.2.840.113549.1.1.12'', q_signature_hash = Inr (Some ''sha384''),
     q_extensions = Inr [SubjectAlternativeName [DNSName ''u.lan'']] \<rparr>"

definition known_certificate :: "string \<Rightarrow> py_exc + x509_cert" where
  "known_certificate der = (if der = ''ca'' then Inr ca_certificate else if der = ''01d'' then Inr old_certificate
     else if der = ''fee1'' then Inr new_certificate else Inl ValueError)"

definition pem_payload :: "bytes \<Rightarrow> string" where
  "pem_payload p = (case splitlines p of _ # b # _ \<Rightarrow> b | _ \<Rightarrow> [])"

definition csr_text :: bytes where
  "csr_text = ''-----BEGIN CERTIFICATE REQUEST-----'' @ [CHR 0x0A] @ ''REQ'' @ [CHR 0x0A] @ ''-----END CERTIFICATE REQUEST-----'' @ [CHR 0x0A]"

text \<open>A stand-in for the digest with its documented form: 64 lower-case hexadecimal digits.\<close>

definition demo_digest :: "bytes \<Rightarrow> string" where
  "demo_digest d = take 64 (map (\<lambda>c. if is_lhex c then c else CHR ''0'') d @ replicate 64 CHR ''0'')"

definition demo_lib :: x509_lib where
  "demo_lib = \<lparr> load_der = known_certificate, load_pem = \<lambda>p. known_certificate (pem_payload p),
     load_pems = \<lambda>p. bindE (known_certificate (pem_payload p)) (\<lambda>c. Inr [c]),
     load_csr = \<lambda>p. if p = csr_text then Inr demo_request else Inl ValueError,
     directly_issued_by = \<lambda>a b. if c_issuer a = c_subject b then Inr () else Inl InvalidSignature,
     server_verify = \<lambda>cas t name c. if map c_subject cas = [c_issuer c] then Inr () else Inl VerificationError,
     rfc4514_name = Inr, sha256 = demo_digest, unsafe_category = \<lambda>_. False \<rparr>"

section \<open>The deployment\<close>

definition key_fingerprint :: string where "key_fingerprint = demo_digest ''bee''"

definition ca_text :: bytes where "ca_text = pem_of ''ca''"

definition demo_identity :: certificate_policy where
  "demo_identity = \<lparr> expected_spki_sha256 = key_fingerprint, p_subject = ''CN=u.lan'', p_dns_sans = [''u.lan''], p_ip_sans = [] \<rparr>"

definition demo_policy :: renewal_policy where
  "demo_policy = \<lparr> rp_digest = demo_digest ''9'', rp_subject = ''CN=u.lan'', rp_dns_sans = [''u.lan''], rp_ip_sans = [],
     rp_ca_pem = ca_text, rp_lifetime_days = 90, rp_signing_digest = ''sha384'',
     rp_issued_signature_oid = ''1.2.840.113549.1.1.12'', rp_csr_signature_algorithm = ''SHA384withRSA'',
     rp_endpoint = \<lparr> e_address = JStr ''10.0.0.2'', e_server_hostname = JStr ''u.lan'', e_port = JInt 8443 \<rparr>,
     rp_readiness = \<lparr> timeout_seconds = JInt 60, attempt_timeout_seconds = JInt 5, retry_delay_seconds = JInt 1, max_attempts = JInt 3 \<rparr>,
     rp_issuing_ca_description = ''ca'' \<rparr>"

definition listing :: "string list \<Rightarrow> string" where
  "listing ders = ''Keystore type: PKCS12'' @ [CHR 0x0A] @ ''Keystore provider: SUN'' @ [CHR 0x0A] @
     ''Alias name: unifi'' @ [CHR 0x0A] @ ''Entry type: PrivateKeyEntry'' @ [CHR 0x0A] @
     ''Certificate chain length: '' @ show_nat (length ders) @ [CHR 0x0A] @ concat (map pem_of ders)"

definition store_chain :: "bytes \<Rightarrow> string list" where
  "store_chain content = (if content = ''renewed'' then [''fee1'', ''ca''] else [''01d'', ''ca''])"

definition old_state :: public_keystore_state where
  "old_state = \<lparr> keytool_output = ''Keystore type: PKCS12'' @ [CHR 0x0A] @ ''Keystore provider: SUN'' @ [CHR 0x0A] @
     ''Alias name: unifi'' @ [CHR 0x0A] @ ''Entry type: PrivateKeyEntry'' @ [CHR 0x0A] @ ''Certificate chain length: 2'' @ [CHR 0x0A],
     certificate_chain_der = [''01d'', ''ca''] \<rparr>"

definition new_state :: public_keystore_state where
  "new_state = old_state\<lparr> certificate_chain_der := [''fee1'', ''ca''] \<rparr>"

definition import_request :: certificate_import_request where
  "import_request = \<lparr> before = old_state, policy = demo_identity, csr_pem = csr_text, issued_certificate = pem_of ''fee1'',
     trusted_ca_data = ca_text, lifetime_days = 90, expected_signature_hash = ''sha384'',
     expected_signature_oid = ''1.2.840.113549.1.1.12'', freshness_reference_time = Aware demo_now \<rparr>"

definition prints :: "bytes \<Rightarrow> child" where
  "prints b = \<lparr> rounds = [[Stdout b], [Stdout [], Stderr []]], exit_status = Some 0 \<rparr>"

definition takes_reply :: child where
  "takes_reply = \<lparr> rounds = [[StdinTakes 4096], [Stdout [], Stderr []]], exit_status = Some 0 \<rparr>"

definition demo_keytool :: "nat \<Rightarrow> string list \<Rightarrow> bytes \<Rightarrow> string \<Rightarrow> bytes option \<Rightarrow> child \<times> keytool_effect" where
  "demo_keytool n argv data password content =
     (if ''-importcert'' \<in> set argv then (takes_reply, Rewritten ''renewed'')
      else if ''-certreq'' \<in> set argv then (prints csr_text, Untouched)
      else (prints (listing (store_chain (case content of None \<Rightarrow> [] | Some c \<Rightarrow> c))), Untouched))"

definition demo_net :: net_env where
  "demo_net = \<lparr> monotonic = \<lambda>n. 0, tcp_connect = \<lambda>_ _ _. Inr (), handshake = \<lambda>_ _ _. Inr ''fee1'' \<rparr>"

definition verifying_context :: tls_context where
  "verifying_context = \<lparr> ctx_ca = None, ctx_check_hostname = True, ctx_cert_required = True, ctx_tls12_floor = False \<rparr>"

definition demo_ssl :: ssl_lib where
  "demo_ssl = \<lparr> default_context = Inr verifying_context, client_context = verifying_context, load_verify_locations = \<lambda>_. Inr () \<rparr>"

definition demo_env :: exec_env where
  "demo_env = \<lparr> x_lib = demo_lib, x_proc = quiet_host, x_secure = secret_host, x_ssl = demo_ssl, x_net = demo_net,
     x_wall = \<lambda>_. demo_now, x_euid = 0, x_abc = Some (1000, 1000), x_pid = 42, x_dirfd = 5,
     x_uuid = \<lambda>_. replicate 32 CHR ''7'', x_lock_free = \<lambda>_. True, x_keytool = demo_keytool \<rparr>"

definition directory_stat :: stat_result where
  "directory_stat = \<lparr> st_dev = 1, st_ino = 10, st_size = 0, st_mode = 0x41C0, st_uid = 1000, st_gid = 1000, st_mtime_ns = 0,
     st_ctime_ns = 0, st_nlink = 2 \<rparr>"

definition keystore_inode :: inode where
  "keystore_inode = \<lparr> i_mode = 0x8180, i_uid = 1000, i_gid = 1000, i_data = ''original'', i_mtime = 0, i_ctime = 0, i_outer = 0 \<rparr>"

definition demo_directory :: directory where
  "demo_directory = (\<lambda>n. if n = CANONICAL then Some 20 else None)"

definition demo_world :: "(nat \<Rightarrow> verdict) \<Rightarrow> world" where
  "demo_world schedule = \<lparr> step = 0, sched = schedule, trace = [], device = 1, path_stats = [directory_stat], root_stat = directory_stat,
     fd_stat = directory_stat, fdinfo = ''mnt_id: 5'', mountinfo = ''5 1 8:1 / / rw - ext4 /dev/a rw'', dir = demo_directory,
     inodes = (\<lambda>_. keystore_inode), next_ino = 21, ticks = 1, history = [demo_directory], unsynced = (\<lambda>_. False), chunk = (\<lambda>_ n. n),
     w_files = None, w_lock = None, w_owner = None, w_thread = 1, w_journal = None, w_service = False, w_expect_stopped = False,
     w_local_files = False, w_local_lock = False, w_stage = [], w_descriptors = [],
     w_socket = \<lparr> sl_lock = False, sl_listener = False, sl_identity = None \<rparr> \<rparr>"

section \<open>The hypotheses hold\<close>

lemma demo_keytool_reads: "keytool_read_only demo_env"
  by (simp add: keytool_read_only_def demo_env_def demo_keytool_def)

lemma demo_idle: "idle 20 ''original'' (device (demo_world f)) (demo_world f)"
  by (auto simp: keeping_def file_safe_def store_def well_placed_def recoverable_def protected_def demo_world_def
      demo_directory_def keystore_inode_def)

text \<open>The process dies in the middle of an installation, after 500 system calls.\<close>

definition interrupted :: "nat \<Rightarrow> verdict" where
  "interrupted n = (if n < 500 then Proceed else Killed)"

theorem installation_witness:
  "keytool_read_only demo_env \<and>
   list_all (way_back 20 ''original'' (snd (client_install_certificate demo_lib (executor_boundary demo_env demo_policy)
       import_request (demo_world interrupted))))
     (history (snd (client_install_certificate demo_lib (executor_boundary demo_env demo_policy) import_request
       (demo_world interrupted))))"
  unfolding list_all_iff
  using demo_keytool_reads installation_is_crash_safe[OF demo_keytool_reads demo_idle surjective_pairing]
  by blast

lemma demo_digest_form: "sha256_hex demo_lib"
  by (auto simp: sha256_hex_def demo_lib_def lhex_string_def demo_digest_def list_all_iff is_lhex_def ordc_def is_digit_def
      dest!: in_set_takeD)

definition demo_command :: "string list" where
  "demo_command = [''/usr/bin/keytool'', ''-certreq'', ''-alias'', ''unifi'', ''-keystore'', ''/config/data/keystore'',
     ''-storepass:env'', ''UNIFI_KEYSTORE_PASSWORD'', ''-keypass:env'', ''UNIFI_KEYSTORE_PASSWORD'',
     ''-dname'', ''CN=u.lan'', ''-ext'', ''SAN=DNS:u.lan'', ''-rfc'', ''-sigalg'', ''SHA384withRSA'']"

theorem csr_command_witness:
  "build_unifi_csr_command demo_lib demo_identity = Inr demo_command \<and>
   (\<exists>addresses. list_all2 (\<lambda>v a. ip_address v = Inr a) (p_ip_sans demo_identity) addresses \<and>
    (\<exists>names. split_char (CHR '','') names =
        map (\<lambda>d. ''DNS:'' @ d) (p_dns_sans demo_identity) @ map (\<lambda>a. ''IP:'' @ show_ip a) addresses \<and>
      demo_command = [''/usr/bin/keytool'', ''-certreq'', ''-alias'', ''unifi'', ''-keystore'', ''/config/data/keystore'',
        ''-storepass:env'', ''UNIFI_KEYSTORE_PASSWORD'', ''-keypass:env'', ''UNIFI_KEYSTORE_PASSWORD'',
        ''-dname'', p_subject demo_identity, ''-ext'', ''SAN='' @ names, ''-rfc'', ''-sigalg'', ''SHA384withRSA'']) \<and>
    distinct (map lower (p_dns_sans demo_identity)) \<and> distinct (map show_ip addresses))"
proof -
  have c: "build_unifi_csr_command demo_lib demo_identity = Inr demo_command" by code_simp
  show ?thesis using c csr_command_names_exactly_the_policy[OF c] by blast
qed

definition new_inspection :: unifi_inspection where
  "new_inspection = \<lparr> i_keystore = \<lparr> keystore_type = ''PKCS12'', provider = ''SUN'' \<rparr>,
     i_alias = \<lparr> alias_name = ''unifi'', entry_type = ''PrivateKeyEntry'', certificate_chain_length = 2 \<rparr>,
     i_certificate = \<lparr> subject = ''CN=u.lan'', issuer = ''CN=ca'', serial_number = ''4'', not_valid_before = demo_now,
       not_valid_after = demo_now + days 90, certificate_sha256 = demo_digest ''fee1'', info_spki_sha256 = key_fingerprint,
       public_key_algorithm = ''RSA'', public_key_size = Some 2048, dns_sans = [''u.lan''], ip_sans = [],
       subject_key_identifier = None, signature_algorithm_oid = ''1.2.840.113549.1.1.12'',
       signature_hash_algorithm = Some ''sha384'' \<rparr> \<rparr>"

theorem verified_import_witness:
  "verify_certificate_import demo_lib demo_now new_state import_request None = Inr new_inspection \<and>
   (\<exists>(leaf :: x509_cert) (ca :: x509_cert). certificate_chain_der new_state = [c_der leaf, c_der ca]) \<and>
   info_spki_sha256 (i_certificate new_inspection) = lower (expected_spki_sha256 (policy import_request)) \<and>
   certificate_chain_length (i_alias new_inspection) = 2"
proof -
  have v: "verify_certificate_import demo_lib demo_now new_state import_request None = Inr new_inspection" by code_simp
  show ?thesis using v verified_import_is_the_issued_chain[OF demo_digest_form v] by blast
qed

definition demo_files :: files where
  "demo_files = \<lparr> f_uid = 1000, f_gid = 1000, f_filesystem = ''ext4'' \<rparr>"

theorem copy_stage_witness:
  "fst (copy_stage demo_files (demo_world (\<lambda>_. Proceed))) = Return () \<and>
   (\<exists>t d. copy_stage demo_files (demo_world (\<lambda>_. Proceed)) = (Return (), t) \<and> d \<noteq> 20 \<and> dir t STAGE = Some d \<and>
      i_data (inodes t d) = ''original'' \<and> dir t CANONICAL = Some 20 \<and> i_data (inodes t 20) = ''original'')"
proof -
  have f: "fst (copy_stage demo_files (demo_world (\<lambda>_. Proceed))) = Return ()" by code_simp
  then obtain t where t: "copy_stage demo_files (demo_world (\<lambda>_. Proceed)) = (Return (), t)"
    by (metis prod.collapse)
  have w: "dir (demo_world f) CANONICAL = Some 20" "20 < next_ino (demo_world f)" "i_data (inodes (demo_world f) 20) = ''original''" for f
    by (simp_all add: demo_world_def demo_directory_def keystore_inode_def)
  show ?thesis using f t copy_stage_copies_the_keystore[OF t w] by blast
qed

definition demo_prepared :: prepared_tls where
  "demo_prepared = \<lparr> pt_endpoint = rp_endpoint demo_policy, pt_readiness = rp_readiness demo_policy,
     pt_context = verifying_context \<rparr>"

theorem tls_attempts_witness:
  "validate_live_tls_configuration (pt_endpoint demo_prepared) (pt_readiness demo_prepared) = Inr () \<and>
   count_list (trace (snd (verify_prepared_live_tls_certificate demo_lib demo_net demo_prepared ''fee1'' calm))) TlsAttempt \<le> 3"
proof -
  have c: "validate_live_tls_configuration (pt_endpoint demo_prepared) (pt_readiness demo_prepared) = Inr ()" by code_simp
  have m: "nat (int_of (max_attempts (pt_readiness demo_prepared))) = 3" "count_list (trace calm) TlsAttempt = 0"
    by (simp_all add: demo_prepared_def demo_policy_def calm_def)
  show ?thesis
    using c tls_attempts_are_bounded[OF c surjective_pairing, of demo_lib demo_net "''fee1''" calm] unfolding m by simp
qed

theorem live_verification_witness:
  "fst (verify_live_tls_certificate demo_lib demo_now demo_ssl secret_host demo_net (rp_endpoint demo_policy)
     (rp_readiness demo_policy) ca_text ''fee1'' calm) = Return (demo_digest ''fee1'') \<and>
   (\<exists>pem (c :: tls_context). validate_installation_ca demo_lib demo_now ca_text None = Inr pem \<and> ctx_ca c = Some pem \<and> ctx_tls12_floor c)"
proof -
  have a: "authenticates demo_net (\<lambda>_ _ leaf. leaf = ''fee1'')" by (simp add: authenticates_def demo_net_def)
  have r: "fst (verify_live_tls_certificate demo_lib demo_now demo_ssl secret_host demo_net (rp_endpoint demo_policy)
     (rp_readiness demo_policy) ca_text ''fee1'' calm) = Return (demo_digest ''fee1'')" by code_simp
  show ?thesis using r live_verification_is_sound[OF a fst_run[OF r]] by blast
qed

definition policy_text :: bytes where
  "policy_text = dumps (JObj [(''schema_version'', JInt 2), (''subject'', JStr ''CN=u.lan''), (''dns_sans'', JArr [JStr ''u.lan'']),
     (''ip_sans'', JArr []), (''issuing_ca_pem'', JStr ca_text), (''issuing_ca_description'', JStr ''ca''), (''lifetime_days'', JInt 90),
     (''signing_digest'', JStr ''sha384''), (''issued_signature_oid'', JStr ''1.2.840.113549.1.1.12''),
     (''csr_signature_algorithm'', JStr ''SHA384withRSA''),
     (''live_tls'', JObj [(''address'', JStr ''10.0.0.2''), (''server_hostname'', JStr ''u.lan''), (''port'', JInt 8443),
        (''timeout_seconds'', JInt 60), (''attempt_timeout_seconds'', JInt 5), (''retry_delay_seconds'', JInt 1), (''max_attempts'', JInt 3)])])"


section \<open>A crash after the commit\<close>

definition crash_journal :: journal where
  "crash_journal = \<lparr> j_policy_digest = demo_digest ''9'', j_transaction = replicate 32 CHR ''7'', j_phase = Committed, j_resume = False,
     j_old = \<lparr> spki = key_fingerprint, chain = [demo_digest ''01d'', demo_digest ''ca''] \<rparr>,
     j_issued = Some \<lparr> spki = key_fingerprint, chain = [demo_digest ''fee1'', demo_digest ''ca''] \<rparr>,
     j_old_inode = (1, 20), j_stage_inode = Some (1, 21), j_rollback_expected = True, j_commit_possible = True \<rparr>"

definition crash_directory :: directory where
  "crash_directory = [CANONICAL \<mapsto> 21, ROLLBACK \<mapsto> 20, JOURNAL \<mapsto> 22]"

definition crash_world :: "(nat \<Rightarrow> verdict) \<Rightarrow> world" where
  "crash_world schedule = (demo_world schedule)\<lparr> dir := crash_directory, history := [crash_directory], next_ino := 23,
     inodes := (\<lambda>_. keystore_inode)(21 := keystore_inode\<lparr> i_data := ''renewed'' \<rparr>,
       22 := keystore_inode\<lparr> i_uid := 0, i_gid := 0, i_data := dumps (journal_value crash_journal) \<rparr>) \<rparr>"

lemma crash_journal_ok: "journal_ok crash_journal" "journal_writable crash_journal"
  by code_simp+

lemma crash_journal_text: "journal_text crash_journal (dumps (journal_value crash_journal))"
proof -
  have "decode_utf8 (dumps (journal_value crash_journal)) = Inr (dumps (journal_value crash_journal))" by code_simp
  with journal.read_back[OF crash_journal_ok] show ?thesis
    unfolding journal_text_def loads_bytes_def by auto
qed

lemma crash_found: "journal_found crash_journal (crash_world f)"
  using crash_journal_text by (simp add: journal_found_def crash_world_def crash_directory_def)

lemma crash_keeps:
  "keeping 20 ''original'' (device (crash_world f)) (\<lambda>c j l. c = Some 20 \<or> j_commit_possible crash_journal) (crash_world f)"
proof -
  have "rescue 1 20 (dumps (journal_value crash_journal))"
    using crash_journal_ok unfolding rescue_def by (intro exI[of _ crash_journal]) (simp add: crash_journal_def)
  then show ?thesis
    by (auto simp: keeping_def file_safe_def store_def well_placed_def recoverable_def journalled_def protected_def crash_world_def
        demo_world_def crash_directory_def keystore_inode_def crash_journal_def split: if_splits)
qed


end
