(* ===== verification/Normalization.thy ===== *)
theory Normalization
  imports Executor
begin

text \<open>
  The normalisation of the executor's files after the container has changed their owner, and the recovery at
  start-up (\<open>secure_after_linuxserver_init\<close>, \<open>recover_startup\<close> and their helpers in
  \<open>unifi_executor_service.py\<close>). The directory \<open>/config/data\<close> is the one of \<open>fsys\<close>. The dictionary of
  descriptors that the \<open>finally\<close> clause closes is \<open>w_descriptors\<close>.
\<close>

section \<open>Files that may be normalised\<close>

definition admin_entry :: "string \<Rightarrow> nat \<Rightarrow> nat \<Rightarrow> nat \<Rightarrow> (world, stat_result) exec" where
  "admin_entry name fd uid gid =
     seqx (os_stat name) (\<lambda>v.
     seqx (os_fstat fd) (\<lambda>opened.
     seqx (raise_if (\<not> S_ISREG (st_mode v) \<or> S_IMODE (st_mode v) \<noteq> 0x180 \<or>
         (st_uid v, st_gid v) \<notin> {(0, 0), (uid, gid)}) (refuse ''unsafe executor administration state'')) (\<lambda>_.
     seqx os_fstat_dir (\<lambda>d.
     seqx (raise_if (st_dev v \<noteq> st_dev d \<or> st_size v > (if name = LOCK then 0 else MAX_JOURNAL) \<or> st_nlink v \<noteq> 1 \<or>
         inode_id opened \<noteq> inode_id v) (refuse ''unsafe executor administration state'')) (\<lambda>_.
     ret v)))))"

definition stat_if_there :: "string \<Rightarrow> (world, stat_result option) exec" where
  "stat_if_there name = handle (seqx (os_stat name) (\<lambda>v. ret (Some v)))
     (\<lambda>e. if e = FileNotFoundError then ret None else throw e)"

definition transaction_entry :: "string \<Rightarrow> nat \<Rightarrow> nat \<Rightarrow> (world, stat_result option) exec" where
  "transaction_entry name uid gid =
     seqx (stat_if_there name) (\<lambda>found. case found of
       None \<Rightarrow> ret None
     | Some v \<Rightarrow>
       seqx (raise_if (\<not> S_ISREG (st_mode v) \<or> S_IMODE (st_mode v) \<noteq> 0x180 \<or> (st_uid v, st_gid v) \<noteq> (uid, gid))
         (refuse ''unsafe transaction state during normalization'')) (\<lambda>_.
       seqx os_fstat_dir (\<lambda>d.
       seqx (raise_if (st_dev v \<noteq> st_dev d \<or> st_size v > MAX_STORE \<or>
           st_nlink v \<notin> (if name \<in> {CANONICAL, ROLLBACK} then {1, 2} else {1}))
         (refuse ''unsafe transaction state during normalization'')) (\<lambda>_.
       ret (Some v)))))"

definition path_exists :: "string \<Rightarrow> (world, bool) exec" where
  "path_exists name = seqx (stat_if_there name) (\<lambda>v. ret (v \<noteq> None))"

section \<open>The mode of a fresh key store\<close>

definition fresh_canonical_unsafe :: "nat \<Rightarrow> nat \<Rightarrow> nat \<Rightarrow> stat_result \<Rightarrow> stat_result \<Rightarrow> bool" where
  "fresh_canonical_unsafe root_device uid gid v opened \<longleftrightarrow>
     \<not> S_ISREG (st_mode v) \<or> \<not> S_ISREG (st_mode opened) \<or> S_IMODE (st_mode v) \<notin> {0x180, 0x1A4} \<or>
     S_IMODE (st_mode opened) \<noteq> S_IMODE (st_mode v) \<or> (st_uid v, st_gid v) \<noteq> (uid, gid) \<or>
     (st_uid opened, st_gid opened) \<noteq> (uid, gid) \<or> st_dev v \<noteq> root_device \<or> st_dev opened \<noteq> root_device \<or>
     st_size v > MAX_STORE \<or> st_size opened \<noteq> st_size v \<or> st_nlink v \<noteq> 1 \<or> st_nlink opened \<noteq> 1 \<or>
     inode_id opened \<noteq> inode_id v"

definition normalized_unsafe :: "nat \<Rightarrow> nat \<Rightarrow> nat \<Rightarrow> stat_result \<Rightarrow> stat_result \<Rightarrow> stat_result \<Rightarrow> bool" where
  "normalized_unsafe root_device uid gid v current normalized \<longleftrightarrow>
     \<not> S_ISREG (st_mode current) \<or> \<not> S_ISREG (st_mode normalized) \<or> S_IMODE (st_mode current) \<noteq> 0x180 \<or>
     S_IMODE (st_mode normalized) \<noteq> 0x180 \<or> (st_uid current, st_gid current) \<noteq> (uid, gid) \<or>
     (st_uid normalized, st_gid normalized) \<noteq> (uid, gid) \<or> st_dev current \<noteq> root_device \<or>
     st_dev normalized \<noteq> root_device \<or> st_size current > MAX_STORE \<or> st_size normalized \<noteq> st_size current \<or>
     st_nlink current \<noteq> 1 \<or> st_nlink normalized \<noteq> 1 \<or> inode_id current \<noteq> inode_id v \<or>
     inode_id normalized \<noteq> inode_id v"

definition normalize_opened_canonical :: "nat \<Rightarrow> nat \<Rightarrow> stat_result \<Rightarrow> nat \<Rightarrow> (world, unit) exec" where
  "normalize_opened_canonical uid gid v fd =
     seqx (os_fstat fd) (\<lambda>opened.
     seqx os_fstat_dir (\<lambda>root.
     seqx (raise_if (fresh_canonical_unsafe (st_dev root) uid gid v opened) (refuse ''unsafe fresh canonical keystore'')) (\<lambda>_.
     if S_IMODE (st_mode v) = 0x180 then ret ()
     else
     seqx (os_fchmod fd 0x180) (\<lambda>_.
     seqx (os_fsync_file fd) (\<lambda>_.
     seqx (os_stat CANONICAL) (\<lambda>current.
     seqx (os_fstat fd) (\<lambda>normalized.
     raise_if (normalized_unsafe (st_dev root) uid gid v current normalized)
       (refuse ''canonical keystore changed during normalization''))))))))"

definition normalize_clean_canonical :: "nat \<Rightarrow> nat \<Rightarrow> (world, unit) exec" where
  "normalize_clean_canonical uid gid =
     seqx (stat_if_there CANONICAL) (\<lambda>found. case found of
       None \<Rightarrow> ret ()
     | Some v \<Rightarrow>
       seqx (os_open_read CANONICAL) (\<lambda>fd.
       finally_do (normalize_opened_canonical uid gid v fd) (os_close fd)))"

section \<open>The transaction that a journal describes\<close>

type_synonym progress = "bool \<times> bool \<times> bool \<times> bool"

definition progress_of :: "journal \<Rightarrow> progress" where
  "progress_of J = (j_issued J \<noteq> None, j_stage_inode J \<noteq> None, j_rollback_expected J, j_commit_possible J)"

definition progress_initial :: progress where "progress_initial = (False, False, False, False)"
definition progress_staging :: progress where "progress_staging = (True, False, False, False)"
definition progress_staged :: progress where "progress_staged = (True, True, False, False)"
definition progress_rollback :: progress where "progress_rollback = (True, True, True, False)"
definition progress_committable :: progress where "progress_committable = (True, True, True, True)"

definition all_progress :: "progress list" where
  "all_progress = [progress_initial, progress_staging, progress_staged, progress_rollback, progress_committable]"

fun allowed_progress :: "phase \<Rightarrow> progress list" where
  "allowed_progress Quiescing = [progress_initial]"
| "allowed_progress Quiesced = [progress_initial]"
| "allowed_progress Staging = [progress_staging, progress_staged]"
| "allowed_progress StagedValidated = [progress_staged]"
| "allowed_progress RollbackDurable = [progress_rollback]"
| "allowed_progress CommitPossible = [progress_committable]"
| "allowed_progress Committed = [progress_committable]"
| "allowed_progress CanonicalVerified = [progress_committable]"
| "allowed_progress PendingLive = [progress_committable]"
| "allowed_progress LiveVerified = [progress_committable]"
| "allowed_progress RecoveryRequired = all_progress"
| "allowed_progress RecoveredOld = all_progress"

definition committed_phases :: "phase list" where
  "committed_phases = [Committed, CanonicalVerified, PendingLive, LiveVerified]"

definition JOURNAL_NEW_PHASES :: "phase list" where
  "JOURNAL_NEW_PHASES = [Quiescing, Quiesced, Staging, StagedValidated, RollbackDurable, CommitPossible, Committed,
     CanonicalVerified, PendingLive, RecoveryRequired, RecoveredOld]"

definition allowed_canonical :: "journal \<Rightarrow> (nat \<times> nat) option list" where
  "allowed_canonical J =
     (if j_phase J \<in> set committed_phases then [j_stage_inode J]
      else if j_phase J = CommitPossible \<or> j_phase J = RecoveryRequired \<and> progress_of J = progress_committable
      then [Some (j_old_inode J), j_stage_inode J]
      else [Some (j_old_inode J)])"

definition stage_required :: "journal \<Rightarrow> nat \<times> nat \<Rightarrow> bool" where
  "stage_required J canonical \<longleftrightarrow> progress_of J \<in> {progress_staged, progress_rollback} \<or>
     progress_of J = progress_committable \<and> canonical = j_old_inode J"

definition rollback_required :: "journal \<Rightarrow> bool" where
  "rollback_required J \<longleftrightarrow> j_phase J \<in> {RollbackDurable, CommitPossible, Committed, CanonicalVerified, PendingLive} \<or>
     j_phase J = RecoveryRequired \<and> progress_of J \<in> {progress_rollback, progress_committable}"

text \<open>The checks on what the three names are, in the order of the source.\<close>

definition check_entries ::
  "journal \<Rightarrow> nat \<times> nat \<Rightarrow> stat_result option \<Rightarrow> stat_result option \<Rightarrow> bool \<Rightarrow> py_exc + unit" where
  "check_entries J canonical rollback stage temporary =
     (if j_phase J \<notin> {RecoveredOld, RecoveryRequired} \<and> progress_of J = progress_initial \<and> (stage \<noteq> None \<or> rollback \<noteq> None)
      then unifi_error ''unexpected early transaction artifacts''
      else if j_phase J \<notin> {RecoveredOld, RecoveryRequired} \<and> progress_of J = progress_staging \<and> rollback \<noteq> None
      then unifi_error ''unexpected staging rollback''
      else if j_phase J \<in> set committed_phases \<and> stage \<noteq> None
      then unifi_error ''unexpected committed stage''
      else if j_phase J \<noteq> RecoveredOld \<and> progress_of J \<noteq> progress_staging \<and> stage_required J canonical \<noteq> (stage \<noteq> None)
      then unifi_error ''inconsistent transaction stage''
      else if rollback_required J \<and> rollback = None
      then unifi_error ''required transaction rollback missing''
      else if rollback \<noteq> None \<and> progress_of J \<in> {progress_initial, progress_staging} \<and> j_phase J \<noteq> RecoveredOld
      then unifi_error ''unexpected transaction rollback''
      else if temporary \<and> j_phase J \<notin> set JOURNAL_NEW_PHASES
      then unifi_error ''unexpected phase temporary journal''
      else Inr ())"

definition validate_normalization_transaction :: "json \<Rightarrow> nat \<Rightarrow> nat \<Rightarrow> bool \<Rightarrow> (world, unit) exec" where
  "validate_normalization_transaction v uid gid temporary =
     seqx (liftE (validate_journal v)) (\<lambda>v. let J = journal_of v in
     seqx (raise_if (progress_of J \<notin> set (allowed_progress (j_phase J)))
       (refuse ''unreachable transaction phase during normalization'')) (\<lambda>_.
     seqx (transaction_entry CANONICAL uid gid) (\<lambda>found. case found of
       None \<Rightarrow> throw (refuse ''canonical keystore missing during normalization'')
     | Some canonical \<Rightarrow>
       seqx (raise_if (Some (inode_id canonical) \<notin> set (allowed_canonical J))
         (refuse ''canonical identity changed during normalization'')) (\<lambda>_.
       seqx (transaction_entry ROLLBACK uid gid) (\<lambda>rollback.
       seqx (raise_if (rollback \<noteq> None \<and> map_option inode_id rollback \<noteq> Some (j_old_inode J))
         (refuse ''rollback identity changed during normalization'')) (\<lambda>_.
       seqx (transaction_entry STAGE uid gid) (\<lambda>stage.
       seqx (raise_if (stage \<noteq> None \<and> j_stage_inode J \<noteq> None \<and> map_option inode_id stage \<noteq> j_stage_inode J)
         (refuse ''stage identity changed during normalization'')) (\<lambda>_.
       liftE (check_entries J (inode_id canonical) rollback stage temporary)))))))))"

section \<open>Normalisation\<close>

definition opened_descriptor :: "nat \<Rightarrow> (world, unit) exec" where
  "opened_descriptor fd = modify (\<lambda>s. s\<lparr> w_descriptors := w_descriptors s @ [fd] \<rparr>)"

definition open_components :: "nat \<Rightarrow> (world, unit) exec" where
  "open_components uid =
     seqx (gets path_stats) (\<lambda>parts.
     forx (\<lambda>info. seqx (syscall (ret ())) (\<lambda>_. seqx (os_close 0) (\<lambda>_. seqx (syscall (ret info)) (\<lambda>info.
       raise_if (st_uid info \<notin> {0, uid} \<or> shared_write (st_mode info))
         (refuse ''unsafe appdata directory after initialization''))))) parts)"

definition TRANSACTION_NAMES :: "string list" where
  "TRANSACTION_NAMES = [JOURNAL, JOURNAL_NEW, STAGE, ROLLBACK]"

definition open_lock :: "(world, nat) exec" where
  "open_lock =
     seqx (path_exists LOCK) (\<lambda>there.
     if \<not> there then
       seqx (anyx path_exists TRANSACTION_NAMES) (\<lambda>found.
       seqx (raise_if found (refuse ''transaction state exists without lock'')) (\<lambda>_.
       seqx (os_open_create LOCK) (\<lambda>fd.
       seqx (opened_descriptor fd) (\<lambda>_.
       seqx (os_fchmod fd 0x180) (\<lambda>_. ret fd)))))
     else seqx (os_open_read LOCK) (\<lambda>fd. seqx (opened_descriptor fd) (\<lambda>_. ret fd)))"

type_synonym admin = "string \<times> nat \<times> stat_result"

text \<open>One of the journal names: its descriptor and status, if it is there.\<close>

definition open_journal_name :: "string \<Rightarrow> nat \<Rightarrow> nat \<Rightarrow> (world, admin list) exec" where
  "open_journal_name name uid gid =
     seqx (handle (seqx (os_open_read name) (\<lambda>fd. ret (Some fd)))
             (\<lambda>e. if e = FileNotFoundError then ret None else throw e)) (\<lambda>found. case found of
       None \<Rightarrow> ret []
     | Some fd \<Rightarrow>
       seqx (opened_descriptor fd) (\<lambda>_.
       seqx (admin_entry name fd uid gid) (\<lambda>v. ret [(name, fd, v)])))"

definition entry_of :: "string \<Rightarrow> admin list \<Rightarrow> (nat \<times> stat_result) option" where
  "entry_of name entries = map_of entries name"

definition repairable :: "nat \<Rightarrow> nat \<Rightarrow> admin list \<Rightarrow> admin list" where
  "repairable uid gid entries = filter (\<lambda>(_, _, v). (st_uid v, st_gid v) = (uid, gid)) entries"

definition check_journal :: "nat \<Rightarrow> nat \<Rightarrow> admin list \<Rightarrow> nat \<Rightarrow> (world, unit) exec" where
  "check_journal uid gid entries fd =
     seqx (os_read fd (MAX_JOURNAL + 1)) (\<lambda>data.
     seqx (raise_if (length data > MAX_JOURNAL) (refuse ''recovery journal exceeds limit'')) (\<lambda>_.
     seqx (liftE (decode_ascii data)) (\<lambda>text.
     seqx (liftE (loads ValueError text)) (\<lambda>v.
     validate_normalization_transaction v uid gid (entry_of JOURNAL_NEW entries \<noteq> None)))))"

definition repair_owner :: "admin \<Rightarrow> (world, unit) exec" where
  "repair_owner a = (case a of (name, fd, v) \<Rightarrow>
     seqx (os_fstat fd) (\<lambda>now.
     seqx (raise_if (inode_id now \<noteq> inode_id v) (refuse ''executor state changed before ownership normalization'')) (\<lambda>_.
     seqx (os_fchown fd 0 0) (\<lambda>_.
     seqx (os_fchmod fd 0x180) (\<lambda>_.
     os_fsync_file fd)))))"

definition check_repaired :: "admin \<Rightarrow> (world, unit) exec" where
  "check_repaired a = (case a of (name, fd, v) \<Rightarrow>
     seqx (os_stat name) (\<lambda>current.
     raise_if (inode_id current \<noteq> inode_id v \<or> \<not> S_ISREG (st_mode current) \<or> S_IMODE (st_mode current) \<noteq> 0x180 \<or>
       st_nlink current \<noteq> 1) (refuse ''executor state changed during ownership normalization'')))"

definition normalize_state :: "exec_env \<Rightarrow> nat \<Rightarrow> nat \<Rightarrow> (world, unit) exec" where
  "normalize_state E uid gid =
     seqx (open_components uid) (\<lambda>_.
     seqx open_lock (\<lambda>lock.
     seqx (admin_entry LOCK lock uid gid) (\<lambda>lock_entry.
     seqx (syscall (seqx (gets (\<lambda>s. x_lock_free E (step s))) (\<lambda>free. raise_if (\<not> free) OSError))) (\<lambda>_.
     seqx (anyx path_exists TRANSACTION_NAMES) (\<lambda>evidence.
     seqx (open_journal_name JOURNAL uid gid) (\<lambda>journal.
     seqx (open_journal_name JOURNAL_NEW uid gid) (\<lambda>temporary.
     let entries = (LOCK, lock, lock_entry) # journal @ temporary;
         repair = repairable uid gid entries in
     seqx (raise_if (repair \<noteq> [] \<and> temporary \<noteq> [] \<and> journal = []) (refuse ''temporary journal has no durable authority'')) (\<lambda>_.
     seqx (case entry_of JOURNAL entries of
             Some (fd, _) \<Rightarrow> if repair \<noteq> [] then check_journal uid gid entries fd else ret ()
           | None \<Rightarrow> ret ()) (\<lambda>_.
     seqx (if \<not> evidence then normalize_clean_canonical uid gid else ret ()) (\<lambda>_.
     seqx (forx repair_owner repair) (\<lambda>_.
     seqx (forx check_repaired entries) (\<lambda>_.
     os_fsync_dir))))))))))))"

definition close_descriptors :: "(world, unit) exec" where
  "close_descriptors = seqx (gets w_descriptors) (\<lambda>fds. seqx (forx os_close fds) (\<lambda>_. os_close 0))"

definition secure_after_linuxserver_init :: "exec_env \<Rightarrow> (world, string) exec" where
  "secure_after_linuxserver_init E =
     seqx (local_identity E) (\<lambda>(uid, gid).
     seqx (syscall (ret ())) (\<lambda>_.
     seqx (modify (\<lambda>s. s\<lparr> w_descriptors := [] \<rparr>)) (\<lambda>_.
     seqx (finally_do
       (handle (normalize_state E uid gid)
          (\<lambda>e. throw (if is_Exception e then refuse ''executor state normalization failed'' else e)))
       close_descriptors) (\<lambda>_.
     ret ''executor_state_secured''))))"

section \<open>Start-up\<close>

text \<open>What the host answers about \<open>/config\<close> and the entry \<open>data\<close> in it.\<close>

record startup_env =
  su_open :: "nat \<Rightarrow> errno + unit"
  su_stat :: "nat \<Rightarrow> errno + stat_result"
  su_data :: "nat \<Rightarrow> errno + stat_result"
  su_policy :: policy_env

definition startup_data_directory_absent :: "startup_env \<Rightarrow> (world, bool) exec" where
  "startup_data_directory_absent U =
     seqx (host_call (su_open U)) (\<lambda>_.
     finally_do
       (seqx (host_call (su_stat U)) (\<lambda>info.
        seqx (raise_if (st_uid info \<notin> {0, 1000} \<or> shared_write (st_mode info)) (refuse ''unsafe UniFi configuration directory'')) (\<lambda>_.
        handle (seqx (host_call (su_data U)) (\<lambda>_. ret False))
          (\<lambda>e. if e = FileNotFoundError then ret True else throw e))))
       (os_close 0))"

end
