(* ===== verification/Wire.thy ===== *)
theory Wire
  imports RenewalPolicy Codec
begin

text \<open>
  The wire format between the renewer and the executor (\<open>unifi_executor_service.py\<close> and
  \<open>unifi_executor_client.py\<close>, whose two copies of these functions are the same): base64 text, the
  encoded key store state, requests, responses and length-prefixed frames. A connection is the list of what
  its \<open>recv\<close> calls will see: bytes, the expired deadline or an exception; at the end of the list the peer has
  closed.
\<close>

section \<open>Constants\<close>

definition PROTOCOL_VERSION :: int where "PROTOCOL_VERSION = 2"
definition MAX_MESSAGE_BYTES :: nat where "MAX_MESSAGE_BYTES = 8 * 1024 * 1024"

definition OPERATIONS :: "string list" where
  "OPERATIONS = [''inspect'', ''generate_csr'', ''install'', ''recover'', ''verify_pending'']"

definition RECOVERY_RESULTS :: "string list" where
  "RECOVERY_RESULTS = [''no_active_transaction'', ''recovered_old'', ''service_resumed_pending_live_verification'',
     ''renewal_finalized'']"

section \<open>Base64\<close>

definition b64_alphabet :: string where
  "b64_alphabet = ''ABCDEFGHIJKLMNOPQRSTUVWXYZabcdefghijklmnopqrstuvwxyz0123456789+/''"

definition b64_char :: "nat \<Rightarrow> char" where
  "b64_char n = b64_alphabet ! n"

definition b64_value :: "char \<Rightarrow> nat option" where
  "b64_value c = map_of (zip b64_alphabet [0..<64]) c"

fun b64encode :: "bytes \<Rightarrow> string" where
  "b64encode [] = []"
| "b64encode [a] = [b64_char (ordc a div 4), b64_char (ordc a mod 4 * 16), CHR ''='', CHR ''='']"
| "b64encode [a, b] = [b64_char (ordc a div 4), b64_char (ordc a mod 4 * 16 + ordc b div 16),
     b64_char (ordc b mod 16 * 4), CHR ''='']"
| "b64encode (a # b # c # s) = b64_char (ordc a div 4) # b64_char (ordc a mod 4 * 16 + ordc b div 16) #
     b64_char (ordc b mod 16 * 4 + ordc c div 64) # b64_char (ordc c mod 64) # b64encode s"

text \<open>
  \<open>binascii.a2b_base64(data, strict_mode=True)\<close>: the position in the quadruple, the bits left over, the
  paddings seen at this position, whether padding has started, and the bytes decoded.
\<close>

fun a2b_loop :: "string \<Rightarrow> nat \<Rightarrow> nat \<Rightarrow> nat \<Rightarrow> bool \<Rightarrow> bytes \<Rightarrow> py_exc + bytes" where
  "a2b_loop [] q left pads started acc = (if q = 0 then Inr acc else Inl ValueError)"
| "a2b_loop (c # s) q left pads started acc =
     (if c = CHR ''='' then
        if 2 \<le> q \<and> 4 \<le> q + pads + 1 then (if s = [] then Inr acc else Inl ValueError)
        else a2b_loop s q left (if 2 \<le> q then pads + 1 else pads) True acc
      else case b64_value c of
        None \<Rightarrow> Inl ValueError
      | Some v \<Rightarrow>
        if started then Inl ValueError
        else if q = 0 then a2b_loop s 1 v 0 started acc
        else if q = 1 then a2b_loop s 2 (v mod 16) 0 started (acc @ [char_of (left * 4 + v div 16)])
        else if q = 2 then a2b_loop s 3 (v mod 4) 0 started (acc @ [char_of (left * 16 + v div 4)])
        else a2b_loop s 0 0 0 started (acc @ [char_of (left * 64 + v)]))"

definition b64decode :: "string \<Rightarrow> py_exc + bytes" where
  "b64decode s = (if \<not> isascii s \<or> startswith ''='' s then Inl ValueError else a2b_loop s 0 0 0 False [])"

fun binary :: "nat \<Rightarrow> json \<Rightarrow> py_exc + bytes" where
  "binary maximum (JStr value) =
     (if py_len value > (maximum + 2) div 3 * 4 then Inl ValueError
      else bindE (b64decode value) (\<lambda>result. if length result > maximum then Inl ValueError else Inr result))"
| "binary maximum _ = Inl ValueError"

definition encode_binary :: "bytes \<Rightarrow> json" where
  "encode_binary value = JStr (b64encode value)"

section \<open>States\<close>

definition encode_state :: "x509_lib \<Rightarrow> public_keystore_state \<Rightarrow> py_exc + json" where
  "encode_state L st = bindE (inspect_public_keystore_state L st) (\<lambda>_.
     Inr (JObj [(''keytool_output'', JStr (keytool_output st)),
                (''certificate_chain_der'', JArr (map encode_binary (certificate_chain_der st)))]))"

definition decode_state :: "x509_lib \<Rightarrow> json \<Rightarrow> py_exc + public_keystore_state" where
  "decode_state L v =
     bindE (exact_dict [''keytool_output'', ''certificate_chain_der''] v) (\<lambda>ps.
     case (member ''keytool_output'' ps, member ''certificate_chain_der'' ps) of
       (JStr output, JArr items) \<Rightarrow>
         if py_len output > MAX_KEYTOOL_OUTPUT_CHARS \<or> \<not> (1 \<le> length items \<and> length items \<le> 10) then Inl ValueError
         else bindE (mapE (binary MAX_CERTIFICATE_DER_BYTES) items) (\<lambda>ders.
           let st = \<lparr> keytool_output = output, certificate_chain_der = ders \<rparr>
           in bindE (inspect_public_keystore_state L st) (\<lambda>_. Inr st))
     | _ \<Rightarrow> Inl ValueError)"

definition encode_import_request :: "x509_lib \<Rightarrow> certificate_import_request \<Rightarrow> py_exc + json" where
  "encode_import_request L r = bindE (encode_state L (before r)) (\<lambda>st.
     Inr (JObj [(''before'', st), (''csr_pem'', encode_binary (csr_pem r)),
                (''issued_certificate'', encode_binary (issued_certificate r))]))"

section \<open>Messages\<close>

definition request :: "string \<Rightarrow> (string \<times> json) list \<Rightarrow> py_exc + json" where
  "request op arguments = (if op \<notin> set OPERATIONS then Inl ValueError
     else Inr (JObj [(''version'', JInt PROTOCOL_VERSION), (''operation'', JStr op), (''arguments'', JObj arguments)]))"

definition decode_envelope :: "json \<Rightarrow> py_exc + string \<times> (string \<times> json) list" where
  "decode_envelope v =
     bindE (exact_dict [''version'', ''operation'', ''arguments''] v) (\<lambda>ps.
     case (member ''version'' ps, member ''operation'' ps, member ''arguments'' ps) of
       (JInt n, JStr op, JObj arguments) \<Rightarrow>
         if n \<noteq> PROTOCOL_VERSION \<or> op \<notin> set OPERATIONS then Inl ValueError else Inr (op, arguments)
     | _ \<Rightarrow> Inl ValueError)"

definition ok_response :: "json \<Rightarrow> json" where
  "ok_response result = JObj [(''version'', JInt PROTOCOL_VERSION), (''ok'', JBool True), (''result'', result)]"

definition error_response :: json where
  "error_response = JObj [(''version'', JInt PROTOCOL_VERSION), (''ok'', JBool False), (''error'', JStr ''executor_operation_failed'')]"

definition decode_response :: "json \<Rightarrow> py_exc + json" where
  "decode_response v = (case v of
      JObj ps \<Rightarrow>
        bindE (exact_dict (if jget ''ok'' ps = Some (JBool True) then [''version'', ''ok'', ''result''] else [''version'', ''ok'', ''error'']) v) (\<lambda>ps.
        if member ''version'' ps \<noteq> JInt PROTOCOL_VERSION \<or> member ''ok'' ps \<noteq> JBool True then Inl ValueError
        else Inr (member ''result'' ps))
    | _ \<Rightarrow> Inl ValueError)"

section \<open>Frames\<close>

definition pack_length :: "nat \<Rightarrow> bytes" where
  "pack_length n = map char_of [n div 16777216, n div 65536 mod 256, n div 256 mod 256, n mod 256]"

definition unpack_length :: "bytes \<Rightarrow> nat" where
  "unpack_length b = foldl (\<lambda>n c. n * 256 + ordc c) 0 b"

datatype arrival = Bytes bytes | Late | Broken py_exc

fun read_exact :: "nat \<Rightarrow> bytes \<Rightarrow> arrival list \<Rightarrow> py_exc + bytes \<times> arrival list" where
  "read_exact n acc as = (if n \<le> length acc then Inr (acc, as) else case as of
      [] \<Rightarrow> Inl ValueError
    | Late # _ \<Rightarrow> Inl TimeoutError
    | Broken e # _ \<Rightarrow> Inl e
    | Bytes b # as' \<Rightarrow>
        if b = [] then Inl ValueError
        else if n - length acc < length b then Inr (acc @ take (n - length acc) b, Bytes (drop (n - length acc) b) # as')
        else read_exact n (acc @ b) as')"

declare read_exact.simps [simp del]

text \<open>Strings that are not UTF-8 and texts that are not JSON are refused alike.\<close>

definition read_message :: "arrival list \<Rightarrow> py_exc + json" where
  "read_message as =
     bindE (read_exact 4 [] as) (\<lambda>(header, as').
     let n = unpack_length header
     in if \<not> (1 \<le> n \<and> n \<le> MAX_MESSAGE_BYTES) then Inl ValueError
        else bindE (read_exact n [] as') (\<lambda>(data, _).
          catchE (loads_bytes ValueError data) (\<lambda>e. if is_ValueError e then Inl ValueError else Inl e)))"

definition message_frame :: "json \<Rightarrow> py_exc + bytes" where
  "message_frame v =
     bindE (encode_ascii (dumps v)) (\<lambda>data.
     if length data > MAX_MESSAGE_BYTES then Inl ValueError else Inr (pack_length (length data) @ data))"

section \<open>Base64 decodes what it encodes\<close>

lemma b64_char_facts:
  assumes "v < 64"
  shows "b64_value (b64_char v) = Some v" "b64_char v \<noteq> CHR ''=''" "is_ascii (b64_char v)"
proof -
  have "list_all (\<lambda>v. b64_value (b64_char v) = Some v \<and> b64_char v \<noteq> CHR ''='' \<and> is_ascii (b64_char v)) [0..<64]"
    by code_simp
  thus "b64_value (b64_char v) = Some v" "b64_char v \<noteq> CHR ''=''" "is_ascii (b64_char v)"
    using assms by (auto simp: list_all_iff)
qed

lemma b64_bits [simp]:
  shows "ordc x div 4 < 64" "ordc x mod 4 * 16 < 64" "ordc x div 16 < 16" "ordc x div 64 < 4"
    "ordc x mod 4 * 16 + ordc y div 16 < 64" "ordc y mod 16 * 4 < 64" "ordc y mod 16 * 4 + ordc z div 64 < 64"
proof -
  have x: "ordc x < 256" "ordc y < 256" "ordc z < 256" by simp_all
  show "ordc x div 4 < 64" "ordc x div 16 < 16" "ordc x div 64 < 4"
    using x(1) by (simp_all add: less_mult_imp_div_less)
  have "ordc y div 16 < 16" "ordc z div 64 < 4" "ordc x mod 4 < 4" "ordc y mod 16 < 16"
    using x(2,3) by (simp_all add: less_mult_imp_div_less)
  thus "ordc x mod 4 * 16 < 64" "ordc x mod 4 * 16 + ordc y div 16 < 64" "ordc y mod 16 * 4 < 64"
    "ordc y mod 16 * 4 + ordc z div 64 < 64" by linarith+
qed

lemma a2b_step:
  assumes "v < 64"
  shows "a2b_loop (b64_char v # s) 0 l p False acc = a2b_loop s (Suc 0) v 0 False acc"
    "a2b_loop (b64_char v # s) (Suc 0) l p False acc = a2b_loop s 2 (v mod 16) 0 False (acc @ [char_of (l * 4 + v div 16)])"
    "a2b_loop (b64_char v # s) 2 l p False acc = a2b_loop s 3 (v mod 4) 0 False (acc @ [char_of (l * 16 + v div 4)])"
    "a2b_loop (b64_char v # s) 3 l p False acc = a2b_loop s 0 0 0 False (acc @ [char_of (l * 64 + v)])"
  using b64_char_facts [OF assms] by simp_all

lemma a2b_pad: "a2b_loop ''=='' 2 l 0 False acc = Inr acc" "a2b_loop ''='' 3 l 0 False acc = Inr acc"
  by simp_all

declare a2b_loop.simps(2) [simp del]

lemma a2b_encoded: "a2b_loop (b64encode b) 0 0 0 False acc = Inr (acc @ b)"
proof (induction b arbitrary: acc rule: b64encode.induct)
  case (2 a)
  show ?case by (simp add: a2b_step a2b_pad)
next
  case (3 a b)
  show ?case by (simp add: a2b_step a2b_pad)
next
  case (4 a b c s)
  show ?case by (simp add: a2b_step 4)
qed simp

lemma b64encode_ascii: "isascii (b64encode b)"
proof (induction b rule: b64encode.induct)
  case (2 a)
  show ?case by (simp add: isascii_def b64_char_facts) (simp add: is_ascii_def ordc_def)
next
  case (3 a b)
  show ?case by (simp add: isascii_def b64_char_facts) (simp add: is_ascii_def ordc_def)
next
  case (4 a b c s)
  thus ?case by (simp add: isascii_def b64_char_facts)
qed (simp add: isascii_def)

lemma b64encode_head: "\<not> startswith ''='' (b64encode b)"
proof (cases b)
  case (Cons a s)
  have "hd (b64encode b) = b64_char (ordc a div 4)" "b64encode b \<noteq> []" using Cons by (cases s; cases "tl s"; simp)+
  thus ?thesis using b64_char_facts(2) [of "ordc a div 4"]
    by (cases "b64encode b") auto
qed simp

lemma b64decode_encode [simp]: "b64decode (b64encode b) = Inr b"
  by (simp add: b64decode_def b64encode_ascii b64encode_head a2b_encoded)

lemma length_b64encode: "length (b64encode b) = (length b + 2) div 3 * 4"
proof (induction b rule: b64encode.induct)
  case (4 a b c s)
  have "(length s + 5) div 3 = (length s + 2) div 3 + 1" by presburger
  thus ?case using 4 by (simp add: add.commute)
qed simp_all

lemma binary_encode:
  assumes "length b \<le> m"
  shows "binary m (encode_binary b) = Inr b"
proof -
  have "py_len (b64encode b) \<le> (m + 2) div 3 * 4"
    using assms by (simp add: py_len_ascii b64encode_ascii length_b64encode div_le_mono)
  thus ?thesis using assms by (simp add: encode_binary_def)
qed

lemma binary_bound: "binary m v = Inr b \<Longrightarrow> length b \<le> m"
  by (cases v) (auto split: if_splits)

section \<open>Frames are read back however they arrive\<close>

lemma unpack_pack_length:
  assumes "n < 2 ^ 32"
  shows "unpack_length (pack_length n) = n"
proof -
  have "n div 16777216 < 256" using assms by (simp add: less_mult_imp_div_less)
  moreover have "n div 16777216 = n div 256 div 256 div 256" "n div 65536 = n div 256 div 256"
    by (simp_all flip: div_mult2_eq)
  moreover have "ordc (char_of k) = k mod 256" for k :: nat by (simp add: ordc_def)
  ultimately show ?thesis
    using div_mult_mod_eq [of n 256] div_mult_mod_eq [of "n div 256" 256] div_mult_mod_eq [of "n div 256 div 256" 256]
    by (simp add: unpack_length_def pack_length_def)
qed

definition carries :: "arrival list \<Rightarrow> bytes \<Rightarrow> bool" where
  "carries as b \<longleftrightarrow> (\<exists>bs rest. as = map Bytes bs @ rest \<and> [] \<notin> set bs \<and> concat bs = b)"

lemma carries_Nil [simp]: "carries as []"
  unfolding carries_def by (rule exI [of _ "[]"]) simp

lemma carries_Cons:
  assumes "carries as b" "b \<noteq> []"
  obtains c as' d where "as = Bytes c # as'" "c \<noteq> []" "b = c @ d" "carries as' d"
  using assms unfolding carries_def by (metis (no_types, lifting) append_Cons concat.simps list.map list.set_intros neq_Nil_conv)

lemma read_exact_carried:
  assumes "carries as (b @ c)" "n = length acc + length b"
  shows "\<exists>as'. read_exact n acc as = Inr (acc @ b, as') \<and> carries as' c"
  using assms
proof (induction as arbitrary: acc b)
  case Nil
  hence "b @ c = []" by (auto simp: carries_def)
  thus ?case using Nil.prems by (simp add: read_exact.simps)
next
  case (Cons a as)
  show ?case
  proof (cases "b = []")
    case True
    thus ?thesis using Cons.prems by (simp add: read_exact.simps)
  next
    case False
    then obtain d e where d: "a = Bytes d" "d \<noteq> []" "b @ c = d @ e" "carries as e"
      using carries_Cons [OF Cons.prems(1)] by auto
    show ?thesis
    proof (cases "length b < length d")
      case True
      hence "b = take (length b) d" "drop (length b) d @ e = c" using d(3)
        by (simp_all add: append_eq_append_conv_if)
      moreover have "carries (Bytes (drop (length b) d) # as) (drop (length b) d @ e)"
      proof -
        from d(4) obtain bs rest where "as = map Bytes bs @ rest" "[] \<notin> set bs" "concat bs = e"
          by (auto simp: carries_def)
        thus ?thesis unfolding carries_def using True
          by (intro exI [of _ "drop (length b) d # bs"] exI [of _ rest]) simp
      qed
      ultimately show ?thesis using False True d Cons.prems(2) by (simp add: read_exact.simps)
    next
      case long: False
      then obtain b' where b: "b = d @ b'" "e = b' @ c" using d(3)
        by (metis append_eq_append_conv_if append_take_drop_id linorder_not_less)
      have "\<exists>as'. read_exact n (acc @ d) as = Inr ((acc @ d) @ b', as') \<and> carries as' c"
        using Cons.IH [of b' "acc @ d"] d(4) b Cons.prems(2) by simp
      thus ?thesis using False long d b Cons.prems(2) by (simp add: read_exact.simps)
    qed
  qed
qed

lemma utf8_of_ascii: "isascii s \<Longrightarrow> utf8_valid_fuel (length s) s"
  by (induction s) (simp_all add: isascii_def is_ascii_def utf8_tail_def)

lemma decode_utf8_ascii: "isascii s \<Longrightarrow> decode_utf8 s = Inr s"
  by (simp add: decode_utf8_def utf8_valid_def utf8_of_ascii)

lemma read_message_frame:
  assumes "plain v" "message_frame v = Inr frame" "carries as frame"
  shows "read_message as = Inr (norm v)"
proof -
  let ?n = "length (dumps v)"
  have n: "isascii (dumps v)" "?n \<le> MAX_MESSAGE_BYTES" and frame: "frame = pack_length ?n @ dumps v"
    using assms(2) by (auto simp: message_frame_def encode_ascii_def split: if_splits)
  have "1 \<le> ?n" using dumps_head [OF assms(1)] by auto
  moreover have "unpack_length (pack_length ?n) = ?n"
    using n(2) by (intro unpack_pack_length) (simp add: MAX_MESSAGE_BYTES_def)
  moreover obtain as' where as': "read_exact 4 [] as = Inr (pack_length ?n, as')" "carries as' (dumps v)"
    using read_exact_carried [of as "pack_length ?n" "dumps v" 4 "[]"] assms(3) frame
    by (auto simp: pack_length_def)
  moreover obtain as'' where "read_exact ?n [] as' = Inr (dumps v, as'')"
    using read_exact_carried [of as' "dumps v" "[]" ?n "[]"] as'(2) by auto
  moreover have "loads_bytes ValueError (dumps v) = Inr (norm v)"
    by (simp add: loads_bytes_def decode_utf8_ascii n(1) loads_dumps assms(1))
  ultimately show ?thesis using n(2) by (simp add: read_message_def Let_def)
qed

text \<open>
  C17. What one side writes, the other side reads: a message that is written as a frame is read back as the
  same JSON value (members sorted by name, as they are on the wire), no matter into which pieces the
  connection splits the frame and what follows it.
\<close>

theorem frames_are_read_back:
  assumes "plain v" "message_frame v = Inr frame" "carries as frame"
  shows "read_message as = Inr (norm v)"
  using assms by (rule read_message_frame)

section \<open>States and responses\<close>

lemma norm_binary [simp]: "norm (encode_binary b) = encode_binary b" "plain (encode_binary b)"
  by (simp_all add: encode_binary_def b64encode_ascii)

lemma norm_singleton [simp]: "norm (JObj [(k, v)]) = JObj [(k, norm v)]"
  by simp

lemma norm_state:
  "norm (JObj [(''keytool_output'', a), (''certificate_chain_der'', b)]) =
     JObj [(''certificate_chain_der'', norm b), (''keytool_output'', norm a)]"
  by (simp add: less_eq_list_code less_list_code)

lemma norm_response:
  "norm (ok_response v) = JObj [(''ok'', JBool True), (''result'', norm v), (''version'', JInt PROTOCOL_VERSION)]"
  by (simp add: ok_response_def)

lemma norm_error_response:
  "norm error_response =
     JObj [(''error'', JStr ''executor_operation_failed''), (''ok'', JBool False), (''version'', JInt PROTOCOL_VERSION)]"
  by (simp add: error_response_def)

lemma norm_request:
  "norm (JObj [(''version'', a), (''operation'', b), (''arguments'', c)]) =
     JObj [(''arguments'', norm c), (''operation'', norm b), (''version'', norm a)]"
  by simp

lemma inspected_limits:
  assumes "inspect_public_keystore_state L st = Inr i"
  shows "1 \<le> length (certificate_chain_der st)" "length (certificate_chain_der st) \<le> 10"
    "py_len (keytool_output st) \<le> MAX_KEYTOOL_OUTPUT_CHARS"
    "\<forall>der\<in>set (certificate_chain_der st). length der \<le> MAX_CERTIFICATE_DER_BYTES"
proof -
  show "1 \<le> length (certificate_chain_der st)" "length (certificate_chain_der st) \<le> 10"
    "\<forall>der\<in>set (certificate_chain_der st). length der \<le> MAX_CERTIFICATE_DER_BYTES"
    using assms by (auto simp: inspect_public_keystore_state_def Let_def MAX_PUBLIC_CHAIN_LENGTH_def split: if_splits)
  obtain m where "parse_keytool_metadata (keytool_output st) UNIFI_ALIAS = Inr m"
    using assms by (auto simp: inspect_public_keystore_state_def Let_def inspect_unifi_certificate_def split: if_splits)
  thus "py_len (keytool_output st) \<le> MAX_KEYTOOL_OUTPUT_CHARS"
    by (auto simp: parse_keytool_metadata_def simp del: bindE_Inr split: if_splits)
qed

lemma mapE_binary:
  assumes "\<forall>b\<in>set bs. length b \<le> m"
  shows "mapE (binary m) (map (norm \<circ> encode_binary) bs) = Inr bs"
  using assms by (induction bs) (simp_all add: binary_encode)

lemma decode_encoded_state:
  assumes "encode_state L st = Inr v"
  shows "decode_state L (norm v) = Inr st"
proof -
  obtain i where i: "inspect_public_keystore_state L st = Inr i" and
    v: "v = JObj [(''keytool_output'', JStr (keytool_output st)),
                  (''certificate_chain_der'', JArr (map encode_binary (certificate_chain_der st)))]"
    using assms by (auto simp: encode_state_def)
  have "mapE (binary MAX_CERTIFICATE_DER_BYTES) (map (norm \<circ> encode_binary) (certificate_chain_der st)) =
      Inr (certificate_chain_der st)"
    using inspected_limits(4) [OF i] by (rule mapE_binary)
  thus ?thesis using inspected_limits(1,2,3) [OF i] i
    unfolding v norm_state by (cases st) (simp add: decode_state_def exact_dict_def has_fields_def member_def jget_def not_le Let_def)
qed

lemma decode_state_inspected:
  assumes "decode_state L v = Inr st"
  shows "\<exists>i. inspect_public_keystore_state L st = Inr i"
proof -
  obtain ps where "(case (member ''keytool_output'' ps, member ''certificate_chain_der'' ps) of
       (JStr output, JArr items) \<Rightarrow>
         if py_len output > MAX_KEYTOOL_OUTPUT_CHARS \<or> \<not> (1 \<le> length items \<and> length items \<le> 10) then Inl ValueError
         else bindE (mapE (binary MAX_CERTIFICATE_DER_BYTES) items) (\<lambda>ders.
           let st = \<lparr> keytool_output = output, certificate_chain_der = ders \<rparr>
           in bindE (inspect_public_keystore_state L st) (\<lambda>_. Inr st))
     | _ \<Rightarrow> Inl ValueError) = Inr st"
    using assms unfolding decode_state_def bindE_Inr by blast
  thus ?thesis by (auto simp: Let_def split: json.split_asm if_split_asm)
qed

lemma decode_norm_response:
  "decode_response (norm (ok_response v)) = Inr (norm v)" "decode_response (norm error_response) = Inl ValueError"
  unfolding norm_response norm_error_response
  by (simp_all add: decode_response_def exact_dict_def has_fields_def member_def jget_def)

lemma decode_norm_request:
  assumes "request op args = Inr v" "norm (JObj args) = JObj ps"
  shows "decode_envelope (norm v) = Inr (op, ps)"
proof -
  have v: "op \<in> set OPERATIONS"
    "v = JObj [(''version'', JInt PROTOCOL_VERSION), (''operation'', JStr op), (''arguments'', JObj args)]"
    using assms(1) by (auto simp: request_def split: if_splits)
  show ?thesis using v(1) unfolding v(2) norm_request assms(2)
    by (simp add: decode_envelope_def exact_dict_def has_fields_def member_def jget_def)
qed

lemma decode_envelope_Inr:
  assumes "decode_envelope v = Inr (op, ps)"
  shows "op \<in> set OPERATIONS"
proof -
  obtain qs where "(case (member ''version'' qs, member ''operation'' qs, member ''arguments'' qs) of
       (JInt n, JStr op, JObj arguments) \<Rightarrow>
         if n \<noteq> PROTOCOL_VERSION \<or> op \<notin> set OPERATIONS then Inl ValueError else Inr (op, arguments)
     | _ \<Rightarrow> Inl ValueError) = (Inr (op, ps) :: py_exc + string \<times> (string \<times> json) list)"
    using assms unfolding decode_envelope_def bindE_Inr by blast
  thus ?thesis by (auto split: json.split_asm if_split_asm)
qed

end
