(* ===== verification/ExecutorService.thy ===== *)
theory ExecutorService
  imports Normalization Wire
begin

text \<open>
  The server side of the executor boundary (\<open>unifi_executor_service.py\<close>): the dispatch of the five
  operations, the answer to a connection, the normalisation of the administration files after the
  container has changed their owner, and the recovery at start-up.

  A connection is the list of what its \<open>recv\<close> calls see; sending is one system call, and what was sent is
  the result. The attributes of the executor object that a dispatch creates are those of \<open>world\<close>, reset.
\<close>

section \<open>Requests\<close>

definition fresh_executor :: "world \<Rightarrow> world" where
  "fresh_executor s = s\<lparr> w_files := None, w_lock := None, w_owner := None, w_journal := None, w_service := False,
     w_expect_stopped := False \<rparr>"

definition require_digest :: "renewal_policy \<Rightarrow> json \<Rightarrow> py_exc + unit" where
  "require_digest P v = (if v \<noteq> JStr (rp_digest P) then Inl ValueError else Inr ())"

text \<open>\<open>policy.certificate_policy(value)\<close> on a JSON value.\<close>

fun certificate_policy_of :: "renewal_policy \<Rightarrow> json \<Rightarrow> py_exc + certificate_policy" where
  "certificate_policy_of P (JStr s) = policy_certificate_policy P s"
| "certificate_policy_of P _ = policy_error ''invalid observed public key identity''"

definition authorized_request ::
  "renewal_policy \<Rightarrow> instant \<Rightarrow> public_keystore_state \<Rightarrow> certificate_policy \<Rightarrow> bytes \<Rightarrow> bytes \<Rightarrow> certificate_import_request" where
  "authorized_request P t st p csr cert =
     \<lparr> before = st, policy = p, csr_pem = csr, issued_certificate = cert, trusted_ca_data = rp_ca_pem P,
       lifetime_days = rp_lifetime_days P, expected_signature_hash = rp_signing_digest P,
       expected_signature_oid = rp_issued_signature_oid P, freshness_reference_time = Aware t \<rparr>"

definition decode_import_request :: "exec_env \<Rightarrow> renewal_policy \<Rightarrow> json \<Rightarrow> (world, certificate_import_request) exec" where
  "decode_import_request E P v = (let L = x_lib E in
     seqx (liftE (exact_dict [''before'', ''csr_pem'', ''issued_certificate''] v)) (\<lambda>ps.
     seqx (wall_clock E) (\<lambda>reference.
     seqx (liftE (decode_state L (member ''before'' ps))) (\<lambda>st.
     seqx (liftE (inspect_public_keystore_state L st)) (\<lambda>i.
     seqx (liftE (policy_certificate_policy P (info_spki_sha256 (i_certificate i)))) (\<lambda>p.
     seqx (liftE (binary MAX_KEYTOOL_OUTPUT_CHARS (member ''csr_pem'' ps))) (\<lambda>csr.
     seqx (liftE (binary MAX_CERTIFICATE_DER_BYTES (member ''issued_certificate'' ps))) (\<lambda>cert.
     let r = authorized_request P reference st p csr cert in
     seqx (wall_clock E) (\<lambda>now.
     seqx (liftE (prepare_certificate_import L now r None)) (\<lambda>plan.
     seqx (liftE (inspect_csr L csr)) (\<lambda>q.
     seqx (raise_if (q_signature_hash_algorithm q \<noteq> Some ''sha384'' \<or>
         q_info_signature_algorithm_oid q \<noteq> ''1.2.840.113549.1.1.12'' \<or>
         signature_hash_algorithm (issued plan) \<noteq> Some (rp_signing_digest P) \<or>
         signature_algorithm_oid (issued plan) \<noteq> rp_issued_signature_oid P) ValueError) (\<lambda>_.
     ret r))))))))))))"

definition inspection_state :: "x509_lib \<Rightarrow> unifi_inspection \<Rightarrow> bytes list \<Rightarrow> py_exc + public_keystore_state" where
  "inspection_state L i ders =
     (let st = \<lparr> keytool_output = collection_output (i_keystore i) (i_alias i), certificate_chain_der = ders \<rparr>
      in bindE (inspect_public_keystore_state L st) (\<lambda>_. Inr st))"

section \<open>Dispatch\<close>

definition state_result :: "x509_lib \<Rightarrow> public_keystore_state \<Rightarrow> (world, json) exec" where
  "state_result L st = seqx (liftE (encode_state L st)) (\<lambda>v. ret (JObj [(''state'', v)]))"

definition serve_inspect :: "exec_env \<Rightarrow> (world, json) exec" where
  "serve_inspect E = seqx (inspect_public_state E) (state_result (x_lib E))"

definition serve_generate_csr :: "exec_env \<Rightarrow> renewal_policy \<Rightarrow> (string \<times> json) list \<Rightarrow> (world, json) exec" where
  "serve_generate_csr E P arguments =
     seqx (liftE (exact_dict [''policy_digest'', ''expected_spki_sha256''] (JObj arguments))) (\<lambda>_.
     seqx (liftE (require_digest P (member ''policy_digest'' arguments))) (\<lambda>_.
     seqx (liftE (certificate_policy_of P (member ''expected_spki_sha256'' arguments))) (\<lambda>p.
     seqx (generate_csr E P p) (\<lambda>pem.
     ret (JObj [(''csr_pem'', encode_binary pem)])))))"

definition serve_install :: "exec_env \<Rightarrow> renewal_policy \<Rightarrow> (string \<times> json) list \<Rightarrow> (world, json) exec" where
  "serve_install E P arguments =
     seqx (liftE (exact_dict [''policy_digest'', ''request''] (JObj arguments))) (\<lambda>_.
     seqx (liftE (require_digest P (member ''policy_digest'' arguments))) (\<lambda>_.
     seqx (decode_import_request E P (member ''request'' arguments)) (\<lambda>r.
     seqx (client_install_certificate (x_lib E) (executor_boundary E P) r) (\<lambda>i.
     seqx (wall_clock E) (\<lambda>now.
     seqx (liftE (prepare_certificate_import (x_lib E) now r None)) (\<lambda>plan.
     seqx (liftE (inspection_state (x_lib E) i (plan_chain_der plan))) (state_result (x_lib E))))))))"

definition serve_recover :: "exec_env \<Rightarrow> renewal_policy \<Rightarrow> (world, json) exec" where
  "serve_recover E P =
     seqx (recover E P False) (\<lambda>outcome.
     seqx (raise_if (outcome \<notin> set RECOVERY_RESULTS) ValueError) (\<lambda>_.
     ret (JObj [(''outcome'', JStr outcome)])))"

definition serve_verify_pending :: "exec_env \<Rightarrow> renewal_policy \<Rightarrow> (string \<times> json) list \<Rightarrow> (world, json) exec" where
  "serve_verify_pending E P arguments =
     seqx (liftE (exact_dict [] (JObj arguments))) (\<lambda>_.
     seqx (verify_pending E P) (\<lambda>outcome.
     seqx (raise_if (outcome \<noteq> ''renewal_finalized'') ValueError) (\<lambda>_.
     ret (JObj [(''outcome'', JStr outcome)]))))"

definition dispatch :: "exec_env \<Rightarrow> renewal_policy \<Rightarrow> json \<Rightarrow> (world, json) exec" where
  "dispatch E P v =
     seqx (liftE (decode_envelope v)) (\<lambda>(op, arguments).
     seqx (modify fresh_executor) (\<lambda>_.
     seqx (if op \<in> {''inspect'', ''recover''} then liftE (exact_dict [] (JObj arguments)) else ret []) (\<lambda>_.
     if op = ''inspect'' then serve_inspect E
     else if op = ''generate_csr'' then serve_generate_csr E P arguments
     else if op = ''install'' then serve_install E P arguments
     else if op = ''recover'' then serve_recover E P
     else serve_verify_pending E P arguments)))"

section \<open>Connections\<close>

definition answer :: "exec_env \<Rightarrow> renewal_policy \<Rightarrow> arrival list \<Rightarrow> (world, json) exec" where
  "answer E P as =
     handle (seqx (liftE (read_message as)) (\<lambda>v. seqx (dispatch E P v) (\<lambda>result. ret (ok_response result))))
       (\<lambda>e. if is_Exception e then ret error_response else throw e)"

text \<open>
  The result tells whether the response was sent (the value that \<open>handle\<close> returns) and its frame.
  \<open>sendall\<close> is one system call.
\<close>

definition handle_connection :: "exec_env \<Rightarrow> renewal_policy \<Rightarrow> arrival list \<Rightarrow> (world, bool \<times> bytes) exec" where
  "handle_connection E P as =
     seqx (answer E P as) (\<lambda>response.
     seqx (liftE (message_frame response)) (\<lambda>frame.
     handle (seqx (syscall (ret ())) (\<lambda>_. ret (True, frame)))
       (\<lambda>e. if is_OSError e then ret (False, frame) else throw e)))"

text \<open>The connections that \<open>accept\<close> returns, one after the other, each closed at its end.\<close>

primrec serve_connections :: "exec_env \<Rightarrow> renewal_policy \<Rightarrow> arrival list list \<Rightarrow> (world, unit) exec" where
  "serve_connections E P [] = ret ()"
| "serve_connections E P (c # cs) =
     seqx (syscall (ret ())) (\<lambda>_.
     seqx (finally_do (seqx (handle_connection E P c) (\<lambda>_. ret ())) (os_close 0)) (\<lambda>_.
     serve_connections E P cs))"

section \<open>The socket\<close>

text \<open>The answers of the host about the directory \<open>/run/unifi-cert-renewer\<close> and the names in it.\<close>

record sock_env =
  so_dir_stat :: "nat \<Rightarrow> errno + stat_result"
  so_dir_open :: "nat \<Rightarrow> errno + unit"
  so_dir_fstat :: "nat \<Rightarrow> errno + stat_result"
  so_lock_stat :: "nat \<Rightarrow> errno + stat_result"
  so_lock_create :: "nat \<Rightarrow> errno + unit"
  so_lock_open :: "nat \<Rightarrow> errno + unit"
  so_lock_fstat :: "nat \<Rightarrow> errno + stat_result"
  so_lock_free :: "nat \<Rightarrow> bool"
  so_socket_stat :: "nat \<Rightarrow> errno + stat_result"
  so_bind :: "nat \<Rightarrow> errno + unit"

definition S_ISSOCK :: "nat \<Rightarrow> bool" where "S_ISSOCK mode \<longleftrightarrow> and mode 0xF000 = 0xC000"

definition SOCKET_NAME :: string where "SOCKET_NAME = ''executor.sock''"

definition host_if_there :: "(nat \<Rightarrow> errno + stat_result) \<Rightarrow> ('m machine_scheme, stat_result option) exec" where
  "host_if_there f = handle (seqx (host_call f) (\<lambda>v. ret (Some v)))
     (\<lambda>e. if e = FileNotFoundError then ret None else throw e)"

definition validate_socket_directory :: "sock_env \<Rightarrow> ('m machine_scheme, stat_result) exec" where
  "validate_socket_directory S =
     seqx (host_call (so_dir_stat S)) (\<lambda>info.
     seqx (raise_if (\<not> S_ISDIR (st_mode info) \<or> st_uid info \<noteq> 0 \<or> S_IMODE (st_mode info) \<noteq> 0x1E8)
       (refuse ''unsafe executor socket directory'')) (\<lambda>_.
     ret info))"

definition open_socket_lock :: "sock_env \<Rightarrow> (world, unit) exec" where
  "open_socket_lock S =
     seqx (host_if_there (so_lock_stat S)) (\<lambda>found.
     seqx (case found of
         None \<Rightarrow>
           seqx (host_call (so_lock_create S)) (\<lambda>_.
           handle (seqx (syscall (ret ())) (\<lambda>_. seqx (syscall (ret ())) (\<lambda>_. host_call (so_lock_stat S))))
             (\<lambda>e. seqx (os_close 0) (\<lambda>_. throw e)))
       | Some expected \<Rightarrow> seqx (host_call (so_lock_open S)) (\<lambda>_. ret expected)) (\<lambda>expected.
     seqx (host_call (so_lock_fstat S)) (\<lambda>actual.
     if \<not> S_ISREG (st_mode expected) \<or> S_IMODE (st_mode expected) \<noteq> 0x180 \<or>
        (st_uid expected, st_gid expected, st_nlink expected) \<noteq> (0, 0, 1) \<or> inode_id actual \<noteq> inode_id expected
     then seqx (os_close 0) (\<lambda>_. throw (refuse ''unsafe executor socket lock''))
     else ret ())))"

definition socket_unsafe :: "stat_result \<Rightarrow> stat_result \<Rightarrow> bool" where
  "socket_unsafe directory v \<longleftrightarrow> \<not> S_ISSOCK (st_mode v) \<or> S_IMODE (st_mode v) \<noteq> 0x1B0 \<or> st_uid v \<noteq> 0 \<or>
     st_gid v \<notin> {0, st_gid directory} \<or> st_nlink v \<noteq> 1 \<or> st_dev v \<noteq> st_dev directory"

definition unlink_socket :: "(world, unit) exec" where
  "unlink_socket = syscall (record_event (Unlinked SOCKET_NAME))"

definition remove_stale_socket :: "sock_env \<Rightarrow> stat_result \<Rightarrow> (world, unit) exec" where
  "remove_stale_socket S directory =
     seqx (host_if_there (so_socket_stat S)) (\<lambda>found. case found of
       None \<Rightarrow> ret ()
     | Some existing \<Rightarrow>
       seqx (raise_if (socket_unsafe directory existing) (refuse ''unsafe existing executor socket'')) (\<lambda>_.
       unlink_socket))"

definition set_socket :: "(socket_locals \<Rightarrow> socket_locals) \<Rightarrow> (world, unit) exec" where
  "set_socket f = modify (\<lambda>s. s\<lparr> w_socket := f (w_socket s) \<rparr>)"

text \<open>The umask is set before the socket is bound and restored after it; both calls cannot fail.\<close>

definition set_up_listener :: "sock_env \<Rightarrow> stat_result \<Rightarrow> (world, unit) exec" where
  "set_up_listener S directory =
     seqx (host_call (so_dir_fstat S)) (\<lambda>d.
     seqx (host_call (so_dir_fstat S)) (\<lambda>d'.
     seqx (raise_if ((st_dev d, st_ino d') \<noteq> inode_id directory) (refuse ''executor socket directory changed'')) (\<lambda>_.
     seqx (open_socket_lock S) (\<lambda>_.
     seqx (set_socket (\<lambda>l. l\<lparr> sl_lock := True \<rparr>)) (\<lambda>_.
     seqx (syscall (seqx (gets (\<lambda>s. so_lock_free S (step s))) (\<lambda>free. raise_if (\<not> free) OSError))) (\<lambda>_.
     seqx (remove_stale_socket S directory) (\<lambda>_.
     seqx (syscall (ret ())) (\<lambda>_.
     seqx (set_socket (\<lambda>l. l\<lparr> sl_listener := True \<rparr>)) (\<lambda>_.
     seqx (host_call (so_bind S)) (\<lambda>_.
     seqx (host_call (so_socket_stat S)) (\<lambda>created.
     seqx (raise_if (socket_unsafe directory created) (refuse ''unsafe newly bound executor socket'')) (\<lambda>_.
     seqx (set_socket (\<lambda>l. l\<lparr> sl_identity := Some (inode_id created) \<rparr>)) (\<lambda>_.
     seqx (syscall (ret ())) (\<lambda>_.
     seqx (syscall (ret ())) (\<lambda>_.
     seqx (host_call (so_socket_stat S)) (\<lambda>final.
     seqx (raise_if (inode_id final \<noteq> inode_id created \<or> \<not> S_ISSOCK (st_mode final) \<or> S_IMODE (st_mode final) \<noteq> 0x1B0 \<or>
         (st_uid final, st_gid final, st_nlink final) \<noteq> (0, st_gid directory, 1))
       (refuse ''executor socket changed during setup'')) (\<lambda>_.
     syscall (ret ()))))))))))))))))))"

definition tear_down_listener :: "sock_env \<Rightarrow> (world, unit) exec" where
  "tear_down_listener S =
     seqx (gets w_socket) (\<lambda>l.
     seqx (if sl_listener l then os_close 0 else ret ()) (\<lambda>_.
     seqx (case sl_identity l of
         None \<Rightarrow> ret ()
       | Some i \<Rightarrow>
         handle (seqx (host_call (so_socket_stat S)) (\<lambda>existing. if inode_id existing = i then unlink_socket else ret ()))
           (\<lambda>e. if e = FileNotFoundError then ret () else throw e)) (\<lambda>_.
     seqx (if sl_lock l then os_close 0 else ret ()) (\<lambda>_.
     os_close 0))))"

definition listener :: "sock_env \<Rightarrow> (world, 'a) exec \<Rightarrow> (world, 'a) exec" where
  "listener S body =
     seqx (validate_socket_directory S) (\<lambda>directory.
     seqx (host_call (so_dir_open S)) (\<lambda>_.
     seqx (set_socket (\<lambda>_. \<lparr> sl_lock = False, sl_listener = False, sl_identity = None \<rparr>)) (\<lambda>_.
     finally_do
       (handle (seqx (set_up_listener S directory) (\<lambda>_. body))
          (\<lambda>e. throw (if is_OSError e \<or> is_ValueError e then refuse ''executor socket setup failed'' else e)))
       (tear_down_listener S))))"

section \<open>The entry points\<close>

definition fresh_policy :: "exec_env \<Rightarrow> policy_env \<Rightarrow> (world, renewal_policy) exec" where
  "fresh_policy E pol = seqx (wall_clock E) (\<lambda>now. load_policy (x_lib E) now pol)"

definition serve_forever :: "exec_env \<Rightarrow> policy_env \<Rightarrow> sock_env \<Rightarrow> arrival list list \<Rightarrow> (world, unit) exec" where
  "serve_forever E pol S connections =
     seqx (fresh_policy E pol) (\<lambda>P. listener S (serve_connections E P connections))"

definition recover_startup :: "exec_env \<Rightarrow> startup_env \<Rightarrow> (world, string) exec" where
  "recover_startup E U =
     seqx (startup_data_directory_absent U) (\<lambda>absent.
     if absent then ret ''no_active_transaction''
     else
     seqx (secure_after_linuxserver_init E) (\<lambda>_.
     seqx (fresh_policy E (su_policy U)) (\<lambda>P.
     seqx (modify fresh_executor) (\<lambda>_.
     seqx (recover E P True) (\<lambda>outcome.
     seqx (raise_if (outcome \<notin> set RECOVERY_RESULTS) (refuse ''unexpected startup recovery result'')) (\<lambda>_.
     ret outcome))))))"

text \<open>The exit status and the line printed, on the standard output when the status is 0 and on the standard error otherwise.\<close>

definition failure_message :: "string list \<Rightarrow> string" where
  "failure_message arguments =
     (if arguments = [''recover-startup''] then ''unifi-cert-renewer startup recovery failed closed; operator review required''
      else if arguments = [''secure-after-init'']
      then ''unifi-cert-renewer post-init state check failed closed; operator review required''
      else ''unifi-cert-renewer executor failed closed'')"

definition main_service ::
  "exec_env \<Rightarrow> startup_env \<Rightarrow> sock_env \<Rightarrow> arrival list list \<Rightarrow> string list \<Rightarrow> (world, nat \<times> string) exec" where
  "main_service E U S connections arguments =
     handle
       (if arguments = [''serve''] then seqx (serve_forever E (su_policy U) S connections) (\<lambda>_. ret (0, []))
        else if arguments = [''recover-startup'']
        then seqx (recover_startup E U) (\<lambda>outcome. ret (0, ''unifi-cert-renewer startup recovery: '' @ outcome))
        else if arguments = [''secure-after-init'']
        then seqx (recover_startup E U) (\<lambda>outcome.
          ret (0, ''unifi-cert-renewer executor state secured after LinuxServer init; recovery recheck: '' @ outcome))
        else throw (refuse ''unsupported executor entrypoint''))
       (\<lambda>e. if is_Exception e then ret (1, failure_message arguments) else throw e)"

end
