(* ===== verification/ServiceSafety.thy ===== *)
theory ServiceSafety
  imports ExecutorService Recovery
begin

text \<open>
  What the service promises about a connection, whatever arrives on it: every failure gives the one fixed
  response, a request that is not understood changes nothing, and no request can lose the original key store.
\<close>

section \<open>Requests that are refused\<close>

lemma answer_cases:
  assumes "answer E P as s = (Return response, t)"
  obtains (ok) v result where "read_message as = Inr v" "dispatch E P v s = (Return result, t)" "response = ok_response result"
  | (failed) "response = error_response"
  using assms
  by (auto simp: answer_def handle_def seqx_def liftE_def ret_def throw_def split: sum.splits outcome.splits prod.splits if_splits)

lemma answer_Raise: "answer E P as s = (Raise e, t) \<Longrightarrow> e = KeyboardInterrupt"
  by (auto simp: answer_def handle_def seqx_def liftE_def ret_def throw_def is_Exception_def
      split: sum.splits outcome.splits prod.splits if_splits)

definition understood :: "arrival list \<Rightarrow> bool" where
  "understood as \<longleftrightarrow> (\<exists>v op arguments. read_message as = Inr v \<and> decode_envelope v = Inr (op, arguments))"

lemma exact_dict_error: "exact_dict fs v = Inl e \<Longrightarrow> e = ValueError"
  by (auto simp: exact_dict_def split: json.splits if_splits)

lemma decode_envelope_error:
  assumes "decode_envelope v = Inl e"
  shows "e = ValueError"
proof (cases "exact_dict [''version'', ''operation'', ''arguments''] v")
  case (Inl e')
  thus ?thesis using assms exact_dict_error by (auto simp: decode_envelope_def)
next
  case (Inr ps)
  thus ?thesis using assms by (auto simp: decode_envelope_def split: json.split_asm if_split_asm)
qed


section \<open>No request loses the key store\<close>

lemma keeps_dir_core: "keeps core m \<Longrightarrow> keeps (\<lambda>s. dir s n) m"
  by (auto simp: keeps_def core_def)

lemma keeps_dir_acquire:
  assumes "n \<noteq> LOCK"
  shows "keeps (\<lambda>s. dir s n) (acquire E)"
proof -
  have "keeps (\<lambda>s. dir s n) (create_lock_file F)" for F
    unfolding create_lock_file_def using assms by (intro keeps_intros keeps_dir_files)
  moreover have "keeps (\<lambda>s. dir s n) (modify (\<lambda>s. s\<lparr> w_files := Some F, w_lock := Some lock, w_expect_stopped := False,
       w_owner := Some (w_thread s), w_service := True \<rparr>))" for F lock
    by (simp add: keeps_def modify_def)
  moreover have "keeps (\<lambda>s :: world. dir s n) (files_init uid gid)" for uid gid
    by (rule keeps_dir_core [OF keeps_files_init])
  ultimately show ?thesis
    unfolding acquire_def by (intro keeps_intros keeps_dir_core[OF keeps_local_identity] keeps_dir_core[OF keeps_look(1)] keeps_dir_core[OF keeps_look(4)] keeps_dir_core[OF keeps_look(5)] keeps_dir_core[OF keeps_service(2)] keeps_dir_core[OF keeps_core_memory(2)] keeps_dir_core[OF keeps_core_memory(3)] keeps_dir_core[OF keeps_any_call] traceless_core)
qed

definition clean :: "nat \<Rightarrow> bytes \<Rightarrow> nat \<Rightarrow> world \<Rightarrow> bool" where
  "clean orig D dev s \<longleftrightarrow> idle orig D dev s \<and> dir s JOURNAL = None"

lemma clean_safe: "clean orig D dev s \<Longrightarrow> file_safe orig D dev s"
  by (auto simp: clean_def dest: guarded_safe)

lemma core_clean: "core_pred (clean orig D dev)"
  unfolding clean_def by (intro core_conj core_keeping) simp

lemma clean_acquire: "triple (clean orig D dev) (acquire E) (\<lambda>_. clean orig D dev) (clean orig D dev)"
proof -
  have "triple (\<lambda>s. idle orig D dev s \<and> dir s JOURNAL = None) (acquire E)
    (\<lambda>_ s. held orig D dev s \<and> dir s JOURNAL = None) (\<lambda>s. idle orig D dev s \<and> dir s JOURNAL = None)"
    by (rule triple_frame_all [OF triple_acquire keeps_dir_acquire, where X = "\<lambda>x. x = None"]) simp_all
  thus ?thesis unfolding clean_def by (rule triple_weaken) (auto simp: keeping_def)
qed

lemma clean_locked:
  assumes "triple (clean orig D dev) body (\<lambda>_. file_safe orig D dev) (file_safe orig D dev)"
  shows "triple (clean orig D dev) (locked E body) (\<lambda>_. file_safe orig D dev) (file_safe orig D dev)"
  by (rule triple_locked_from [OF core_clean clean_acquire file_pred_safe file_pred_safe assms]) (auto dest: clean_safe)

lemma clean_call: "keeps core m \<Longrightarrow> triple (clean orig D dev) m (\<lambda>_. file_safe orig D dev) (file_safe orig D dev)"
  by (rule triple_weaken [OF triple_core [OF _ core_clean]]) (auto dest: clean_safe)

lemma clean_then:
  "keeps core m \<Longrightarrow> (\<And>x. triple (clean orig D dev) (f x) (\<lambda>_. file_safe orig D dev) (file_safe orig D dev)) \<Longrightarrow>
   triple (clean orig D dev) (seqx m f) (\<lambda>_. file_safe orig D dev) (file_safe orig D dev)"
  by (rule triple_then [OF _ core_clean]) (auto dest: clean_safe)

lemma safe_then:
  "triple P m (\<lambda>_. file_safe orig D dev) (file_safe orig D dev) \<Longrightarrow> (\<And>x. keeps core (f x)) \<Longrightarrow>
   triple P (seqx m f) (\<lambda>_. file_safe orig D dev) (file_safe orig D dev)"
  by (rule triple_seqx) (auto intro: triple_core core_file_safe)

lemma clean_inspect:
  assumes "keytool_read_only E"
  shows "triple (clean orig D dev) (inspect_public_state E) (\<lambda>_. file_safe orig D dev) (file_safe orig D dev)"
  unfolding inspect_public_state_def
  by (intro clean_then keeps_intros triple_if clean_locked clean_call calls assms)

lemma keeps_keytool_not_stage:
  assumes "keytool_read_only E" "name \<noteq> STAGE"
  shows "keeps core (keytool E name op data)"
proof (cases "''-importcert'' \<in> set op")
  case True
  hence "keytool E name op data = seqx assert_locked (\<lambda>_.
      seqx (raise_if (name \<notin> {CANONICAL, STAGE, ROLLBACK}) (refuse ''invalid keytool target'')) (\<lambda>_.
      throw (refuse ''canonical keytool mutation prohibited'')))"
    using assms(2) by (simp add: keytool_def raise_if_def [of True])
  thus ?thesis by (simp only: keeps_intros calls)
qed (rule keeps_keytool [OF assms(1)])

lemma clean_generate_csr:
  assumes "keytool_read_only E"
  shows "triple (clean orig D dev) (generate_csr E P p) (\<lambda>_. file_safe orig D dev) (file_safe orig D dev)"
  unfolding generate_csr_def
  by (intro clean_then keeps_intros clean_locked clean_call calls keeps_with_files keeps_keytool_not_stage assms)
    (simp add: CANONICAL_def STAGE_def)

text \<open>With no journal, what the name \<open>JOURNAL\<close> guards is not reached.\<close>

lemma clean_journal_test:
  assumes "triple (clean orig D dev) (f False) (\<lambda>_. file_safe orig D dev) (file_safe orig D dev)"
  shows "triple (clean orig D dev) (seqx (files_exists F JOURNAL) f) (\<lambda>_. file_safe orig D dev) (file_safe orig D dev)"
proof (rule triple_see [where Ob = "\<lambda>there s. there = (dir s JOURNAL \<noteq> None)", OF keeps_look(2) core_clean])
  show "triple (\<lambda>s. clean orig D dev s \<and> there = (dir s JOURNAL \<noteq> None)) (f there)
    (\<lambda>_. file_safe orig D dev) (file_safe orig D dev)" for there
    using assms by (cases there) (auto simp: triple_def clean_def)
qed (auto simp: core_pred_def core_def dest: files_exists_Return clean_safe)

lemma clean_recover: "triple (clean orig D dev) (recover E P startup) (\<lambda>_. file_safe orig D dev) (file_safe orig D dev)"
proof -
  have "triple (clean orig D dev) sync_directory (\<lambda>_. file_safe orig D dev) (file_safe orig D dev)"
    unfolding clean_def by (rule triple_weaken [OF triple_inv_sync_directory]) (auto dest: guarded_safe)
  hence "triple (clean orig D dev) (seqx no_transaction (\<lambda>_. seqx sync_directory (\<lambda>_. ret ''no_active_transaction'')))
      (\<lambda>_. file_safe orig D dev) (file_safe orig D dev)"
    by (intro clean_then [OF keeps_no_transaction] safe_then keeps_intros)
  thus ?thesis
    unfolding recover_def
    by (intro clean_locked triple_with_files core_clean clean_journal_test) (auto dest: clean_safe)
qed

lemma clean_verify_pending: "triple (clean orig D dev) (verify_pending E P) (\<lambda>_. file_safe orig D dev) (file_safe orig D dev)"
  unfolding verify_pending_def
  by (intro clean_locked triple_with_files core_clean clean_journal_test)
    (auto simp: raise_if_def intro!: triple_throw dest: clean_safe)

lemma clean_install:
  assumes "keytool_read_only E"
  shows "triple (clean orig D dev) (client_install_certificate L (executor_boundary E P) r)
    (\<lambda>_. file_safe orig D dev) (file_safe orig D dev)"
  by (rule triple_pre [OF triple_install [OF assms]]) (simp add: clean_def)

lemma keeps_decode_import_request: "keeps f (decode_import_request E P v)"
  unfolding decode_import_request_def Let_def by (intro keeps_intros calls)

lemma keeps_state_result: "keeps f (state_result L st)"
  unfolding state_result_def by (intro keeps_intros)

lemma clean_fresh: "clean orig D dev (fresh_executor s) = clean orig D dev s"
proof -
  have "fcore (fresh_executor s) = fcore s" by (simp add: fcore_def fresh_executor_def)
  hence "file_safe orig D dev (fresh_executor s) = file_safe orig D dev s"
    using file_pred_safe unfolding file_pred_def by blast
  thus ?thesis by (simp add: clean_def keeping_def) (simp add: fresh_executor_def)
qed

lemma clean_dispatch:
  assumes E: "keytool_read_only E"
  shows "triple (clean orig D dev) (dispatch E P v) (\<lambda>_. file_safe orig D dev) (file_safe orig D dev)"
proof -
  let ?S = "file_safe orig D dev"
  have "triple (clean orig D dev) (serve_inspect E) (\<lambda>_. ?S) ?S"
    unfolding serve_inspect_def by (intro safe_then clean_inspect E keeps_state_result)
  moreover have "triple (clean orig D dev) (serve_generate_csr E P arguments) (\<lambda>_. ?S) ?S" for arguments
    unfolding serve_generate_csr_def by (intro clean_then keeps_intros safe_then clean_generate_csr E)
  moreover have "triple (clean orig D dev) (serve_install E P arguments) (\<lambda>_. ?S) ?S" for arguments
    unfolding serve_install_def
    by (intro clean_then keeps_intros safe_then clean_install E keeps_state_result keeps_decode_import_request calls)
  moreover have "triple (clean orig D dev) (serve_recover E P) (\<lambda>_. ?S) ?S"
    unfolding serve_recover_def by (intro safe_then clean_recover keeps_intros)
  moreover have "triple (clean orig D dev) (serve_verify_pending E P arguments) (\<lambda>_. ?S) ?S" for arguments
    unfolding serve_verify_pending_def by (intro clean_then keeps_intros safe_then clean_verify_pending)
  moreover have "triple (clean orig D dev) (modify fresh_executor) (\<lambda>_. clean orig D dev) ?S"
    by (rule triple_modify) (simp add: clean_fresh)
  ultimately show ?thesis
    unfolding dispatch_def by (intro clean_then keeps_intros triple_prod triple_seqx [where R = "\<lambda>_. clean orig D dev"] triple_if)
qed

lemma clean_connection:
  assumes "keytool_read_only E"
  shows "triple (clean orig D dev) (handle_connection E P as) (\<lambda>_. file_safe orig D dev) (file_safe orig D dev)"
proof -
  let ?S = "file_safe orig D dev"
  have "triple (clean orig D dev) (seqx (liftE (read_message as)) (\<lambda>v. seqx (dispatch E P v) (\<lambda>result. ret (ok_response result)))) (\<lambda>_. ?S) ?S"
    by (intro clean_then [OF keeps_pure(4)] safe_then clean_dispatch assms keeps_intros)
  hence "triple (clean orig D dev) (answer E P as) (\<lambda>_. ?S) ?S"
    unfolding answer_def by (rule triple_handle) (auto intro: triple_ret triple_throw)
  thus ?thesis
    unfolding handle_connection_def by (intro safe_then keeps_intros calls)
qed

text \<open>
  C4. No request can lose the key store. Let the original key store be durable under its name and no
  journal be present. Whatever bytes arrive on a connection and however its handling ends - with a response, an
  exception or the death of the process at any point - every directory that the disk may hold afterwards
  leads back to the original: it is the canonical inode, or the rollback together with a durable journal
  that authorises recovery to restore it.
\<close>

theorem requests_never_lose_the_keystore:
  assumes "keytool_read_only E" "idle orig D (device s) s" "dir s JOURNAL = None"
    and "handle_connection E P as s = (outcome, t)" "d \<in> set (history t)"
  shows "way_back orig D t d"
proof -
  have "file_safe orig D (device s) t"
    using tripleD [OF clean_connection [OF assms(1)], of orig D "device s" s P as] assms(2-4)
    by (cases outcome) (auto simp: clean_def)
  thus ?thesis using assms(5) by (rule file_safe_way_back)
qed

end
