(* ===== verification/StartupSafety.thy ===== *)
theory StartupSafety
  imports ServiceSafety
begin

text \<open>
  The start of the service: the normalisation changes owners and modes only, so that the recovery that
  follows it finds the same key store, the same rollback and the same journal as before.
\<close>

section \<open>What the normalisation keeps\<close>

lemma keeps_descriptors [calls]: "keeps core (modify (\<lambda>s. s\<lparr> w_descriptors := g s \<rparr>))"
  by (simp add: keeps_def modify_def core_def)

lemma keeps_normal_look [calls]:
  "keeps core (os_stat n)" "keeps core os_fstat_dir" "keeps core (os_read fd k)"
  by (intro quiet_core quiet_files)+

lemma keeps_stat_if_there [calls]: "keeps core (stat_if_there n)"
  unfolding stat_if_there_def by (intro keeps_intros calls)

lemma keeps_normal [calls]:
  "keeps core (admin_entry n fd uid gid)" "keeps core (transaction_entry n uid gid)" "keeps core (path_exists n)"
  "keeps core (opened_descriptor fd)" "keeps core (open_components uid)" "keeps core (open_journal_name n uid gid)"
  "keeps core (check_repaired a)"
proof -
  show e: "keeps core (admin_entry n fd uid gid)" for n fd
    unfolding admin_entry_def by (intro keeps_intros calls)
  show "keeps core (transaction_entry n uid gid)"
    unfolding transaction_entry_def by (intro keeps_intros calls)
  show "keeps core (path_exists n)" unfolding path_exists_def by (intro keeps_intros calls)
  show o: "keeps core (opened_descriptor fd)" for fd unfolding opened_descriptor_def by (intro calls)
  show "keeps core (open_components uid)" unfolding open_components_def by (intro keeps_intros calls)
  show "keeps core (open_journal_name n uid gid)"
    unfolding open_journal_name_def by (intro keeps_intros calls e o) 
  show "keeps core (check_repaired a)"
    by (cases a) (auto simp: check_repaired_def intro!: keeps_intros calls)
qed

lemma keeps_validate [calls]: "keeps core (validate_normalization_transaction v uid gid b)"
  unfolding validate_normalization_transaction_def Let_def by (intro keeps_intros calls)

text \<open>
  An assertion about the files, the journal in memory and the lock that survives the creation of the lock
  file, changes of owner and mode, and synchronisation. The normalisation keeps every such assertion,
  however it ends.
\<close>

locale normalization_invariant =
  fixes K :: "world \<Rightarrow> bool"
  assumes core_K: "core_pred K"
    and create_lock: "triple K (os_open_create LOCK) (\<lambda>_. K) K"
    and change_owner: "triple K (os_fchown fd u g) (\<lambda>_. K) K"
    and change_mode: "triple K (os_fchmod fd m) (\<lambda>_. K) K"
    and sync_inode: "triple K (os_fsync_file fd) (\<lambda>_. K) K"
    and sync_dir: "triple K os_fsync_dir (\<lambda>_. K) K"
begin

lemma call: "keeps core m \<Longrightarrow> triple K m (\<lambda>_. K) K"
  by (rule triple_core [OF _ core_K])

lemma look_then: "keeps core m \<Longrightarrow> (\<And>x. triple K (f x) (\<lambda>_. K) K) \<Longrightarrow> triple K (seqx m f) (\<lambda>_. K) K"
  by (rule triple_then [OF _ core_K]) auto

lemma change_then: "triple K m (\<lambda>_. K) K \<Longrightarrow> (\<And>x. triple K (f x) (\<lambda>_. K) K) \<Longrightarrow> triple K (seqx m f) (\<lambda>_. K) K"
  by (rule triple_seqx)

lemma closing: "triple K m (\<lambda>_. K) K \<Longrightarrow> triple K c (\<lambda>_. K) K \<Longrightarrow> triple K (finally_do m c) (\<lambda>_. K) K"
  by (rule triple_finally)

lemma each: "(\<And>x. triple K (f x) (\<lambda>_. K) K) \<Longrightarrow> triple K (forx f xs) (\<lambda>_. K) K"
  by (induction xs) (auto intro: triple_ret change_then)

lemma opens_lock: "triple K open_lock (\<lambda>_. K) K"
  unfolding open_lock_def
  by (intro look_then change_then [OF create_lock] change_then [OF change_mode] triple_if call keeps_intros calls)

lemma normalizes_canonical: "triple K (normalize_clean_canonical uid gid) (\<lambda>_. K) K"
proof -
  have o: "triple K (normalize_opened_canonical uid gid v fd) (\<lambda>_. K) K" for v fd
    unfolding normalize_opened_canonical_def
    by (intro look_then triple_if change_then [OF change_mode] change_then [OF sync_inode] call keeps_intros calls)
  have "triple K (seqx (os_open_read CANONICAL) (\<lambda>fd. finally_do (normalize_opened_canonical uid gid v fd) (os_close fd)))
      (\<lambda>_. K) K" for v
    by (rule look_then [OF _ closing [OF o call]]; rule calls)
  thus ?thesis
    unfolding normalize_clean_canonical_def
    by (intro look_then [OF keeps_stat_if_there]) (auto split: option.split intro: triple_ret)
qed

lemma repairs_owner: "triple K (repair_owner a) (\<lambda>_. K) K"
  by (cases a) (auto simp: repair_owner_def intro!: look_then keeps_intros calls change_then [OF change_owner]
      change_then [OF change_mode] sync_inode)

lemma checks_journal: "triple K (check_journal uid gid entries fd) (\<lambda>_. K) K"
  unfolding check_journal_def by (intro call keeps_intros calls)

lemma normalizes_state: "triple K (normalize_state E uid gid) (\<lambda>_. K) K"
proof -
  have r: "triple K (seqx (forx repair_owner repair) (\<lambda>_. seqx (forx check_repaired entries) (\<lambda>_. os_fsync_dir))) (\<lambda>_. K) K"
    for repair entries
    by (rule change_then [OF each [OF repairs_owner] look_then [OF keeps_forx [OF keeps_normal(7)] sync_dir]])
  have c: "triple K (if b then normalize_clean_canonical uid gid else ret ()) (\<lambda>_. K) K" for b
    by (simp add: normalizes_canonical triple_ret)
  have j: "triple K (case x of Some (fd, _) \<Rightarrow> if c then check_journal uid gid entries fd else ret () | None \<Rightarrow> ret ())
      (\<lambda>_. K) K" for x c entries
    by (auto split: option.split intro: checks_journal triple_ret)
  note end_part = change_then [OF j change_then [OF c r]]
  show ?thesis
    unfolding normalize_state_def Let_def
    by (intro look_then [OF keeps_normal(5)] change_then [OF opens_lock] look_then [OF keeps_normal(1)]
        look_then [OF keeps_any_call] look_then [OF keeps_anyx] look_then [OF keeps_normal(6)] look_then [OF keeps_pure(5)]
        end_part keeps_normal traceless_core keeps_intros)
qed

lemma keeps_invariant: "triple K (secure_after_linuxserver_init E) (\<lambda>_. K) K"
proof -
  have n: "triple K (handle (normalize_state E uid gid)
      (\<lambda>e. throw (if is_Exception e then refuse ''executor state normalization failed'' else e))) (\<lambda>_. K) K" for uid gid
    by (rule triple_handle [OF normalizes_state]) (auto intro: triple_throw)
  have c: "triple K close_descriptors (\<lambda>_. K) K"
    unfolding close_descriptors_def by (intro call keeps_intros calls)
  note end_part = change_then [OF closing [OF n c] triple_ret]
  show ?thesis
    unfolding secure_after_linuxserver_init_def
    by (intro look_then [OF keeps_local_identity] triple_prod look_then [OF keeps_any_call] look_then [OF keeps_descriptors]
        end_part traceless_core keeps_intros)
qed

end

section \<open>The assertions of recovery survive\<close>

lemma triple_store_attributes:
  "triple (store orig D A R) (os_fchown fd u g) (\<lambda>_. store orig D A R) (store orig D A R)"
  "triple (store orig D A R) (os_fchmod fd m) (\<lambda>_. store orig D A R) (store orig D A R)"
  "triple (store orig D A R) (os_fsync_file fd) (\<lambda>_. store orig D A R) (store orig D A R)"
  unfolding os_fchown_def os_fchmod_def os_fsync_file_def
  by (rule triple_file_call, rule tripleI; simp add: exec_eval store_attributes store_synced stepless_store)+

interpretation kept: normalization_invariant "keeping orig D dev X" for orig D dev X
proof
  show "core_pred (keeping orig D dev X)" by (rule core_keeping)
  show "triple (keeping orig D dev X) (os_open_create LOCK) (\<lambda>_. keeping orig D dev X) (keeping orig D dev X)"
    by (rule triple_file_op [OF triple_weaken [OF triple_os_open_create]]) (auto intro: keeps_dir_os)
  show "triple (keeping orig D dev X) (os_fchown fd u g) (\<lambda>_. keeping orig D dev X) (keeping orig D dev X)" for fd u g
    by (rule triple_file_op [OF triple_store_attributes(1)]) (rule keeps_dir_os)
  show "triple (keeping orig D dev X) (os_fchmod fd m) (\<lambda>_. keeping orig D dev X) (keeping orig D dev X)" for fd m
    by (rule triple_file_op [OF triple_store_attributes(2)]) (rule keeps_dir_os)
  show "triple (keeping orig D dev X) (os_fsync_file fd) (\<lambda>_. keeping orig D dev X) (keeping orig D dev X)" for fd
    by (rule triple_file_op [OF triple_store_attributes(3)]) (rule keeps_dir_os)
  show "triple (keeping orig D dev X) os_fsync_dir (\<lambda>_. keeping orig D dev X) (keeping orig D dev X)"
    using triple_inv_sync_directory by (simp add: sync_directory_def)
qed

interpretation found: normalization_invariant "journal_found J" for J
  by unfold_locales (rule core_journal_found triple_found_open triple_found_attributes)+

section \<open>Start-up\<close>

lemma keeps_startup_directory [calls]: "keeps core (startup_data_directory_absent U)"
  unfolding startup_data_directory_absent_def by (intro keeps_intros calls)

lemma keeps_fresh_policy: "keeps core (fresh_policy E pol)"
  unfolding fresh_policy_def load_policy_def fail_load_def read_policy_file_def by (intro keeps_intros calls)

lemma kept_fresh:
  assumes "\<And>c j l j' l'. X c j l = X c j' l'"
  shows "keeping orig D dev X (fresh_executor s) = keeping orig D dev X s"
proof -
  have "fcore (fresh_executor s) = fcore s" by (simp add: fcore_def fresh_executor_def)
  hence "file_safe orig D dev (fresh_executor s) = file_safe orig D dev s"
    using file_pred_safe unfolding file_pred_def by blast
  thus ?thesis
    using assms [of "dir s CANONICAL" "w_journal s" "w_lock s" None None] by (simp add: keeping_def fresh_executor_def)
qed

lemma triple_startup:
  assumes E: "keytool_read_only E" and J: "j_old_inode J = (dev, orig)" "j_phase J \<noteq> LiveVerified"
  shows "triple (\<lambda>s. keeping orig D dev (\<lambda>c j l. c = Some orig \<or> j_commit_possible J) s \<and> journal_found J s)
    (recover_startup E U) (recovered orig D dev) (file_safe orig D dev)"
proof -
  let ?K = "\<lambda>s. keeping orig D dev (\<lambda>c j l. c = Some orig \<or> j_commit_possible J) s \<and> journal_found J s"
  let ?Q = "recovered orig D dev" and ?S = "file_safe orig D dev"
  have K: "core_pred ?K" by (intro core_conj core_keeping core_journal_found)
  have S: "\<And>s. ?K s \<Longrightarrow> ?S s" using guarded_safe by blast
  have norm: "triple ?K (secure_after_linuxserver_init E) (\<lambda>_. ?K) ?S"
    by (rule triple_weaken [OF triple_conj [OF kept.keeps_invariant found.keeps_invariant]]) (use S in auto)
  have fresh: "triple ?K (modify fresh_executor) (\<lambda>_. ?K) ?S"
    by (rule triple_modify) (simp add: kept_fresh, simp add: journal_found_def fresh_executor_def)
  have "triple ?K (seqx (recover E P True) (\<lambda>outcome.
      seqx (raise_if (outcome \<notin> set RECOVERY_RESULTS) (refuse ''unexpected startup recovery result'')) (\<lambda>_. ret outcome))) ?Q ?S" for P
    by (rule triple_seqx [OF triple_recover [OF E J]], rule triple_guard, rule triple_ret) (auto simp: recovered_def)
  note rest = triple_seqx [OF norm triple_then [OF keeps_fresh_policy K triple_seqx [OF fresh this] S]]
  show ?thesis
    unfolding recover_startup_def
    by (rule triple_then [OF keeps_startup_directory K triple_if [OF triple_ret rest] S]) (auto simp: recovered_def intro: S)
qed


end
