(* ===== verification/RunResult.thy ===== *)
theory RunResult
  imports Json PyTime
begin

text \<open>
  The structured result of one invocation (\<open>run_result.py\<close>): the report enumerations, the target and
  run results, and \<open>RunEvidence\<close>, the progress the worker itself observed. \<open>RunEvidence\<close> keeps its
  only target both as an attribute and in \<open>run.results\<close>; the two are the same object, so the model
  keeps the target once and \<open>evidence_run\<close> puts it into the run. The lemmas show which outcome a
  failure reports after any sequence of observed events.
\<close>

section \<open>Enumerations\<close>

datatype run_outcome =
    SUCCESS_CHANGED | SUCCESS_NO_CHANGE | SUCCESS_PREPARED | ATTENTION_DUE
  | FAILURE_PRE_ATTEMPT | FAILURE_PARTIAL | FAILURE_AMBIGUOUS

datatype operation =
    INSPECT | RENEW_DUE | RENEW_NOW | GENERATE_CSR | RETRIEVE_CSR | SIGN_CSR | INSTALL

datatype stage =
    STARTUP | CONFIGURATION | S_LOCK | INSPECTION | DECISION | PREFLIGHT | CSR_GENERATION
  | CSR_RETRIEVAL | SIGNING | ISSUED_VALIDATION | INSTALLATION | ACTIVATION | LIVE_VERIFICATION
  | FINALIZATION | COMPLETED

datatype milestone = NOT_ATTEMPTED | CONFIRMED | FAILED | UNCERTAIN | NOT_APPLICABLE

datatype change = CHANGE_NONE | CHANGE_CONFIRMED | CHANGE_POSSIBLE

datatype reason =
    CONFIG_INVALID | LOCK_BUSY | LOCK_FAILED | PENDING_STATE | INSPECTION_FAILED | CSR_FAILED
  | SIGNING_FAILED | VALIDATION_FAILED | INSTALLATION_FAILED | VERIFICATION_FAILED
  | RECOVERY_REQUIRED | UNEXPECTED_FAILURE

primrec outcome_value :: "run_outcome \<Rightarrow> string" where
  "outcome_value SUCCESS_CHANGED = ''success_changed''"
| "outcome_value SUCCESS_NO_CHANGE = ''success_no_change''"
| "outcome_value SUCCESS_PREPARED = ''success_prepared''"
| "outcome_value ATTENTION_DUE = ''attention_due''"
| "outcome_value FAILURE_PRE_ATTEMPT = ''failure_pre_attempt''"
| "outcome_value FAILURE_PARTIAL = ''failure_partial''"
| "outcome_value FAILURE_AMBIGUOUS = ''failure_ambiguous''"

primrec operation_value :: "operation \<Rightarrow> string" where
  "operation_value INSPECT = ''inspect''"
| "operation_value RENEW_DUE = ''renew_due''"
| "operation_value RENEW_NOW = ''renew_now''"
| "operation_value GENERATE_CSR = ''generate_csr''"
| "operation_value RETRIEVE_CSR = ''retrieve_csr''"
| "operation_value SIGN_CSR = ''sign_csr''"
| "operation_value INSTALL = ''install''"

primrec stage_value :: "stage \<Rightarrow> string" where
  "stage_value STARTUP = ''startup''"
| "stage_value CONFIGURATION = ''configuration''"
| "stage_value S_LOCK = ''lock''"
| "stage_value INSPECTION = ''inspection''"
| "stage_value DECISION = ''decision''"
| "stage_value PREFLIGHT = ''preflight''"
| "stage_value CSR_GENERATION = ''csr_generation''"
| "stage_value CSR_RETRIEVAL = ''csr_retrieval''"
| "stage_value SIGNING = ''signing''"
| "stage_value ISSUED_VALIDATION = ''issued_validation''"
| "stage_value INSTALLATION = ''installation''"
| "stage_value ACTIVATION = ''activation''"
| "stage_value LIVE_VERIFICATION = ''live_verification''"
| "stage_value FINALIZATION = ''finalization''"
| "stage_value COMPLETED = ''completed''"

primrec milestone_value :: "milestone \<Rightarrow> string" where
  "milestone_value NOT_ATTEMPTED = ''not_attempted''"
| "milestone_value CONFIRMED = ''confirmed''"
| "milestone_value FAILED = ''failed''"
| "milestone_value UNCERTAIN = ''uncertain''"
| "milestone_value NOT_APPLICABLE = ''not_applicable''"

primrec change_value :: "change \<Rightarrow> string" where
  "change_value CHANGE_NONE = ''none''"
| "change_value CHANGE_CONFIRMED = ''confirmed''"
| "change_value CHANGE_POSSIBLE = ''possible''"

primrec reason_value :: "reason \<Rightarrow> string" where
  "reason_value CONFIG_INVALID = ''config_invalid''"
| "reason_value LOCK_BUSY = ''lock_busy''"
| "reason_value LOCK_FAILED = ''lock_failed''"
| "reason_value PENDING_STATE = ''pending_state''"
| "reason_value INSPECTION_FAILED = ''inspection_failed''"
| "reason_value CSR_FAILED = ''csr_failed''"
| "reason_value SIGNING_FAILED = ''signing_failed''"
| "reason_value VALIDATION_FAILED = ''validation_failed''"
| "reason_value INSTALLATION_FAILED = ''installation_failed''"
| "reason_value VERIFICATION_FAILED = ''verification_failed''"
| "reason_value RECOVERY_REQUIRED = ''recovery_required''"
| "reason_value UNEXPECTED_FAILURE = ''unexpected_failure''"

definition MILESTONE_NAMES :: "string list" where
  "MILESTONE_NAMES = [''csr'', ''issuance'', ''installation'', ''activation'', ''live_tls'']"

primrec severity :: "run_outcome \<Rightarrow> nat" where
  "severity SUCCESS_NO_CHANGE = 0"
| "severity SUCCESS_PREPARED = 1"
| "severity SUCCESS_CHANGED = 2"
| "severity ATTENTION_DUE = 3"
| "severity FAILURE_PRE_ATTEMPT = 4"
| "severity FAILURE_PARTIAL = 5"
| "severity FAILURE_AMBIGUOUS = 6"

section \<open>Target and run results\<close>

record target_result =
  t_target :: string
  t_outcome :: run_outcome
  t_stage :: stage
  t_renewal_due :: "bool option"
  t_change :: change
  t_manual_recovery_required :: bool
  t_reason_code :: "reason option"
  t_message :: string
  t_certificate :: "(string \<times> string option) list option"
  t_milestones :: "(string \<times> milestone) list"

definition TargetResult :: "string \<Rightarrow> target_result" where
  "TargetResult name = \<lparr> t_target = name, t_outcome = FAILURE_PRE_ATTEMPT, t_stage = STARTUP,
     t_renewal_due = None, t_change = CHANGE_NONE, t_manual_recovery_required = False,
     t_reason_code = None, t_message = ''Operation has not completed.'', t_certificate = None,
     t_milestones = map (\<lambda>n. (n, NOT_ATTEMPTED)) MILESTONE_NAMES \<rparr>"

definition opt_json :: "('a \<Rightarrow> json) \<Rightarrow> 'a option \<Rightarrow> json" where
  "opt_json f x = (case x of None \<Rightarrow> JNull | Some y \<Rightarrow> f y)"

definition target_as_dict :: "target_result \<Rightarrow> json" where
  "target_as_dict t = JObj [
     (''target'', JStr (t_target t)),
     (''outcome'', JStr (outcome_value (t_outcome t))),
     (''stage'', JStr (stage_value (t_stage t))),
     (''renewal_due'', opt_json JBool (t_renewal_due t)),
     (''change'', JStr (change_value (t_change t))),
     (''manual_recovery_required'', JBool (t_manual_recovery_required t)),
     (''reason_code'', opt_json (\<lambda>r. JStr (reason_value r)) (t_reason_code t)),
     (''message'', JStr (t_message t)),
     (''certificate'', opt_json (\<lambda>c. JObj (map (map_prod id (opt_json JStr)) c)) (t_certificate t)),
     (''milestones'', JObj (map (map_prod id (JStr \<circ> milestone_value)) (t_milestones t)))]"

record run_result =
  r_operation :: operation
  r_attempt_id :: string
  r_started_at :: string
  r_finished_at :: "string option"
  r_outcome :: run_outcome
  r_stage :: stage
  r_manual_recovery_required :: bool
  r_reason_code :: "reason option"
  r_message :: string
  r_results :: "target_result list"

text \<open>The attempt id (\<open>uuid4\<close>) and the start time are drawn by the caller.\<close>

definition RunResult :: "string \<Rightarrow> instant \<Rightarrow> operation \<Rightarrow> run_result" where
  "RunResult uuid now op = \<lparr> r_operation = op, r_attempt_id = uuid,
     r_started_at = utc_isoformat now, r_finished_at = None, r_outcome = FAILURE_PRE_ATTEMPT,
     r_stage = STARTUP, r_manual_recovery_required = False, r_reason_code = None,
     r_message = ''Operation has not completed.'', r_results = [] \<rparr>"

text \<open>Python's \<open>max(items, key=...)\<close>: the first of the greatest items.\<close>

fun max_by :: "('a \<Rightarrow> nat) \<Rightarrow> 'a \<Rightarrow> 'a list \<Rightarrow> 'a" where
  "max_by f x [] = x"
| "max_by f x (y # ys) = (if f x < f y then max_by f y ys else max_by f x ys)"

definition run_finish :: "instant \<Rightarrow> run_result \<Rightarrow> run_result" where
  "run_finish now r =
     (case r_results r of
        [] \<Rightarrow> r
      | x # xs \<Rightarrow>
        let chosen = max_by (\<lambda>i. severity (t_outcome i)) x xs
        in r\<lparr> r_outcome := t_outcome chosen,
              r_stage := (if severity (t_outcome chosen) \<ge> severity ATTENTION_DUE
                          then t_stage chosen else COMPLETED),
              r_reason_code := t_reason_code chosen,
              r_message := t_message chosen,
              r_manual_recovery_required := (r_manual_recovery_required r \<or>
                list_ex t_manual_recovery_required (x # xs)) \<rparr>)
     \<lparr> r_finished_at := Some (utc_isoformat now) \<rparr>"

definition run_as_dict :: "run_result \<Rightarrow> json" where
  "run_as_dict r = JObj [
     (''schema_version'', JInt 1),
     (''product'', JStr ''unifi''),
     (''operation'', JStr (operation_value (r_operation r))),
     (''attempt_id'', JStr (r_attempt_id r)),
     (''started_at'', JStr (r_started_at r)),
     (''finished_at'', opt_json JStr (r_finished_at r)),
     (''outcome'', JStr (outcome_value (r_outcome r))),
     (''stage'', JStr (stage_value (r_stage r))),
     (''manual_recovery_required'', JBool (r_manual_recovery_required r)),
     (''reason_code'', opt_json (\<lambda>x. JStr (reason_value x)) (r_reason_code r)),
     (''message'', JStr (r_message r)),
     (''results'', JArr (map target_as_dict (r_results r)))]"

text \<open>\<open>json.dumps\<close> with its default separators and the fields in insertion order.\<close>

fun dumps_spaced :: "json \<Rightarrow> string" where
  "dumps_spaced (JArr vs) = ''['' @ join '', '' (map dumps_spaced vs) @ '']''"
| "dumps_spaced (JObj ps) = ''{'' @ join '', '' (map (\<lambda>p. dump_string (fst p) @ '': '' @ snd p)
     (map (\<lambda>p. (fst p, dumps_spaced (snd p))) ps)) @ ''}''"
| "dumps_spaced v = dumps v"

definition to_json :: "run_result \<Rightarrow> string" where
  "to_json r = dumps_spaced (run_as_dict r)"

section \<open>Evidence of one invocation\<close>

definition failure_reasons :: "stage \<Rightarrow> reason option" where
  "failure_reasons s = map_of
     [(CONFIGURATION, CONFIG_INVALID), (S_LOCK, LOCK_FAILED), (INSPECTION, INSPECTION_FAILED),
      (DECISION, VALIDATION_FAILED), (PREFLIGHT, VALIDATION_FAILED), (CSR_GENERATION, CSR_FAILED),
      (CSR_RETRIEVAL, CSR_FAILED), (SIGNING, SIGNING_FAILED), (ISSUED_VALIDATION, VALIDATION_FAILED),
      (INSTALLATION, INSTALLATION_FAILED), (ACTIVATION, VERIFICATION_FAILED),
      (LIVE_VERIFICATION, VERIFICATION_FAILED), (FINALIZATION, RECOVERY_REQUIRED)] s"

text \<open>Of an inspected certificate the evidence reads the fingerprint and the expiry instant.\<close>

record evidence =
  e_run :: run_result
  e_target :: target_result
  e_stage :: stage
  e_certificate :: "(string \<times> instant) option"

definition RunEvidence :: "string \<Rightarrow> instant \<Rightarrow> operation \<Rightarrow> evidence" where
  "RunEvidence uuid now op = \<lparr> e_run = RunResult uuid now op, e_target = TargetResult ''unifi'',
     e_stage = STARTUP, e_certificate = None \<rparr>"

primrec set_milestone :: "string \<Rightarrow> milestone \<Rightarrow> (string \<times> milestone) list \<Rightarrow> (string \<times> milestone) list" where
  "set_milestone k v [] = [(k, v)]"
| "set_milestone k v (p # ps) = (if fst p = k then (k, v) # ps else p # set_milestone k v ps)"

definition mark :: "string \<Rightarrow> milestone \<Rightarrow> evidence \<Rightarrow> evidence" where
  "mark k v e = e\<lparr> e_target := (e_target e)\<lparr> t_milestones := set_milestone k v (t_milestones (e_target e)) \<rparr> \<rparr>"

definition confirm :: "string \<Rightarrow> evidence \<Rightarrow> evidence" where
  "confirm name e = (let e' = mark name CONFIRMED e in
     if name = ''issuance'' then e'\<lparr> e_target := (e_target e')\<lparr> t_change := CHANGE_CONFIRMED \<rparr> \<rparr> else e')"

definition signing_dispatch :: "evidence \<Rightarrow> evidence" where
  "signing_dispatch e = (let e' = mark ''issuance'' UNCERTAIN e in
     e'\<lparr> e_target := (e_target e')\<lparr> t_change := CHANGE_POSSIBLE \<rparr> \<rparr>)"

definition executor_dispatch :: "string \<Rightarrow> evidence \<Rightarrow> evidence" where
  "executor_dispatch op e =
     (if op = ''install'' then mark ''installation'' UNCERTAIN e
      else if op = ''verify_pending'' then mark ''live_tls'' UNCERTAIN (mark ''activation'' UNCERTAIN e)
      else e)"

definition certificate_dict :: "string \<times> instant \<Rightarrow> (string \<times> string option) list" where
  "certificate_dict c = [(''fingerprint_sha256'', Some (fst c)),
     (''expiry_date'', Some (date_isoformat (snd c)))]"

definition with_certificate :: "evidence \<Rightarrow> target_result \<Rightarrow> target_result" where
  "with_certificate e t = (case e_certificate e of
      None \<Rightarrow> t | Some c \<Rightarrow> t\<lparr> t_certificate := Some (certificate_dict c) \<rparr>)"

definition success :: "run_outcome \<Rightarrow> string \<Rightarrow> bool option \<Rightarrow> evidence \<Rightarrow> evidence" where
  "success out msg due e = e\<lparr> e_target := with_certificate e ((e_target e)\<lparr>
     t_outcome := out,
     t_stage := (if out = ATTENTION_DUE then e_stage e else COMPLETED),
     t_renewal_due := due, t_reason_code := None, t_message := msg \<rparr>) \<rparr>"

definition uncertain :: "target_result \<Rightarrow> bool" where
  "uncertain t \<longleftrightarrow> list_ex (\<lambda>p. snd p = UNCERTAIN) (t_milestones t)"

definition failure :: "reason option \<Rightarrow> evidence \<Rightarrow> evidence" where
  "failure reason e =
     (let t = e_target e; stage = e_stage e;
          t' = t\<lparr> t_stage := stage,
            t_reason_code := (case reason of Some r \<Rightarrow> Some r
              | None \<Rightarrow> (case failure_reasons stage of Some r \<Rightarrow> Some r | None \<Rightarrow> Some UNEXPECTED_FAILURE)),
            t_outcome := (if uncertain t then FAILURE_AMBIGUOUS
              else if t_change t = CHANGE_CONFIRMED then FAILURE_PARTIAL else FAILURE_PRE_ATTEMPT),
            t_manual_recovery_required := (t_change t \<noteq> CHANGE_NONE \<or> uncertain t),
            t_message := ''Renewer stopped; inspect the current state before retry.'',
            t_milestones := (if stage = CSR_GENERATION
              then set_milestone ''csr'' FAILED (t_milestones t) else t_milestones t) \<rparr>
      in e\<lparr> e_target := with_certificate e t' \<rparr>)"

definition evidence_run :: "evidence \<Rightarrow> run_result" where
  "evidence_run e = (e_run e)\<lparr> r_results := [e_target e] \<rparr>"

definition evidence_finish :: "instant \<Rightarrow> evidence \<Rightarrow> string" where
  "evidence_finish now e = to_json (run_finish now (evidence_run e))"

section \<open>What a run reports\<close>

text \<open>The events that change the evidence between its creation and its end.\<close>

datatype event = Confirm string | SigningDispatch | ExecutorDispatch string
  | SetStage stage | SetCertificate "(string \<times> instant) option" | SetDue bool

primrec observe :: "event \<Rightarrow> evidence \<Rightarrow> evidence" where
  "observe (Confirm n) e = confirm n e"
| "observe SigningDispatch e = signing_dispatch e"
| "observe (ExecutorDispatch op) e = executor_dispatch op e"
| "observe (SetStage s) e = e\<lparr> e_stage := s \<rparr>"
| "observe (SetCertificate c) e = e\<lparr> e_certificate := c \<rparr>"
| "observe (SetDue b) e = e\<lparr> e_target := (e_target e)\<lparr> t_renewal_due := Some b \<rparr> \<rparr>"

text \<open>The report of a run that observed the events and then failed.\<close>

definition failed_run :: "evidence \<Rightarrow> event list \<Rightarrow> reason option \<Rightarrow> instant \<Rightarrow> run_result" where
  "failed_run e evs reason now = run_finish now (evidence_run (failure reason (fold observe evs e)))"

lemmas evidence_defs = confirm_def signing_dispatch_def executor_dispatch_def mark_def Let_def

lemma max_by_in: "max_by f x xs \<in> set (x # xs)"
  by (induction xs arbitrary: x) auto

lemma max_by_start: "f x \<le> f (max_by f x xs)"
  by (induction xs arbitrary: x) (auto intro: le_trans less_imp_le)

lemma max_by_greatest: "y \<in> set (x # xs) \<Longrightarrow> f y \<le> f (max_by f x xs)"
proof (induction xs arbitrary: x)
  case (Cons z zs)
  then show ?case
    using max_by_start[of f x zs] max_by_start[of f z zs] by (auto simp: not_less)
qed simp

lemma set_milestone_get [simp]: "map_of (set_milestone k v ms) j = (if j = k then Some v else map_of ms j)"
  by (induction ms) auto

lemma set_milestone_keys: "distinct (map fst ms) \<Longrightarrow> distinct (map fst (set_milestone k v ms))"
proof (induction ms)
  case (Cons p ms)
  have "fst ` set (set_milestone k v ms) = insert k (fst ` set ms)" by (induction ms) auto
  with Cons show ?case by auto
qed simp

lemma uncertain_iff:
  "distinct (map fst (t_milestones t)) \<Longrightarrow> uncertain t \<longleftrightarrow> (\<exists>k. map_of (t_milestones t) k = Some UNCERTAIN)"
  by (force simp: uncertain_def list_ex_iff)

lemma observe_distinct:
  "distinct (map fst (t_milestones (e_target e))) \<Longrightarrow>
   distinct (map fst (t_milestones (e_target (observe ev e))))"
  by (cases ev) (auto simp: evidence_defs set_milestone_keys)

lemma observe_all_distinct:
  "distinct (map fst (t_milestones (e_target e))) \<Longrightarrow>
   distinct (map fst (t_milestones (e_target (fold observe evs e))))"
  by (induction evs arbitrary: e) (simp_all add: observe_distinct)

lemma RunEvidence_distinct: "distinct (map fst (t_milestones (e_target (RunEvidence u n op))))"
  by (simp add: RunEvidence_def TargetResult_def MILESTONE_NAMES_def)

lemma observe_change:
  "t_change (e_target (observe ev e)) = CHANGE_NONE \<longleftrightarrow>
   t_change (e_target e) = CHANGE_NONE \<and> ev \<noteq> SigningDispatch \<and> ev \<noteq> Confirm ''issuance''"
  by (cases ev) (auto simp: evidence_defs)

lemma observe_all_change:
  "t_change (e_target (fold observe evs e)) = CHANGE_NONE \<longleftrightarrow>
   t_change (e_target e) = CHANGE_NONE \<and> SigningDispatch \<notin> set evs \<and> Confirm ''issuance'' \<notin> set evs"
  by (induction evs arbitrary: e) (auto simp: observe_change)

text \<open>The last event about a milestone decides it.\<close>

definition last_word :: "string \<Rightarrow> event \<Rightarrow> milestone option" where
  "last_word k ev = (case ev of
      Confirm n \<Rightarrow> if n = k then Some CONFIRMED else None
    | SigningDispatch \<Rightarrow> if k = ''issuance'' then Some UNCERTAIN else None
    | ExecutorDispatch op \<Rightarrow>
        if op = ''install'' \<and> k = ''installation'' \<or>
           op = ''verify_pending'' \<and> k \<in> {''activation'', ''live_tls''} then Some UNCERTAIN else None
    | _ \<Rightarrow> None)"

lemma observe_milestone:
  "map_of (t_milestones (e_target (observe ev e))) k =
     (case last_word k ev of None \<Rightarrow> map_of (t_milestones (e_target e)) k | Some v \<Rightarrow> Some v)"
  by (cases ev) (auto simp: evidence_defs last_word_def)

lemma observe_all_quiet:
  "\<forall>ev\<in>set evs. last_word k ev = None \<Longrightarrow>
   map_of (t_milestones (e_target (fold observe evs e))) k = map_of (t_milestones (e_target e)) k"
  by (induction evs arbitrary: e) (auto simp: observe_milestone)

lemma failure_target:
  "t_outcome (e_target (failure r e)) =
     (if uncertain (e_target e) then FAILURE_AMBIGUOUS
      else if t_change (e_target e) = CHANGE_CONFIRMED then FAILURE_PARTIAL else FAILURE_PRE_ATTEMPT)"
  "t_manual_recovery_required (e_target (failure r e)) \<longleftrightarrow>
     t_change (e_target e) \<noteq> CHANGE_NONE \<or> uncertain (e_target e)"
  by (simp_all add: failure_def Let_def with_certificate_def split: option.splits)

lemma report_failure:
  "r_outcome (run_finish now (evidence_run (failure r e))) = t_outcome (e_target (failure r e))"
  "r_manual_recovery_required (run_finish now (evidence_run (failure r e))) \<longleftrightarrow>
     r_manual_recovery_required (e_run e) \<or> t_manual_recovery_required (e_target (failure r e))"
  by (simp_all add: run_finish_def evidence_run_def failure_def Let_def)

lemma signing_invariant:
  assumes "SigningDispatch \<in> set evs"
  shows "t_change (e_target (fold observe evs e)) = CHANGE_CONFIRMED \<or>
    map_of (t_milestones (e_target (fold observe evs e))) ''issuance'' = Some UNCERTAIN"
  using assms
proof (induction evs rule: rev_induct)
  case (snoc ev evs)
  then show ?case by (cases ev) (auto simp: evidence_defs)
qed simp

text \<open>
  C18. Once the signing request has been handed to the transport, a run that fails never reports that
  nothing was attempted: its outcome is partial or ambiguous and it asks for manual recovery,
  whatever else was observed before or after.
\<close>

theorem dispatched_signing_is_never_pre_attempt:
  assumes "SigningDispatch \<in> set evs"
  shows "r_outcome (failed_run (RunEvidence uuid t0 op) evs reason now) \<in> {FAILURE_PARTIAL, FAILURE_AMBIGUOUS} \<and>
    r_manual_recovery_required (failed_run (RunEvidence uuid t0 op) evs reason now)"
proof -
  let ?e = "fold observe evs (RunEvidence uuid t0 op)"
  have "uncertain (e_target ?e) \<or> t_change (e_target ?e) = CHANGE_CONFIRMED"
    using signing_invariant[OF assms(1)] uncertain_iff[OF observe_all_distinct[OF RunEvidence_distinct]]
    by blast
  moreover have "t_change (e_target ?e) \<noteq> CHANGE_NONE"
    using assms(1) by (simp add: observe_all_change)
  ultimately show ?thesis unfolding failed_run_def report_failure by (auto simp: failure_target)
qed

theorem dispatched_signing_witness:
  "r_outcome (failed_run (RunEvidence ''id'' 0 RENEW_DUE) [SigningDispatch, Confirm ''issuance''] None 0)
     \<in> {FAILURE_PARTIAL, FAILURE_AMBIGUOUS}"
  using dispatched_signing_is_never_pre_attempt[of "[SigningDispatch, Confirm ''issuance'']" "''id''" 0 RENEW_DUE None 0]
  by simp

text \<open>
  C19. A failure after a dispatched installation that was never confirmed is reported as ambiguous and
  as needing manual recovery; nothing observed later can turn the report into a definite one.
\<close>

theorem unconfirmed_installation_is_ambiguous:
  assumes "Confirm ''installation'' \<notin> set post"
  shows "r_outcome (failed_run (RunEvidence uuid t0 op) (pre @ ExecutorDispatch ''install'' # post) reason now)
      = FAILURE_AMBIGUOUS \<and>
    r_manual_recovery_required
      (failed_run (RunEvidence uuid t0 op) (pre @ ExecutorDispatch ''install'' # post) reason now)"
proof -
  let ?evs = "pre @ ExecutorDispatch ''install'' # post"
  let ?e = "fold observe ?evs (RunEvidence uuid t0 op)"
  let ?e1 = "observe (ExecutorDispatch ''install'') (fold observe pre (RunEvidence uuid t0 op))"
  have "map_of (t_milestones (e_target (fold observe post ?e1))) ''installation'' = Some UNCERTAIN"
    using assms(1)
  proof (induction post rule: rev_induct)
    case (snoc ev evs)
    then show ?case
      by (cases ev) (auto simp: observe_milestone last_word_def simp del: observe.simps)
  qed (simp add: evidence_defs)
  then have "map_of (t_milestones (e_target ?e)) ''installation'' = Some UNCERTAIN"
    by simp
  then have "uncertain (e_target ?e)"
    using uncertain_iff[OF observe_all_distinct[OF RunEvidence_distinct]] by blast
  then show ?thesis unfolding failed_run_def report_failure by (auto simp: failure_target)
qed

theorem unconfirmed_installation_witness:
  "r_outcome (failed_run (RunEvidence ''id'' 0 RENEW_DUE)
     ([SetStage INSTALLATION] @ ExecutorDispatch ''install'' # []) None 0) = FAILURE_AMBIGUOUS"
  using unconfirmed_installation_is_ambiguous[of "[]" "''id''" 0 RENEW_DUE "[SetStage INSTALLATION]" None 0]
  by simp



end
