(* ===== verification/ExecutorClient.thy ===== *)
theory ExecutorClient
  imports ExecutorService RunResult
begin

text \<open>
  The renewer's side of the executor boundary (\<open>unifi_executor_client.py\<close>): one request per connection to
  the fixed socket, with the checks on the socket before the request leaves. The state of the renewer
  process keeps the attributes of the boundary object, the evidence of the run, the requests that have left,
  and, as \<open>rn_remote\<close>, the state of the peer, of which nothing is known here but the parameter \<open>re_serve\<close>: what
  a frame makes of that state and what arrives in return. A send that fails has not reached the peer; a reply that is
  lost is an arrival that breaks off.
\<close>

section \<open>State and environment\<close>

record 'w renewer = machine +
  rn_exclusive :: bool
  rn_installed :: "public_keystore_state option"
  rn_evidence :: "evidence option"
  rn_stage :: string
  rn_sent :: "string list"
  rn_posted :: "string list"
  rn_remote :: 'w

lemma renewer_step [simp]:
  "rn_exclusive (s\<lparr> step := k \<rparr>) = rn_exclusive s" "rn_installed (s\<lparr> step := k \<rparr>) = rn_installed s"
  "rn_evidence (s\<lparr> step := k \<rparr>) = rn_evidence s" "rn_stage (s\<lparr> step := k \<rparr>) = rn_stage s"
  "rn_sent (s\<lparr> step := k \<rparr>) = rn_sent s" "rn_posted (s\<lparr> step := k \<rparr>) = rn_posted s"
  "rn_remote (s\<lparr> step := k \<rparr>) = rn_remote s"
  by simp_all

record 'w link_env =
  re_lib :: x509_lib
  re_wall :: "nat \<Rightarrow> instant"
  re_sock :: sock_env
  re_connect :: "nat \<Rightarrow> errno + unit"
  re_serve :: "nat \<Rightarrow> bytes \<Rightarrow> 'w \<Rightarrow> arrival list \<times> 'w"

section \<open>Calls\<close>

definition on_dispatch :: "string \<Rightarrow> ('w renewer, unit) exec" where
  "on_dispatch op = modify (\<lambda>s. if op \<in> {''install'', ''verify_pending''}
     then s\<lparr> rn_evidence := map_option (executor_dispatch op) (rn_evidence s) \<rparr> else s)"

definition send_frame :: "'w link_env \<Rightarrow> string \<Rightarrow> bytes \<Rightarrow> ('w renewer, arrival list) exec" where
  "send_frame R op frame = syscall (\<lambda>s. case re_serve R (step s) frame (rn_remote s) of
     (reply, w) \<Rightarrow> (Return reply, s\<lparr> rn_remote := w, rn_sent := op # rn_sent s \<rparr>))"

definition exchange :: "'w link_env \<Rightarrow> string \<Rightarrow> json \<Rightarrow> ('w renewer, json) exec" where
  "exchange R op v =
     seqx (validate_socket_directory (re_sock R)) (\<lambda>directory.
     seqx (host_call (so_socket_stat (re_sock R))) (\<lambda>initial.
     seqx (raise_if (\<not> S_ISSOCK (st_mode initial) \<or> st_uid initial \<noteq> 0 \<or> st_gid initial \<noteq> st_gid directory \<or>
         S_IMODE (st_mode initial) \<noteq> 0x1B0) ValueError) (\<lambda>_.
     seqx (host_call (re_connect R)) (\<lambda>_.
     seqx (host_call (so_socket_stat (re_sock R))) (\<lambda>now.
     seqx (raise_if (inode_id initial \<noteq> inode_id now) ValueError) (\<lambda>_.
     seqx (liftE (message_frame v)) (\<lambda>frame.
     seqx (on_dispatch op) (\<lambda>_.
     seqx (send_frame R op frame) (\<lambda>reply.
     liftE (bindE (read_message reply) decode_response))))))))))"

definition executor_call :: "'w link_env \<Rightarrow> string \<Rightarrow> (string \<times> json) list \<Rightarrow> ('w renewer, json) exec" where
  "executor_call R op arguments =
     seqx (liftE (request op arguments)) (\<lambda>v.
     seqx (syscall (ret ())) (\<lambda>_.
     finally_do (wrap_exception (\<lambda>_. ''UniFi executor request failed'') (exchange R op v)) (syscall (ret ()))))"

section \<open>The boundary\<close>

definition socket_exclusive :: "public_keystore_state \<Rightarrow> ('w renewer, 'a) exec \<Rightarrow> ('w renewer, 'a) exec" where
  "socket_exclusive expected body =
     seqx (gets rn_exclusive) (\<lambda>active.
     seqx (raise_if active (refuse ''executor client already active'')) (\<lambda>_.
     seqx (modify (\<lambda>s. s\<lparr> rn_exclusive := True, rn_installed := None \<rparr>)) (\<lambda>_.
     finally_do body (modify (\<lambda>s. s\<lparr> rn_installed := None, rn_exclusive := False \<rparr>)))))"

definition call_for :: "'w link_env \<Rightarrow> string \<Rightarrow> (string \<times> json) list \<Rightarrow> string \<Rightarrow> ('w renewer, json) exec" where
  "call_for R op arguments field =
     seqx (executor_call R op arguments) (\<lambda>v.
     seqx (liftE (exact_dict [field] v)) (\<lambda>ps. ret (member field ps)))"

definition socket_inspect_public_state :: "'w link_env \<Rightarrow> ('w renewer, public_keystore_state) exec" where
  "socket_inspect_public_state R =
     seqx (gets (\<lambda>s. if rn_exclusive s then rn_installed s else None)) (\<lambda>known. case known of
       Some st \<Rightarrow> ret st
     | None \<Rightarrow> seqx (call_for R ''inspect'' [] ''state'') (\<lambda>v. liftE (decode_state (re_lib R) v)))"

definition socket_generate_csr :: "'w link_env \<Rightarrow> renewal_policy \<Rightarrow> certificate_policy \<Rightarrow> ('w renewer, bytes) exec" where
  "socket_generate_csr R P p =
     seqx (call_for R ''generate_csr'' [(''policy_digest'', JStr (rp_digest P)),
       (''expected_spki_sha256'', JStr (expected_spki_sha256 p))] ''csr_pem'') (\<lambda>v.
     liftE (binary MAX_KEYTOOL_OUTPUT_CHARS v))"

definition socket_import_certificate_reply ::
  "'w link_env \<Rightarrow> renewal_policy \<Rightarrow> certificate_import_request \<Rightarrow> public_keystore_state \<Rightarrow> ('w renewer, int) exec" where
  "socket_import_certificate_reply R P r expected =
     seqx (gets (\<lambda>s. \<not> rn_exclusive s \<or> rn_installed s \<noteq> None)) (\<lambda>bad.
     seqx (raise_if bad (refuse ''exclusive executor client context required'')) (\<lambda>_.
     seqx (raise_if (before r \<noteq> expected) (refuse ''stale public import request'')) (\<lambda>_.
     seqx (liftE (encode_import_request (re_lib R) r)) (\<lambda>v.
     seqx (call_for R ''install'' [(''policy_digest'', JStr (rp_digest P)), (''request'', v)] ''state'') (\<lambda>state.
     seqx (liftE (decode_state (re_lib R) state)) (\<lambda>st.
     seqx (modify (\<lambda>s. s\<lparr> rn_installed := Some st \<rparr>)) (\<lambda>_.
     ret 0)))))))"

definition socket_verify_pending :: "'w link_env \<Rightarrow> ('w renewer, string) exec" where
  "socket_verify_pending R =
     seqx (call_for R ''verify_pending'' [] ''outcome'') (\<lambda>v.
     seqx (raise_if (v \<noteq> JStr ''renewal_finalized'') (refuse ''unexpected executor verification result'')) (\<lambda>_.
     ret ''renewal_finalized''))"

fun recovery_result :: "json \<Rightarrow> py_exc + string" where
  "recovery_result (JStr x) = (if x \<in> set RECOVERY_RESULTS then Inr x else unifi_error ''unexpected executor recovery result'')"
| "recovery_result (JArr _) = Inl TypeError"
| "recovery_result (JObj _) = Inl TypeError"
| "recovery_result _ = unifi_error ''unexpected executor recovery result''"

definition socket_recover :: "'w link_env \<Rightarrow> ('w renewer, string) exec" where
  "socket_recover R = seqx (call_for R ''recover'' [] ''outcome'') (\<lambda>v. liftE (recovery_result v))"

definition socket_boundary :: "'w link_env \<Rightarrow> renewal_policy \<Rightarrow> 'w renewer boundary" where
  "socket_boundary R P = \<lparr> b_exclusive = socket_exclusive, b_inspect_public_state = socket_inspect_public_state R,
     b_generate_csr = socket_generate_csr R P, b_import_certificate_reply = socket_import_certificate_reply R P,
     b_verify_pending = socket_verify_pending R, get_clock = (\<lambda>s. re_wall R (step s)), get_stage = rn_stage,
     set_stage = (\<lambda>v s. s\<lparr> rn_stage := v \<rparr>) \<rparr>"

section \<open>The peer is the executor service\<close>

text \<open>What a frame makes of the state of the executor, and what its service sends back before it closes.\<close>

definition executor_peer :: "exec_env \<Rightarrow> renewal_policy \<Rightarrow> nat \<Rightarrow> bytes \<Rightarrow> world \<Rightarrow> arrival list \<times> world" where
  "executor_peer E P n frame w = (case handle_connection E P [Bytes frame] w of
     (Return (True, reply), w') \<Rightarrow> ([Bytes reply], w') | (_, w') \<Rightarrow> ([], w'))"

end
