(* ===== verification/PublicState.thy ===== *)
theory PublicState
  imports ExecutorService
begin

text \<open>
  The public states that the executor reports: their keytool text consists of five fixed lines, whatever keytool
  has printed. So a report leaks nothing else, and it is ASCII and short enough for a frame.
\<close>

section \<open>Lines without a line break\<close>

definition no_break :: "string \<Rightarrow> bool" where
  "no_break l \<longleftrightarrow> (\<forall>i<length l. first_match line_breaks (drop i l) = None)"

lemma first_match_None: "first_match ps s = None \<longleftrightarrow> (\<forall>p\<in>set ps. p = [] \<or> \<not> startswith p s)"
  by (induction ps) auto

lemma startswith_extend: "startswith p s \<Longrightarrow> startswith p (s @ t)"
proof (induction p arbitrary: s)
  case (Cons a p)
  thus ?case by (cases s) auto
qed simp

lemma split_lines_at_eqs:
  "split_lines_at seps acc [] = (if acc = [] then [] else [rev acc])"
  "first_match seps (c # cs) = None \<Longrightarrow> split_lines_at seps acc (c # cs) = split_lines_at seps (c # acc) cs"
  "first_match seps (c # cs) = Some p \<Longrightarrow> split_lines_at seps acc (c # cs) = rev acc # split_lines_at seps [] (drop (length p - 1) cs)"
  by (subst split_lines_at.simps, simp)+

lemma first_match_prefix: "first_match ps (s @ t) = None \<Longrightarrow> first_match ps s = None"
  using startswith_extend by (auto simp: first_match_None)

lemma no_break_infix: "no_break (a @ v @ b) \<Longrightarrow> no_break v"
  unfolding no_break_def
proof (intro allI impI)
  fix i assume a: "\<forall>i<length (a @ v @ b). first_match line_breaks (drop i (a @ v @ b)) = None" and i: "i < length v"
  have "drop (length a + i) (a @ v @ b) = drop i v @ b" using i by simp
  moreover have "length a + i < length (a @ v @ b)" using i by simp
  ultimately have "first_match line_breaks (drop i v @ b) = None" using a by metis
  thus "first_match line_breaks (drop i v) = None" by (rule first_match_prefix)
qed

lemma split_lines_no_break:
  assumes "\<forall>i<length acc. first_match seps (drop i (rev acc) @ s) = None" "l \<in> set (split_lines_at seps acc s)" "i < length l"
  shows "first_match seps (drop i l) = None"
  using assms
proof (induction seps acc s rule: split_lines_at.induct)
  case (1 seps acc s)
  show ?case
  proof (cases s)
    case Nil
    thus ?thesis using "1.prems" by (auto simp: split_lines_at_eqs split: if_splits)
  next
    case (Cons c cs)
    show ?thesis
    proof (cases "first_match seps s")
      case None
      have "first_match seps (drop j (rev (c # acc)) @ cs) = None" if "j < length (c # acc)" for j
        using that "1.prems"(1) None Cons by (cases "j = length acc") auto
      thus ?thesis using "1.IH"(1) [OF Cons None] "1.prems"(2,3) Cons None by (simp add: split_lines_at_eqs)
    next
      case (Some p)
      show ?thesis
      proof (cases "l = rev acc")
        case True
        thus ?thesis using "1.prems"(1,3) first_match_prefix [of seps "drop i (rev acc)" s] by simp
      next
        case False
        thus ?thesis using "1.IH"(2) [OF Cons Some] "1.prems"(2,3) Cons Some by (simp add: split_lines_at_eqs)
      qed
    qed
  qed
qed

lemma splitlines_no_break: "l \<in> set (splitlines s) \<Longrightarrow> no_break l"
  unfolding splitlines_def no_break_def using split_lines_no_break [of "[]" line_breaks s l] by simp

lemma first_match_line_end:
  assumes "first_match line_breaks w = None" "w \<noteq> []"
  shows "first_match line_breaks (w @ CHR 0x0A # r) = None"
proof -
  obtain c v where w: "w = c # v" using assms(2) by (cases w) auto
  show ?thesis using assms(1) unfolding w
    by (cases v; cases "tl v"; cases "tl (tl v)") (auto simp: line_breaks_def split: if_splits)
qed

lemma split_line:
  "no_break v \<Longrightarrow> split_lines_at line_breaks acc (v @ CHR 0x0A # r) = (rev acc @ v) # split_lines_at line_breaks [] r"
proof (induction v arbitrary: acc)
  case Nil
  have "first_match line_breaks (CHR 0x0A # r) = Some [CHR 0x0A]" by (simp add: line_breaks_def)
  thus ?case by (simp add: split_lines_at_eqs)
next
  case (Cons c v)
  have "no_break v" using no_break_infix [of "[c]" v "[]"] Cons.prems by simp
  moreover have "first_match line_breaks ((c # v) @ CHR 0x0A # r) = None"
    using Cons.prems by (intro first_match_line_end) (auto simp: no_break_def dest: spec [of _ 0])
  ultimately show ?case using Cons.IH [of "c # acc"]
    by (simp add: split_lines_at_eqs)
qed

lemma splitlines_cons: "no_break v \<Longrightarrow> splitlines (v @ CHR 0x0A # r) = v # splitlines r"
  unfolding splitlines_def by (simp add: split_line)

lemma no_break_printable:
  assumes "list_all (\<lambda>c. 32 \<le> ordc c \<and> ordc c < 128) p" "no_break v"
  shows "no_break (p @ v)"
  unfolding no_break_def
proof (intro allI impI)
  fix i assume i: "i < length (p @ v)"
  show "first_match line_breaks (drop i (p @ v)) = None"
  proof (cases "i < length p")
    case True
    hence r: "drop i (p @ v) = p ! i # drop (Suc i) p @ v" by (simp add: Cons_nth_drop_Suc)
    have "32 \<le> ordc (p ! i)" "ordc (p ! i) < 128" using assms(1) True by (auto simp: list_all_length)
    hence "p ! i \<notin> {CHR 0x0A, CHR 0x0B, CHR 0x0C, CHR 0x0D, CHR 0x1C, CHR 0x1D, CHR 0x1E, CHR 0xC2, CHR 0xE2}"
      by (auto simp: ordc_def)
    thus ?thesis unfolding r by (simp add: line_breaks_def eq_commute [of _ "p ! i"])
  next
    case False
    thus ?thesis using assms(2) i by (auto simp: no_break_def)
  qed
qed

section \<open>Values are stripped\<close>

lemma lstrip_of_eqs:
  "lstrip_of ws [] = []" "first_match ws (c # cs) = None \<Longrightarrow> lstrip_of ws (c # cs) = c # cs"
  "first_match ws (c # cs) = Some p \<Longrightarrow> lstrip_of ws (c # cs) = lstrip_of ws (drop (length p - 1) cs)"
  by (subst lstrip_of.simps, simp)+

lemma lstrip_suffix: "\<exists>a. s = a @ lstrip_of ws s"
proof (induction ws s rule: lstrip_of.induct)
  case (1 ws s)
  show ?case
  proof (cases s)
    case (Cons c cs)
    show ?thesis
    proof (cases "first_match ws s")
      case (Some p)
      then obtain a where "drop (length p - 1) cs = a @ lstrip_of ws (drop (length p - 1) cs)" using 1 Cons by blast
      hence "cs = take (length p - 1) cs @ a @ lstrip_of ws (drop (length p - 1) cs)"
        using append_take_drop_id [of "length p - 1" cs] by simp
      thus ?thesis using Some Cons by (intro exI [of _ "c # take (length p - 1) cs @ a"]) (simp add: lstrip_of_eqs)
    qed (simp add: Cons lstrip_of_eqs)
  qed (simp add: lstrip_of_eqs)
qed

lemma rstrip_prefix: "\<exists>b. s = rstrip_of ws s @ b"
proof -
  obtain a where "rev s = a @ lstrip_of (map rev ws) (rev s)" using lstrip_suffix by blast
  hence "s = rstrip_of ws s @ rev a" unfolding rstrip_of_def by (metis rev_append rev_rev_ident)
  thus ?thesis ..
qed

lemma str_strip_infix: "\<exists>a b. s = a @ str_strip s @ b"
proof -
  obtain a where a: "s = a @ lstrip_of unicode_spaces s" using lstrip_suffix by blast
  obtain b where "lstrip_of unicode_spaces s = str_strip s @ b" unfolding str_strip_def using rstrip_prefix by blast
  hence "s = a @ str_strip s @ b" using a by metis
  thus ?thesis by blast
qed

lemma lstrip_fixed: "first_match ws (lstrip_of ws s) = None \<or> lstrip_of ws s = []"
proof (induction ws s rule: lstrip_of.induct)
  case (1 ws s)
  thus ?case by (subst (1 2) lstrip_of.simps) (auto split: list.split option.split)
qed

lemma lstrip_id: "first_match ws s = None \<Longrightarrow> lstrip_of ws s = s"
  by (cases s) (simp_all add: lstrip_of_eqs)

lemma str_strip_fixed:
  "first_match unicode_spaces (str_strip s) = None" "rstrip_of unicode_spaces (str_strip s) = str_strip s"
proof -
  let ?l = "lstrip_of unicode_spaces s"
  have "startswith p [] \<longleftrightarrow> p = []" for p by (cases p) simp_all
  hence n: "first_match (map rev unicode_spaces) [] = None" "first_match unicode_spaces [] = None"
    by (simp_all add: first_match_None)
  have l: "first_match unicode_spaces ?l = None" using lstrip_fixed [of unicode_spaces s] n by auto
  obtain b where "?l = str_strip s @ b" unfolding str_strip_def using rstrip_prefix by blast
  thus "first_match unicode_spaces (str_strip s) = None" using l first_match_prefix by metis
  have "first_match (map rev unicode_spaces) (rev (str_strip s)) = None"
    using lstrip_fixed [of "map rev unicode_spaces" "rev ?l"] n by (auto simp: str_strip_def rstrip_of_def)
  thus "rstrip_of unicode_spaces (str_strip s) = str_strip s" by (simp add: rstrip_of_def lstrip_id)
qed

lemma str_strip_blank: "str_strip (CHR 0x20 # str_strip s) = str_strip s"
proof -
  have "first_match unicode_spaces (CHR 0x20 # str_strip s) = Some [CHR 0x20]"
    by (simp add: unicode_spaces_def ascii_spaces_def)
  hence "lstrip_of unicode_spaces (CHR 0x20 # str_strip s) = str_strip s"
    by (simp add: lstrip_of_eqs lstrip_id str_strip_fixed)
  thus ?thesis unfolding str_strip_def [of "CHR 0x20 # str_strip s"] by (simp add: str_strip_fixed)
qed

section \<open>What keytool's metadata can be\<close>

definition clean_value :: "string \<Rightarrow> bool" where
  "clean_value v \<longleftrightarrow> no_break v \<and> (\<exists>x. v = str_strip x)"

lemma partition_char_suffix: "partition_char c s = (a, b, v) \<Longrightarrow> \<exists>u. s = u @ v"
proof (induction s arbitrary: a b v)
  case (Cons d s)
  thus ?case by (cases "partition_char c s") (force split: if_splits)
qed simp

lemma clean_strip: "no_break l \<Longrightarrow> partition_char c l = (a, b, v) \<Longrightarrow> clean_value (str_strip v)"
  using partition_char_suffix [of c l a b v] str_strip_infix [of v] no_break_infix unfolding clean_value_def
  by (metis append.assoc)

definition scan_clean :: "keytool_scan \<Rightarrow> bool" where
  "scan_clean k \<longleftrightarrow> list_all clean_value (k_type k @ k_provider k)"

lemma scan_line_clean: "scan_clean k \<Longrightarrow> no_break l \<Longrightarrow> scan_clean (scan_line k l)"
  by (auto simp: scan_line_def scan_clean_def Let_def clean_strip split: prod.split)

lemma scan_lines_clean: "scan_clean k \<Longrightarrow> \<forall>l\<in>set ls. no_break l \<Longrightarrow> scan_clean (foldl scan_line k ls)"
  by (induction ls arbitrary: k) (auto intro: scan_line_clean)

lemma scan_keytool_clean: "scan_clean (scan_keytool output)"
  unfolding scan_keytool_def by (rule scan_lines_clean) (auto simp: scan_clean_def intro: splitlines_no_break)

lemma scan_grows: "\<exists>xs ys. k_type (foldl scan_line k ls) = k_type k @ xs \<and> k_provider (foldl scan_line k ls) = k_provider k @ ys"
proof (induction ls arbitrary: k)
  case (Cons l ls)
  have "\<exists>xs ys. k_type (scan_line k l) = k_type k @ xs \<and> k_provider (scan_line k l) = k_provider k @ ys"
    by (auto simp: scan_line_def Let_def split: prod.split)
  thus ?case using Cons.IH [of "scan_line k l"] by auto
qed simp

lemma scan_labels:
  assumes "clean_value v"
  shows "scan_line k (''Keystore type: '' @ v) = k\<lparr> k_type := k_type k @ [v] \<rparr>"
    "scan_line k (''Keystore provider: '' @ v) = k\<lparr> k_provider := k_provider k @ [v] \<rparr>"
proof -
  have "str_strip ''Keystore type'' = ''Keystore type''" "str_strip ''Keystore provider'' = ''Keystore provider''"
    by code_simp+
  moreover have "str_strip (CHR 0x20 # v) = v" using assms str_strip_blank by (auto simp: clean_value_def)
  ultimately show "scan_line k (''Keystore type: '' @ v) = k\<lparr> k_type := k_type k @ [v] \<rparr>"
    "scan_line k (''Keystore provider: '' @ v) = k\<lparr> k_provider := k_provider k @ [v] \<rparr>"
    by (simp_all add: scan_line_def Let_def)
qed

lemma scan_collection_output:
  assumes "clean_value (keystore_type m)" "clean_value (provider m)"
  shows "\<exists>xs ys. k_type (scan_keytool (collection_output m a)) = keystore_type m # xs \<and>
    k_provider (scan_keytool (collection_output m a)) = provider m # ys"
proof -
  let ?t = "''Keystore type: '' @ keystore_type m" and ?p = "''Keystore provider: '' @ provider m"
  obtain r where r: "collection_output m a = ?t @ CHR 0x0A # ?p @ CHR 0x0A # r" by (simp add: collection_output_def)
  have "no_break ?t" "no_break ?p" using assms
    by (auto simp: clean_value_def ordc_def simp del: append.simps intro!: no_break_printable)
  hence "splitlines (collection_output m a) = ?t # ?p # splitlines r" unfolding r by (simp only: splitlines_cons)
  hence "scan_keytool (collection_output m a) =
      foldl scan_line \<lparr> k_type = [keystore_type m], k_provider = [provider m], k_sections = [] \<rparr> (splitlines r)"
    unfolding scan_keytool_def by (simp add: scan_labels assms del: append.simps) simp
  thus ?thesis using scan_grows [of "\<lparr> k_type = [keystore_type m], k_provider = [provider m], k_sections = [] \<rparr>" "splitlines r"] by simp
qed

lemma require_single_Inr: "require_single_value xs label = Inr v \<Longrightarrow> xs = [v] \<and> py_len v \<le> MAX_METADATA_VALUE_CHARS"
  by (auto simp: require_single_value_def optional_single_value_def validate_metadata_value_def split: list.splits if_splits)

lemma read_nat_bound: "list_all is_digit s \<Longrightarrow> read_nat s < 10 ^ length s"
proof (induction s rule: rev_induct)
  case (snoc c s)
  moreover have "digit_val c < 10" using snoc.prems by (auto simp: digit_val_def is_digit_def)
  ultimately show ?case by (simp add: read_nat_snoc)
qed (simp add: read_nat_def)

lemma digits_len: "list_all is_digit s \<Longrightarrow> py_len s = length s"
  by (intro py_len_ascii) (auto simp: isascii_def is_ascii_def is_digit_def list_all_iff)

lemma parse_keytool_Inr:
  assumes "parse_keytool_metadata output expected = Inr (m, a)"
  shows "k_type (scan_keytool output) = [keystore_type m]" "k_provider (scan_keytool output) = [provider m]"
    "alias_name a = expected" "entry_type a = EXPECTED_ENTRY_TYPE" "certificate_chain_length a < 10 ^ MAX_METADATA_VALUE_CHARS"
proof -
  let ?k = "scan_keytool output"
  obtain ktype prov named where k: "require_single_value (k_type ?k) ''Keystore type'' = Inr ktype"
      "require_single_value (k_provider ?k) ''Keystore provider'' = Inr prov"
      "mapE (\<lambda>s. bindE (optional_single_value (s_name s) ''Alias name'') (\<lambda>v. Inr (v, s))) (k_sections ?k) = Inr named"
    and rest: "(case filter (\<lambda>p. fst p = Some expected) named of
        [] \<Rightarrow> Inl (ExpectedAliasNotFoundError ''expected alias is missing'')
      | [p] \<Rightarrow>
        bindE (require_single_value (s_name (snd p)) ''Alias name'') (\<lambda>name.
        bindE (require_single_value (s_entry_type (snd p)) ''Entry type'') (\<lambda>entry.
        if entry \<noteq> EXPECTED_ENTRY_TYPE
        then Inl (UnexpectedEntryTypeError ''expected alias does not contain a PrivateKeyEntry'')
        else bindE (require_single_value (s_chain_length (snd p)) ''Certificate chain length'') (\<lambda>digits.
        if \<not> list_all is_digit digits then keytool_error ''certificate chain length is not a valid integer''
        else if read_nat digits < 1 then keytool_error ''certificate chain length must be positive''
        else Inr (\<lparr> keystore_type = ktype, provider = prov \<rparr>,
                  \<lparr> alias_name = name, entry_type = entry, certificate_chain_length = read_nat digits \<rparr>))))
      | _ \<Rightarrow> keytool_error ''expected alias metadata is duplicated'') = Inr (m, a)"
    using assms unfolding parse_keytool_metadata_def Let_def by (auto simp only: bindE_Inr split: if_split_asm)
  then obtain p where p: "filter (\<lambda>p. fst p = Some expected) named = [p]"
    by (auto split: list.split_asm)
  obtain name digits where e: "require_single_value (s_name (snd p)) ''Alias name'' = Inr name"
      "require_single_value (s_chain_length (snd p)) ''Certificate chain length'' = Inr digits" "list_all is_digit digits"
    and m: "m = \<lparr> keystore_type = ktype, provider = prov \<rparr>"
      "a = \<lparr> alias_name = name, entry_type = EXPECTED_ENTRY_TYPE, certificate_chain_length = read_nat digits \<rparr>"
    using rest unfolding p by (auto split: if_split_asm)
  show "k_type ?k = [keystore_type m]" "k_provider ?k = [provider m]"
    using require_single_Inr [OF k(1)] require_single_Inr [OF k(2)] m by simp_all
  have "p \<in> set (filter (\<lambda>p. fst p = Some expected) named)" unfolding p by simp
  hence "p \<in> set named" "fst p = Some expected" by simp_all
  hence "optional_single_value (s_name (snd p)) ''Alias name'' = Inr (Some expected)"
    using k(3) by (auto simp: mapE_Inr list_all2_conv_all_nth in_set_conv_nth) (metis fst_conv snd_conv)
  hence "name = expected" using e(1) by (simp add: require_single_value_def)
  thus "alias_name a = expected" "entry_type a = EXPECTED_ENTRY_TYPE" using m by simp_all
  have "length digits \<le> MAX_METADATA_VALUE_CHARS" using require_single_Inr [OF e(2)] e(3) by (simp add: digits_len)
  hence "read_nat digits < 10 ^ MAX_METADATA_VALUE_CHARS"
    using read_nat_bound [OF e(3)] by (meson less_le_trans one_le_numeral power_increasing)
  thus "certificate_chain_length a < 10 ^ MAX_METADATA_VALUE_CHARS" using m by simp
qed

section \<open>The text of a public state\<close>

definition public_text :: "nat \<Rightarrow> string" where
  "public_text n = collection_output \<lparr> keystore_type = ''PKCS12'', provider = ''SUN'' \<rparr>
     \<lparr> alias_name = UNIFI_ALIAS, entry_type = EXPECTED_ENTRY_TYPE, certificate_chain_length = n \<rparr>"

lemma inspect_Inr:
  assumes "inspect_public_keystore_state L st = Inr i"
  shows "parse_keytool_metadata (keytool_output st) UNIFI_ALIAS = Inr (i_keystore i, i_alias i)"
    "i_keystore i = \<lparr> keystore_type = ''PKCS12'', provider = ''SUN'' \<rparr>"
    "certificate_chain_length (i_alias i) = length (certificate_chain_der st)"
  using assms
  by (auto simp: inspect_public_keystore_state_def inspect_unifi_certificate_def Let_def split: if_split_asm)

lemma reported_text:
  assumes "inspect_public_keystore_state L st = Inr i"
  shows "collection_output (i_keystore i) (i_alias i) = public_text (length (certificate_chain_der st))"
  using inspect_Inr [OF assms] parse_keytool_Inr(3,4) [OF inspect_Inr(1) [OF assms]]
  by (cases "i_alias i") (simp add: public_text_def)

lemma collected_text:
  assumes "parse_collection L data = Inr st"
  shows "\<exists>n < 10 ^ MAX_METADATA_VALUE_CHARS. keytool_output st = public_text n"
proof -
  obtain selected m a i where m: "parse_keytool_metadata selected UNIFI_ALIAS = Inr (m, a)"
    and st: "keytool_output st = collection_output m a" "inspect_public_keystore_state L st = Inr i"
    using assms by (auto simp: parse_collection_def Let_def split: if_split_asm prod.split_asm)
  have "clean_value (keystore_type m)" "clean_value (provider m)"
    using scan_keytool_clean [of selected] parse_keytool_Inr(1,2) [OF m] by (simp_all add: scan_clean_def)
  then obtain xs ys where "k_type (scan_keytool (keytool_output st)) = keystore_type m # xs"
    "k_provider (scan_keytool (keytool_output st)) = provider m # ys"
    unfolding st(1) using scan_collection_output by blast
  hence "m = \<lparr> keystore_type = ''PKCS12'', provider = ''SUN'' \<rparr>"
    using parse_keytool_Inr(1,2) [OF inspect_Inr(1) [OF st(2)]] inspect_Inr(2) [OF st(2)] by (cases m) simp
  moreover have "a = \<lparr> alias_name = UNIFI_ALIAS, entry_type = EXPECTED_ENTRY_TYPE,
      certificate_chain_length = certificate_chain_length a \<rparr>"
    using parse_keytool_Inr(3,4) [OF m] by (cases a) simp
  ultimately have "keytool_output st = public_text (certificate_chain_length a)"
    unfolding st(1) public_text_def by simp
  thus ?thesis using parse_keytool_Inr(5) [OF m] by blast
qed

lemma public_text_ascii: "isascii (public_text n)"
proof -
  have "isascii (show_nat n)" using show_nat_digits [of n] by (auto simp: isascii_def is_ascii_def is_digit_def list_all_iff)
  thus ?thesis by (simp add: public_text_def collection_output_def UNIFI_ALIAS_def EXPECTED_ENTRY_TYPE_def)
      (simp add: isascii_def is_ascii_def ordc_def)
qed

lemma public_text_length: "n < 10 ^ MAX_METADATA_VALUE_CHARS \<Longrightarrow> length (public_text n) \<le> 512"
  using show_nat_length [of n MAX_METADATA_VALUE_CHARS]
  by (simp add: public_text_def collection_output_def UNIFI_ALIAS_def EXPECTED_ENTRY_TYPE_def MAX_METADATA_VALUE_CHARS_def)

section \<open>What the executor returns\<close>

lemma collect_Return:
  assumes "collect E name s = (Return st, t)"
  shows "\<exists>n. keytool_output st = public_text n"
proof -
  obtain data where "parse_collection (x_lib E) data = Inr st"
    using assms by (auto simp: collect_def with_files_def returns split: option.split_asm)
  thus ?thesis using collected_text by blast
qed

lemma locked_Return: "locked E body s = (Return x, t) \<Longrightarrow> \<exists>s1 s2. body s1 = (Return x, s2)"
  by (auto simp: locked_def returns)

lemma inspect_public_state_Return:
  assumes "inspect_public_state E s = (Return st, t)"
  shows "\<exists>n. keytool_output st = public_text n"
proof -
  have "\<exists>s1 s2. collect E CANONICAL s1 = (Return st, s2)"
    using assms by (auto simp: inspect_public_state_def returns split: if_split_asm dest!: locked_Return) blast+
  thus ?thesis using collect_Return by blast
qed

text \<open>
  C15. The text of a collected public state is fixed: whatever keytool has printed, if the collection is
  accepted then its text is the five lines naming a PKCS12 key store of provider SUN, the alias, the entry type
  and a chain length - nothing else of keytool's output reaches the report.
\<close>

theorem collected_state_reveals_nothing_else:
  assumes "parse_collection L data = Inr st"
  shows "\<exists>n. keytool_output st = ''Keystore type: PKCS12'' @ [CHR 0x0A] @ ''Keystore provider: SUN'' @ [CHR 0x0A] @
    ''Alias name: unifi'' @ [CHR 0x0A] @ ''Entry type: PrivateKeyEntry'' @ [CHR 0x0A] @
    ''Certificate chain length: '' @ show_nat n @ [CHR 0x0A] \<and> n < 10 ^ 256"
  using collected_text [OF assms]
  by (auto simp: public_text_def collection_output_def UNIFI_ALIAS_def EXPECTED_ENTRY_TYPE_def MAX_METADATA_VALUE_CHARS_def)

end
