(* ===== verification/Composition.thy ===== *)
theory Composition
  imports ExecutorClient PublicState ServiceSafety
begin

text \<open>
  The client of the executor boundary composed with the executor service: what the client returns, the executor
  has done. The link between them is any link whose peer is the service; the calls around the
  exchange may fail at any point, and a reply may be lost, but a reply that is read is the one of the executor.
\<close>

section \<open>The exchange\<close>

lemma traceless_remote: "traceless rn_remote" "traceless rn_exclusive" "traceless rn_installed"
  by (simp_all add: traceless_def stepless_def)

lemma keeps_remote_calls:
  "keeps rn_remote (validate_socket_directory S)" "keeps rn_remote (host_call f)" "keeps rn_remote (on_dispatch op)"
  "keeps rn_remote (syscall (ret x))"
proof -
  show "keeps rn_remote (validate_socket_directory S)" "keeps rn_remote (host_call f)" "keeps rn_remote (syscall (ret x))"
    unfolding validate_socket_directory_def by (intro keeps_intros calls traceless_remote)+
  show "keeps rn_remote (on_dispatch op)" by (simp add: on_dispatch_def keeps_def modify_def)
qed

lemma plain_version: "plain (JInt PROTOCOL_VERSION)"
  using plain_word [of 2] by (simp add: PROTOCOL_VERSION_def)

lemma plain_responses: "plain v \<Longrightarrow> plain (ok_response v)" "plain error_response"
  using plain_version by (simp_all add: ok_response_def error_response_def isascii_def is_ascii_def ordc_def)

definition tick :: "world \<Rightarrow> world" where
  "tick w = w\<lparr> step := Suc (step w) \<rparr>"

lemma peer_reply:
  assumes "executor_peer E P n frame w = (reply, w')" "bindE (read_message reply) decode_response = Inr result"
    and "message_frame v = Inr frame" "plain v"
  obtains result' w1 where "dispatch E P (norm v) w = (Return result', w1)" "w' = tick w1"
    "plain result' \<longrightarrow> result = norm result'"
proof -
  have none: "read_message [] = Inl ValueError" by (simp add: read_message_def read_exact.simps)
  have carried: "carries [Bytes f] f" if "f \<noteq> []" for f :: bytes
    unfolding carries_def using that by (intro exI [of _ "[f]"] exI [of _ "[]"]) simp
  have nonempty: "f \<noteq> []" if "message_frame u = Inr f" for u f
    using that by (auto simp: message_frame_def pack_length_def split: if_split_asm)
  have read: "read_message [Bytes f] = Inr (norm u)" if "message_frame u = Inr f" "plain u" for u f
    using read_message_frame [OF that(2,1) carried [OF nonempty [OF that(1)]]] .
  obtain f where h: "handle_connection E P [Bytes frame] w = (Return (True, f), w')" "reply = [Bytes f]"
    using assms(1,2) none by (auto simp: executor_peer_def split: prod.splits outcome.splits bool.splits)
  then obtain response w1 where a: "answer E P [Bytes frame] w = (Return response, w1)" "message_frame response = Inr f" "w' = tick w1"
    by (auto simp: handle_connection_def returns handle_def syscall_def ret_def throw_def Let_def tick_def
        seqx_def liftE_def split: prod.splits outcome.splits sum.splits verdict.splits if_split_asm)
  show ?thesis
    using a(1)
  proof (cases rule: answer_cases)
    case (ok u result')
    hence "u = norm v" using read [OF assms(3,4)] by simp
    moreover have "result = norm result'" if "plain result'"
    proof -
      have "plain (ok_response result')" using that by (rule plain_responses)
      hence "read_message reply = Inr (norm (ok_response result'))" using read a(2) ok h(2) by simp
      thus ?thesis using assms(2) by (simp add: decode_norm_response)
    qed
    ultimately show ?thesis using that ok a(3) by blast
  next
    case failed
    have "read_message reply = Inr (norm error_response)" using read plain_responses a(2) failed h(2) by simp
    thus ?thesis using assms(2) by (simp add: decode_norm_response)
  qed
qed

lemma exchange_served:
  assumes R: "re_serve R = executor_peer E P" and x: "exchange R op v s = (Return result, t)" and v: "plain v"
  obtains result' w1 where "dispatch E P (norm v) (rn_remote s) = (Return result', w1)" "rn_remote t = tick w1"
    "plain result' \<longrightarrow> result = norm result'"
proof -
  obtain d s1 k s2 frame reply where f: "validate_socket_directory (re_sock R) s = (Return d, s1)"
      "on_dispatch op (s1\<lparr> step := k \<rparr>) = (Return (), s2)" "message_frame v = Inr frame"
      "send_frame R op frame s2 = (Return reply, t)" "bindE (read_message reply) decode_response = Inr result"
    using x unfolding exchange_def by (auto simp: returns)
  have "rn_remote s2 = rn_remote s"
    using keepsD [OF keeps_remote_calls(1) f(1)] keepsD [OF keeps_remote_calls(3) f(2)] by simp
  then obtain n w where p: "executor_peer E P n frame (rn_remote s) = (reply, w)" "rn_remote t = w"
    using f(4) R by (auto simp: send_frame_def syscall_def Let_def split: verdict.splits prod.splits)
  show ?thesis
    using peer_reply [OF p(1) f(5,3) v] that p(2) by metis
qed

lemma call_served:
  assumes R: "re_serve R = executor_peer E P" and x: "executor_call R op args s = (Return result, t)" and args: "plain (JObj args)"
  shows "\<exists>v result' w1. request op args = Inr v \<and> dispatch E P (norm v) (rn_remote s) = (Return result', w1) \<and>
    rn_remote t = tick w1 \<and> (plain result' \<longrightarrow> result = norm result')"
proof -
  obtain v j s2 k where v: "request op args = Inr v" "exchange R op v (s\<lparr> step := j \<rparr>) = (Return result, s2)"
      "t = s2\<lparr> step := k \<rparr>"
    using x unfolding executor_call_def wrap_exception_def by (auto simp: returns split: if_split_asm)
  have op: "op \<in> set OPERATIONS" "v = JObj [(''version'', JInt PROTOCOL_VERSION), (''operation'', JStr op), (''arguments'', JObj args)]"
    using v(1) by (auto simp: request_def split: if_split_asm)
  have "isascii op" using op(1) by (auto simp: OPERATIONS_def isascii_def is_ascii_def ordc_def)
  hence "plain v" using plain_version args unfolding op(2) by (simp add: isascii_def is_ascii_def ordc_def)
  then obtain result' w1 where "dispatch E P (norm v) (rn_remote s) = (Return result', w1)" "rn_remote s2 = tick w1"
    "plain result' \<longrightarrow> result = norm result'"
    using exchange_served [OF R v(2)] by auto
  thus ?thesis using v by auto
qed

section \<open>Operations\<close>

lemma dispatch_request:
  assumes "request op args = Inr v" "norm (JObj args) = JObj ps" "dispatch E P (norm v) w = (Return result, w1)"
  shows "seqx (if op \<in> {''inspect'', ''recover''} then liftE (exact_dict [] (JObj ps)) else ret []) (\<lambda>_.
     if op = ''inspect'' then serve_inspect E
     else if op = ''generate_csr'' then serve_generate_csr E P ps
     else if op = ''install'' then serve_install E P ps
     else if op = ''recover'' then serve_recover E P
     else serve_verify_pending E P ps) (fresh_executor w) = (Return result, w1)"
  using assms(3) unfolding dispatch_def decode_norm_request [OF assms(1,2)]
  by (simp add: seqx_def liftE_def modify_def)

lemma verify_pending_served:
  assumes R: "re_serve R = executor_peer E P" and x: "socket_verify_pending R s = (Return outcome, t)"
  shows "\<exists>w. verify_pending E P (fresh_executor (rn_remote s)) = (Return ''renewal_finalized'', w) \<and> rn_remote t = tick w"
proof -
  obtain result where c: "executor_call R ''verify_pending'' [] s = (Return result, t)"
    using x by (auto simp: socket_verify_pending_def call_for_def returns)
  obtain v result' w where v: "request ''verify_pending'' [] = Inr v" "dispatch E P (norm v) (rn_remote s) = (Return result', w)"
    "rn_remote t = tick w"
    using call_served [OF R c] by auto
  have "serve_verify_pending E P [] (fresh_executor (rn_remote s)) = (Return result', w)"
    using dispatch_request [OF v(1) _ v(2), of "[]"] by simp
  thus ?thesis using v(3) by (auto simp: serve_verify_pending_def returns)
qed

lemma state_result_Return: "state_result L st w = (Return v, w') \<longleftrightarrow> (\<exists>u. encode_state L st = Inr u \<and> v = JObj [(''state'', u)]) \<and> w' = w"
  by (auto simp: state_result_def returns)

lemma plain_state:
  assumes "encode_state L st = Inr v" "isascii (keytool_output st)"
  shows "plain v"
  using assms by (auto simp: encode_state_def list_all_iff isascii_def is_ascii_def ordc_def)

text \<open>A state in a response is read back as the state that was written.\<close>

lemma state_response:
  assumes "encode_state L st = Inr u" "isascii (keytool_output st)" "plain (JObj [(''state'', u)]) \<longrightarrow> result = norm (JObj [(''state'', u)])"
    and "exact_dict [''state''] result = Inr ps" "decode_state L (member ''state'' ps) = Inr st'"
  shows "st' = st"
proof -
  have "plain (JObj [(''state'', u)])" using plain_state [OF assms(1,2)] by (simp add: isascii_def is_ascii_def ordc_def)
  hence "result = JObj [(''state'', norm u)]" using assms(3) by simp
  hence "member ''state'' ps = norm u" using assms(4) by (auto simp: exact_dict_def member_def jget_def split: if_split_asm)
  thus ?thesis using assms(5) decode_encoded_state [OF assms(1)] by simp
qed

lemma inspect_served:
  assumes R: "re_serve R = executor_peer E P" "re_lib R = x_lib E" and x: "socket_inspect_public_state R s = (Return st, t)"
    and s: "\<not> rn_exclusive s \<or> rn_installed s = None"
  shows "\<exists>w. inspect_public_state E (fresh_executor (rn_remote s)) = (Return st, w) \<and> rn_remote t = tick w"
proof -
  obtain result ps where c: "executor_call R ''inspect'' [] s = (Return result, t)"
    "exact_dict [''state''] result = Inr ps" "decode_state (x_lib E) (member ''state'' ps) = Inr st"
    using x s R(2) by (auto simp: socket_inspect_public_state_def call_for_def returns split: option.split_asm if_split_asm)
  obtain v result' w where v: "request ''inspect'' [] = Inr v" "dispatch E P (norm v) (rn_remote s) = (Return result', w)"
    "rn_remote t = tick w" "plain result' \<longrightarrow> result = norm result'"
    using call_served [OF R(1) c(1)] by auto
  have "serve_inspect E (fresh_executor (rn_remote s)) = (Return result', w)"
    using dispatch_request [OF v(1) _ v(2), of "[]"] by (simp add: exact_dict_def has_fields_def liftE_def seqx_def)
  then obtain st' u where i: "inspect_public_state E (fresh_executor (rn_remote s)) = (Return st', w)"
    "encode_state (x_lib E) st' = Inr u" "result' = JObj [(''state'', u)]"
    by (auto simp: serve_inspect_def seqx_Return state_result_Return)
  have "isascii (keytool_output st')" using inspect_public_state_Return [OF i(1)] public_text_ascii by auto
  hence "st = st'" using state_response [OF i(2) _ _ c(2,3)] v(4) i(3) by simp
  thus ?thesis using i(1) v(3) by blast
qed

lemma binary_encoded: "binary m (encode_binary b) = Inr c \<Longrightarrow> c = b"
  by (auto simp: encode_binary_def split: if_split_asm)

lemma plain_argument: "plain (JObj [(''policy_digest'', JStr d), (''expected_spki_sha256'', JStr k)]) \<longleftrightarrow> isascii d \<and> isascii k"
  by (auto simp: isascii_def is_ascii_def ordc_def)

lemma generate_csr_served:
  assumes R: "re_serve R = executor_peer E P" and x: "socket_generate_csr R P' p s = (Return pem, t)"
    and ascii: "isascii (rp_digest P')" "isascii (expected_spki_sha256 p)"
  shows "\<exists>p' w. rp_digest P' = rp_digest P \<and> policy_certificate_policy P (expected_spki_sha256 p) = Inr p' \<and>
    generate_csr E P p' (fresh_executor (rn_remote s)) = (Return pem, w) \<and> rn_remote t = tick w"
proof -
  let ?args = "[(''policy_digest'', JStr (rp_digest P')), (''expected_spki_sha256'', JStr (expected_spki_sha256 p))]"
  let ?ps = "[(''expected_spki_sha256'', JStr (expected_spki_sha256 p)), (''policy_digest'', JStr (rp_digest P'))]"
  obtain result ps where c: "executor_call R ''generate_csr'' ?args s = (Return result, t)"
    "exact_dict [''csr_pem''] result = Inr ps" "binary MAX_KEYTOOL_OUTPUT_CHARS (member ''csr_pem'' ps) = Inr pem"
    using x by (auto simp: socket_generate_csr_def call_for_def returns)
  have "plain (JObj ?args)" using ascii plain_argument by blast
  then obtain v result' w where v: "request ''generate_csr'' ?args = Inr v" "dispatch E P (norm v) (rn_remote s) = (Return result', w)"
    "rn_remote t = tick w" "plain result' \<longrightarrow> result = norm result'"
    using call_served [OF R(1) c(1)] by auto
  have "norm (JObj ?args) = JObj ?ps" by simp
  hence "serve_generate_csr E P ?ps (fresh_executor (rn_remote s)) = (Return result', w)"
    using dispatch_request [OF v(1) _ v(2)] by simp
  then obtain p' pem' where g: "rp_digest P' = rp_digest P" "policy_certificate_policy P (expected_spki_sha256 p) = Inr p'"
    "generate_csr E P p' (fresh_executor (rn_remote s)) = (Return pem', w)" "result' = JObj [(''csr_pem'', encode_binary pem')]"
    by (auto simp: serve_generate_csr_def require_digest_def member_def jget_def returns split: if_split_asm)
  have "result = JObj [(''csr_pem'', encode_binary pem')]"
    using v(4) g(4) by (simp add: isascii_def is_ascii_def ordc_def)
  hence "pem = pem'" using c(2,3) by (auto simp: exact_dict_def member_def jget_def split: if_split_asm dest: binary_encoded)
  thus ?thesis using g v(3) by blast
qed

lemma exclusive_Return: "exclusive E P st body s = (Return x, t) \<Longrightarrow> \<exists>s1 s2. body s1 = (Return x, s2)"
  by (auto simp: exclusive_def open_transaction_def run_transaction_def with_files_def returns
      split: option.split_asm dest!: locked_Return) (intro exI, assumption)

lemma install_inspected:
  assumes "client_install_certificate L (executor_boundary E P) r s = (Return i, t)"
  shows "\<exists>st. inspect_public_keystore_state L st = Inr i"
proof -
  obtain s1 s2 where "install_body L (executor_boundary E P) r s1 = (Return i, s2)"
    using assms by (auto simp: client_install_certificate_def wrap_exception_def executor_boundary_def returns throw_def
        split: if_split_asm dest!: exclusive_Return)
  thus ?thesis by (auto simp: install_body_def verify_certificate_import_def returns split: if_split_asm)
qed

lemma norm_import_request:
  "norm (JObj [(''before'', a), (''csr_pem'', b), (''issued_certificate'', c)]) =
     JObj [(''before'', norm a), (''csr_pem'', norm b), (''issued_certificate'', norm c)]"
  by simp

lemma plain_import_request:
  assumes "encode_import_request L r = Inr v" "isascii (keytool_output (before r))" "isascii d"
  shows "plain (JObj [(''policy_digest'', JStr d), (''request'', v)])"
proof -
  obtain u where u: "encode_state L (before r) = Inr u"
    "v = JObj [(''before'', u), (''csr_pem'', encode_binary (csr_pem r)), (''issued_certificate'', encode_binary (issued_certificate r))]"
    using assms(1) by (auto simp: encode_import_request_def)
  show ?thesis using plain_state [OF u(1) assms(2)] assms(3) unfolding u(2)
    by (simp add: isascii_def is_ascii_def ordc_def del: plain.simps(1-6)) (simp add: isascii_def is_ascii_def)
qed

text \<open>The executor decodes the request that the client encoded, and fills in the rest from its own policy.\<close>

lemma decode_encoded_request:
  assumes "encode_import_request (x_lib E) r = Inr v" "decode_import_request E P (norm v) w = (Return r', w')"
  shows "w' = w \<and> (\<exists>p. r' = authorized_request P (x_wall E (step w)) (before r) p (csr_pem r) (issued_certificate r))"
proof -
  obtain u where u: "encode_state (x_lib E) (before r) = Inr u"
    "v = JObj [(''before'', u), (''csr_pem'', encode_binary (csr_pem r)), (''issued_certificate'', encode_binary (issued_certificate r))]"
    using assms(1) by (auto simp: encode_import_request_def)
  show ?thesis
    using assms(2) decode_encoded_state [OF u(1)] unfolding u(2) norm_import_request decode_import_request_def Let_def
    by (auto simp: exact_dict_def has_fields_def member_def jget_def wall_clock_def returns dest!: binary_encoded simp del: norm.simps)
qed

lemma import_served:
  assumes R: "re_serve R = executor_peer E P" "re_lib R = x_lib E"
    and x: "socket_import_certificate_reply R P' r expected s = (Return n, t)"
    and ascii: "isascii (rp_digest P')" "isascii (keytool_output (before r))"
  shows "\<exists>p r' i w plan st. r' = authorized_request P (x_wall E (step (rn_remote s))) (before r) p (csr_pem r) (issued_certificate r) \<and>
    client_install_certificate (x_lib E) (executor_boundary E P) r' (fresh_executor (rn_remote s)) = (Return i, w) \<and>
    rn_remote t = tick w \<and> rp_digest P' = rp_digest P \<and>
    prepare_certificate_import (x_lib E) (x_wall E (step w)) r' None = Inr plan \<and>
    rn_installed t = Some st \<and> certificate_chain_der st = plan_chain_der plan \<and>
    keytool_output st = collection_output (i_keystore i) (i_alias i)"
proof -
  obtain v result ps st t0 where c: "encode_import_request (x_lib E) r = Inr v"
    "executor_call R ''install'' [(''policy_digest'', JStr (rp_digest P')), (''request'', v)] s = (Return result, t0)"
    "exact_dict [''state''] result = Inr ps" "decode_state (x_lib E) (member ''state'' ps) = Inr st"
    "t = t0\<lparr> rn_installed := Some st \<rparr>"
    using x R(2) by (auto simp: socket_import_certificate_reply_def call_for_def returns modify_def)
  let ?args = "[(''policy_digest'', JStr (rp_digest P')), (''request'', v)]"
  let ?ps = "[(''policy_digest'', JStr (rp_digest P')), (''request'', norm v)]"
  obtain u result' w where v: "request ''install'' ?args = Inr u" "dispatch E P (norm u) (rn_remote s) = (Return result', w)"
    "rn_remote t0 = tick w" "plain result' \<longrightarrow> result = norm result'"
    using call_served [OF R(1) c(2) plain_import_request [OF c(1) ascii(2,1)]] by auto
  have "norm (JObj ?args) = JObj ?ps" by simp
  hence "serve_install E P ?ps (fresh_executor (rn_remote s)) = (Return result', w)"
    using dispatch_request [OF v(1) _ v(2)] by simp
  then obtain r' w0 i plan st' z where g: "rp_digest P' = rp_digest P"
    "decode_import_request E P (norm v) (fresh_executor (rn_remote s)) = (Return r', w0)"
    "client_install_certificate (x_lib E) (executor_boundary E P) r' w0 = (Return i, w)"
    "prepare_certificate_import (x_lib E) (x_wall E (step w)) r' None = Inr plan"
    "inspection_state (x_lib E) i (plan_chain_der plan) = Inr st'" "encode_state (x_lib E) st' = Inr z" "result' = JObj [(''state'', z)]"
    by (auto simp: serve_install_def require_digest_def member_def jget_def wall_clock_def seqx_Return basic_Return
        state_result_Return split: if_split_asm)
  have st': "keytool_output st' = collection_output (i_keystore i) (i_alias i)" "certificate_chain_der st' = plan_chain_der plan"
    using g(5) by (auto simp: inspection_state_def Let_def)
  have "isascii (keytool_output st')"
    using install_inspected [OF g(3)] reported_text st'(1) public_text_ascii by metis
  hence "st = st'" using state_response [OF g(6) _ _ c(3,4)] v(4) g(7) by simp
  moreover from decode_encoded_request [OF c(1) g(2)]
  obtain p where "w0 = fresh_executor (rn_remote s)"
    "r' = authorized_request P (x_wall E (step (rn_remote s))) (before r) p (csr_pem r) (issued_certificate r)"
    by (auto simp: fresh_executor_def)
  ultimately show ?thesis using g st' c(5) v(3) by auto
qed

end
