(* ===== verification/ServiceScenario.thy ===== *)
theory ServiceScenario
  imports Scenario StartupSafety Composition
begin

text \<open>
  The hypotheses of the properties of the protocol, the service and the start-up hold on the concrete
  deployment of the scenario theory.
\<close>

section \<open>Frames\<close>

theorem frames_witness:
  "message_frame (JArr [JStr ''b'', JBool True]) = Inr ([CHR 0x00, CHR 0x00, CHR 0x00, CHR 0x0A] @ dumps (JArr [JStr ''b'', JBool True])) \<and>
   read_message [Bytes [CHR 0x00, CHR 0x00], Bytes [CHR 0x00],
     Bytes (CHR 0x0A # dumps (JArr [JStr ''b'', JBool True])), Late] = Inr (JArr [JStr ''b'', JBool True])"
proof -
  let ?v = "JArr [JStr ''b'', JBool True]" and ?as = "[Bytes [CHR 0x00, CHR 0x00], Bytes [CHR 0x00],
     Bytes (CHR 0x0A # dumps (JArr [JStr ''b'', JBool True])), Late]"
  have f: "message_frame ?v = Inr ([CHR 0x00, CHR 0x00, CHR 0x00, CHR 0x0A] @ dumps ?v)" by code_simp
  have p: "plain ?v" by code_simp
  have "carries ?as ([CHR 0x00, CHR 0x00, CHR 0x00, CHR 0x0A] @ dumps ?v)"
    unfolding carries_def
    by (intro exI [of _ "[[CHR 0x00, CHR 0x00], [CHR 0x00], CHR 0x0A # dumps ?v]"] exI [of _ "[Late]"]) simp
  from frames_are_read_back [OF p f this] f show ?thesis by simp
qed

section \<open>Requests\<close>

definition shell_request :: json where
  "shell_request = JObj [(''version'', JInt 2), (''operation'', JStr ''shell''), (''arguments'', JObj [])]"

definition shell_frame :: bytes where
  "shell_frame = pack_length (length (dumps shell_request)) @ dumps shell_request"

lemma shell_not_understood: "\<not> understood [Bytes shell_frame]" "read_message [Bytes shell_frame] \<noteq> Inl KeyboardInterrupt"
proof -
  have r: "read_message [Bytes shell_frame] = Inr (norm shell_request)" by code_simp
  have "decode_envelope (norm shell_request) = Inl ValueError" by code_simp
  with r show "\<not> understood [Bytes shell_frame]" "read_message [Bytes shell_frame] \<noteq> Inl KeyboardInterrupt"
    by (simp_all add: understood_def)
qed


definition recover_frame :: bytes where
  "recover_frame = (let v = dumps (JObj [(''version'', JInt 2), (''operation'', JStr ''recover''), (''arguments'', JObj [])])
     in pack_length (length v) @ v)"

theorem requests_witness:
  "keytool_read_only demo_env \<and> understood [Bytes recover_frame] \<and>
   list_all (way_back 20 ''original'' (snd (handle_connection demo_env demo_policy [Bytes recover_frame] (demo_world interrupted))))
     (history (snd (handle_connection demo_env demo_policy [Bytes recover_frame] (demo_world interrupted))))"
proof -
  have "read_message [Bytes recover_frame] = Inr (JObj [(''arguments'', JObj []), (''operation'', JStr ''recover''), (''version'', JInt 2)])"
    by code_simp
  moreover have "decode_envelope (JObj [(''arguments'', JObj []), (''operation'', JStr ''recover''), (''version'', JInt 2)]) =
      Inr (''recover'', [])" by code_simp
  ultimately have u: "understood [Bytes recover_frame]" by (auto simp: understood_def)
  have j: "dir (demo_world interrupted) JOURNAL = None"
    by (simp add: demo_world_def demo_directory_def)
  show ?thesis
    unfolding list_all_iff
    using u demo_keytool_reads requests_never_lose_the_keystore [OF demo_keytool_reads demo_idle j surjective_pairing]
    by blast
qed

section \<open>Start-up\<close>

definition demo_startup :: startup_env where
  "demo_startup = \<lparr> su_open = \<lambda>_. Inr (), su_stat = \<lambda>_. Inr directory_stat, su_data = \<lambda>_. Inr directory_stat,
     su_policy = \<lparr> pol_dir_open = \<lambda>_. Inr (), pol_dir_stat = \<lambda>_. Inr directory_stat, pol_open = \<lambda>_. Inr (),
       pol_fstat = \<lambda>_. Inr directory_stat, pol_named = \<lambda>_. Inr directory_stat, pol_data = \<lambda>_. Inr policy_text \<rparr> \<rparr>"


section \<open>Public states\<close>

definition authority_state :: public_keystore_state where
  "authority_state = \<lparr> keytool_output = public_text 1, certificate_chain_der = [''ca''] \<rparr>"

theorem collected_state_witness:
  "parse_collection demo_lib (listing [''ca'']) = Inr authority_state \<and>
   (\<exists>n. keytool_output authority_state = ''Keystore type: PKCS12'' @ [CHR 0x0A] @ ''Keystore provider: SUN'' @ [CHR 0x0A] @
    ''Alias name: unifi'' @ [CHR 0x0A] @ ''Entry type: PrivateKeyEntry'' @ [CHR 0x0A] @
    ''Certificate chain length: '' @ show_nat n @ [CHR 0x0A] \<and> n < 10 ^ 256)"
proof -
  have p: "parse_collection demo_lib (listing [''ca'']) = Inr authority_state" by code_simp
  from p collected_state_reveals_nothing_else [OF p] show ?thesis by blast
qed

end
