(* ===== verification/Url.thy ===== *)
theory Url
  imports Ip
begin

text \<open>
  What the program uses of \<open>urllib.parse\<close> (Python 3.14): \<open>urlsplit\<close> and the properties of its result, on text
  without control characters. The check of a network location that is not ASCII is left to the caller.
\<close>

section \<open>Splitting a URL\<close>

record split_url =
  u_scheme :: string
  u_netloc :: string
  u_path :: string

fun rpartition_char :: "char \<Rightarrow> string \<Rightarrow> string \<times> bool \<times> string" where
  "rpartition_char c [] = ([], False, [])"
| "rpartition_char c (x # s) = (case rpartition_char c s of (h, f, t) \<Rightarrow>
     if f then (x # h, True, t) else if x = c then ([], True, s) else ([], False, x # s))"

definition is_scheme_char :: "char \<Rightarrow> bool" where
  "is_scheme_char c \<longleftrightarrow> is_alnum c \<or> c \<in> {CHR ''+'', CHR ''-'', CHR ''.''}"

definition split_scheme :: "string \<Rightarrow> string \<times> string" where
  "split_scheme url = (case partition_char (CHR '':'') url of (scheme, found, rest) \<Rightarrow>
     if found \<and> scheme \<noteq> [] \<and> (is_upper (hd scheme) \<or> is_lower (hd scheme)) \<and> list_all is_scheme_char scheme
     then (lower scheme, rest) else ([], url))"

definition split_netloc :: "string \<Rightarrow> string \<times> string" where
  "split_netloc url = (if startswith ''//'' url
     then (takeWhile (\<lambda>c. c \<notin> {CHR ''/'', CHR ''?'', CHR ''#''}) (drop 2 url),
           dropWhile (\<lambda>c. c \<notin> {CHR ''/'', CHR ''?'', CHR ''#''}) (drop 2 url))
     else ([], url))"

text \<open>The text between the brackets must be an IPv6 address or a future address form.\<close>

definition future_address :: "string \<Rightarrow> bool" where
  "future_address h = (case partition_char (CHR ''.'') (drop 1 h) of (version, found, rest) \<Rightarrow>
     startswith ''v'' h \<and> version \<noteq> [] \<and> list_all is_hex version \<and> found \<and> rest \<noteq> [])"

definition bracketed_host_ok :: "string \<Rightarrow> bool" where
  "bracketed_host_ok h = (if startswith ''v'' h then future_address h
     else case ip_address h of Inr (IPv6 _ _) \<Rightarrow> True | _ \<Rightarrow> False)"

text \<open>Nothing may stand before the opening bracket, and only a port after the closing one.\<close>

definition bracketed_netloc_ok :: "string \<Rightarrow> bool" where
  "bracketed_netloc_ok netloc = (case rpartition_char (CHR ''@'') netloc of (_, _, host_and_port) \<Rightarrow>
     case partition_char (CHR 0x5B) host_and_port of (before_bracket, found, bracketed) \<Rightarrow>
       if found then (case partition_char (CHR 0x5D) bracketed of (host, _, port) \<Rightarrow>
         before_bracket = [] \<and> (port = [] \<or> startswith '':'' port) \<and> bracketed_host_ok host)
       else bracketed_host_ok (fst (partition_char (CHR '':'') host_and_port)))"

definition urlsplit :: "string \<Rightarrow> py_exc + split_url" where
  "urlsplit url = (case split_scheme url of (scheme, rest) \<Rightarrow> case split_netloc rest of (netloc, rest) \<Rightarrow>
     let opening = CHR 0x5B \<in> set netloc; closing = CHR 0x5D \<in> set netloc
     in if opening \<noteq> closing then Inl ValueError
        else if opening \<and> \<not> bracketed_netloc_ok netloc then Inl ValueError
        else Inr \<lparr> u_scheme = scheme, u_netloc = netloc,
          u_path = takeWhile (\<lambda>c. c \<notin> {CHR ''?'', CHR ''#''}) rest \<rparr>)"

definition hostinfo :: "split_url \<Rightarrow> string \<times> string" where
  "hostinfo u = (case partition_char (CHR 0x5B) (snd (snd (rpartition_char (CHR ''@'') (u_netloc u)))) of
     (plain_part, found, bracketed) \<Rightarrow>
       if found then (case partition_char (CHR 0x5D) bracketed of (host, _, rest) \<Rightarrow>
         (host, snd (snd (partition_char (CHR '':'') rest))))
       else (case partition_char (CHR '':'') plain_part of (host, _, port) \<Rightarrow> (host, port)))"

definition u_hostname :: "split_url \<Rightarrow> string" where
  "u_hostname u = (case partition_char (CHR ''%'') (fst (hostinfo u)) of (host, found, zone) \<Rightarrow>
     lower host @ (if found then ''%'' else []) @ zone)"

definition u_has_userinfo :: "split_url \<Rightarrow> bool" where
  "u_has_userinfo u = fst (snd (rpartition_char (CHR ''@'') (u_netloc u)))"

text \<open>The user name and the password, empty where they are missing.\<close>

definition u_username :: "split_url \<Rightarrow> string" where
  "u_username u = fst (partition_char (CHR '':'') (fst (rpartition_char (CHR ''@'') (u_netloc u))))"

definition u_password :: "split_url \<Rightarrow> string" where
  "u_password u = snd (snd (partition_char (CHR '':'') (fst (rpartition_char (CHR ''@'') (u_netloc u)))))"

definition u_port :: "split_url \<Rightarrow> py_exc + nat option" where
  "u_port u = (let port = snd (hostinfo u) in
     if port = [] then Inr None
     else if \<not> list_all is_digit port \<or> read_nat port > 65535 then Inl ValueError
     else Inr (Some (read_nat port)))"

end
