(* ===== verification/OpnsenseClient.thy ===== *)
theory OpnsenseClient
  imports ExecutorClient Url
begin

text \<open>
  The client of the OPNsense trust API (\<open>opnsense_client.py\<close>): the base URL, the credentials, the three
  requests and the validation of their answers. The HTTP transport is the parameter \<open>op_http\<close>, which answers a
  request with a body, an HTTP error or not at all; \<open>rn_posted\<close> lists the paths of the requests whose
  transport has begun. A response with an integer of more than 4300 digits, which Python refuses with a
  \<open>ValueError\<close> of its own, is malformed JSON here.
\<close>

section \<open>Constants\<close>

definition CA_LIST_PATH :: string where "CA_LIST_PATH = ''/api/trust/cert/ca_list''"
definition CERT_ADD_PATH :: string where "CERT_ADD_PATH = ''/api/trust/cert/add''"
definition CERTIFICATE_PATH :: "string \<Rightarrow> string" where
  "CERTIFICATE_PATH uuid = ''/api/trust/cert/generate_file/'' @ uuid @ ''/crt''"

definition MAX_RESPONSE_BYTES :: nat where "MAX_RESPONSE_BYTES = 1024 * 1024"
definition MAX_CERTIFICATE_PEM_BYTES :: nat where "MAX_CERTIFICATE_PEM_BYTES = 64 * 1024"
definition MAX_SECRET_FILE_BYTES :: nat where "MAX_SECRET_FILE_BYTES = 16 * 1024"
definition MAX_DESCRIPTION_CHARS :: nat where "MAX_DESCRIPTION_CHARS = 255"
definition MAX_SUBJECT_CHARS :: nat where "MAX_SUBJECT_CHARS = 4096"
definition ALLOWED_DIGESTS :: "string list" where "ALLOWED_DIGESTS = [''sha256'', ''sha384'', ''sha512'']"

abbreviation opn_error :: "string \<Rightarrow> py_exc + 'a" where
  "opn_error m \<equiv> Inl (OPNsenseAPIError m)"

section \<open>The base URL\<close>

definition numeric_component :: "string \<Rightarrow> bool" where
  "numeric_component s \<longleftrightarrow> s \<noteq> [] \<and> list_all is_digit s \<or>
     (startswith ''0x'' s \<or> startswith ''0X'' s) \<and> drop 2 s \<noteq> [] \<and> list_all is_hex (drop 2 s)"

definition validate_url_hostname :: "string \<Rightarrow> bool \<Rightarrow> py_exc + unit" where
  "validate_url_hostname hostname bracketed =
     (if CHR ''%'' \<in> set hostname then Inl ValueError
      else case ip_address hostname of
        Inr address \<Rightarrow> if (case address of IPv6 _ _ \<Rightarrow> True | _ \<Rightarrow> False) \<noteq> bracketed then Inl ValueError else Inr ()
      | Inl _ \<Rightarrow>
        if bracketed \<or> list_all numeric_component (split_char (CHR ''.'') hostname) then Inl ValueError
        else if length hostname > 253 \<or> \<not> list_all dns_label (split_char (CHR ''.'') hostname) then Inl ValueError
        else Inr ())"

definition url_char :: "char \<Rightarrow> bool" where
  "url_char c \<longleftrightarrow> 33 \<le> ordc c \<and> ordc c \<le> 126"

definition port_text :: "string \<Rightarrow> py_exc + string option" where
  "port_text authority =
     (if startswith [CHR 0x5B] authority
      then (let suffix = snd (snd (partition_char (CHR 0x5D) authority))
            in if suffix \<noteq> [] \<and> \<not> startswith '':'' suffix then Inl ValueError
               else Inr (if suffix = [] then None else Some (tl suffix)))
      else (case partition_char (CHR '':'') authority of (_, found, rest) \<Rightarrow> Inr (if found then Some rest else None)))"

definition validate_base_url :: "string \<Rightarrow> py_exc + string" where
  "validate_base_url base_url =
     (if base_url = [] \<or> \<not> list_all url_char base_url then Inl ValueError
      else bindE (urlsplit base_url) (\<lambda>u.
      if u_scheme u \<noteq> ''https'' \<or> u_hostname u = [] then Inl ValueError
      else if u_has_userinfo u then Inl ValueError
      else if CHR ''?'' \<in> set base_url \<or> CHR ''#'' \<in> set base_url then Inl ValueError
      else if u_path u \<notin> {[], ''/''} then Inl ValueError
      else bindE (port_text (u_netloc u)) (\<lambda>digits.
      if (case digits of None \<Rightarrow> False | Some d \<Rightarrow> d = [] \<or> \<not> list_all is_digit d) then Inl ValueError
      else bindE (u_port u) (\<lambda>port.
      if port = Some 0 then Inl ValueError
      else bindE (validate_url_hostname (u_hostname u) (startswith [CHR 0x5B] (u_netloc u))) (\<lambda>_.
      Inr (if u_path u = ''/'' then butlast base_url else base_url))))))"

section \<open>Texts and identifiers\<close>

definition validate_timeout :: "rat \<Rightarrow> py_exc + rat" where
  "validate_timeout t = (if t \<le> 0 then Inl ValueError else Inr t)"

definition validate_safe_text :: "x509_lib \<Rightarrow> string \<Rightarrow> string \<Rightarrow> nat \<Rightarrow> py_exc + string" where
  "validate_safe_text L value label maximum =
     (if value = [] then opn_error (label @ '' must not be empty'')
      else if py_len value > maximum then opn_error (label @ '' exceeds the size limit'')
      else if list_ex (unsafe_text_char L) (code_points value) then opn_error (label @ '' contains unsafe characters'')
      else Inr value)"

definition caref_ok :: "string \<Rightarrow> bool" where
  "caref_ok s = lhex_string 13 s"

definition validate_caref :: "string \<Rightarrow> py_exc + string" where
  "validate_caref caref = (if \<not> caref_ok caref then opn_error ''OPNsense CA reference is invalid'' else Inr caref)"

text \<open>\<open>str(uuid.UUID(value)) == value\<close>: the canonical form is the only text that is its own normal form.\<close>

definition canonical_uuid :: "string \<Rightarrow> bool" where
  "canonical_uuid s = (case split_char (CHR ''-'') s of
      [a, b, c, d, e] \<Rightarrow> lhex_string 8 a \<and> lhex_string 4 b \<and> lhex_string 4 c \<and> lhex_string 4 d \<and> lhex_string 12 e
    | _ \<Rightarrow> False)"

fun validate_uuid :: "json option \<Rightarrow> string \<Rightarrow> py_exc + string" where
  "validate_uuid (Some (JStr value)) label = (if \<not> canonical_uuid value then opn_error (label @ '' is invalid'') else Inr value)"
| "validate_uuid _ label = opn_error (label @ '' is invalid'')"

definition derive_key_type :: "csr_info \<Rightarrow> py_exc + string" where
  "derive_key_type q =
     (if q_public_key_algorithm q \<noteq> ''RSA'' then opn_error ''CSR public-key algorithm is unsupported for signing''
      else case q_public_key_size q of
        Some n \<Rightarrow> if n \<in> {2048, 3072, 4096} then Inr (show_nat n) else opn_error ''CSR RSA key size is unsupported for signing''
      | None \<Rightarrow> opn_error ''CSR RSA key size is unsupported for signing'')"

definition identity_dns :: "x509_lib \<Rightarrow> string list \<Rightarrow> string \<Rightarrow> py_exc + string list" where
  "identity_dns L seen name =
     bindE (validate_safe_text L name ''CSR DNS SAN'' 253) (\<lambda>_.
     if \<not> isascii name then opn_error ''CSR DNS SAN is not an ASCII DNS name''
     else if \<not> list_all dns_label (split_char (CHR ''.'') name) then opn_error ''CSR DNS SAN is not a valid DNS name''
     else if lower name \<in> set seen then opn_error ''CSR contains a duplicate DNS SAN''
     else Inr (seen @ [lower name]))"

definition identity_ip :: "x509_lib \<Rightarrow> string list \<Rightarrow> string \<Rightarrow> py_exc + string list" where
  "identity_ip L seen address =
     bindE (validate_safe_text L address ''CSR IP SAN'' 64) (\<lambda>_.
     if CHR ''%'' \<in> set address then opn_error ''CSR IP SAN must not contain a scope identifier''
     else case ip_address address of
       Inl _ \<Rightarrow> opn_error ''CSR IP SAN is not a valid IP address''
     | Inr a \<Rightarrow> if show_ip a \<in> set seen then opn_error ''CSR contains a duplicate IP SAN'' else Inr (seen @ [show_ip a]))"

text \<open>The names as they are in the request, and the addresses in canonical form.\<close>

definition validate_csr_identity :: "x509_lib \<Rightarrow> csr_info \<Rightarrow> py_exc + string list \<times> string list" where
  "validate_csr_identity L q =
     bindE (validate_safe_text L (q_info_subject q) ''CSR subject'' MAX_SUBJECT_CHARS) (\<lambda>_.
     if q_unsupported_san_types q \<noteq> [] then opn_error ''CSR contains an unsupported SAN identity type''
     else if length (q_dns_sans q) + length (q_ip_sans q) > MAX_SAN_ENTRIES then opn_error ''CSR SAN count exceeds the size limit''
     else if q_dns_sans q = [] \<and> q_ip_sans q = [] then opn_error ''CSR must contain at least one DNS or IP SAN''
     else bindE (foldE (identity_dns L) [] (q_dns_sans q)) (\<lambda>_.
     bindE (foldE (identity_ip L) [] (q_ip_sans q)) (\<lambda>addresses.
     Inr (q_dns_sans q, addresses))))"

section \<open>The client\<close>

record http_request =
  h_method :: string
  h_url :: string
  h_authorization :: string
  h_body :: "bytes option"

datatype http_answer = Answered bytes | HttpStatus nat | Unreachable

record opn_env =
  op_lib :: x509_lib
  op_secure :: secure_env
  op_ssl :: ssl_lib
  op_http :: "nat \<Rightarrow> http_request \<Rightarrow> http_answer"

record opnsense =
  o_base_url :: string
  o_timeout :: rat
  o_authorization :: string
  o_context :: tls_context

fun secret_failure :: "string \<Rightarrow> py_exc \<Rightarrow> py_exc" where
  "secret_failure source (SecureFileError m) = OPNsenseAPIError m"
| "secret_failure source e = (if is_OSError e then OPNsenseAPIError (source @ '' could not be read'') else e)"

definition strip_newline :: "string \<Rightarrow> string" where
  "strip_newline s = (if endswith [CHR 0x0D, CHR 0x0A] s then take (length s - 2) s
     else if endswith [CHR 0x0A] s then take (length s - 1) s else s)"

definition secret_of :: "string \<Rightarrow> bytes \<Rightarrow> py_exc + string" where
  "secret_of source data =
     (if length data > MAX_SECRET_FILE_BYTES then opn_error (source @ '' exceeds the size limit'')
      else if CHR 0x00 \<in> set data then opn_error (source @ '' contains NUL'')
      else bindE (catchE (decode_utf8 data) (\<lambda>_. opn_error (source @ '' must contain valid UTF-8''))) (\<lambda>decoded.
      let secret = strip_newline decoded
      in if secret = [] then opn_error (source @ '' is empty'')
         else if splitlines secret \<noteq> [secret] then opn_error (source @ '' must contain exactly one line'')
         else Inr secret))"

definition read_secret_file :: "opn_env \<Rightarrow> string \<Rightarrow> string \<Rightarrow> ('m machine_scheme, string) exec" where
  "read_secret_file N name source =
     seqx (handle (read_secure_file (op_secure N) name source True (MAX_SECRET_FILE_BYTES + 1))
       (\<lambda>e. throw (secret_failure source e))) (\<lambda>data.
     liftE (secret_of source data))"

definition load_authorization :: "opn_env \<Rightarrow> ('m machine_scheme, string) exec" where
  "load_authorization N =
     seqx (read_secret_file N ''opnsense-api-key'' ''OPNsense API key'') (\<lambda>key.
     seqx (read_secret_file N ''opnsense-api-secret'' ''OPNsense API secret'') (\<lambda>secret.
     ret (''Basic '' @ b64encode (key @ '':'' @ secret))))"

definition opnsense_client :: "opn_env \<Rightarrow> string \<Rightarrow> rat \<Rightarrow> string option \<Rightarrow> ('m machine_scheme, opnsense) exec" where
  "opnsense_client N base_url timeout tls_ca_name =
     seqx (liftE (validate_base_url base_url)) (\<lambda>url.
     seqx (liftE (validate_timeout timeout)) (\<lambda>t.
     seqx (load_authorization N) (\<lambda>authorization.
     seqx (handle (create_client_tls_context (op_ssl N) (op_secure N) tls_ca_name None)
       (\<lambda>e. throw (if is_OSError e \<or> is_TLSConfigurationError e
         then OPNsenseAPIError ''OPNsense TLS trust could not be configured'' else e))) (\<lambda>context.
     ret \<lparr> o_base_url = url, o_timeout = t, o_authorization = authorization, o_context = context \<rparr>))))"

text \<open>\<open>json.dumps(payload, separators=(",", ":"))\<close>: no spaces, the fields in insertion order.\<close>

fun dumps_compact :: "json \<Rightarrow> string" where
  "dumps_compact (JArr vs) = ''['' @ join '','' (map dumps_compact vs) @ '']''"
| "dumps_compact (JObj ps) = ''{'' @ join '','' (map (\<lambda>p. dump_string (fst p) @ '':'' @ snd p)
     (map (\<lambda>p. (fst p, dumps_compact (snd p))) ps)) @ ''}''"
| "dumps_compact v = dumps v"

definition open_url :: "opn_env \<Rightarrow> http_request \<Rightarrow> ('w renewer, unit) exec \<Rightarrow> string \<Rightarrow> ('w renewer, bytes) exec" where
  "open_url N h before_transport path =
     seqx before_transport (\<lambda>_.
     seqx (modify (\<lambda>s. s\<lparr> rn_posted := path # rn_posted s \<rparr>)) (\<lambda>_.
     syscall (seqx (gets (\<lambda>s. op_http N (step s) h)) (\<lambda>answer. case answer of
       Answered data \<Rightarrow> ret (take (MAX_RESPONSE_BYTES + 1) data)
     | HttpStatus code \<Rightarrow> throw (OPNsenseAPIError (''OPNsense API request failed with HTTP '' @ show_nat code))
     | Unreachable \<Rightarrow> throw OSError))))"

definition decode_answer :: "bytes \<Rightarrow> py_exc + (string \<times> json) list" where
  "decode_answer data =
     (if length data > MAX_RESPONSE_BYTES then opn_error ''OPNsense API response exceeds the size limit''
      else bindE (catchE (loads_bytes ValueError data) (\<lambda>e. if is_ValueError e
        then opn_error ''OPNsense API returned malformed JSON'' else Inl e)) (\<lambda>v. case v of
        JObj ps \<Rightarrow> Inr ps
      | _ \<Rightarrow> opn_error ''OPNsense API returned a non-object JSON response''))"

definition request_json ::
  "opn_env \<Rightarrow> opnsense \<Rightarrow> string \<Rightarrow> string \<Rightarrow> json option \<Rightarrow> ('w renewer, unit) exec \<Rightarrow> ('w renewer, (string \<times> json) list) exec" where
  "request_json N C method path payload before_transport =
     seqx (handle (open_url N \<lparr> h_method = method, h_url = o_base_url C @ path, h_authorization = o_authorization C,
         h_body = map_option dumps_compact payload \<rparr> before_transport path)
       (\<lambda>e. throw (if is_OSError e then OPNsenseAPIError ''OPNsense API connection failed'' else e))) (\<lambda>data.
     liftE (decode_answer data))"

section \<open>The three requests\<close>

fun row_of :: "json \<Rightarrow> py_exc + string \<times> string" where
  "row_of (JObj ps) = (case (jget ''descr'' ps, jget ''caref'' ps) of
      (Some (JStr d), Some (JStr c)) \<Rightarrow> Inr (d, c)
    | _ \<Rightarrow> opn_error ''OPNsense CA list response is malformed'')"
| "row_of _ = opn_error ''OPNsense CA list response is malformed''"

definition select_ca :: "string \<Rightarrow> (string \<times> json) list \<Rightarrow> py_exc + string" where
  "select_ca description ps = (case (jget ''rows'' ps, jget ''count'' ps) of
      (Some (JArr rows), Some (JInt n)) \<Rightarrow>
        if n \<noteq> int (length rows) then opn_error ''OPNsense CA list response is malformed''
        else bindE (mapE row_of rows) (\<lambda>pairs.
          case map snd (filter (\<lambda>p. fst p = description) pairs) of
            [] \<Rightarrow> opn_error ''OPNsense CA description was not found''
          | [caref] \<Rightarrow> if \<not> caref_ok caref then opn_error ''OPNsense returned an invalid CA reference'' else Inr caref
          | _ \<Rightarrow> opn_error ''OPNsense CA description is not unique'')
    | _ \<Rightarrow> opn_error ''OPNsense CA list response is malformed'')"

definition resolve_ca :: "opn_env \<Rightarrow> opnsense \<Rightarrow> string \<Rightarrow> ('w renewer, string) exec" where
  "resolve_ca N C description =
     seqx (liftE (validate_safe_text (op_lib N) description ''OPNsense CA description'' MAX_DESCRIPTION_CHARS)) (\<lambda>d.
     seqx (request_json N C ''GET'' CA_LIST_PATH None (ret ())) (\<lambda>response.
     liftE (select_ca d response)))"

definition signing_payload ::
  "string \<Rightarrow> string \<Rightarrow> int \<Rightarrow> string \<Rightarrow> string \<Rightarrow> string list \<Rightarrow> string list \<Rightarrow> string \<Rightarrow> json" where
  "signing_payload caref digest lifetime key_type csr names addresses description =
     JObj [(''cert'', JObj [(''action'', JStr ''sign_csr''), (''caref'', JStr caref), (''digest'', JStr digest),
       (''cert_type'', JStr ''server_cert''), (''lifetime'', JInt lifetime), (''key_type'', JStr key_type),
       (''csr_payload'', JStr csr), (''altnames_dns'', JStr (join [CHR 0x0A] names)),
       (''altnames_ip'', JStr (join [CHR 0x0A] addresses)), (''descr'', JStr description)])]"

definition signing_request ::
  "x509_lib \<Rightarrow> bytes \<Rightarrow> csr_info \<Rightarrow> string \<Rightarrow> string \<Rightarrow> string \<Rightarrow> int \<Rightarrow> string \<Rightarrow> py_exc + json" where
  "signing_request L pem q expected caref digest lifetime description =
     bindE (inspect_csr L pem) (\<lambda>inspected.
     if inspected \<noteq> q then opn_error ''CSR information does not match the CSR payload''
     else bindE (validate_csr_spki inspected expected) (\<lambda>_.
     bindE (validate_caref caref) (\<lambda>caref.
     if digest \<notin> set ALLOWED_DIGESTS then opn_error ''OPNsense digest is not allowed''
     else if \<not> (1 \<le> lifetime \<and> lifetime \<le> 397) then opn_error ''OPNsense lifetime must be between 1 and 397 days''
     else bindE (validate_safe_text L description ''Certificate description'' MAX_DESCRIPTION_CHARS) (\<lambda>description.
     bindE (derive_key_type inspected) (\<lambda>key_type.
     bindE (validate_csr_identity L inspected) (\<lambda>(names, addresses).
     if \<not> isascii pem then opn_error ''CSR PEM must be ASCII''
     else Inr (signing_payload caref digest lifetime key_type pem names addresses description)))))))"

definition sign_csr ::
  "opn_env \<Rightarrow> opnsense \<Rightarrow> bytes \<Rightarrow> csr_info \<Rightarrow> string \<Rightarrow> string \<Rightarrow> string \<Rightarrow> int \<Rightarrow> string \<Rightarrow> ('w renewer, unit) exec \<Rightarrow>
   ('w renewer, string) exec" where
  "sign_csr N C pem q expected caref digest lifetime description before_transport =
     seqx (liftE (signing_request (op_lib N) pem q expected caref digest lifetime description)) (\<lambda>payload.
     seqx (request_json N C ''POST'' CERT_ADD_PATH (Some payload) before_transport) (\<lambda>response.
     seqx (raise_if (jget ''result'' response \<noteq> Some (JStr ''saved''))
       (OPNsenseAPIError ''OPNsense did not save the signed certificate'')) (\<lambda>_.
     liftE (validate_uuid (jget ''uuid'' response) ''OPNsense certificate UUID''))))"

definition certificate_of :: "(string \<times> json) list \<Rightarrow> py_exc + bytes" where
  "certificate_of response = (case jget ''payload'' response of
      Some (JStr payload) \<Rightarrow>
        if jget ''status'' response \<noteq> Some (JStr ''ok'') \<or> str_strip payload = []
        then opn_error ''OPNsense public certificate response is malformed''
        else if \<not> isascii (str_strip payload) then opn_error ''OPNsense public certificate response is not ASCII''
        else if length (str_strip payload) + 1 > MAX_CERTIFICATE_PEM_BYTES
        then opn_error ''OPNsense public certificate payload exceeds the size limit''
        else Inr (str_strip payload @ [CHR 0x0A])
    | _ \<Rightarrow> opn_error ''OPNsense public certificate response is malformed'')"

definition get_certificate :: "opn_env \<Rightarrow> opnsense \<Rightarrow> string \<Rightarrow> ('w renewer, bytes) exec" where
  "get_certificate N C uuid =
     seqx (liftE (validate_uuid (Some (JStr uuid)) ''Certificate UUID'')) (\<lambda>u.
     seqx (request_json N C ''POST'' (CERTIFICATE_PATH u) (Some (JObj [])) (ret ())) (\<lambda>response.
     liftE (certificate_of response)))"


section \<open>The base URL is an origin\<close>

lemma rpartition_char_none: "rpartition_char c s = (a, False, b) \<Longrightarrow> c \<notin> set s"
  by (induction s arbitrary: a b) (auto split: prod.splits if_splits)

lemma split_netloc_parts:
  assumes "split_netloc s = (netloc, rest)" "netloc \<noteq> []"
  shows "s = ''//'' @ netloc @ rest \<and> list_all (\<lambda>c. c \<notin> {CHR ''/'', CHR ''?'', CHR ''#''}) netloc"
proof -
  have "startswith ''//'' s" using assms by (auto simp: split_netloc_def split: if_splits)
  then obtain r where s: "s = ''//'' @ r" by (cases s; cases "tl s") (auto simp: startswith_def)
  thus ?thesis using assms by (auto simp: split_netloc_def list_all_iff dest: set_takeWhileD)
qed

lemma split_scheme_https:
  assumes "split_scheme s = (scheme, rest)" "scheme = ''https''"
  shows "\<exists>p. s = p @ '':'' @ rest \<and> lower p = ''https''"
  using assms by (auto simp: split_scheme_def split: prod.splits if_splits simp: partition_char_found)

definition origin :: "string \<Rightarrow> bool" where
  "origin u \<longleftrightarrow> (\<exists>scheme authority. u = scheme @ ''://'' @ authority \<and> lower scheme = ''https'' \<and> authority \<noteq> [] \<and>
     list_all (\<lambda>c. url_char c \<and> c \<notin> {CHR ''/'', CHR ''?'', CHR ''#'', CHR ''@''}) authority)"

lemma validate_base_url_checks:
  assumes "validate_base_url base_url = Inr u"
  shows "\<exists>v. list_all url_char base_url \<and> urlsplit base_url = Inr v \<and> u_scheme v = ''https'' \<and> u_hostname v \<noteq> [] \<and>
    \<not> u_has_userinfo v \<and> u_path v \<in> {[], ''/''} \<and> CHR ''?'' \<notin> set base_url \<and> CHR ''#'' \<notin> set base_url \<and>
    u = (if u_path v = ''/'' then butlast base_url else base_url)"
  using assms unfolding validate_base_url_def by (simp del: insert_iff split: if_split_asm) auto

text \<open>
  C13. A base URL that is accepted is an HTTPS origin: the scheme, a non-empty authority of printable characters without user
  information, and nothing after it. The only change that the validation makes is to remove one final slash,
  so that a path appended to the result always starts the path of the URL.
\<close>

theorem accepted_base_url_is_an_origin:
  assumes "validate_base_url base_url = Inr u"
  shows "origin u \<and> base_url \<in> {u, u @ ''/''}"
proof -
  from validate_base_url_checks [OF assms] obtain v where chars: "list_all url_char base_url"
    and v: "urlsplit base_url = Inr v" "u_scheme v = ''https''" "u_hostname v \<noteq> []" "\<not> u_has_userinfo v" "u_path v \<in> {[], ''/''}"
    and q: "CHR ''?'' \<notin> set base_url" "CHR ''#'' \<notin> set base_url"
    and u: "u = (if u_path v = ''/'' then butlast base_url else base_url)"
    by blast
  obtain scheme rest netloc tail where p: "split_scheme base_url = (scheme, rest)" "split_netloc rest = (netloc, tail)"
    by (metis surj_pair)
  have w: "u_scheme v = scheme" "u_netloc v = netloc" "u_path v = takeWhile (\<lambda>c. c \<notin> {CHR ''?'', CHR ''#''}) tail"
    using v(1) p by (auto simp: urlsplit_def Let_def split: if_split_asm)
  have "netloc \<noteq> []"
    using v(3) w(2) by (auto simp: u_hostname_def hostinfo_def lower_def)
  note rest = split_netloc_parts [OF p(2) this]
  obtain h where s: "base_url = h @ '':'' @ rest" "lower h = ''https''"
    using split_scheme_https [OF p(1)] v(2) w(1) by auto
  have "takeWhile (\<lambda>c. c \<notin> {CHR ''?'', CHR ''#''}) tail = tail"
    using q s(1) rest by (auto simp: takeWhile_eq_all_conv)
  hence path: "u_path v = tail" using w(3) by (rule trans [rotated])
  hence tail: "tail \<in> {[], ''/''}" using v(5) by simp
  have "CHR ''@'' \<notin> set netloc"
    using v(4) w(2) by (cases "rpartition_char (CHR ''@'') netloc")
      (auto simp: u_has_userinfo_def dest: rpartition_char_none)
  moreover have "list_all url_char netloc" using chars unfolding s(1) conjunct1 [OF rest] by simp
  moreover note conjunct2 [OF rest]
  ultimately have "list_all (\<lambda>c. url_char c \<and> c \<notin> {CHR ''/'', CHR ''?'', CHR ''#'', CHR ''@''}) netloc"
    by (auto simp: list_all_iff)
  hence "origin (h @ ''://'' @ netloc)"
    unfolding origin_def using s(2) \<open>netloc \<noteq> []\<close> by blast
  moreover have b: "base_url = (h @ ''://'' @ netloc) @ tail" using s(1) rest by simp
  moreover have "u = h @ ''://'' @ netloc"
    using tail unfolding u path b by (elim insertE) (simp_all add: butlast_append)
  ultimately show ?thesis using tail by blast
qed

theorem accepted_base_url_witness:
  "validate_base_url ''https://firewall.example:8443/'' = Inr ''https://firewall.example:8443'' \<and>
   origin ''https://firewall.example:8443''"
proof -
  have r: "validate_base_url ''https://firewall.example:8443/'' = Inr ''https://firewall.example:8443''" by code_simp
  from accepted_base_url_is_an_origin [OF r] r show ?thesis by blast
qed


section \<open>The signing request says what the certificate request says\<close>

lemma dns_label_no_newline: "dns_label s \<Longrightarrow> CHR 0x0A \<notin> set s"
  by (auto simp: dns_label_def list_all_iff is_alnum_def is_digit_def is_upper_def is_lower_def ordc_def)

lemma dns_san_no_newline: "list_all dns_label (split_char (CHR ''.'') v) \<Longrightarrow> CHR 0x0A \<notin> set v"
  using split_char_set [of "CHR 0x0A" v "CHR ''.''"] dns_label_no_newline
  by (fastforce simp: list_all_iff)

lemma identity_dns_ok:
  "identity_dns L seen v = Inr seen' \<longleftrightarrow> validate_safe_text L v ''CSR DNS SAN'' 253 = Inr v \<and> isascii v \<and>
     list_all dns_label (split_char (CHR ''.'') v) \<and> lower v \<notin> set seen \<and> seen' = seen @ [lower v]"
  by (auto simp: identity_dns_def validate_safe_text_def)

lemma identity_dns_fold:
  "foldE (identity_dns L) seen vs = Inr seen' \<Longrightarrow> distinct seen \<Longrightarrow>
   seen' = seen @ map lower vs \<and> distinct seen' \<and> list_all (\<lambda>v. list_all dns_label (split_char (CHR ''.'') v)) vs"
proof (induction vs arbitrary: seen)
  case (Cons v vs)
  then have a: "lower v \<notin> set seen" "list_all dns_label (split_char (CHR ''.'') v)"
      "foldE (identity_dns L) (seen @ [lower v]) vs = Inr seen'"
    by (auto simp: identity_dns_ok)
  have "distinct (seen @ [lower v])" using Cons.prems(2) a(1) by simp
  note ih = Cons.IH [OF a(3) this]
  show ?case using a(2) ih by (elim conjE, intro conjI) (simp_all only: append.simps append_assoc list.map list.pred_inject)
qed simp

lemma identity_ip_ok:
  "identity_ip L seen v = Inr seen' \<longleftrightarrow> validate_safe_text L v ''CSR IP SAN'' 64 = Inr v \<and> CHR ''%'' \<notin> set v \<and>
     (\<exists>a. ip_address v = Inr a \<and> show_ip a \<notin> set seen \<and> seen' = seen @ [show_ip a])"
  by (auto simp: identity_ip_def validate_safe_text_def split: sum.splits)

lemma identity_ip_fold:
  "foldE (identity_ip L) seen vs = Inr seen' \<Longrightarrow> distinct seen \<Longrightarrow>
   \<exists>as. seen' = seen @ map show_ip as \<and> distinct seen' \<and> mapE ip_address vs = Inr as \<and> list_all (\<lambda>v. CHR ''%'' \<notin> set v) vs"
proof (induction vs arbitrary: seen)
  case (Cons v vs)
  then obtain a where a: "ip_address v = Inr a" "show_ip a \<notin> set seen" "CHR ''%'' \<notin> set v"
      "foldE (identity_ip L) (seen @ [show_ip a]) vs = Inr seen'"
    by (auto simp: identity_ip_ok)
  have "distinct (seen @ [show_ip a])" using Cons.prems(2) a(2) by simp
  from Cons.IH [OF a(4) this] obtain as where "seen' = (seen @ [show_ip a]) @ map show_ip as" "distinct seen'"
    "mapE ip_address vs = Inr as" "list_all (\<lambda>v. CHR ''%'' \<notin> set v) vs" by blast
  with a show ?case by (intro exI [of _ "a # as"]) simp
qed simp

lemma distinct_nil: "distinct []"
  by simp

lemma validate_csr_identity_folds:
  assumes "validate_csr_identity L q = Inr (names, addresses)"
  shows "\<exists>seen. foldE (identity_dns L) [] (q_dns_sans q) = Inr seen \<and> foldE (identity_ip L) [] (q_ip_sans q) = Inr addresses \<and>
    names = q_dns_sans q \<and> length (q_dns_sans q) + length (q_ip_sans q) \<le> MAX_SAN_ENTRIES \<and> (q_dns_sans q \<noteq> [] \<or> q_ip_sans q \<noteq> [])"
  using assms unfolding validate_csr_identity_def by (simp split: if_split_asm) auto

lemma validate_csr_identity_ok:
  assumes "validate_csr_identity L q = Inr (names, addresses)"
  shows "names = q_dns_sans q" "distinct (map lower names)" "\<forall>n\<in>set names. CHR 0x0A \<notin> set n"
    "\<exists>as. addresses = map show_ip as \<and> distinct addresses \<and> mapE ip_address (q_ip_sans q) = Inr as" "names \<noteq> [] \<or> addresses \<noteq> []"
    "length names + length addresses \<le> MAX_SAN_ENTRIES" "list_all (\<lambda>v. CHR ''%'' \<notin> set v) (q_ip_sans q)"
proof -
  from validate_csr_identity_folds [OF assms] obtain seen where
    f: "foldE (identity_dns L) [] (q_dns_sans q) = Inr seen" "foldE (identity_ip L) [] (q_ip_sans q) = Inr addresses"
    and n: "names = q_dns_sans q" and b: "length (q_dns_sans q) + length (q_ip_sans q) \<le> MAX_SAN_ENTRIES"
      "q_dns_sans q \<noteq> [] \<or> q_ip_sans q \<noteq> []" by blast
  note d = identity_dns_fold [OF f(1) distinct_nil]
  obtain as where a: "addresses = map show_ip as" "distinct addresses" "mapE ip_address (q_ip_sans q) = Inr as"
      "list_all (\<lambda>v. CHR ''%'' \<notin> set v) (q_ip_sans q)"
    using identity_ip_fold [OF f(2) distinct_nil] unfolding append_Nil by blast
  have len: "length addresses = length (q_ip_sans q)" using a(1,3) by (simp add: mapE_length)
  show "names = q_dns_sans q" by (rule n)
  show "distinct (map lower names)" using d n by auto
  show "\<forall>n\<in>set names. CHR 0x0A \<notin> set n" using d n by (simp add: list_all_iff dns_san_no_newline)
  show "\<exists>as. addresses = map show_ip as \<and> distinct addresses \<and> mapE ip_address (q_ip_sans q) = Inr as" using a by blast
  show "length names + length addresses \<le> MAX_SAN_ENTRIES" using b(1) n len by simp
  show "names \<noteq> [] \<or> addresses \<noteq> []" using b(2) n len by auto
  show "list_all (\<lambda>v. CHR ''%'' \<notin> set v) (q_ip_sans q)" by (rule a(4))
qed

lemma show_ipv6_nonempty: "show_ipv6_int n \<noteq> []"
proof -
  let ?hs = "map (\<lambda>i. show_hex (n div 65536 ^ (7 - i) mod 65536)) [0..<8]"
  have "2 \<le> length (compress_hextets ?hs)"
    by (auto simp: compress_hextets_def split: prod.splits)
  thus ?thesis unfolding show_ipv6_int_def
    by (cases "compress_hextets ?hs"; cases "tl (compress_hextets ?hs)") auto
qed

lemma show_ip_no_newline:
  assumes "ip_address v = Inr a" "CHR ''%'' \<notin> set v"
  shows "CHR 0x0A \<notin> set (show_ip a)" "show_ip a \<noteq> []"
proof -
  have nat: "CHR 0x0A \<notin> set (show_nat n)" for n
    by (rule show_nat_no) (simp add: is_digit_def ordc_def)
  have hex: "CHR 0x0A \<notin> set (show_hex n)" for n
  proof (induction n rule: show_hex.induct)
    case (1 n)
    have "CHR 0x0A \<noteq> char_of (48 + n mod 16)" "CHR 0x0A \<noteq> char_of (87 + n mod 16)"
      by (auto dest!: arg_cong[where f = ordc] simp: ordc_char_of) (auto simp: ordc_def)
    with 1 show ?case by (subst show_hex.simps) (auto simp: Let_def)
  qed
  have "CHR 0x0A \<notin> set (show_ipv4 n)" for n
    unfolding show_ipv4_def by (rule join_no) (auto simp: nat)
  moreover have "CHR 0x0A \<notin> set (show_ipv6_int n)" for n
    unfolding show_ipv6_int_def by (rule join_no) (auto dest!: compress_in simp: hex)
  moreover have "show_ipv4 n \<noteq> []" for n by (simp add: show_ipv4_def)
  moreover have "show_ipv6_int n \<noteq> []" for n
    by (rule show_ipv6_nonempty)
  ultimately show "CHR 0x0A \<notin> set (show_ip a)" "show_ip a \<noteq> []"
    using ip_address_no_scope [OF assms] by (auto split: if_splits)
qed

text \<open>The lines of a text field, as the API reads them.\<close>

definition lines_of :: "string \<Rightarrow> string list" where
  "lines_of t = (if t = [] then [] else split_char (CHR 0x0A) t)"

lemma lines_of_join:
  assumes "\<forall>p\<in>set ps. CHR 0x0A \<notin> set p \<and> p \<noteq> []"
  shows "lines_of (join [CHR 0x0A] ps) = ps"
proof (cases ps)
  case (Cons p qs)
  hence "join [CHR 0x0A] ps \<noteq> []" using assms by (cases qs) auto
  moreover have "split_char (CHR 0x0A) (join [CHR 0x0A] ps) = ps"
    by (rule split_join) (use assms Cons in auto)
  ultimately show ?thesis by (simp add: lines_of_def)
qed (simp add: lines_of_def)

text \<open>What a signing request asks for, read back from its fields.\<close>

definition asks_for :: "x509_lib \<Rightarrow> bytes \<Rightarrow> csr_info \<Rightarrow> json \<Rightarrow> bool" where
  "asks_for L pem q payload \<longleftrightarrow> inspect_csr L pem = Inr q \<and>
     (\<exists>caref digest lifetime bits names addresses as description.
       payload = JObj [(''cert'', JObj [(''action'', JStr ''sign_csr''), (''caref'', JStr caref), (''digest'', JStr digest),
         (''cert_type'', JStr ''server_cert''), (''lifetime'', JInt lifetime), (''key_type'', JStr (show_nat bits)),
         (''csr_payload'', JStr pem), (''altnames_dns'', JStr names), (''altnames_ip'', JStr addresses), (''descr'', JStr description)])] \<and>
       1 \<le> lifetime \<and> lifetime \<le> 397 \<and> digest \<in> set ALLOWED_DIGESTS \<and> q_public_key_size q = Some bits \<and>
       lines_of names = q_dns_sans q \<and> distinct (map lower (lines_of names)) \<and>
       lines_of addresses = map show_ip as \<and> distinct (lines_of addresses) \<and> mapE ip_address (q_ip_sans q) = Inr as \<and>
       (lines_of names \<noteq> [] \<or> lines_of addresses \<noteq> []))"

lemma identity_lines:
  assumes "validate_csr_identity L q = Inr (names, addresses)"
  shows "lines_of (join [CHR 0x0A] names) = names" "lines_of (join [CHR 0x0A] addresses) = addresses"
proof -
  obtain seen where f: "foldE (identity_dns L) [] (q_dns_sans q) = Inr seen"
    using validate_csr_identity_folds [OF assms] by blast
  have "list_all (\<lambda>v. v \<noteq> []) (q_dns_sans q)"
    by (rule foldE_all [OF f]) (auto simp: identity_dns_ok validate_safe_text_def)
  thus "lines_of (join [CHR 0x0A] names) = names"
    using validate_csr_identity_ok(1,3) [OF assms] by (intro lines_of_join) (auto simp: list_all_iff)
  obtain as where as: "addresses = map show_ip as" "mapE ip_address (q_ip_sans q) = Inr as"
    using validate_csr_identity_ok(4) [OF assms] by blast
  have "\<exists>v. ip_address v = Inr a \<and> CHR ''%'' \<notin> set v" if "a \<in> set as" for a
    using as(2) that validate_csr_identity_ok(7) [OF assms]
    by (auto simp: mapE_Inr list_all2_conv_all_nth list_all_length in_set_conv_nth) blast
  thus "lines_of (join [CHR 0x0A] addresses) = addresses"
    unfolding as(1) by (intro lines_of_join) (auto dest: show_ip_no_newline)
qed

lemma signing_request_asks:
  assumes "signing_request L pem q expected caref digest lifetime description = Inr payload"
  shows "asks_for L pem q payload" "validate_csr_spki q expected = Inr ()"
proof -
  obtain bits names addresses where p: "inspect_csr L pem = Inr q" "validate_csr_spki q expected = Inr ()"
      "digest \<in> set ALLOWED_DIGESTS" "1 \<le> lifetime" "lifetime \<le> 397" "q_public_key_size q = Some bits"
      "validate_csr_identity L q = Inr (names, addresses)"
      "payload = signing_payload caref digest lifetime (show_nat bits) pem names addresses description"
    using assms unfolding signing_request_def derive_key_type_def validate_caref_def validate_safe_text_def
    by (auto split: if_split_asm option.split_asm)
  obtain as where as: "addresses = map show_ip as" "distinct addresses" "mapE ip_address (q_ip_sans q) = Inr as"
    using validate_csr_identity_ok(4) [OF p(7)] by blast
  show "asks_for L pem q payload"
    unfolding asks_for_def p(8) signing_payload_def
    using p(1,3-6) as validate_csr_identity_ok(1,2,5) [OF p(7)] identity_lines [OF p(7)]
    by (intro conjI exI [of _ caref] exI [of _ digest] exI [of _ lifetime] exI [of _ bits] exI [of _ "join [CHR 0x0A] names"]
        exI [of _ "join [CHR 0x0A] addresses"] exI [of _ as] exI [of _ description]) simp_all
  show "validate_csr_spki q expected = Inr ()" by (rule p(2))
qed

lemma answered_Return [returns]:
  "(case a of Answered data \<Rightarrow> f data | HttpStatus code \<Rightarrow> throw (e code) | Unreachable \<Rightarrow> throw e') s = (Return x, t) \<longleftrightarrow>
   (\<exists>data. a = Answered data \<and> f data s = (Return x, t))"
  by (cases a) (auto simp: returns)

lemma request_json_Return:
  assumes "request_json N C method path payload before_transport s = (Return ps, t)"
  shows "\<exists>n data. op_http N n \<lparr> h_method = method, h_url = o_base_url C @ path, h_authorization = o_authorization C,
      h_body = map_option dumps_compact payload \<rparr> = Answered data \<and> decode_answer (take (MAX_RESPONSE_BYTES + 1) data) = Inr ps"
  using assms unfolding request_json_def open_url_def
  by (auto simp: returns)

lemma canonical_uuidI: "validate_uuid v label = Inr u \<Longrightarrow> v = Some (JStr u) \<and> canonical_uuid u"
  by (cases "(v, label)" rule: validate_uuid.cases) (auto split: if_split_asm)

text \<open>
  C12. A certificate that \<open>sign_csr\<close> returns was asked for by a POST to the signing path of the configured origin whose body
  states what the certificate request says: the request itself, its key size, and as alternative names, one per
  line, exactly the names and addresses of the inspected request, without duplicates; the lifetime is between 1 and
  397 days, and the request is for the expected key. What identifies the certificate is a canonical UUID.
\<close>

theorem signing_asks_for_the_inspected_request:
  assumes "sign_csr N C pem q expected caref digest lifetime description before_transport s = (Return uuid, t)"
  shows "\<exists>payload n data. op_http N n \<lparr> h_method = ''POST'', h_url = o_base_url C @ CERT_ADD_PATH,
      h_authorization = o_authorization C, h_body = Some (dumps_compact payload) \<rparr> = Answered data \<and>
    asks_for (op_lib N) pem q payload \<and> validate_csr_spki q expected = Inr () \<and> canonical_uuid uuid"
proof -
  obtain payload s1 ps where p: "signing_request (op_lib N) pem q expected caref digest lifetime description = Inr payload"
    "request_json N C ''POST'' CERT_ADD_PATH (Some payload) before_transport s1 = (Return ps, t)"
    "validate_uuid (jget ''uuid'' ps) ''OPNsense certificate UUID'' = Inr uuid"
    using assms unfolding sign_csr_def by (auto simp: returns)
  from request_json_Return [OF p(2)] obtain n data where "op_http N n \<lparr> h_method = ''POST'', h_url = o_base_url C @ CERT_ADD_PATH,
      h_authorization = o_authorization C, h_body = Some (dumps_compact payload) \<rparr> = Answered data"
    by auto
  with signing_request_asks [OF p(1)] canonical_uuidI [OF p(3)] show ?thesis by blast
qed

end
