(* ===== verification/Renewal.thy ===== *)
theory Renewal
  imports OpnsenseClient Composition
begin

text \<open>
  The renewal itself (\<open>unifi_cert_renewer.py\<close>): inspection, certificate request, signing, validation, installation and live
  verification, with the evidence of the run kept along the way. \<open>evidence=None\<close> is a run whose state has no
  evidence. The variable \<open>stage\<close>, which only names the failed stage, is the argument of \<open>during\<close>, which wraps the
  statements between two of its assignments. The arguments are typed, so the type checks on them are
  not in the model.
\<close>

section \<open>Data\<close>

record renewal_job =
  j_policy :: certificate_policy
  j_trusted_ca_data :: bytes
  j_ca_description :: string
  j_certificate_description :: string
  j_issued_signature_oid :: string
  j_lifetime_days :: int
  j_digest :: string
  j_install :: bool
  j_minimum_remaining_days :: "int option"

record installation_result =
  ir_state :: string
  ir_request :: certificate_import_request
  ir_plan :: certificate_import_plan
  ir_installed :: "unifi_inspection option"

definition renewal_complete :: "installation_result \<Rightarrow> bool" where
  "renewal_complete r \<longleftrightarrow> ir_state r = ''renewal_complete''"

section \<open>The run\<close>

definition with_evidence :: "(evidence \<Rightarrow> evidence) \<Rightarrow> ('w renewer, unit) exec" where
  "with_evidence f = modify (\<lambda>s. s\<lparr> rn_evidence := map_option f (rn_evidence s) \<rparr>)"

definition evidence_stage :: "stage \<Rightarrow> ('w renewer, unit) exec" where
  "evidence_stage st = with_evidence (\<lambda>e. e\<lparr> e_stage := st \<rparr>)"

definition evidence_certificate :: "certificate_info option \<Rightarrow> ('w renewer, unit) exec" where
  "evidence_certificate c = with_evidence (\<lambda>e. e\<lparr> e_certificate := map_option (\<lambda>i. (certificate_sha256 i, not_valid_after i)) c \<rparr>)"

definition during :: "string \<Rightarrow> ('s, 'a) exec \<Rightarrow> ('s, 'a) exec" where
  "during stage m = handle m (\<lambda>e. throw (if is_Exception e then RenewalStageError (''Renewal stopped during '' @ stage) else e))"

definition check_job :: "renewal_job \<Rightarrow> ('s, unit) exec" where
  "check_job J =
     seqx (raise_if (\<not> (1 \<le> j_lifetime_days J \<and> j_lifetime_days J \<le> 397)) ValueError) (\<lambda>_.
     raise_if (case j_minimum_remaining_days J of None \<Rightarrow> False | Some d \<Rightarrow> \<not> (1 \<le> d \<and> d \<le> 397)) ValueError)"

definition obtain_certificate ::
  "opn_env \<Rightarrow> opnsense \<Rightarrow> 'w renewer boundary \<Rightarrow> renewal_job \<Rightarrow> ('w renewer, public_keystore_state \<times> bytes \<times> bytes) exec" where
  "obtain_certificate N C B J =
     seqx (evidence_stage INSPECTION) (\<lambda>_.
     seqx (during ''current UniFi inspection'' (client_inspect_current (op_lib N) B (j_policy J))) (\<lambda>found.
     seqx (evidence_stage CSR_GENERATION) (\<lambda>_.
     seqx (during ''CSR generation and validation'' (seqx (client_request_csr (op_lib N) B (j_policy J)) (\<lambda>pem.
       seqx (liftE (validate_requested_csr (op_lib N) pem (j_policy J))) (\<lambda>q. ret (pem, q))))) (\<lambda>(pem, q).
     seqx (with_evidence (confirm ''csr'')) (\<lambda>_.
     seqx (evidence_stage PREFLIGHT) (\<lambda>_.
     seqx (during ''OPNsense CA resolution'' (resolve_ca N C (j_ca_description J))) (\<lambda>caref.
     seqx (evidence_stage SIGNING) (\<lambda>_.
     seqx (during ''OPNsense signing; issuance may have occurred''
       (sign_csr N C pem q (expected_spki_sha256 (j_policy J)) caref (j_digest J) (j_lifetime_days J)
         (j_certificate_description J) (with_evidence signing_dispatch))) (\<lambda>uuid.
     seqx (with_evidence (confirm ''issuance'')) (\<lambda>_.
     seqx (evidence_stage ISSUED_VALIDATION) (\<lambda>_.
     seqx (during ''issued public certificate retrieval'' (get_certificate N C uuid)) (\<lambda>data.
     ret (found, pem, data)))))))))))))"

definition validate_issued ::
  "opn_env \<Rightarrow> 'w renewer boundary \<Rightarrow> renewal_job \<Rightarrow> bytes \<Rightarrow> public_keystore_state \<Rightarrow> bytes \<Rightarrow> bytes \<Rightarrow>
   ('w renewer, certificate_import_request \<times> certificate_import_plan) exec" where
  "validate_issued N B J ca_pem found pem data =
     seqx (gets (get_clock B)) (\<lambda>validation_time.
     let r = \<lparr> before = found, policy = j_policy J, csr_pem = pem, issued_certificate = data, trusted_ca_data = ca_pem,
       lifetime_days = j_lifetime_days J, expected_signature_hash = j_digest J,
       expected_signature_oid = j_issued_signature_oid J, freshness_reference_time = Aware validation_time \<rparr> in
     seqx (gets (get_clock B)) (\<lambda>t.
     seqx (liftE (prepare_certificate_import (op_lib N) t r None)) (\<lambda>plan.
     seqx (raise_if (case j_minimum_remaining_days J of None \<Rightarrow> False
         | Some d \<Rightarrow> not_valid_after (issued plan) \<le> validation_time + days d) ValueError) (\<lambda>_.
     ret (r, plan)))))"

definition install_and_verify ::
  "opn_env \<Rightarrow> 'w renewer boundary \<Rightarrow> certificate_import_request \<Rightarrow> certificate_import_plan \<Rightarrow> ('w renewer, installation_result) exec" where
  "install_and_verify N B r plan =
     seqx (evidence_stage INSTALLATION) (\<lambda>_.
     seqx (during ''UniFi installation or verification; keystore may have changed''
       (client_install_certificate (op_lib N) B r)) (\<lambda>installed.
     seqx (with_evidence (confirm ''installation'')) (\<lambda>_.
     seqx (evidence_stage LIVE_VERIFICATION) (\<lambda>_.
     seqx (during ''trusted live UniFi TLS verification'' (client_verify_pending B)) (\<lambda>_.
     seqx (with_evidence (confirm ''activation'')) (\<lambda>_.
     seqx (with_evidence (confirm ''live_tls'')) (\<lambda>_.
     ret \<lparr> ir_state = ''renewal_complete'', ir_request = r, ir_plan = plan, ir_installed = Some installed \<rparr>)))))))"

definition run_to_installation ::
  "opn_env \<Rightarrow> opnsense \<Rightarrow> 'w renewer boundary \<Rightarrow> renewal_job \<Rightarrow> ('w renewer, installation_result) exec" where
  "run_to_installation N C B J =
     seqx (evidence_stage CONFIGURATION) (\<lambda>_.
     seqx (during ''configuration validation'' (seqx (check_job J) (\<lambda>_.
       seqx (gets (get_clock B)) (\<lambda>t.
       liftE (validate_issued_signature_policy (op_lib N) t (j_trusted_ca_data J) (j_digest J) (j_issued_signature_oid J) None))))) (\<lambda>ca_pem.
     seqx (obtain_certificate N C B J) (\<lambda>(found, pem, data).
     seqx (during ''issued certificate and installation validation'' (validate_issued N B J ca_pem found pem data)) (\<lambda>(r, plan).
     seqx (evidence_certificate (Some (issued plan))) (\<lambda>_.
     if \<not> j_install J
     then ret \<lparr> ir_state = ''prepared'', ir_request = r, ir_plan = plan, ir_installed = None \<rparr>
     else install_and_verify N B r plan)))))"

end
