(* ===== verification/ProductionRenewer.thy ===== *)
theory ProductionRenewer
  imports Renewal
begin

text \<open>
  The one-shot entry point (\<open>production_renewer.py\<close>): the lifecycle lock, the configuration, the five modes and
  the command line. The host answers the calls on the lock through \<open>lock_env\<close>; what \<open>argparse\<close> does is written out
  for argument lists without the separator \<open>--\<close>. A run ends with the exit status and the lines it printed.
\<close>

section \<open>Constants and data\<close>

definition CONFIG_NAME :: string where "CONFIG_NAME = ''renewer-config.json''"
definition MAX_CONFIG_BYTES :: nat where "MAX_CONFIG_BYTES = 64 * 1024"
definition MODES :: "string list" where "MODES = [''csr'', ''inspect'', ''install'', ''prepare'', ''renew'']"
definition DEFAULT_RENEW_BEFORE_DAYS :: int where "DEFAULT_RENEW_BEFORE_DAYS = 30"
definition LIFECYCLE_GROUP_GID :: nat where "LIFECYCLE_GROUP_GID = 1000"

record production_config =
  pc_authority :: renewal_policy
  pc_policy :: certificate_policy
  pc_base_url :: string
  pc_timeout :: rat
  pc_tls_ca_name :: "string option"
  pc_description :: string
  pc_renew_before_days :: int

datatype lock_answer = Locked | WouldBlock | LockRefused

record lock_env =
  lk_dir_open :: "nat \<Rightarrow> errno + unit"
  lk_dir_fstat :: "nat \<Rightarrow> errno + stat_result"
  lk_open :: "nat \<Rightarrow> errno + unit"
  lk_fstat :: "nat \<Rightarrow> errno + stat_result"
  lk_flock :: "nat \<Rightarrow> lock_answer"
  lk_path_stat :: "nat \<Rightarrow> errno + stat_result"
  lk_dir_stat :: "nat \<Rightarrow> errno + stat_result"

record 'w production_env =
  pe_link :: "'w link_env"
  pe_opn :: opn_env
  pe_lock :: lock_env
  pe_policy :: policy_env
  pe_uuid :: "nat \<Rightarrow> string"
  pe_devnull :: "nat \<Rightarrow> errno + unit"

section \<open>The lifecycle lock\<close>

definition lock_unavailable :: "('s, 'a) exec \<Rightarrow> ('s, 'a) exec" where
  "lock_unavailable m = handle m (\<lambda>e. throw (if is_OSError e then ProductionRunError ''Renewer lifecycle lock unavailable'' else e))"

definition lifecycle_directory :: "lock_env \<Rightarrow> ('m machine_scheme, stat_result) exec" where
  "lifecycle_directory K =
     seqx (host_call (lk_dir_fstat K)) (\<lambda>info.
     seqx (raise_if (st_uid info \<noteq> 0 \<or> st_gid info \<noteq> LIFECYCLE_GROUP_GID \<or> S_IMODE (st_mode info) \<noteq> 0x1E8) OSError) (\<lambda>_.
     seqx (host_call (lk_open K)) (\<lambda>_. ret info)))"

definition take_lock :: "lock_env \<Rightarrow> ('m machine_scheme, unit) exec" where
  "take_lock K = syscall (seqx (gets (\<lambda>s. lk_flock K (step s))) (\<lambda>a. case a of
     Locked \<Rightarrow> ret () | WouldBlock \<Rightarrow> throw LifecycleBusy | LockRefused \<Rightarrow> throw OSError))"

definition lifecycle_file :: "lock_env \<Rightarrow> stat_result \<Rightarrow> ('m machine_scheme, unit) exec" where
  "lifecycle_file K info =
     seqx (host_call (lk_fstat K)) (\<lambda>file_info.
     seqx (raise_if (\<not> S_ISREG (st_mode file_info) \<or> st_uid file_info \<noteq> 0 \<or> st_gid file_info \<noteq> LIFECYCLE_GROUP_GID \<or>
         S_IMODE (st_mode file_info) \<noteq> 0x1B0 \<or> st_nlink file_info \<noteq> 1 \<or> st_size file_info \<noteq> 0) OSError) (\<lambda>_.
     seqx (take_lock K) (\<lambda>_.
     seqx (host_call (lk_path_stat K)) (\<lambda>path_info.
     seqx (host_call (lk_dir_stat K)) (\<lambda>current.
     seqx (raise_if ((st_dev file_info, st_ino file_info) \<noteq> (st_dev path_info, st_ino path_info) \<or>
         (st_dev info, st_ino info) \<noteq> (st_dev current, st_ino current)) OSError) (\<lambda>_.
     seqx (host_call (lk_fstat K)) (\<lambda>again.
     raise_if (st_nlink again \<noteq> 1) OSError)))))))"

text \<open>The body runs in the \<open>else\<close> branch, outside the handlers; the descriptors are closed last.\<close>

definition closing_on_error :: "('s, unit) exec \<Rightarrow> ('s, 'a) exec \<Rightarrow> ('s, 'a) exec" where
  "closing_on_error close m = handle m (\<lambda>e. seqx close (\<lambda>_. throw e))"

definition lifecycle_lock :: "lock_env \<Rightarrow> ('m machine_scheme, 'a) exec \<Rightarrow> ('m machine_scheme, 'a) exec" where
  "lifecycle_lock K body =
     seqx (lock_unavailable (host_call (lk_dir_open K))) (\<lambda>_.
     seqx (closing_on_error (syscall (ret ())) (lock_unavailable (lifecycle_directory K))) (\<lambda>info.
     finally_do (seqx (lock_unavailable (lifecycle_file K info)) (\<lambda>_. body))
       (seqx (syscall (ret ())) (\<lambda>_. syscall (ret ())))))"

section \<open>Configuration\<close>

abbreviation config_error :: "string \<Rightarrow> py_exc + 'a" where
  "config_error m \<equiv> Inl (ProductionConfigurationError m)"

fun object_fields :: "json \<Rightarrow> string list \<Rightarrow> string \<Rightarrow> string list \<Rightarrow> py_exc + (string \<times> json) list" where
  "object_fields (JObj ps) required label optional =
     (if list_all (\<lambda>k. k \<in> set (map fst ps)) required \<and> list_all (\<lambda>p. fst p \<in> set (required @ optional)) ps
      then Inr ps else config_error (label @ '' fields are invalid''))"
| "object_fields _ required label optional = config_error (label @ '' fields are invalid'')"

fun config_text :: "x509_lib \<Rightarrow> json \<Rightarrow> string \<Rightarrow> py_exc + string" where
  "config_text L (JStr v) label =
     (if v = [] \<or> py_len v > 255 \<or> list_ex (unsafe_text_char L) (code_points v) then config_error (label @ '' is invalid'') else Inr v)"
| "config_text L _ label = config_error (label @ '' is invalid'')"

fun positive_number :: "json \<Rightarrow> string \<Rightarrow> py_exc + rat" where
  "positive_number (JInt i) label =
     (if exceeds_double i then Inl OverflowError else if i \<le> 0 then config_error (label @ '' is invalid'') else Inr (of_int i))"
| "positive_number (JFloat t) label = (case float_value t of
      None \<Rightarrow> config_error (label @ '' is invalid'')
    | Some v \<Rightarrow> if v \<le> 0 then config_error (label @ '' is invalid'') else Inr v)"
| "positive_number _ label = config_error (label @ '' is invalid'')"

fun config_spki :: "renewal_policy \<Rightarrow> json \<Rightarrow> py_exc + certificate_policy" where
  "config_spki P (JStr v) = policy_certificate_policy P v"
| "config_spki P _ = policy_error ''invalid observed public key identity''"

fun config_base_url :: "json \<Rightarrow> py_exc + string" where
  "config_base_url (JStr v) = catchE (validate_base_url v) (\<lambda>e. if is_ValueError e \<or> e = TypeError
     then config_error ''opnsense base_url is invalid'' else Inl e)"
| "config_base_url _ = config_error ''opnsense base_url is invalid''"

fun config_ca_name :: "json \<Rightarrow> py_exc + string option" where
  "config_ca_name JNull = Inr None"
| "config_ca_name (JStr v) = bindE (catchE (validate_secure_filename v ''OPNsense TLS CA file'')
     (\<lambda>e. case e of SecureFileError _ \<Rightarrow> config_error ''opnsense tls_ca_name is invalid'' | _ \<Rightarrow> Inl e)) (\<lambda>n. Inr (Some n))"
| "config_ca_name _ = config_error ''opnsense tls_ca_name is invalid''"

definition config_window :: "(string \<times> json) list \<Rightarrow> py_exc + int" where
  "config_window ps = (case jget ''renew_before_days'' ps of
      None \<Rightarrow> Inr DEFAULT_RENEW_BEFORE_DAYS
    | Some v \<Rightarrow> if int_between 1 397 v then Inr (int_of v) else config_error ''renewal policy is invalid'')"

definition parse_config :: "x509_lib \<Rightarrow> json \<Rightarrow> renewal_policy \<Rightarrow> py_exc + production_config" where
  "parse_config L v authority =
     bindE (object_fields v [''expected_spki_sha256'', ''opnsense'', ''certificate_description''] ''configuration'' [''renew_before_days'']) (\<lambda>ps.
     bindE (config_spki authority (member ''expected_spki_sha256'' ps)) (\<lambda>p.
     bindE (object_fields (member ''opnsense'' ps) [''base_url'', ''timeout_seconds'', ''tls_ca_name''] ''opnsense'' []) (\<lambda>opn.
     bindE (config_base_url (member ''base_url'' opn)) (\<lambda>url.
     bindE (positive_number (member ''timeout_seconds'' opn) ''opnsense timeout_seconds'') (\<lambda>timeout.
     bindE (config_ca_name (member ''tls_ca_name'' opn)) (\<lambda>ca_name.
     bindE (config_window ps) (\<lambda>window.
     bindE (config_text L (member ''certificate_description'' ps) ''certificate_description'') (\<lambda>description.
     Inr \<lparr> pc_authority = authority, pc_policy = p, pc_base_url = url, pc_timeout = timeout, pc_tls_ca_name = ca_name,
       pc_description = description, pc_renew_before_days = window \<rparr>))))))))"

fun config_read_failure :: "py_exc \<Rightarrow> py_exc" where
  "config_read_failure (SecureFileError m) = ProductionConfigurationError ''Renewer configuration could not be read safely''"
| "config_read_failure e = (if is_OSError e then ProductionConfigurationError ''Renewer configuration could not be read safely'' else e)"

definition load_production_config :: "'w production_env \<Rightarrow> ('w renewer, production_config) exec" where
  "load_production_config X =
     seqx (handle (read_secure_file (op_secure (pe_opn X)) CONFIG_NAME ''Renewer configuration'' False (MAX_CONFIG_BYTES + 1))
       (\<lambda>e. throw (config_read_failure e))) (\<lambda>data.
     seqx (raise_if (length data > MAX_CONFIG_BYTES) (ProductionConfigurationError ''Renewer configuration exceeds the size limit'')) (\<lambda>_.
     seqx (liftE (catchE (loads_bytes ValueError data) (\<lambda>e. if is_ValueError e
       then config_error ''Renewer configuration is invalid JSON'' else Inl e))) (\<lambda>v.
     seqx (gets (\<lambda>s. re_wall (pe_link X) (step s))) (\<lambda>now.
     seqx (load_policy (op_lib (pe_opn X)) now (pe_policy X)) (\<lambda>authority.
     liftE (parse_config (op_lib (pe_opn X)) v authority))))))"

section \<open>What a run prints\<close>

text \<open>\<open>.isoformat()\<close> of an aware UTC value.\<close>

definition aware_isoformat :: "instant \<Rightarrow> string" where
  "aware_isoformat t = butlast (utc_isoformat t) @
     (if t mod seconds 1 = 0 then [] else ''.'' @ pad 6 (nat (t mod seconds 1))) @ ''+00:00''"

definition certificate_output :: "certificate_info \<Rightarrow> json" where
  "certificate_output i = JObj [(''subject'', JStr (subject i)), (''issuer'', JStr (issuer i)),
     (''serial_number'', JStr (serial_number i)), (''not_valid_before'', JStr (aware_isoformat (not_valid_before i))),
     (''not_valid_after'', JStr (aware_isoformat (not_valid_after i))), (''certificate_sha256'', JStr (certificate_sha256 i)),
     (''spki_sha256'', JStr (info_spki_sha256 i)), (''dns_sans'', JArr (map JStr (dns_sans i))), (''ip_sans'', JArr (map JStr (ip_sans i)))]"

definition csr_output :: "csr_info \<Rightarrow> json" where
  "csr_output q = JObj [(''subject'', JStr (q_info_subject q)), (''spki_sha256'', JStr (q_spki_sha256 q)),
     (''public_key_algorithm'', JStr (q_public_key_algorithm q)),
     (''public_key_size'', opt_json (\<lambda>n. JInt (int n)) (q_public_key_size q)), (''dns_sans'', JArr (map JStr (q_dns_sans q))),
     (''ip_sans'', JArr (map JStr (q_ip_sans q))), (''signature_valid'', JBool (q_info_signature_valid q))]"

definition renewal_output :: "installation_result \<Rightarrow> string \<Rightarrow> (string \<times> json) list" where
  "renewal_output r mode = [
     (''mode'', JStr (if mode = ''renew'' then mode else if ir_installed r \<noteq> None then ''install'' else ''prepare'')),
     (''state'', JStr (ir_state r)), (''renewal_complete'', JBool (renewal_complete r)),
     (''issued_certificate'', certificate_output (issued (ir_plan r)))]"

section \<open>One run\<close>

text \<open>\<open>now=None\<close> reads the clock; a naive time is refused.\<close>

definition renewal_is_due :: "instant \<Rightarrow> certificate_info \<Rightarrow> int \<Rightarrow> datetime option \<Rightarrow> py_exc + bool" where
  "renewal_is_due wall certificate renew_before now = (case now of
      None \<Rightarrow> Inr (not_valid_after certificate \<le> wall + days renew_before)
    | Some (Aware t) \<Rightarrow> Inr (not_valid_after certificate \<le> t + days renew_before)
    | Some (Naive t) \<Rightarrow> Inl ValueError)"

definition stopped_during :: "string \<Rightarrow> ('s, 'a) exec \<Rightarrow> ('s, 'a) exec" where
  "stopped_during what m = handle m (\<lambda>e. throw (if is_Exception e
     then ProductionRunError (''Renewer stopped during '' @ what) else e))"

definition build_production_unifi_client :: "'w production_env \<Rightarrow> renewal_policy \<Rightarrow> 'w renewer boundary" where
  "build_production_unifi_client X authority = socket_boundary (pe_link X) authority"

definition inspect_deployed ::
  "'w production_env \<Rightarrow> 'w renewer boundary \<Rightarrow> production_config \<Rightarrow> ('w renewer, certificate_info) exec" where
  "inspect_deployed X B c =
     seqx (evidence_stage INSPECTION) (\<lambda>_.
     seqx (client_inspect_current (op_lib (pe_opn X)) B (pc_policy c)) (\<lambda>st.
     seqx (liftE (inspect_public_keystore_state (op_lib (pe_opn X)) st)) (\<lambda>i. ret (i_certificate i))))"

definition due_now :: "'w renewer boundary \<Rightarrow> certificate_info \<Rightarrow> production_config \<Rightarrow> datetime option \<Rightarrow> ('w renewer, bool) exec" where
  "due_now B i c now = seqx (gets (get_clock B)) (\<lambda>t. liftE (renewal_is_due t i (pc_renew_before_days c) now))"

text \<open>The decision of \<open>inspect\<close> is taken only for the evidence.\<close>

definition run_inspect ::
  "'w production_env \<Rightarrow> 'w renewer boundary \<Rightarrow> production_config \<Rightarrow> datetime option \<Rightarrow> ('w renewer, (string \<times> json) list) exec" where
  "run_inspect X B c now =
     seqx (inspect_deployed X B c) (\<lambda>i.
     seqx (evidence_certificate (Some i)) (\<lambda>_.
     seqx (evidence_stage DECISION) (\<lambda>_.
     seqx (gets rn_evidence) (\<lambda>e.
     seqx (if e = None then ret () else seqx (due_now B i c now) (\<lambda>due.
       with_evidence (success (if due then ATTENTION_DUE else SUCCESS_NO_CHANGE)
         (if due then ''Certificate renewal attention is due.'' else ''Certificate is outside the renewal window.'') (Some due)))) (\<lambda>_.
     ret [(''mode'', JStr ''inspect''), (''certificate'', certificate_output i)])))))"

definition run_csr :: "'w production_env \<Rightarrow> 'w renewer boundary \<Rightarrow> production_config \<Rightarrow> ('w renewer, (string \<times> json) list) exec" where
  "run_csr X B c =
     seqx (evidence_stage CSR_GENERATION) (\<lambda>_.
     seqx (client_request_csr (op_lib (pe_opn X)) B (pc_policy c)) (\<lambda>pem.
     seqx (liftE (validate_requested_csr (op_lib (pe_opn X)) pem (pc_policy c))) (\<lambda>q.
     seqx (with_evidence (confirm ''csr'')) (\<lambda>_.
     seqx (with_evidence (success SUCCESS_PREPARED ''CSR validated.'' None)) (\<lambda>_.
     ret [(''mode'', JStr ''csr''), (''csr'', csr_output q)])))))"

text \<open>\<open>renew\<close> before the signing: the output of a run that is not due, or nothing when the renewal goes on.\<close>

definition decide_renewal ::
  "'w production_env \<Rightarrow> 'w renewer boundary \<Rightarrow> production_config \<Rightarrow> datetime option \<Rightarrow> ('w renewer, (string \<times> json) list option) exec" where
  "decide_renewal X B c now =
     seqx (inspect_deployed X B c) (\<lambda>i.
     seqx (evidence_stage DECISION) (\<lambda>_.
     seqx (evidence_certificate (Some i)) (\<lambda>_.
     seqx (due_now B i c now) (\<lambda>due.
     if \<not> due then
       seqx (with_evidence (success SUCCESS_NO_CHANGE ''Certificate is not due for renewal.'' (Some False))) (\<lambda>_.
       ret (Some [(''mode'', JStr ''renew''), (''state'', JStr ''renewal_not_due''), (''renewal_due'', JBool False),
         (''renewal_complete'', JBool False), (''renew_before_days'', JInt (pc_renew_before_days c)), (''certificate'', certificate_output i)]))
     else
       seqx (with_evidence (\<lambda>e. e\<lparr> e_target := (e_target e)\<lparr> t_renewal_due := Some True \<rparr> \<rparr>)) (\<lambda>_.
       seqx (evidence_certificate None) (\<lambda>_. ret None))))))"

definition production_job :: "production_config \<Rightarrow> string \<Rightarrow> renewal_job" where
  "production_job c mode = \<lparr> j_policy = pc_policy c, j_trusted_ca_data = rp_ca_pem (pc_authority c),
     j_ca_description = rp_issuing_ca_description (pc_authority c), j_certificate_description = pc_description c,
     j_issued_signature_oid = rp_issued_signature_oid (pc_authority c), j_lifetime_days = rp_lifetime_days (pc_authority c),
     j_digest = rp_signing_digest (pc_authority c), j_install = (mode \<in> {''install'', ''renew''}),
     j_minimum_remaining_days = (if mode = ''renew'' then Some (pc_renew_before_days c) else None) \<rparr>"

definition run_renewal ::
  "'w production_env \<Rightarrow> 'w renewer boundary \<Rightarrow> production_config \<Rightarrow> string \<Rightarrow> ('w renewer, (string \<times> json) list) exec" where
  "run_renewal X B c mode =
     (let J = production_job c mode in
     seqx (evidence_stage CONFIGURATION) (\<lambda>_.
     seqx (stopped_during ''OPNsense client configuration''
       (opnsense_client (pe_opn X) (pc_base_url c) (pc_timeout c) (pc_tls_ca_name c))) (\<lambda>C.
     seqx (stopped_during mode (run_to_installation (pe_opn X) C B J)) (\<lambda>r.
     seqx (with_evidence (success (if j_install J then SUCCESS_CHANGED else SUCCESS_PREPARED)
       (if j_install J then ''Certificate renewal verified by live HTTPS.'' else ''Certificate issued and validated.'')
       (if mode = ''renew'' then Some True else None))) (\<lambda>_.
     ret (renewal_output r mode @ (if mode = ''renew''
       then [(''renewal_due'', JBool True), (''renew_before_days'', JInt (pc_renew_before_days c))] else [])))))))"

definition run_mode ::
  "'w production_env \<Rightarrow> string \<Rightarrow> datetime option \<Rightarrow> ('w renewer, (string \<times> json) list) exec" where
  "run_mode X mode now =
     seqx (evidence_stage CONFIGURATION) (\<lambda>_.
     seqx (stopped_during ''configuration validation'' (load_production_config X)) (\<lambda>c.
     seqx (raise_if (mode = ''renew'' \<and> pc_renew_before_days c \<ge> rp_lifetime_days (pc_authority c))
       (ProductionRunError ''Renewer stopped during configuration validation'')) (\<lambda>_.
     let B = build_production_unifi_client X (pc_authority c) in
     if mode = ''inspect'' then stopped_during mode (run_inspect X B c now)
     else if mode = ''csr'' then stopped_during mode (run_csr X B c)
     else if mode = ''renew'' then
       seqx (stopped_during mode (decide_renewal X B c now)) (\<lambda>d. case d of
         Some out \<Rightarrow> ret out | None \<Rightarrow> run_renewal X B c mode)
     else run_renewal X B c mode)))"

definition run_one_shot ::
  "'w production_env \<Rightarrow> string \<Rightarrow> datetime option \<Rightarrow> ('w renewer, (string \<times> json) list) exec" where
  "run_one_shot X mode now =
     (if mode \<notin> set MODES then throw (ProductionRunError ''Renewer mode is invalid'')
      else if mode \<in> {''prepare'', ''install'', ''renew''} then
        seqx (evidence_stage S_LOCK) (\<lambda>_.
        handle (lifecycle_lock (pe_lock X) (run_mode X mode now))
          (\<lambda>e. if e = LifecycleBusy then
             seqx (with_evidence (failure (Some LOCK_BUSY))) (\<lambda>_.
             ret [(''mode'', JStr mode), (''state'', JStr ''busy''), (''renewal_complete'', JBool False)])
           else throw e))
      else run_mode X mode now)"

section \<open>The command line\<close>

text \<open>The mode and whether \<open>--output json\<close> was given.\<close>

fun parse_tokens :: "string option \<Rightarrow> bool \<Rightarrow> string list \<Rightarrow> (string \<times> bool) option" where
  "parse_tokens mode json [] = map_option (\<lambda>m. (m, json)) mode"
| "parse_tokens mode json (t # ts) =
     (if t = ''--output'' then (case ts of v # ts' \<Rightarrow> if v = ''json'' then parse_tokens mode True ts' else None | [] \<Rightarrow> None)
      else if t = ''--output=json'' then parse_tokens mode True ts
      else if mode = None \<and> t \<in> set MODES then parse_tokens (Some t) json ts
      else None)"

definition parse_arguments :: "string list \<Rightarrow> (string \<times> bool) option" where
  "parse_arguments = parse_tokens None False"

record printed =
  p_status :: nat
  p_stdout :: "string option"
  p_stderr :: "string option"

definition usage :: string where
  "usage = ''Usage: production_renewer.py {inspect|csr|prepare|install|renew}''"

definition operation_of :: "string \<Rightarrow> operation" where
  "operation_of mode = (if mode = ''inspect'' then INSPECT else if mode = ''csr'' then GENERATE_CSR
     else if mode = ''prepare'' then SIGN_CSR else if mode = ''install'' then INSTALL else RENEW_DUE)"

definition busy_status :: "(string \<times> json) list \<Rightarrow> nat" where
  "busy_status out = (if jget ''state'' out = Some (JStr ''busy'') then 75 else 0)"

definition report :: "'w production_env \<Rightarrow> ('w renewer, string option) exec" where
  "report X = gets (\<lambda>s. map_option (evidence_finish (re_wall (pe_link X) (step s))) (rn_evidence s))"

definition main_json :: "'w production_env \<Rightarrow> string \<Rightarrow> ('w renewer, printed) exec" where
  "main_json X mode =
     seqx (modify (\<lambda>s. s\<lparr> rn_evidence := Some (RunEvidence (pe_uuid X (step s)) (re_wall (pe_link X) (step s)) (operation_of mode)) \<rparr>)) (\<lambda>_.
     seqx (handle (seqx (host_call (pe_devnull X)) (\<lambda>_. finally_do
         (seqx (run_one_shot X mode None) (\<lambda>out. ret (busy_status out))) (syscall (ret ()))))
       (\<lambda>e. if is_Exception e then seqx (with_evidence (failure None)) (\<lambda>_. ret 1) else throw e)) (\<lambda>status.
     seqx (report X) (\<lambda>line.
     ret \<lparr> p_status = status, p_stdout = line, p_stderr = None \<rparr>)))"

definition main_plain :: "'w production_env \<Rightarrow> string \<Rightarrow> ('w renewer, printed) exec" where
  "main_plain X mode =
     handle (seqx (run_one_shot X mode None) (\<lambda>out.
       ret \<lparr> p_status = busy_status out, p_stdout = Some (dumps (JObj out)), p_stderr = None \<rparr>))
       (\<lambda>e. case e of ProductionRunError m \<Rightarrow> ret \<lparr> p_status = 1, p_stdout = None, p_stderr = Some m \<rparr> | _ \<Rightarrow> throw e)"

definition main_production :: "'w production_env \<Rightarrow> string list \<Rightarrow> ('w renewer, printed) exec" where
  "main_production X arguments = (case parse_arguments arguments of
      None \<Rightarrow> ret \<lparr> p_status = 2, p_stdout = None, p_stderr = Some usage \<rparr>
    | Some (mode, True) \<Rightarrow> main_json X mode
    | Some (mode, False) \<Rightarrow> main_plain X mode)"

end
