(* ===== verification/RenewalSafety.thy ===== *)
theory RenewalSafety
  imports ProductionRenewer
begin

text \<open>
  What the report of a run says of what left the process. A relation between the states before and after a
  computation that is reflexive and transitive follows the composition of the code, which the locale
  \<open>state_preorder\<close> states once; its interpretations are the relations of the three phases of a renewal: nothing attempted,
  signing, installing.
\<close>

section \<open>Relations that follow the composition of the code\<close>

definition moves :: "('s \<Rightarrow> 's \<Rightarrow> bool) \<Rightarrow> ('s, 'a) exec \<Rightarrow> bool" where
  "moves R m \<longleftrightarrow> (\<forall>s. R s (snd (m s)))"

lemma movesD: "moves R m \<Longrightarrow> m s = (r, t) \<Longrightarrow> R s t"
  unfolding moves_def by (metis snd_conv)

lemma movesI: "(\<And>s r t. m s = (r, t) \<Longrightarrow> R s t) \<Longrightarrow> moves R m"
  unfolding moves_def by (metis surjective_pairing)

locale state_preorder =
  fixes R :: "'s \<Rightarrow> 's \<Rightarrow> bool"
  assumes reflexive: "R s s"
    and transitive: "R s t \<Longrightarrow> R t u \<Longrightarrow> R s u"
begin

lemma pure: "moves R (ret x)" "moves R (throw e)" "moves R (gets g)" "moves R (liftE r)" "moves R (raise_if c e)"
  by (auto simp: moves_def ret_def throw_def gets_def liftE_def raise_if_def reflexive split: sum.splits)

lemma sequence: "moves R m \<Longrightarrow> (\<And>x. moves R (g x)) \<Longrightarrow> moves R (seqx m g)"
  unfolding moves_def seqx_def by (auto split: prod.splits outcome.splits) (metis snd_conv transitive)+

lemma handler: "moves R m \<Longrightarrow> (\<And>e. moves R (h e)) \<Longrightarrow> moves R (handle m h)"
  unfolding moves_def handle_def by (auto split: prod.splits outcome.splits) (metis snd_conv transitive)+

lemma finaliser: "moves R m \<Longrightarrow> moves R f \<Longrightarrow> moves R (finally_do m f)"
  unfolding moves_def finally_do_def by (auto split: prod.splits outcome.splits) (metis snd_conv transitive)+

lemma branch:
  "(c \<Longrightarrow> moves R m) \<Longrightarrow> (\<not> c \<Longrightarrow> moves R m') \<Longrightarrow> moves R (if c then m else m')"
  "(\<And>a b. moves R (g a b)) \<Longrightarrow> moves R (case p of (a, b) \<Rightarrow> g a b)"
  "(x = None \<Longrightarrow> moves R m) \<Longrightarrow> (\<And>y. x = Some y \<Longrightarrow> moves R (k y)) \<Longrightarrow> moves R (case x of None \<Rightarrow> m | Some y \<Rightarrow> k y)"
  by (simp_all split: prod.splits option.splits)

lemma update: "(\<And>s. R s (f s)) \<Longrightarrow> moves R (modify f)"
  by (simp add: moves_def modify_def)

lemma unseen: "keeps f m \<Longrightarrow> (\<And>s t. f t = f s \<Longrightarrow> R s t) \<Longrightarrow> moves R m"
  by (simp add: moves_def keeps_def)

lemma wrapped: "moves R m \<Longrightarrow> moves R (wrap_exception message m)"
  unfolding wrap_exception_def by (rule handler) (simp_all add: moves_def throw_def reflexive)

lemma renamed: "moves R m \<Longrightarrow> moves R (during stage m)" "moves R m \<Longrightarrow> moves R (stopped_during what m)"
  unfolding during_def stopped_during_def by (auto intro!: handler pure)

lemmas composed = pure sequence handler finaliser branch update wrapped renamed

end

section \<open>The ledger of a run\<close>

definition signing_left :: "'w renewer \<Rightarrow> bool" where
  "signing_left s \<longleftrightarrow> CERT_ADD_PATH \<in> set (rn_posted s)"

definition install_left :: "'w renewer \<Rightarrow> bool" where
  "install_left s \<longleftrightarrow> ''install'' \<in> set (rn_sent s)"

definition verify_left :: "'w renewer \<Rightarrow> bool" where
  "verify_left s \<longleftrightarrow> ''verify_pending'' \<in> set (rn_sent s)"

definition ledger :: "'w renewer \<Rightarrow> evidence option \<times> string list \<times> string list" where
  "ledger s = (rn_evidence s, rn_posted s, rn_sent s)"

lemma ledger_eq: "ledger t = ledger s \<Longrightarrow> rn_evidence t = rn_evidence s \<and> signing_left t = signing_left s \<and>
   install_left t = install_left s \<and> verify_left t = verify_left s"
  by (simp add: ledger_def signing_left_def install_left_def verify_left_def)

text \<open>The evidence knows of a signing request that may have left.\<close>

definition acknowledges :: "evidence \<Rightarrow> bool" where
  "acknowledges e \<longleftrightarrow> t_change (e_target e) = CHANGE_CONFIRMED \<or>
     t_change (e_target e) \<noteq> CHANGE_NONE \<and> map_of (t_milestones (e_target e)) ''issuance'' = Some UNCERTAIN"

definition tidy :: "evidence \<Rightarrow> bool" where
  "tidy e \<longleftrightarrow> distinct (map fst (t_milestones (e_target e)))"

definition honest :: "'w renewer \<Rightarrow> bool" where
  "honest s \<longleftrightarrow> (\<exists>e. rn_evidence s = Some e \<and> tidy e \<and> (signing_left s \<longrightarrow> acknowledges e)) \<and>
     (install_left s \<longrightarrow> signing_left s)"

definition steady_to :: "'w renewer \<Rightarrow> 'w renewer \<Rightarrow> bool" where
  "steady_to s t \<longleftrightarrow> (honest s \<longrightarrow> honest t) \<and> (signing_left t \<longleftrightarrow> signing_left s) \<and>
     (install_left t \<longleftrightarrow> install_left s) \<and> (verify_left s \<longrightarrow> verify_left t)"

definition signing_to :: "'w renewer \<Rightarrow> 'w renewer \<Rightarrow> bool" where
  "signing_to s t \<longleftrightarrow> (honest s \<longrightarrow> honest t) \<and> (signing_left s \<longrightarrow> signing_left t) \<and>
     (install_left t \<longleftrightarrow> install_left s) \<and> (verify_left s \<longrightarrow> verify_left t)"

definition installing_to :: "'w renewer \<Rightarrow> 'w renewer \<Rightarrow> bool" where
  "installing_to s t \<longleftrightarrow> (signing_left s \<and> honest s \<longrightarrow> honest t) \<and> (signing_left t \<longleftrightarrow> signing_left s) \<and>
     (install_left s \<longrightarrow> install_left t) \<and> (verify_left s \<longrightarrow> verify_left t)"

interpretation steady: state_preorder steady_to
  by unfold_locales (auto simp: steady_to_def)

interpretation signing: state_preorder signing_to
  by unfold_locales (auto simp: signing_to_def)

interpretation installing: state_preorder installing_to
  by unfold_locales (auto simp: installing_to_def)

lemma steady_is_signing: "moves steady_to m \<Longrightarrow> moves signing_to m"
  by (auto simp: moves_def steady_to_def signing_to_def)

lemma steady_is_installing: "moves steady_to m \<Longrightarrow> moves installing_to m"
  by (auto simp: moves_def steady_to_def installing_to_def)

lemma keeps_ledger_steady: "keeps ledger m \<Longrightarrow> moves steady_to m"
  by (erule steady.unseen) (auto simp: steady_to_def honest_def dest!: ledger_eq)

lemma stepless_ledger: "stepless ledger"
  by (simp add: stepless_def ledger_def)

lemma traceless_ledger: "traceless ledger"
  using stepless_ledger by (simp add: traceless_def ledger_def)

section \<open>The steps of a run\<close>

named_theorems steady_steps \<open>steps that attempt nothing new\<close>

lemma steady_evidence:
  assumes "\<And>e. tidy e \<Longrightarrow> tidy (f e)" "\<And>e. acknowledges e \<Longrightarrow> acknowledges (f e)"
  shows "moves steady_to (with_evidence f)"
  unfolding with_evidence_def using assms
  by (intro steady.update) (auto simp: steady_to_def honest_def signing_left_def install_left_def verify_left_def)

lemma steady_records [steady_steps]:
  "moves steady_to (evidence_stage st)" "moves steady_to (evidence_certificate c)" "moves steady_to (with_evidence (confirm k))"
  "moves steady_to (with_evidence (\<lambda>e. e\<lparr> e_target := (e_target e)\<lparr> t_renewal_due := d \<rparr> \<rparr>))"
  "moves steady_to (with_evidence (success out msg due))" "moves steady_to (with_evidence (failure reason))"
proof -
  show "moves steady_to (evidence_stage st)" "moves steady_to (evidence_certificate c)"
    unfolding evidence_stage_def evidence_certificate_def
    by (rule steady_evidence; simp add: tidy_def acknowledges_def)+
  show "moves steady_to (with_evidence (confirm k))"
    by (rule steady_evidence) (auto simp: tidy_def acknowledges_def evidence_defs set_milestone_keys)
  show "moves steady_to (with_evidence (\<lambda>e. e\<lparr> e_target := (e_target e)\<lparr> t_renewal_due := d \<rparr> \<rparr>))"
    by (rule steady_evidence) (simp_all add: tidy_def acknowledges_def)
  show "moves steady_to (with_evidence (success out msg due))"
    by (rule steady_evidence) (auto simp: tidy_def acknowledges_def success_def with_certificate_def split: option.splits)
  show "moves steady_to (with_evidence (failure reason))"
    by (rule steady_evidence) (auto simp: tidy_def acknowledges_def failure_def with_certificate_def Let_def set_milestone_keys split: option.splits)
qed

lemma signing_dispatch_acknowledges: "acknowledges (signing_dispatch e)" "tidy e \<Longrightarrow> tidy (signing_dispatch e)"
  by (auto simp: acknowledges_def tidy_def evidence_defs set_milestone_keys)

lemma executor_dispatch_steady: "acknowledges e \<Longrightarrow> acknowledges (executor_dispatch op e)" "tidy e \<Longrightarrow> tidy (executor_dispatch op e)"
  by (auto simp: acknowledges_def tidy_def evidence_defs set_milestone_keys)

subsection \<open>The executor boundary\<close>

lemma on_dispatch_steady: "moves steady_to (on_dispatch op)"
proof (rule movesI)
  fix s r and t :: "'a renewer" assume "on_dispatch op s = (r, t)"
  thus "steady_to s t" using executor_dispatch_steady
    by (auto simp: on_dispatch_def modify_def steady_to_def honest_def signing_left_def install_left_def verify_left_def split: if_split_asm)
qed

lemma send_frame_cases:
  assumes "send_frame R op frame s = (r, t)"
  shows "rn_evidence t = rn_evidence s \<and> rn_posted t = rn_posted s \<and> (rn_sent t = rn_sent s \<or> rn_sent t = op # rn_sent s) \<and>
    (\<forall>x. r = Return x \<longrightarrow> rn_sent t = op # rn_sent s)"
  using assms by (auto simp: send_frame_def syscall_def Let_def split: verdict.splits prod.splits)

lemma send_frame_steady: "op \<noteq> ''install'' \<Longrightarrow> moves steady_to (send_frame R op frame)"
  by (rule movesI, drule send_frame_cases)
    (auto simp: steady_to_def honest_def signing_left_def install_left_def verify_left_def)

lemma send_frame_installing: "moves installing_to (send_frame R op frame)"
  by (rule movesI, drule send_frame_cases)
    (auto simp: installing_to_def honest_def signing_left_def install_left_def verify_left_def)

lemma keeps_ledger_calls [steady_steps]:
  "moves steady_to (validate_socket_directory S :: ('w renewer, stat_result) exec)" "moves steady_to (host_call f :: ('w renewer, 'a) exec)"
  "moves steady_to (syscall (ret x) :: ('w renewer, 'b) exec)"
  unfolding validate_socket_directory_def
  by (intro keeps_ledger_steady keeps_intros calls traceless_ledger)+

declare steady.composed [steady_steps] on_dispatch_steady [steady_steps]

lemmas installing_intros = installing.composed on_dispatch_steady [THEN steady_is_installing]
  keeps_ledger_calls [THEN steady_is_installing] steady_records [THEN steady_is_installing] send_frame_installing

lemma steady_executor_call [steady_steps]: "op \<noteq> ''install'' \<Longrightarrow> moves steady_to (executor_call R op args)"
  unfolding executor_call_def exchange_def
  by (intro steady_steps send_frame_steady)


lemma installing_call: "moves installing_to (executor_call R op args)"
  unfolding executor_call_def exchange_def by (intro installing_intros)

lemma executor_call_sent:
  assumes "executor_call R op args s = (Return v, t)"
  shows "op \<in> set (rn_sent t)"
proof -
  have x: "op \<in> set (rn_sent t)" if "exchange R op u s = (Return v, t)" for u s t
    using that send_frame_cases unfolding exchange_def by (fastforce simp: returns)
  show ?thesis using assms unfolding executor_call_def wrap_exception_def
    by (auto simp: returns split: if_split_asm dest!: x)
qed

lemma steady_call_for [steady_steps]: "op \<noteq> ''install'' \<Longrightarrow> moves steady_to (call_for R op args field)"
  unfolding call_for_def by (intro steady_steps)

lemma steady_boundary [steady_steps]:
  "moves steady_to (b_inspect_public_state (socket_boundary R P))" "moves steady_to (b_generate_csr (socket_boundary R P) p)"
  "moves steady_to (b_verify_pending (socket_boundary R P))"
  unfolding socket_boundary_def boundary.simps socket_inspect_public_state_def socket_generate_csr_def socket_verify_pending_def
  by (intro steady_steps; simp)+

lemma steady_client [steady_steps]:
  "moves steady_to (client_inspect_current L (socket_boundary R P) p)" "moves steady_to (client_request_csr L (socket_boundary R P) p)"
  "moves steady_to (client_verify_pending (socket_boundary R P))"
  unfolding client_inspect_current_def client_request_csr_def client_verify_pending_def
  by (intro steady_steps)+

lemma keeps_ledger_local:
  "keeps ledger (modify (\<lambda>s. s\<lparr> rn_exclusive := a, rn_installed := b \<rparr>))" "keeps ledger (modify (\<lambda>s. s\<lparr> rn_installed := b, rn_exclusive := a \<rparr>))"
  "keeps ledger (modify (\<lambda>s. s\<lparr> rn_installed := b \<rparr>))" "keeps ledger (modify (set_stage (socket_boundary R P) v))"
  by (auto simp: keeps_def modify_def ledger_def socket_boundary_def)

lemmas local_steps = keeps_ledger_local [THEN keeps_ledger_steady, THEN steady_is_installing]

lemma installing_import: "moves installing_to (b_import_certificate_reply (socket_boundary R P) r st)"
  unfolding socket_boundary_def boundary.simps socket_import_certificate_reply_def call_for_def
  by (intro installing_intros installing_call local_steps)

lemma installing_client: "moves installing_to (client_install_certificate L (socket_boundary R P) r)"
proof -
  have body: "moves installing_to (install_body L (socket_boundary R P) r)"
    unfolding install_body_def
    by (intro installing_intros installing_import local_steps steady_boundary [THEN steady_is_installing])
  have "moves installing_to (b_exclusive (socket_boundary R P) st (install_body L (socket_boundary R P) r))" for st
    using body unfolding socket_boundary_def boundary.simps socket_exclusive_def
    by (intro installing_intros local_steps)
  thus ?thesis unfolding client_install_certificate_def by (intro installing_intros local_steps)
qed

subsection \<open>The OPNsense client\<close>

lemma keeps_ledger_setup:
  "keeps ledger (opnsense_client N url t ca)" "keeps ledger (load_production_config X)"
  unfolding opnsense_client_def load_authorization_def read_secret_file_def create_client_tls_context_def
    load_production_config_def load_policy_def fail_load_def read_policy_file_def
  by (intro keeps_intros calls traceless_ledger)+

lemma keeps_answers:
  "keeps f a \<Longrightarrow> keeps f b \<Longrightarrow> keeps f c \<Longrightarrow> keeps f (case x of Locked \<Rightarrow> a | WouldBlock \<Rightarrow> b | LockRefused \<Rightarrow> c)"
  "(\<And>d. keeps f (g d)) \<Longrightarrow> (\<And>n. keeps f (h n)) \<Longrightarrow> keeps f k \<Longrightarrow>
   keeps f (case y of Answered d \<Rightarrow> g d | HttpStatus n \<Rightarrow> h n | Unreachable \<Rightarrow> k)"
  by (simp_all split: lock_answer.split http_answer.split)

lemma keeps_ledger_lock:
  "keeps ledger (lifecycle_directory K)" "keeps ledger (lifecycle_file K info)"
  unfolding lifecycle_directory_def lifecycle_file_def take_lock_def
  by (intro keeps_intros calls traceless_ledger keeps_answers)+

lemma keeps_ledger_answer:
  "keeps ledger (syscall (seqx (gets (\<lambda>s. op_http N (step s) h)) (\<lambda>answer. case answer of
     Answered data \<Rightarrow> ret (f data) | HttpStatus code \<Rightarrow> throw (g code) | Unreachable \<Rightarrow> throw OSError)))"
  by (intro keeps_intros calls traceless_ledger keeps_answers)

declare keeps_ledger_setup [THEN keeps_ledger_steady, steady_steps] keeps_ledger_lock [THEN keeps_ledger_steady, steady_steps]
  keeps_ledger_answer [THEN keeps_ledger_steady, steady_steps]

lemma steady_post: "path \<noteq> CERT_ADD_PATH \<Longrightarrow> moves steady_to (modify (\<lambda>s. s\<lparr> rn_posted := path # rn_posted s \<rparr>))"
  by (intro steady.update) (auto simp: steady_to_def honest_def signing_left_def install_left_def verify_left_def)

lemma steady_request: "path \<noteq> CERT_ADD_PATH \<Longrightarrow> moves steady_to (request_json N C method path payload (ret ()))"
  unfolding request_json_def open_url_def by (intro steady_steps steady_post)

lemma other_paths: "CA_LIST_PATH \<noteq> CERT_ADD_PATH" "CERTIFICATE_PATH u \<noteq> CERT_ADD_PATH"
  by (simp_all add: CA_LIST_PATH_def CERT_ADD_PATH_def CERTIFICATE_PATH_def)

lemma steady_opnsense [steady_steps]:
  "moves steady_to (resolve_ca N C d)" "moves steady_to (get_certificate N C u)"
  unfolding resolve_ca_def get_certificate_def by (intro steady_steps steady_request other_paths)+

text \<open>The evidence is told before the request leaves.\<close>

lemma signing_post:
  "moves signing_to (\<lambda>s. seqx (with_evidence signing_dispatch) (\<lambda>_.
     seqx (modify (\<lambda>s. s\<lparr> rn_posted := CERT_ADD_PATH # rn_posted s \<rparr>)) k) s)" if "moves steady_to (k ())"
proof -
  let ?f = "\<lambda>s. s\<lparr> rn_evidence := map_option signing_dispatch (rn_evidence s), rn_posted := CERT_ADD_PATH # rn_posted s \<rparr>"
  have eq: "seqx (with_evidence signing_dispatch) (\<lambda>_. seqx (modify (\<lambda>s. s\<lparr> rn_posted := CERT_ADD_PATH # rn_posted s \<rparr>)) k) s =
      seqx (modify ?f) k s" for s :: "'a renewer"
    by (simp add: with_evidence_def seqx_def modify_def)
  have "moves signing_to (modify ?f)"
    using signing_dispatch_acknowledges
    by (intro signing.update) (auto simp: signing_to_def honest_def signing_left_def install_left_def verify_left_def)
  moreover have "moves signing_to (k u)" for u using that by (cases u) (simp add: steady_is_signing)
  ultimately have "moves signing_to (seqx (modify ?f) k)" by (intro signing.sequence)
  thus ?thesis using eq by simp
qed

lemma signing_request_moves:
  "moves signing_to (request_json N C method CERT_ADD_PATH payload (with_evidence signing_dispatch))"
  unfolding request_json_def open_url_def
  by (intro signing.sequence signing.handler signing.pure signing_post steady_steps)

lemma sign_csr_moves: "moves signing_to (sign_csr N C pem q k caref d l desc (with_evidence signing_dispatch))"
  unfolding sign_csr_def by (intro signing.composed signing_request_moves)

lemma sign_csr_left:
  assumes "sign_csr N C pem q k caref d l desc b s = (Return u, t)"
  shows "signing_left t"
  using assms unfolding sign_csr_def request_json_def open_url_def by (auto simp: returns signing_left_def)

section \<open>The phases of a renewal\<close>

definition phase :: "bool \<Rightarrow> bool \<Rightarrow> bool \<Rightarrow> 'w renewer \<Rightarrow> bool" where
  "phase a b c s \<longleftrightarrow> honest s \<and> (signing_left s \<longleftrightarrow> a) \<and> (install_left s \<longleftrightarrow> b) \<and> (c \<longrightarrow> verify_left s)"

lemma triple_steady: "moves steady_to m \<Longrightarrow> triple (phase a b c) m (\<lambda>_. phase a b c) honest"
  unfolding triple_def after_def phase_def moves_def steady_to_def by (auto split: outcome.splits)

lemma triple_returning:
  assumes "triple P m (\<lambda>_. Q) E" "\<And>s x t. m s = (Return x, t) \<Longrightarrow> C t"
  shows "triple P m (\<lambda>_ t. Q t \<and> C t) E"
  using assms unfolding triple_def after_def by (auto split: outcome.splits) (metis prod.collapse)

lemma during_Return: "during st m s = (Return x, t) \<longleftrightarrow> m s = (Return x, t)"
  by (auto simp: during_def returns)

lemma triple_sign:
  "triple (phase a b c) (during st (sign_csr N C pem q k caref d l desc (with_evidence signing_dispatch))) (\<lambda>_. phase True b c) honest"
proof -
  have "moves signing_to (during st (sign_csr N C pem q k caref d l desc (with_evidence signing_dispatch)))"
    by (intro signing.composed sign_csr_moves)
  hence "triple (phase a b c) (during st (sign_csr N C pem q k caref d l desc (with_evidence signing_dispatch)))
      (\<lambda>_ s. honest s \<and> (install_left s \<longleftrightarrow> b) \<and> (c \<longrightarrow> verify_left s)) honest"
    unfolding triple_def after_def phase_def moves_def signing_to_def by (auto split: outcome.splits)
  from triple_returning [OF this, of signing_left] show ?thesis
    by (rule triple_post) (auto simp: phase_def during_Return dest: sign_csr_left)
qed

lemma steady_then:
  "moves steady_to m \<Longrightarrow> (\<And>x. triple (phase a b c) (g x) Q honest) \<Longrightarrow> triple (phase a b c) (seqx m g) Q honest"
  by (rule triple_seqx [OF triple_steady])

lemma triple_split:
  "(\<And>a b. triple P (g a b) Q E) \<Longrightarrow> triple P (case p of (a, b) \<Rightarrow> g a b) Q E"
  "(x = None \<Longrightarrow> triple P m Q E) \<Longrightarrow> (\<And>y. x = Some y \<Longrightarrow> triple P (k y) Q E) \<Longrightarrow>
   triple P (case x of None \<Rightarrow> m | Some y \<Rightarrow> k y) Q E"
  by (simp_all split: prod.split option.split)

lemma obtain_certificate_phase:
  "triple (phase a b c) (obtain_certificate N C (socket_boundary R P) J) (\<lambda>_. phase True b c) honest"
  unfolding obtain_certificate_def
  by (intro triple_seqx [OF triple_sign] steady_then triple_split triple_steady steady_steps)

lemma client_install_left:
  assumes "client_install_certificate L (socket_boundary R P) r s = (Return i, t)"
  shows "install_left t"
proof -
  let ?B = "socket_boundary R P"
  have sent: "install_left t" if "b_import_certificate_reply ?B r st s = (Return n, t)" for st n s t
    using that executor_call_sent
    by (auto simp: socket_boundary_def socket_import_certificate_reply_def call_for_def returns install_left_def)
  obtain s1 st s2 n s3 t0 where b: "b_import_certificate_reply ?B r st s2 = (Return n, s3)"
    "b_inspect_public_state ?B (set_stage ?B ''post-import verification; keystore may have changed'' s3) = (Return s1, t0)"
    "install_left t \<longleftrightarrow> install_left t0"
    using assms unfolding client_install_certificate_def install_body_def wrap_exception_def
    by (auto simp: socket_boundary_def socket_exclusive_def returns install_left_def split: if_split_asm)
  have "install_left (set_stage ?B v s3)" for v using sent [OF b(1)] by (simp add: socket_boundary_def install_left_def)
  thus ?thesis using movesD [OF steady_boundary(1) b(2)] b(3) by (simp add: steady_to_def)
qed

lemma client_verify_left:
  assumes "client_verify_pending (socket_boundary R P) s = (Return u, t)"
  shows "verify_left t"
  using assms executor_call_sent unfolding client_verify_pending_def wrap_exception_def
  by (auto simp: socket_boundary_def socket_verify_pending_def call_for_def returns verify_left_def split: if_split_asm)

lemma triple_installed:
  "triple (phase True b c) (during st (client_install_certificate L (socket_boundary R P) r)) (\<lambda>_. phase True True c) honest"
proof -
  have "moves installing_to (during st (client_install_certificate L (socket_boundary R P) r))"
    by (intro installing.composed installing_client)
  hence "triple (phase True b c) (during st (client_install_certificate L (socket_boundary R P) r))
      (\<lambda>_ s. honest s \<and> signing_left s \<and> (c \<longrightarrow> verify_left s)) honest"
    unfolding triple_def after_def phase_def moves_def installing_to_def by (auto split: outcome.splits)
  from triple_returning [OF this, of install_left] show ?thesis
    by (rule triple_post) (auto simp: phase_def during_Return dest: client_install_left)
qed

lemma triple_verify:
  "triple (phase a b c) (during st (client_verify_pending (socket_boundary R P))) (\<lambda>_. phase a b True) honest"
proof -
  have "triple (phase a b c) (during st (client_verify_pending (socket_boundary R P))) (\<lambda>_. phase a b c) honest"
    by (intro triple_steady steady_steps)
  from triple_returning [OF this, of verify_left] show ?thesis
    by (rule triple_post) (auto simp: phase_def during_Return dest: client_verify_left)
qed

lemma steady_issued [steady_steps]: "moves steady_to (validate_issued N B J ca found pem data)" "moves steady_to (check_job J)"
  unfolding validate_issued_def check_job_def Let_def by (intro steady_steps)+

definition renewed :: "renewal_job \<Rightarrow> installation_result \<Rightarrow> 'w renewer \<Rightarrow> bool" where
  "renewed J r s \<longleftrightarrow> phase True (j_install J) (j_install J) s \<and> ir_state r = (if j_install J then ''renewal_complete'' else ''prepared'')"

lemma run_to_installation_phase:
  "triple (phase False False False) (run_to_installation N C (socket_boundary R P) J) (renewed J) honest"
proof -
  have install: "triple (phase True False False) (install_and_verify N (socket_boundary R P) r plan) (renewed J) honest"
    if "j_install J" for r plan
    unfolding install_and_verify_def
    by (intro triple_seqx [OF triple_installed] triple_seqx [OF triple_verify] steady_then steady_steps triple_ret)
      (simp add: renewed_def that)
  show ?thesis
    unfolding run_to_installation_def
    by (intro triple_seqx [OF obtain_certificate_phase] steady_then triple_split triple_if install triple_ret steady_steps)
      (simp_all add: renewed_def)
qed

section \<open>The report of a run\<close>

definition failure_outcomes :: "run_outcome list" where
  "failure_outcomes = [FAILURE_PRE_ATTEMPT, FAILURE_PARTIAL, FAILURE_AMBIGUOUS]"

text \<open>What an outcome says of the requests that left the process, and of the need to look at the device.\<close>

definition agrees :: "run_outcome \<Rightarrow> bool \<Rightarrow> 'w renewer \<Rightarrow> bool" where
  "agrees out recovery s \<longleftrightarrow>
     (out \<in> {SUCCESS_NO_CHANGE, ATTENTION_DUE, FAILURE_PRE_ATTEMPT} \<longrightarrow> \<not> signing_left s \<and> \<not> install_left s) \<and>
     (out = SUCCESS_PREPARED \<longrightarrow> \<not> install_left s) \<and>
     (out = SUCCESS_CHANGED \<longrightarrow> signing_left s \<and> install_left s \<and> verify_left s) \<and>
     (out \<in> set failure_outcomes \<and> signing_left s \<longrightarrow> recovery)"

definition reported :: "bool \<Rightarrow> 'w renewer \<Rightarrow> bool" where
  "reported ok s \<longleftrightarrow> honest s \<and> (\<exists>e. rn_evidence s = Some e \<and> (ok \<longleftrightarrow> t_outcome (e_target e) \<notin> set failure_outcomes) \<and>
     agrees (t_outcome (e_target e)) (t_manual_recovery_required (e_target e)) s)"

lemma reported_honest: "reported ok s \<Longrightarrow> honest s"
  by (simp add: reported_def)

lemma success_outcome [simp]: "t_outcome (e_target (success out msg due e)) = out"
  by (simp add: success_def with_certificate_def split: option.splits)

lemma agrees_evidence [simp]: "agrees out m (s\<lparr> rn_evidence := e \<rparr>) = agrees out m s"
  by (simp add: agrees_def signing_left_def install_left_def verify_left_def)

lemma honest_update:
  fixes s :: "'w renewer"
  assumes "moves steady_to (with_evidence f :: ('w renewer, unit) exec)" "honest s"
  shows "honest (s\<lparr> rn_evidence := map_option f (rn_evidence s) \<rparr>)"
proof -
  have "steady_to s (snd (with_evidence f s))" using assms(1) by (simp add: moves_def)
  thus ?thesis using assms(2) by (simp add: steady_to_def with_evidence_def modify_def)
qed

lemma reported_success:
  assumes "\<And>s :: 'w renewer. phase a b c s \<Longrightarrow> agrees out True s \<and> out \<notin> set failure_outcomes"
  shows "triple (phase a b c :: 'w renewer \<Rightarrow> bool) (with_evidence (success out msg due)) (\<lambda>_. reported True) honest"
proof (rule tripleI)
  fix s :: "'w renewer" assume p: "phase a b c s"
  let ?t = "s\<lparr> rn_evidence := map_option (success out msg due) (rn_evidence s) \<rparr>"
  have "honest ?t" using p by (intro honest_update steady_records) (simp add: phase_def)
  moreover have "\<exists>e. rn_evidence s = Some e" using p by (auto simp: phase_def honest_def)
  moreover have "agrees out m s" for m using assms [OF p] by (simp add: agrees_def)
  ultimately have "reported True ?t" using assms [OF p] by (auto simp: reported_def)
  thus "after (\<lambda>_. reported True) honest (with_evidence (success out msg due) s)"
    by (simp add: with_evidence_def modify_def)
qed

lemma reported_failure: "triple honest (with_evidence (failure reason)) (\<lambda>_. reported False) honest"
proof (rule tripleI)
  fix s :: "'a renewer" assume h: "honest s"
  then obtain e where e: "rn_evidence s = Some e" "tidy e" "signing_left s \<longrightarrow> acknowledges e" "install_left s \<longrightarrow> signing_left s"
    by (auto simp: honest_def)
  let ?t = "s\<lparr> rn_evidence := Some (failure reason e) \<rparr>"
  have "uncertain (e_target e)" if "acknowledges e" "t_change (e_target e) \<noteq> CHANGE_CONFIRMED"
    using that e(2) uncertain_iff [of "e_target e"] by (auto simp: acknowledges_def tidy_def)
  hence "agrees (t_outcome (e_target (failure reason e))) (t_manual_recovery_required (e_target (failure reason e))) s"
    using e(3,4) by (auto simp: agrees_def failure_target acknowledges_def)
  moreover have "t_outcome (e_target (failure reason e)) \<in> set failure_outcomes"
    by (simp add: failure_target failure_outcomes_def)
  moreover have "honest ?t" using honest_update [OF steady_records(6) h] e(1) by simp
  ultimately have "reported False ?t" by (simp add: reported_def)
  thus "after (\<lambda>_. reported False) honest (with_evidence (failure reason) s)"
    by (simp add: with_evidence_def modify_def e(1))
qed

lemma reported_kept:
  assumes "keeps ledger m"
  shows "triple (reported ok) m (\<lambda>_. reported ok) honest"
proof (rule tripleI)
  fix s :: "'a renewer" assume r: "reported ok s"
  have l: "ledger (snd (m s)) = ledger s" using assms by (simp add: keeps_def)
  from ledger_eq [OF l] r have "reported ok (snd (m s))" by (simp add: reported_def honest_def agrees_def)
  thus "after (\<lambda>_. reported ok) honest (m s)" by (auto simp: after_def dest: reported_honest split: outcome.splits)
qed

lemmas outcome_simps = agrees_def phase_def failure_outcomes_def

lemma ok_output: "busy_status out = 0 \<longleftrightarrow> jget ''state'' out \<noteq> Some (JStr ''busy'')"
  by (simp add: busy_status_def)

definition finished :: "(string \<times> json) list \<Rightarrow> 'w renewer \<Rightarrow> bool" where
  "finished out s \<longleftrightarrow> reported (busy_status out = 0) s"

lemma steady_deployed [steady_steps]:
  "moves steady_to (inspect_deployed X (socket_boundary R P) c)" "moves steady_to (due_now B i c now)"
  unfolding inspect_deployed_def due_now_def by (intro steady_steps)+

lemma triple_reported_ret: "jget ''state'' out \<noteq> Some (JStr ''busy'') \<Longrightarrow> triple (reported True) (ret out) finished honest"
  by (rule triple_ret) (simp add: finished_def ok_output)

lemma run_renewal_report:
  "triple (phase False False False) (run_renewal X (socket_boundary R P) c mode) finished honest"
proof -
  let ?J = "production_job c mode"
  let ?out = "if j_install ?J then SUCCESS_CHANGED else SUCCESS_PREPARED"
  have run: "triple (phase False False False) (stopped_during mode (run_to_installation (pe_opn X) C (socket_boundary R P) ?J)) (renewed ?J) honest" for C
    unfolding stopped_during_def by (rule triple_handle [OF run_to_installation_phase]) (auto intro: triple_throw)
  have success: "triple (renewed ?J r) (with_evidence (success ?out msg due)) (\<lambda>_ s. reported True s \<and> ir_state r \<noteq> ''busy'') honest" for r msg due
  proof -
    have "triple (phase True (j_install ?J) (j_install ?J)) (with_evidence (success ?out msg due)) (\<lambda>_. reported True) honest"
      by (rule reported_success) (auto simp: outcome_simps)
    thus ?thesis unfolding renewed_def by (auto simp: triple_def after_def split: outcome.splits)
  qed
  show ?thesis
    unfolding run_renewal_def Let_def
    by (intro triple_seqx [OF run] triple_seqx [OF success] steady_then steady_steps triple_ret)
      (simp add: finished_def ok_output renewal_output_def jget_def)
qed

lemma run_inspect_report: "triple (phase False False False) (run_inspect X (socket_boundary R P) c now) finished honest"
proof -
  have success: "triple (phase False False False) (with_evidence (success (if d then ATTENTION_DUE else SUCCESS_NO_CHANGE) msg due)) (\<lambda>_. reported True) honest" for d msg due
    by (rule reported_success) (auto simp: outcome_simps)
  have evidence: "triple (phase False False False) (gets rn_evidence) (\<lambda>e s. phase False False False s \<and> e \<noteq> None) honest"
    by (rule triple_gets) (auto simp: phase_def honest_def)
  show ?thesis
    unfolding run_inspect_def
    apply (rule steady_then, intro steady_steps)
    apply (rule steady_then, intro steady_steps)
    apply (rule steady_then, intro steady_steps)
    apply (rule triple_seqx [OF evidence], rule triple_pre_fact)
    apply (simp only: if_False simp_thms)
    apply (rule triple_seqx [where R = "\<lambda>_. reported True"])
     apply (intro steady_then steady_steps success)
    apply (rule triple_reported_ret, simp add: jget_def)
    done
qed

lemma run_csr_report: "triple (phase False False False) (run_csr X (socket_boundary R P) c) finished honest"
  unfolding run_csr_def
  by (intro triple_seqx [OF reported_success] steady_then steady_steps triple_reported_ret) (auto simp: outcome_simps jget_def)


lemma decide_renewal_report:
  "triple (phase False False False) (decide_renewal X (socket_boundary R P) c now)
     (\<lambda>d s. case d of None \<Rightarrow> phase False False False s | Some out \<Rightarrow> finished out s) honest"
proof -
  have success: "triple (phase False False False) (with_evidence (success SUCCESS_NO_CHANGE msg due)) (\<lambda>_. reported True) honest" for msg due
    by (rule reported_success) (auto simp: outcome_simps)
  show ?thesis
    unfolding decide_renewal_def
    by (intro triple_seqx [OF success] steady_then triple_if steady_steps triple_ret)
      (auto simp: finished_def ok_output jget_def)
qed

lemma stopped_during_report: "triple P m Q honest \<Longrightarrow> triple P (stopped_during what m) Q honest"
  unfolding stopped_during_def by (erule triple_handle) (auto intro: triple_throw)

lemma run_mode_report: "triple (phase False False False) (run_mode X mode now) finished honest"
proof -
  have decided: "triple (case d of None \<Rightarrow> phase False False False | Some out \<Rightarrow> finished out)
      (case d of Some out \<Rightarrow> ret out | None \<Rightarrow> run_renewal X (socket_boundary R P) c mode) finished honest" for d R P c
    using run_renewal_report by (cases d) (auto intro: triple_ret)
  have decide: "triple (phase False False False) (stopped_during mode (decide_renewal X (socket_boundary R P) c now))
      (\<lambda>d. case d of None \<Rightarrow> phase False False False | Some out \<Rightarrow> finished out) honest" for R P c
    by (rule stopped_during_report, rule triple_post [OF decide_renewal_report]) (auto split: option.splits)
  show ?thesis
    unfolding run_mode_def Let_def build_production_unifi_client_def
    by (intro triple_if triple_seqx [OF decide decided] steady_then steady_steps stopped_during_report
        run_inspect_report run_csr_report run_renewal_report)
qed

lemma closes_quietly: "keeps ledger (seqx (syscall (ret ())) (\<lambda>_. syscall (ret ())))" "keeps ledger (syscall (ret x))"
  by (intro keeps_intros calls traceless_ledger)+

lemma triple_honest: "moves steady_to m \<Longrightarrow> triple honest m (\<lambda>_. honest) honest"
  unfolding triple_def after_def moves_def steady_to_def by (auto split: outcome.splits)

lemma report_and_close:
  assumes "triple P m finished honest" "keeps ledger f"
  shows "triple P (finally_do m f) finished honest"
  by (rule triple_finally [OF assms(1)])
    (use reported_kept [OF assms(2)] triple_honest [OF keeps_ledger_steady [OF assms(2)]] in \<open>auto simp: finished_def [abs_def]\<close>)

lemma lock_opened:
  "moves steady_to (lock_unavailable (host_call f :: ('w renewer, 'a) exec))"
  "moves steady_to (closing_on_error (syscall (ret ())) (lock_unavailable (lifecycle_directory K)) :: ('w renewer, stat_result) exec)"
  "moves steady_to (lock_unavailable (lifecycle_file K info) :: ('w renewer, unit) exec)"
  unfolding lock_unavailable_def closing_on_error_def by (intro steady_steps)+

lemma run_one_shot_report: "triple (phase False False False) (run_one_shot X mode now) finished honest"
proof -
  have locked: "triple (phase False False False) (lifecycle_lock (pe_lock X) (run_mode X mode now)) finished honest"
    unfolding lifecycle_lock_def
    by (intro steady_then lock_opened report_and_close closes_quietly run_mode_report)
  have busy: "triple honest (seqx (with_evidence (failure (Some LOCK_BUSY))) (\<lambda>_.
      ret [(''mode'', JStr mode), (''state'', JStr ''busy''), (''renewal_complete'', JBool False)])) finished honest"
    by (rule triple_seqx [OF reported_failure], rule triple_ret) (simp add: finished_def busy_status_def jget_def)
  show ?thesis
    unfolding run_one_shot_def
    by (intro triple_if steady_then steady_steps triple_handle [OF locked] busy run_mode_report triple_throw) (auto simp: phase_def)
qed

definition told :: "printed \<Rightarrow> 'w renewer \<Rightarrow> bool" where
  "told p s \<longleftrightarrow> (\<exists>run. p_stdout p = Some (to_json run) \<and> (p_status p = 0 \<longleftrightarrow> r_outcome run \<notin> set failure_outcomes) \<and>
     agrees (r_outcome run) (r_manual_recovery_required run) s)"

lemma evidence_report:
  "r_outcome (run_finish now (evidence_run e)) = t_outcome (e_target e)"
  "t_manual_recovery_required (e_target e) \<Longrightarrow> r_manual_recovery_required (run_finish now (evidence_run e))"
  by (simp_all add: run_finish_def evidence_run_def Let_def)

lemma report_told: "triple (\<lambda>s. reported (n = 0) s) (seqx (report X) (\<lambda>line. ret \<lparr> p_status = n, p_stdout = line, p_stderr = None \<rparr>)) told honest"
proof (rule tripleI)
  fix s :: "'a renewer" assume "reported (n = 0) s"
  then obtain e where e: "rn_evidence s = Some e" "(n = 0) = (t_outcome (e_target e) \<notin> set failure_outcomes)"
    "agrees (t_outcome (e_target e)) (t_manual_recovery_required (e_target e)) s" by (auto simp: reported_def)
  let ?run = "run_finish (re_wall (pe_link X) (step s)) (evidence_run e)"
  have "agrees (r_outcome ?run) (r_manual_recovery_required ?run) s"
    using e(3) evidence_report(2) unfolding evidence_report(1) agrees_def by blast
  hence "told \<lparr> p_status = n, p_stdout = Some (evidence_finish (re_wall (pe_link X) (step s)) e), p_stderr = None \<rparr> s"
    unfolding told_def using e(2) by (intro exI [of _ ?run]) (simp add: evidence_report evidence_finish_def)
  thus "after told honest (seqx (report X) (\<lambda>line. ret \<lparr> p_status = n, p_stdout = line, p_stderr = None \<rparr>) s)"
    by (simp add: report_def seqx_def gets_def ret_def e(1))
qed

lemma main_json_told: "triple (\<lambda>s. rn_posted s = [] \<and> rn_sent s = []) (main_json X mode) told honest"
proof -
  have start: "triple (\<lambda>s. rn_posted s = [] \<and> rn_sent s = []) (modify (\<lambda>s. s\<lparr> rn_evidence := Some (RunEvidence (pe_uuid X (step s))
      (re_wall (pe_link X) (step s)) (operation_of mode)) \<rparr>)) (\<lambda>_. phase False False False) honest"
    by (rule triple_modify)
      (auto simp: phase_def honest_def tidy_def signing_left_def install_left_def RunEvidence_distinct)
  have run: "triple (phase False False False) (seqx (run_one_shot X mode None) (\<lambda>out. ret (busy_status out))) (\<lambda>n. reported (n = 0)) honest"
    by (rule triple_seqx [OF run_one_shot_report], rule triple_ret) (simp add: finished_def)
  have closed: "triple (phase False False False) (finally_do (seqx (run_one_shot X mode None) (\<lambda>out. ret (busy_status out))) (syscall (ret ())))
      (\<lambda>n. reported (n = 0)) honest"
    by (rule triple_finally [OF run]) (auto intro: reported_kept closes_quietly triple_honest keeps_ledger_steady)
  have failed: "triple honest (if is_Exception e then seqx (with_evidence (failure None)) (\<lambda>_. ret (1 :: nat)) else throw e) (\<lambda>n. reported (n = 0)) honest" for e
    by (intro triple_if triple_seqx [OF reported_failure] triple_ret triple_throw) simp_all
  show ?thesis
    unfolding main_json_def
    by (rule triple_seqx [OF start], rule triple_seqx, rule triple_handle [OF _ failed], rule steady_then, intro steady_steps)
      (use closed report_told in auto)
qed


end
