(* ===== verification/EndToEnd.thy ===== *)
theory EndToEnd
  imports RenewalSafety
begin

text \<open>
  The whole path of a renewal: the renewer of the production command against the executor service. A renewal that the renewer
  reports as complete is one that the executor installed and finalised.
\<close>

section \<open>What the client returns\<close>

lemma wrap_exception_Return [returns]: "wrap_exception msg m s = (Return x, t) \<longleftrightarrow> m s = (Return x, t)"
  by (auto simp: wrap_exception_def handle_def throw_def split: prod.splits outcome.splits if_splits)

lemma stopped_during_Return [returns]: "stopped_during what m s = (Return x, t) \<longleftrightarrow> m s = (Return x, t)"
  by (auto simp: stopped_during_def returns)

declare during_Return [returns]

lemma keeps_call_exclusive: "keeps rn_exclusive (executor_call R op args)"
proof -
  have send: "keeps rn_exclusive (send_frame R op frame)" for frame
    by (auto simp: keeps_def send_frame_def syscall_def Let_def split: verdict.splits prod.splits)
  have dispatch: "keeps rn_exclusive (on_dispatch op)" by (simp add: on_dispatch_def keeps_def modify_def)
  have wrap: "keeps rn_exclusive (wrap_exception msg m)" if "keeps rn_exclusive m" for msg and m :: "('a renewer, json) exec"
    unfolding wrap_exception_def by (rule keeps_handle [OF that]) (simp add: keeps_def throw_def)
  show ?thesis
    unfolding executor_call_def exchange_def validate_socket_directory_def
    by (intro keeps_intros calls traceless_remote send dispatch wrap)
qed

lemma import_Return:
  assumes "socket_import_certificate_reply R P r expected s = (Return n, t)"
  shows "rn_exclusive t \<and> (\<exists>st. rn_installed t = Some st)"
  using assms
  by (auto simp: socket_import_certificate_reply_def call_for_def returns dest: keepsD [OF keeps_call_exclusive])

lemma install_Return:
  assumes "client_install_certificate L (socket_boundary R P) r s = (Return i, t)"
  shows "\<exists>expected s1 n t1. socket_import_certificate_reply R P r expected s1 = (Return n, t1) \<and> rn_remote t = rn_remote t1"
proof -
  let ?B = "socket_boundary R P"
  obtain s0 t0 where b: "install_body L ?B r s0 = (Return i, t0)" "rn_remote t = rn_remote t0"
    using assms by (auto simp: client_install_certificate_def socket_boundary_def socket_exclusive_def returns)
  obtain expected s1 n t1 st t2 where i: "b_import_certificate_reply ?B r expected s1 = (Return n, t1)"
    "b_inspect_public_state ?B (set_stage ?B ''post-import verification; keystore may have changed'' t1) = (Return st, t2)" "t0 = t2"
    using b(1) unfolding install_body_def by (auto simp: returns)
  have i1: "socket_import_certificate_reply R P r expected s1 = (Return n, t1)" using i(1) by (simp add: socket_boundary_def)
  hence "rn_remote t2 = rn_remote t1"
    using i(2) import_Return [OF i1] by (auto simp: socket_boundary_def socket_inspect_public_state_def returns split: option.split_asm)
  thus ?thesis using i1 b(2) i(3) by metis
qed

lemma verify_Return:
  "client_verify_pending (socket_boundary R P) s = (Return u, t) \<Longrightarrow> socket_verify_pending R s = (Return ''renewal_finalized'', t)"
  by (auto simp: client_verify_pending_def socket_boundary_def returns)

lemma obtain_certificate_before:
  assumes R: "re_serve R = executor_peer E P" "re_lib R = x_lib E"
    and x: "obtain_certificate N C (socket_boundary R P') J s = (Return (found, pem, data), t)" and s: "\<not> rn_exclusive s"
  shows "isascii (keytool_output found)"
proof -
  obtain s1 t1 where i: "socket_inspect_public_state R s1 = (Return found, t1)" "\<not> rn_exclusive s1"
    using x s unfolding obtain_certificate_def
    by (auto simp: client_inspect_current_def socket_boundary_def evidence_stage_def with_evidence_def returns)
  obtain w w' where "inspect_public_state E w = (Return found, w')" using inspect_served [OF R i(1)] i(2) by blast
  thus ?thesis using inspect_public_state_Return public_text_ascii by metis
qed

section \<open>A complete renewal\<close>

lemma validate_issued_Return:
  "validate_issued N B J ca found pem data s = (Return (r, plan), t) \<Longrightarrow> before r = found"
  by (auto simp: validate_issued_def Let_def returns)

lemma run_to_installation_Return:
  assumes "run_to_installation N C B J s = (Return res, t)" "renewal_complete res" "\<not> rn_exclusive s"
  shows "\<exists>pem data s1 t1 r plan s2. obtain_certificate N C B J s1 = (Return (before r, pem, data), t1) \<and>
    \<not> rn_exclusive s1 \<and> install_and_verify N B r plan s2 = (Return res, t)"
proof -
  let ?s = "s\<lparr> rn_evidence := map_option (\<lambda>e. e\<lparr> e_stage := CONFIGURATION \<rparr>) (rn_evidence s) \<rparr>"
  from assms(1) obtain ca s0 found pem data t1 r plan s2 u
    where o: "s0 = ?s" "obtain_certificate N C B J s0 = (Return (found, pem, data), t1)"
      "validate_issued N B J ca found pem data t1 = (Return (r, plan), s2)"
      and u: "(if \<not> j_install J then ret \<lparr> ir_state = ''prepared'', ir_request = r, ir_plan = plan, ir_installed = None \<rparr>
        else install_and_verify N B r plan) u = (Return res, t)"
    unfolding run_to_installation_def check_job_def evidence_stage_def with_evidence_def
    by (simp only: returns split_paired_Ex split_conv ex_simps simp_thms) blast
  have "install_and_verify N B r plan u = (Return res, t)"
    using u assms(2) by (auto simp: renewal_complete_def returns split: if_split_asm)
  moreover have "obtain_certificate N C B J s0 = (Return (before r, pem, data), t1)"
    using o(2,3) validate_issued_Return by metis
  moreover have "\<not> rn_exclusive s0" using o(1) assms(3) by simp
  ultimately show ?thesis by blast
qed

lemma installed_and_verified:
  assumes R: "re_serve R = executor_peer E P" "re_lib R = x_lib E" "isascii (rp_digest P')"
    and x: "install_and_verify N (socket_boundary R P') r plan s = (Return res, t)" and r: "isascii (keytool_output (before r))"
  shows "ir_request res = r \<and> rp_digest P' = rp_digest P \<and> (\<exists>w p i w1 w2.
    client_install_certificate (x_lib E) (executor_boundary E P)
      (authorized_request P (x_wall E (step w)) (before r) p (csr_pem r) (issued_certificate r)) (fresh_executor w) = (Return i, w1) \<and>
    verify_pending E P (fresh_executor (tick w1)) = (Return ''renewal_finalized'', w2) \<and> rn_remote t = tick w2)"
proof -
  obtain s1 i t1 s2 t2 where c: "client_install_certificate (op_lib N) (socket_boundary R P') r s1 = (Return i, t1)"
    "client_verify_pending (socket_boundary R P') s2 = (Return (), t2)" "rn_remote s2 = rn_remote t1" "rn_remote t = rn_remote t2" "ir_request res = r"
    using x by (auto simp: install_and_verify_def evidence_stage_def with_evidence_def returns)
  obtain expected s3 n t3 where im: "socket_import_certificate_reply R P' r expected s3 = (Return n, t3)" "rn_remote t1 = rn_remote t3"
    using install_Return [OF c(1)] by blast
  obtain p j w1 where w: "client_install_certificate (x_lib E) (executor_boundary E P)
      (authorized_request P (x_wall E (step (rn_remote s3))) (before r) p (csr_pem r) (issued_certificate r)) (fresh_executor (rn_remote s3)) = (Return j, w1)"
    "rn_remote t3 = tick w1" "rp_digest P' = rp_digest P"
    using import_served [OF R(1,2) im(1) R(3) r] by blast
  obtain w2 where "verify_pending E P (fresh_executor (rn_remote s2)) = (Return ''renewal_finalized'', w2)" "rn_remote t2 = tick w2"
    using verify_pending_served [OF R(1) verify_Return [OF c(2)]] by blast
  thus ?thesis using w c im(2) by metis
qed

lemma complete_run_installs:
  "run_to_installation N C B J s = (Return res, t) \<Longrightarrow> j_install J \<Longrightarrow> renewal_complete res"
  by (auto simp: run_to_installation_def install_and_verify_def renewal_complete_def returns)

text \<open>The link whose peer is the executor service.\<close>

definition executor_link :: "exec_env \<Rightarrow> renewal_policy \<Rightarrow> world link_env \<Rightarrow> world link_env" where
  "executor_link E P R = R\<lparr> re_lib := x_lib E, re_serve := executor_peer E P \<rparr>"

text \<open>
  C6. An installing renewal refines an installation and a verification by the executor. Whenever the renewer, connected
  to the executor service, returns from a renewal that installs, the renewal is complete; the executor has run the
  whole installation of exactly that certificate for exactly that request under its own policy, whose digest is the
  renewer's, and after it its live verification has finalised the transaction, and nothing has changed
  the executor's state since. The calls of either side may fail at any point, and replies may be lost.
\<close>

theorem renewal_refines_the_executor:
  "triple (\<lambda>s. \<not> rn_exclusive s \<and> isascii (rp_digest P'))
     (run_to_installation N C (socket_boundary (executor_link E P R) P') (J\<lparr> j_install := True \<rparr>))
     (\<lambda>res t. renewal_complete res \<and> rp_digest P' = rp_digest P \<and> (\<exists>w p i w1 w2.
        client_install_certificate (x_lib E) (executor_boundary E P)
          (authorized_request P (x_wall E (step w)) (before (ir_request res)) p (csr_pem (ir_request res)) (issued_certificate (ir_request res)))
          (fresh_executor w) = (Return i, w1) \<and>
        verify_pending E P (fresh_executor (tick w1)) = (Return ''renewal_finalized'', w2) \<and> rn_remote t = tick w2))
     (\<lambda>_. True)"
proof (rule tripleI, elim conjE)
  let ?R = "executor_link E P R" and ?J = "J\<lparr> j_install := True \<rparr>"
  have R: "re_serve ?R = executor_peer E P" "re_lib ?R = x_lib E" by (simp_all add: executor_link_def)
  fix s :: "world renewer" assume s: "\<not> rn_exclusive s" and d: "isascii (rp_digest P')"
  show "after (\<lambda>res t. renewal_complete res \<and> rp_digest P' = rp_digest P \<and> (\<exists>w p i w1 w2.
        client_install_certificate (x_lib E) (executor_boundary E P)
          (authorized_request P (x_wall E (step w)) (before (ir_request res)) p (csr_pem (ir_request res)) (issued_certificate (ir_request res)))
          (fresh_executor w) = (Return i, w1) \<and>
        verify_pending E P (fresh_executor (tick w1)) = (Return ''renewal_finalized'', w2) \<and> rn_remote t = tick w2))
     (\<lambda>_. True) (run_to_installation N C (socket_boundary ?R P') ?J s)"
  proof (cases "run_to_installation N C (socket_boundary ?R P') ?J s" rule: outcome_pair_cases)
    case (ok res t)
    hence c: "renewal_complete res" by (rule complete_run_installs) simp
    obtain pem data s1 t1 r plan s2 where o: "obtain_certificate N C (socket_boundary ?R P') ?J s1 = (Return (before r, pem, data), t1)"
        "\<not> rn_exclusive s1" "install_and_verify N (socket_boundary ?R P') r plan s2 = (Return res, t)"
      using run_to_installation_Return [OF ok c s] by blast
    from installed_and_verified [OF R d o(3) obtain_certificate_before [OF R o(1,2)]] c show ?thesis
      unfolding ok by auto
  qed simp_all
qed

end
