(* ===== verification/RenewalScenario.thy ===== *)
theory RenewalScenario
  imports ServiceScenario EndToEnd
begin

text \<open>
  A whole renewal on the concrete deployment: the renewer, the OPNsense answers and the executor service.
\<close>

section \<open>The deployment\<close>

definition socket_directory_stat :: stat_result where
  "socket_directory_stat = \<lparr> st_dev = 1, st_ino = 30, st_size = 0, st_mode = 0x41E8, st_uid = 0, st_gid = 1000, st_mtime_ns = 0,
     st_ctime_ns = 0, st_nlink = 2 \<rparr>"

definition socket_stat :: stat_result where
  "socket_stat = socket_directory_stat\<lparr> st_ino := 31, st_mode := 0xC1B0, st_nlink := 1 \<rparr>"

definition demo_sock :: sock_env where
  "demo_sock = \<lparr> so_dir_stat = \<lambda>_. Inr socket_directory_stat, so_dir_open = \<lambda>_. Inr (), so_dir_fstat = \<lambda>_. Inr socket_directory_stat,
     so_lock_stat = \<lambda>_. Inl ENOENT, so_lock_create = \<lambda>_. Inr (), so_lock_open = \<lambda>_. Inr (), so_lock_fstat = \<lambda>_. Inr socket_stat,
     so_lock_free = \<lambda>_. True, so_socket_stat = \<lambda>_. Inr socket_stat, so_bind = \<lambda>_. Inr () \<rparr>"

definition demo_link :: "world link_env" where
  "demo_link = \<lparr> re_lib = demo_lib, re_wall = \<lambda>_. demo_now, re_sock = demo_sock, re_connect = \<lambda>_. Inr (),
     re_serve = executor_peer demo_env demo_policy \<rparr>"

definition certificate_answer :: json where
  "certificate_answer = JObj [(''status'', JStr ''ok''), (''payload'', JStr (pem_of ''fee1''))]"

definition demo_http :: "nat \<Rightarrow> http_request \<Rightarrow> http_answer" where
  "demo_http n h =
     (if h_url h = ''https://fw'' @ CA_LIST_PATH
      then Answered (dumps (JObj [(''rows'', JArr [JObj [(''descr'', JStr ''ca''), (''caref'', JStr ''0123456789abc'')]]), (''count'', JInt 1)]))
      else if h_url h = ''https://fw'' @ CERT_ADD_PATH
      then Answered (dumps (JObj [(''result'', JStr ''saved''), (''uuid'', JStr ''00000000-0000-0000-0000-000000000001'')]))
      else Answered (dumps certificate_answer))"

definition demo_opn :: opn_env where
  "demo_opn = \<lparr> op_lib = demo_lib, op_secure = secret_host, op_ssl = demo_ssl, op_http = demo_http \<rparr>"

definition demo_client :: opnsense where
  "demo_client = \<lparr> o_base_url = ''https://fw'', o_timeout = 30, o_authorization = ''Basic cGFzczpwYXNz'', o_context = verifying_context \<rparr>"

definition demo_job :: renewal_job where
  "demo_job = \<lparr> j_policy = demo_identity, j_trusted_ca_data = ca_text, j_ca_description = ''ca'', j_certificate_description = ''u'',
     j_issued_signature_oid = ''1.2.840.113549.1.1.12'', j_lifetime_days = 90, j_digest = ''sha384'', j_install = True,
     j_minimum_remaining_days = None \<rparr>"

definition demo_renewer :: "world renewer" where
  "demo_renewer = \<lparr> step = 0, sched = \<lambda>_. Proceed, trace = [], rn_exclusive = False, rn_installed = None, rn_evidence = None,
     rn_stage = [], rn_sent = [], rn_posted = [], rn_remote = demo_world (\<lambda>_. Proceed) \<rparr>"

section \<open>Signing\<close>

definition demo_csr :: csr_info where
  "demo_csr = \<lparr> q_info_subject = ''CN=u.lan'', q_spki_sha256 = key_fingerprint, q_public_key_algorithm = ''RSA'', q_public_key_size = Some 2048,
     q_dns_sans = [''u.lan''], q_ip_sans = [], q_subject_key_identifier = None, q_info_signature_algorithm_oid = ''1.2.840.113549.1.1.12'',
     q_signature_hash_algorithm = Some ''sha384'', q_info_signature_valid = True, q_unsupported_san_types = [] \<rparr>"

definition demo_uuid :: string where "demo_uuid = ''00000000-0000-0000-0000-000000000001''"

theorem signing_witness:
  "fst (sign_csr demo_opn demo_client csr_text demo_csr key_fingerprint ''0123456789abc'' ''sha384'' 90 ''u'' (ret ()) demo_renewer) = Return demo_uuid \<and>
   (\<exists>payload. asks_for demo_lib csr_text demo_csr payload) \<and> canonical_uuid demo_uuid"
proof -
  have r: "fst (sign_csr demo_opn demo_client csr_text demo_csr key_fingerprint ''0123456789abc'' ''sha384'' 90 ''u'' (ret ()) demo_renewer) = Return demo_uuid"
    by code_simp
  have "op_lib demo_opn = demo_lib" by (simp add: demo_opn_def)
  with signing_asks_for_the_inspected_request [OF fst_run [OF r]] r show ?thesis by metis
qed

section \<open>A run that finds the lifecycle lock taken\<close>

definition lock_directory_stat :: stat_result where
  "lock_directory_stat = socket_directory_stat"

definition lock_stat :: stat_result where
  "lock_stat = socket_stat\<lparr> st_mode := 0x81B0 \<rparr>"

definition busy_lock :: lock_env where
  "busy_lock = \<lparr> lk_dir_open = \<lambda>_. Inr (), lk_dir_fstat = \<lambda>_. Inr lock_directory_stat, lk_open = \<lambda>_. Inr (), lk_fstat = \<lambda>_. Inr lock_stat,
     lk_flock = \<lambda>_. WouldBlock, lk_path_stat = \<lambda>_. Inr lock_stat, lk_dir_stat = \<lambda>_. Inr lock_directory_stat \<rparr>"

definition demo_production :: "world production_env" where
  "demo_production = \<lparr> pe_link = demo_link, pe_opn = demo_opn, pe_lock = busy_lock, pe_policy = su_policy demo_startup,
     pe_uuid = \<lambda>_. ''id'', pe_devnull = \<lambda>_. Inr () \<rparr>"

lemma busy_run:
  "\<exists>p t. main_production demo_production [''renew'', ''--output'', ''json''] demo_renewer = (Return p, t) \<and> p_status p = 75"
proof -
  have "parse_arguments [''renew'', ''--output'', ''json''] = Some (''renew'', True)" by code_simp
  moreover have "S_ISREG 0x81B0" "S_IMODE 0x81B0 = 0x1B0" "S_IMODE 0x41E8 = 0x1E8" by code_simp+
  ultimately show ?thesis
    by (simp add: main_production_def main_json_def run_one_shot_def lifecycle_lock_def lock_unavailable_def closing_on_error_def
        lifecycle_directory_def lifecycle_file_def take_lock_def evidence_stage_def with_evidence_def report_def
        demo_production_def busy_lock_def lock_directory_stat_def lock_stat_def socket_stat_def socket_directory_stat_def
        demo_renewer_def MODES_def LIFECYCLE_GROUP_GID_def busy_status_def jget_def is_OSError_def
        host_call_def syscall_def seqx_def handle_def finally_do_def gets_def modify_def ret_def throw_def raise_if_def Let_def)
qed


end
