(* ===== verification/Vulnerabilities.thy ===== *)
theory Vulnerabilities
  imports Url RenewalPolicy "HOL-Library.Multiset"
begin

text \<open>
  The comparison of two Trivy reports (\<open>scripts/compare_container_vulnerabilities.py\<close>): the findings of a report, what
  the derivative image introduces and inherits, the reviewed exceptions, and the verdict. The dictionaries and sets of the
  script are lists without duplicates; every tuple that it returns is sorted, so their order does not matter. The answer
  of \<open>dpkg\<close> is a parameter, as is the check of \<open>urllib\<close> on a host that is not ASCII. The fields of an
  exception are read in the order of its declaration, where the script takes the order of a set; only the message
  of a refusal depends on it.
\<close>

section \<open>Data\<close>

definition MAX_REPORT_BYTES :: nat where "MAX_REPORT_BYTES = 128 * 1024 * 1024"
definition MAX_EXCEPTION_BYTES :: nat where "MAX_EXCEPTION_BYTES = 1024 * 1024"
definition MAX_EXCEPTION_DAYS :: int where "MAX_EXCEPTION_DAYS = 90"
definition BLOCKING_SEVERITIES :: "string list" where "BLOCKING_SEVERITIES = [''HIGH'', ''CRITICAL'']"

record finding_identity =
  fi_class :: string
  fi_type :: string
  fi_target :: string
  fi_vulnerability :: string
  fi_package :: string
  fi_package_id :: string
  fi_package_path :: string
  fi_installed :: string

record finding =
  f_identity :: finding_identity
  f_severity :: string
  f_fixed :: string

record package_upgrade =
  pu_upstream :: finding
  pu_derivative :: finding

text \<open>A date is its proleptic ordinal.\<close>

record image_exception =
  x_identifier :: string
  x_upstream_image :: string
  x_platform :: string
  x_finding :: finding
  x_owner :: string
  x_reviewed_by :: string
  x_reviewed_on :: nat
  x_expires_on :: nat
  x_tracking_url :: string
  x_exposure :: string
  x_reason :: string
  x_mitigation :: string

record comparison =
  c_introduced :: "finding list"
  c_inherited :: "finding list"
  c_removed :: "finding list"
  c_accepted :: "image_exception list"
  c_upgrades :: "package_upgrade list"

definition unexcepted_fixable :: "comparison \<Rightarrow> finding list" where
  "unexcepted_fixable c = filter (\<lambda>f. f_fixed f \<noteq> [] \<and> f \<notin> set (map x_finding (c_accepted c))) (c_inherited c)"

definition blocked :: "comparison \<Rightarrow> bool" where
  "blocked c \<longleftrightarrow> c_introduced c \<noteq> [] \<or> unexcepted_fixable c \<noteq> []"

datatype dpkg_answer = DpkgUnavailable | DpkgExit int bytes

record scan_env =
  sc_dpkg :: "string \<Rightarrow> string \<Rightarrow> dpkg_answer"
  sc_netloc_ok :: "string \<Rightarrow> bool"
  sc_today :: nat

record report_file =
  rf_size :: "errno + nat"
  rf_data :: "errno + bytes"

abbreviation report_error :: "string \<Rightarrow> py_exc + 'a" where
  "report_error m \<equiv> Inl (InvalidReportError m)"

section \<open>Reports\<close>

definition load_report :: "report_file \<Rightarrow> string \<Rightarrow> nat \<Rightarrow> py_exc + (string \<times> json) list" where
  "load_report F role maximum = (case rf_size F of
      Inl _ \<Rightarrow> report_error (role @ '' report is not readable'')
    | Inr n \<Rightarrow>
      if n = 0 then report_error (role @ '' report is empty'')
      else if n > maximum then report_error (role @ '' report exceeds the size limit'')
      else (case rf_data F of
        Inl _ \<Rightarrow> report_error (role @ '' report is not valid UTF-8 JSON'')
      | Inr data \<Rightarrow> bindE (catchE (loads_bytes (InvalidReportError ''JSON contains a duplicate object key'') data)
          (\<lambda>e. case e of InvalidReportError _ \<Rightarrow> Inl e | _ \<Rightarrow> report_error (role @ '' report is not valid UTF-8 JSON''))) (\<lambda>v.
          case v of JObj ps \<Rightarrow> Inr ps | _ \<Rightarrow> report_error (role @ '' report must be a JSON object''))))"

fun required_text :: "json option \<Rightarrow> string \<Rightarrow> py_exc + string" where
  "required_text (Some (JStr s)) description = (if s = [] then report_error (description @ '' must be non-empty text'') else Inr s)"
| "required_text _ description = report_error (description @ '' must be non-empty text'')"

fun optional_text :: "json option \<Rightarrow> string \<Rightarrow> py_exc + string" where
  "optional_text None description = Inr []"
| "optional_text (Some (JStr s)) description = Inr s"
| "optional_text (Some _) description = report_error (description @ '' must be text when present'')"

definition os_target :: "(string \<times> json) list \<Rightarrow> py_exc + string" where
  "os_target report = (case jget ''Metadata'' report of
      Some (JObj metadata) \<Rightarrow> (case jget ''OS'' metadata of
          Some (JObj os) \<Rightarrow>
            bindE (required_text (jget ''Family'' os) ''Metadata.OS.Family'') (\<lambda>family.
            bindE (required_text (jget ''Name'' os) ''Metadata.OS.Name'') (\<lambda>name.
            Inr (''os:'' @ family @ ''/'' @ name)))
        | _ \<Rightarrow> report_error ''OS findings require object Metadata.OS'')
    | _ \<Rightarrow> report_error ''OS findings require object Metadata'')"

definition read_finding :: "string \<Rightarrow> string \<Rightarrow> string \<Rightarrow> string \<Rightarrow> (string \<times> json) list \<Rightarrow> py_exc + finding" where
  "read_finding role result_class result_type stable_target ps =
     bindE (required_text (jget ''Severity'' ps) ''finding Severity'') (\<lambda>severity.
     if severity \<notin> set BLOCKING_SEVERITIES
     then report_error (role @ '' report contains a finding outside the requested HIGH/CRITICAL severity scope'')
     else
     bindE (required_text (jget ''VulnerabilityID'' ps) ''finding VulnerabilityID'') (\<lambda>vulnerability.
     bindE (required_text (jget ''PkgName'' ps) ''finding PkgName'') (\<lambda>package.
     bindE (optional_text (jget ''PkgID'' ps) ''finding PkgID'') (\<lambda>package_id.
     bindE (optional_text (jget ''PkgPath'' ps) ''finding PkgPath'') (\<lambda>package_path.
     bindE (required_text (jget ''InstalledVersion'' ps) ''finding InstalledVersion'') (\<lambda>installed.
     bindE (optional_text (jget ''FixedVersion'' ps) ''finding FixedVersion'') (\<lambda>fixed.
     Inr \<lparr> f_identity = \<lparr> fi_class = result_class, fi_type = result_type, fi_target = stable_target, fi_vulnerability = vulnerability,
         fi_package = package, fi_package_id = package_id, fi_package_path = package_path, fi_installed = installed \<rparr>,
       f_severity = severity, f_fixed = fixed \<rparr>)))))))"

definition lookup_finding :: "finding_identity \<Rightarrow> finding list \<Rightarrow> finding option" where
  "lookup_finding i fs = find (\<lambda>f. f_identity f = i) fs"

definition add_finding :: "string \<Rightarrow> finding list \<Rightarrow> finding \<Rightarrow> py_exc + finding list" where
  "add_finding role fs f = (case lookup_finding (f_identity f) fs of
      None \<Rightarrow> Inr (fs @ [f])
    | Some previous \<Rightarrow> if previous \<noteq> f then report_error (role @ '' report contains conflicting duplicate findings'') else Inr fs)"

fun read_vulnerability ::
  "string \<Rightarrow> nat \<Rightarrow> string \<Rightarrow> string \<Rightarrow> string \<Rightarrow> finding list \<Rightarrow> nat \<times> json \<Rightarrow> py_exc + finding list" where
  "read_vulnerability role i result_class result_type stable_target fs (j, JObj ps) =
     bindE (read_finding role result_class result_type stable_target ps) (add_finding role fs)"
| "read_vulnerability role i result_class result_type stable_target fs (j, _) =
     report_error (role @ '' result '' @ show_nat i @ '' finding '' @ show_nat j @ '' must be an object'')"

fun read_vulnerabilities ::
  "string \<Rightarrow> nat \<Rightarrow> string \<Rightarrow> string \<Rightarrow> string \<Rightarrow> finding list \<Rightarrow> json option \<Rightarrow> py_exc + finding list" where
  "read_vulnerabilities role i result_class result_type stable_target fs None = Inr fs"
| "read_vulnerabilities role i result_class result_type stable_target fs (Some (JArr vs)) =
     foldE (read_vulnerability role i result_class result_type stable_target) fs (enumerate 0 vs)"
| "read_vulnerabilities role i result_class result_type stable_target fs (Some _) =
     report_error (role @ '' result '' @ show_nat i @ '' Vulnerabilities must be an array'')"

fun read_result :: "(string \<times> json) list \<Rightarrow> string \<Rightarrow> finding list \<Rightarrow> nat \<times> json \<Rightarrow> py_exc + finding list" where
  "read_result report role fs (i, JObj result) =
     bindE (required_text (jget ''Target'' result) ''result Target'') (\<lambda>target.
     bindE (required_text (jget ''Class'' result) ''result Class'') (\<lambda>result_class.
     bindE (required_text (jget ''Type'' result) ''result Type'') (\<lambda>result_type.
     bindE (if result_class = ''os-pkgs'' then os_target report else Inr target) (\<lambda>stable_target.
     read_vulnerabilities role i result_class result_type stable_target fs (jget ''Vulnerabilities'' result)))))"
| "read_result report role fs (i, _) = report_error (role @ '' result '' @ show_nat i @ '' must be an object'')"

text \<open>\<open>schema_version != 2\<close> compares numbers, so that \<open>2.0\<close> is the same.\<close>

fun is_schema_two :: "json option \<Rightarrow> bool" where
  "is_schema_two (Some (JInt i)) = (i = 2)"
| "is_schema_two (Some (JFloat t)) = (float_value t = Some 2)"
| "is_schema_two _ = False"

definition normalize_findings :: "(string \<times> json) list \<Rightarrow> string \<Rightarrow> py_exc + finding list" where
  "normalize_findings report role =
     (if \<not> is_schema_two (jget ''SchemaVersion'' report) then report_error (role @ '' report does not use Trivy schema version 2'')
      else if jget ''ArtifactType'' report \<noteq> Some (JStr ''container_image'') then report_error (role @ '' report is not a container-image report'')
      else case jget ''Results'' report of
        None \<Rightarrow> report_error (role @ '' report is missing Results'')
      | Some (JArr results) \<Rightarrow>
          if results = [] then report_error (role @ '' report Results must not be empty'')
          else foldE (read_result report role) [] (enumerate 0 results)
      | Some _ \<Rightarrow> report_error (role @ '' report Results must be an array''))"

section \<open>The comparison\<close>

definition severity_order :: "string \<Rightarrow> string" where
  "severity_order s = (if s = ''CRITICAL'' then ''0'' else ''1'')"

definition finding_sort_key :: "finding \<Rightarrow> string list" where
  "finding_sort_key f = (let i = f_identity f in [severity_order (f_severity f), fi_vulnerability i, fi_package i, fi_installed i,
     fi_class i, fi_type i, fi_target i, fi_package_id i, fi_package_path i])"

text \<open>The order of the fields of the data class.\<close>

definition identity_key :: "finding_identity \<Rightarrow> string list" where
  "identity_key i = [fi_class i, fi_type i, fi_target i, fi_vulnerability i, fi_package i, fi_package_id i, fi_package_path i, fi_installed i]"

definition debian_upgrade_scope :: "finding_identity \<Rightarrow> finding_identity option" where
  "debian_upgrade_scope i =
     (if fi_class i \<noteq> ''os-pkgs'' \<or> fi_type i \<noteq> ''debian'' \<or> \<not> startswith ''os:debian/'' (fi_target i) \<or>
         fi_package_id i \<noteq> fi_package i @ ''@'' @ fi_installed i then None
      else Some (i\<lparr> fi_package_id := [], fi_installed := [] \<rparr>))"

text \<open>
  \<open>(?:[0-9]+:)?[0-9][A-Za-z0-9.+:~\-]*\<close>: the optional prefix is within what the rest allows.
\<close>

definition debian_version :: "string \<Rightarrow> bool" where
  "debian_version v \<longleftrightarrow> py_len v \<le> 256 \<and> v \<noteq> [] \<and> is_digit (hd v) \<and>
     list_all (\<lambda>c. is_alnum c \<or> c \<in> {CHR ''.'', CHR ''+'', CHR '':'', CHR ''~'', CHR ''-''}) v"

definition debian_version_increased :: "scan_env \<Rightarrow> string \<Rightarrow> string \<Rightarrow> py_exc + bool" where
  "debian_version_increased S derivative upstream =
     (if \<not> debian_version derivative \<or> \<not> debian_version upstream then report_error ''invalid Debian package version for comparison''
      else case sc_dpkg S derivative upstream of
        DpkgUnavailable \<Rightarrow> report_error ''Debian version comparison is unavailable''
      | DpkgExit status err \<Rightarrow> if status \<notin> {0, 1} \<or> err \<noteq> [] then report_error ''Debian version comparison failed closed'' else Inr (status = 0))"

definition upgrade_candidates :: "finding list \<Rightarrow> finding_identity \<Rightarrow> finding_identity list" where
  "upgrade_candidates fs scope = filter (\<lambda>i. debian_upgrade_scope i = Some scope) (sort_key identity_key (map f_identity fs))"

definition upgrade_scopes :: "finding list \<Rightarrow> finding list \<Rightarrow> finding_identity list" where
  "upgrade_scopes derivative upstream = sort_key identity_key (remdups (filter (\<lambda>s. upgrade_candidates upstream s \<noteq> [])
     (List.map_filter (debian_upgrade_scope \<circ> f_identity) derivative)))"

text \<open>The state of the loop: the upgrades found so far, as pairs of the new and the old finding.\<close>

definition try_upgrade ::
  "scan_env \<Rightarrow> finding list \<Rightarrow> finding list \<Rightarrow> (finding \<times> finding) list \<Rightarrow> finding_identity \<Rightarrow> py_exc + (finding \<times> finding) list" where
  "try_upgrade S derivative upstream found scope = (case (upgrade_candidates derivative scope, upgrade_candidates upstream scope) of
      ([new_key], [old_key]) \<Rightarrow>
        if lookup_finding new_key upstream \<noteq> None \<or> lookup_finding old_key derivative \<noteq> None then Inr found
        else (case (lookup_finding new_key derivative, lookup_finding old_key upstream) of
          (Some new, Some old) \<Rightarrow>
            if (f_severity new, f_fixed new) \<noteq> (f_severity old, f_fixed old) then Inr found
            else bindE (debian_version_increased S (fi_installed new_key) (fi_installed old_key)) (\<lambda>increased.
              Inr (if increased then found @ [(new, old)] else found))
        | _ \<Rightarrow> Inr found)
    | _ \<Rightarrow> Inr found)"

definition compare_findings :: "scan_env \<Rightarrow> finding list \<Rightarrow> finding list \<Rightarrow> py_exc + comparison" where
  "compare_findings S derivative upstream =
     (if list_ex (\<lambda>f. case lookup_finding (f_identity f) upstream of None \<Rightarrow> False | Some g \<Rightarrow> g \<noteq> f) derivative
      then report_error ''shared finding metadata differs between scan reports''
      else bindE (foldE (try_upgrade S derivative upstream) [] (upgrade_scopes derivative upstream)) (\<lambda>found.
        let carried = map fst found; replaced = map snd found;
            shared = (\<lambda>f. lookup_finding (f_identity f) upstream \<noteq> None)
        in Inr \<lparr> c_introduced = sort_key finding_sort_key (filter (\<lambda>f. \<not> shared f \<and> f \<notin> set carried) derivative),
             c_inherited = sort_key finding_sort_key (filter (\<lambda>f. shared f \<or> f \<in> set carried) derivative),
             c_removed = sort_key finding_sort_key (filter (\<lambda>f. lookup_finding (f_identity f) derivative = None \<and> f \<notin> set replaced) upstream),
             c_accepted = [],
             c_upgrades = map (\<lambda>(new, old). \<lparr> pu_upstream = old, pu_derivative = new \<rparr>) found \<rparr>))"

definition compare_reports :: "scan_env \<Rightarrow> (string \<times> json) list \<Rightarrow> (string \<times> json) list \<Rightarrow> py_exc + comparison" where
  "compare_reports S derivative_report upstream_report =
     bindE (normalize_findings derivative_report ''derivative'') (\<lambda>derivative.
     bindE (normalize_findings upstream_report ''upstream'') (\<lambda>upstream.
     compare_findings S derivative upstream))"

section \<open>Reviewed exceptions\<close>

fun exact_report_fields :: "json \<Rightarrow> string list \<Rightarrow> string \<Rightarrow> py_exc + (string \<times> json) list" where
  "exact_report_fields (JObj ps) expected description =
     (if has_fields expected ps then Inr ps else report_error (description @ '' has missing or unexpected fields''))"
| "exact_report_fields _ expected description = report_error (description @ '' has missing or unexpected fields'')"

fun review_text :: "json \<Rightarrow> string \<Rightarrow> bool \<Rightarrow> py_exc + string" where
  "review_text (JStr s) description may_be_empty =
     (if py_len s > 2048 \<or> s \<noteq> str_strip s \<or> (\<not> may_be_empty \<and> s = []) \<or> list_ex is_control s
      then report_error (description @ '' must be bounded plain text'') else Inr s)"
| "review_text _ description may_be_empty = report_error (description @ '' must be bounded plain text'')"

text \<open>The ordinal of a date of the proleptic Gregorian calendar, where there is such a date.\<close>

definition is_leap :: "nat \<Rightarrow> bool" where
  "is_leap y \<longleftrightarrow> y mod 4 = 0 \<and> (y mod 100 \<noteq> 0 \<or> y mod 400 = 0)"

definition ymd2ord :: "nat \<Rightarrow> nat \<Rightarrow> nat \<Rightarrow> nat option" where
  "ymd2ord y m d =
     (if y < 1 \<or> m < 1 \<or> m > 12 then None
      else if d < 1 \<or> d > days_in_month ! m + (if m = 2 \<and> is_leap y then 1 else 0) then None
      else Some ((y - 1) * 365 + (y - 1) div 4 - (y - 1) div 100 + (y - 1) div 400 +
        days_before_month ! m + (if m > 2 \<and> is_leap y then 1 else 0) + d))"

definition date_digits :: "string \<Rightarrow> (nat \<times> nat \<times> nat) option" where
  "date_digits s = (case split_char (CHR ''-'') s of
      [y, m, d] \<Rightarrow> if length y = 4 \<and> length m = 2 \<and> length d = 2 \<and> list_all (list_all is_digit) [y, m, d]
        then Some (read_nat y, read_nat m, read_nat d) else None
    | _ \<Rightarrow> None)"

fun review_date :: "json \<Rightarrow> string \<Rightarrow> py_exc + nat" where
  "review_date (JStr s) description = (case date_digits s of
      None \<Rightarrow> report_error (description @ '' must be a YYYY-MM-DD date'')
    | Some (y, m, d) \<Rightarrow> (case ymd2ord y m d of
        None \<Rightarrow> report_error (description @ '' is not a calendar date'')
      | Some n \<Rightarrow> Inr n))"
| "review_date _ description = report_error (description @ '' must be a YYYY-MM-DD date'')"

text \<open>\<open>[A-Za-z0-9][A-Za-z0-9._:/-]*@sha256:[a-f0-9]{64}\<close> and \<open>linux/[a-z0-9]+(?:/[a-z0-9]+)?\<close>.\<close>

definition pinned_image :: "string \<Rightarrow> bool" where
  "pinned_image s = (case partition_char (CHR ''@'') s of (name, found, digest) \<Rightarrow>
     found \<and> name \<noteq> [] \<and> is_alnum (hd name) \<and>
     list_all (\<lambda>c. is_alnum c \<or> c \<in> {CHR ''.'', CHR ''_'', CHR '':'', CHR ''/'', CHR ''-''}) name \<and>
     startswith ''sha256:'' digest \<and> lhex_string 64 (drop 7 digest))"

definition exact_platform :: "string \<Rightarrow> bool" where
  "exact_platform s = (case split_char (CHR ''/'') s of
      os # parts \<Rightarrow> os = ''linux'' \<and> length parts \<in> {1, 2} \<and>
        list_all (\<lambda>p. p \<noteq> [] \<and> list_all (\<lambda>c. is_lower c \<or> is_digit c) p) parts
    | _ \<Rightarrow> False)"

definition scan_context :: "string \<Rightarrow> string \<Rightarrow> py_exc + unit" where
  "scan_context upstream_image platform =
     (if \<not> pinned_image upstream_image then report_error ''exception context requires a digest-pinned upstream image''
      else if \<not> exact_platform platform then report_error ''exception context requires an exact Linux platform''
      else Inr ())"

definition exception_identifier :: "string \<Rightarrow> bool" where
  "exception_identifier s \<longleftrightarrow> startswith ''EX-'' s \<and> length (drop 3 s) \<in> {1..64} \<and> hd (drop 3 s) \<noteq> CHR ''-'' \<and>
     list_all (\<lambda>c. is_upper c \<or> is_digit c \<or> c = CHR ''-'') (drop 3 s)"

definition valid_link :: "scan_env \<Rightarrow> string \<Rightarrow> bool" where
  "valid_link S url = (case urlsplit url of
      Inl _ \<Rightarrow> False
    | Inr u \<Rightarrow> (isascii (u_netloc u) \<or> sc_netloc_ok S (u_netloc u)) \<and> u_scheme u = ''https'' \<and> u_hostname u \<noteq> [] \<and>
        u_username u = [] \<and> u_password u = [])"

definition exception_texts :: "string list" where
  "exception_texts = [''identifier'', ''upstream_image'', ''platform'', ''owner'', ''reviewed_by'', ''tracking_url'', ''exposure'',
     ''reason'', ''mitigation'']"

definition identity_fields :: "string list" where
  "identity_fields = [''result_class'', ''result_type'', ''target'', ''vulnerability_id'', ''package_name'', ''package_id'',
     ''package_path'', ''installed_version'']"

definition text_of :: "string \<Rightarrow> (string \<times> string) list \<Rightarrow> string" where
  "text_of k ts = (case map_of ts k of None \<Rightarrow> [] | Some t \<Rightarrow> t)"

definition read_identity :: "json \<Rightarrow> py_exc + finding_identity" where
  "read_identity v =
     bindE (exact_report_fields v identity_fields ''exception finding identity'') (\<lambda>ps.
     bindE (mapE (\<lambda>(k, value). bindE (review_text value (''exception finding '' @ k) (k \<in> {''package_id'', ''package_path''}))
         (\<lambda>t. Inr (k, t))) ps) (\<lambda>ts.
     Inr \<lparr> fi_class = text_of ''result_class'' ts, fi_type = text_of ''result_type'' ts, fi_target = text_of ''target'' ts,
       fi_vulnerability = text_of ''vulnerability_id'' ts, fi_package = text_of ''package_name'' ts,
       fi_package_id = text_of ''package_id'' ts, fi_package_path = text_of ''package_path'' ts,
       fi_installed = text_of ''installed_version'' ts \<rparr>))"

definition read_excepted_finding :: "json \<Rightarrow> py_exc + finding" where
  "read_excepted_finding v =
     bindE (exact_report_fields v [''identity'', ''severity'', ''fixed_version''] ''exception finding'') (\<lambda>ps.
     bindE (read_identity (member ''identity'' ps)) (\<lambda>i.
     bindE (review_text (member ''severity'' ps) ''exception severity'' False) (\<lambda>severity.
     if severity \<notin> set BLOCKING_SEVERITIES then report_error ''exceptions apply only to HIGH/CRITICAL findings''
     else bindE (review_text (member ''fixed_version'' ps) ''exception fixed_version'' False) (\<lambda>fixed.
     Inr \<lparr> f_identity = i, f_severity = severity, f_fixed = fixed \<rparr>))))"

definition exception_scope :: "image_exception \<Rightarrow> string \<times> string \<times> finding_identity" where
  "exception_scope x = (x_upstream_image x, x_platform x, f_identity (x_finding x))"

definition read_exception :: "scan_env \<Rightarrow> image_exception list \<Rightarrow> json \<Rightarrow> py_exc + image_exception list" where
  "read_exception S result raw =
     bindE (exact_report_fields raw (exception_texts @ [''finding'', ''reviewed_on'', ''expires_on'']) ''exception'') (\<lambda>entry.
     bindE (mapE (\<lambda>k. bindE (review_text (member k entry) (''exception '' @ k) False) (\<lambda>t. Inr (k, t))) exception_texts) (\<lambda>ts.
     if \<not> exception_identifier (text_of ''identifier'' ts) then report_error ''exception identifier must start with EX- and be unique''
     else
     bindE (scan_context (text_of ''upstream_image'' ts) (text_of ''platform'' ts)) (\<lambda>_.
     if \<not> valid_link S (text_of ''tracking_url'' ts) then report_error ''exception tracking_url must be an HTTPS remediation link''
     else
     bindE (read_excepted_finding (member ''finding'' entry)) (\<lambda>found.
     bindE (review_date (member ''reviewed_on'' entry) ''reviewed_on'') (\<lambda>reviewed_on.
     bindE (review_date (member ''expires_on'' entry) ''expires_on'') (\<lambda>expires_on.
     if reviewed_on > sc_today S \<or> expires_on \<le> sc_today S then report_error ''exception review is in the future or has expired''
     else if \<not> (0 < int expires_on - int reviewed_on \<and> int expires_on - int reviewed_on \<le> MAX_EXCEPTION_DAYS)
     then report_error ''exception lifetime must be between 1 and 90 days''
     else
     let x = \<lparr> x_identifier = text_of ''identifier'' ts, x_upstream_image = text_of ''upstream_image'' ts,
           x_platform = text_of ''platform'' ts, x_finding = found, x_owner = text_of ''owner'' ts,
           x_reviewed_by = text_of ''reviewed_by'' ts, x_reviewed_on = reviewed_on, x_expires_on = expires_on,
           x_tracking_url = text_of ''tracking_url'' ts, x_exposure = text_of ''exposure'' ts, x_reason = text_of ''reason'' ts,
           x_mitigation = text_of ''mitigation'' ts \<rparr>
     in if x_identifier x \<in> set (map x_identifier result) \<or> exception_scope x \<in> set (map exception_scope result)
        then report_error ''duplicate exception identifier or finding scope'' else Inr (result @ [x])))))))"

definition read_registry :: "scan_env \<Rightarrow> (string \<times> json) list \<Rightarrow> py_exc + image_exception list" where
  "read_registry S registry =
     bindE (exact_report_fields (JObj registry) [''schema_version'', ''exceptions''] ''exception registry'') (\<lambda>_.
     if member ''schema_version'' registry \<noteq> JInt 1 then report_error ''unsupported exception registry schema''
     else if \<not> is_arr (member ''exceptions'' registry) \<or> length (elements (member ''exceptions'' registry)) > 256
     then report_error ''exception registry must contain at most 256 entries''
     else bindE (foldE (read_exception S) [] (elements (member ''exceptions'' registry))) (\<lambda>result.
       Inr (sort_key x_identifier result)))"

definition load_exceptions :: "scan_env \<Rightarrow> report_file \<Rightarrow> py_exc + image_exception list" where
  "load_exceptions S F = bindE (load_report F ''exception'' MAX_EXCEPTION_BYTES) (read_registry S)"

definition apply_exceptions :: "comparison \<Rightarrow> image_exception list \<Rightarrow> string \<Rightarrow> string \<Rightarrow> py_exc + comparison" where
  "apply_exceptions c exceptions upstream_image platform =
     bindE (scan_context upstream_image platform) (\<lambda>_.
     Inr (c\<lparr> c_accepted := filter (\<lambda>x. x_upstream_image x = upstream_image \<and> x_platform x = platform \<and>
       x_finding x \<in> set (c_inherited c) \<and> f_fixed (x_finding x) \<noteq> []) exceptions \<rparr>))"

section \<open>The report and the verdict\<close>

definition format_finding :: "finding \<Rightarrow> string" where
  "format_finding f = (let i = f_identity f in ''  '' @ join '' | ''
     ([f_severity f,
       ''vulnerability='' @ dump_string (fi_vulnerability i),
       ''package='' @ dump_string (fi_package i),
       ''installed='' @ dump_string (fi_installed i),
       ''fixed='' @ (if f_fixed f \<noteq> [] then dump_string (f_fixed f) else ''<none>''),
       ''class='' @ dump_string (fi_class i),
       ''type='' @ dump_string (fi_type i),
       ''target='' @ dump_string (fi_target i)] @
      (if fi_package_id i \<noteq> [] then [''package_id='' @ dump_string (fi_package_id i)] else []) @
      (if fi_package_path i \<noteq> [] then [''package_path='' @ dump_string (fi_package_path i)] else [])))"

definition category_lines :: "string \<times> finding list \<Rightarrow> string list" where
  "category_lines hf = (fst hf @ '': '' @ show_nat (length (snd hf))) # map format_finding (snd hf)"

definition upgrade_lines :: "package_upgrade \<Rightarrow> string list" where
  "upgrade_lines u = [format_finding (pu_derivative u),
     ''  previous_upstream_version='' @ dump_string (fi_installed (f_identity (pu_upstream u)))]"

definition exception_lines :: "image_exception \<Rightarrow> string list" where
  "exception_lines x = [format_finding (x_finding x),
     ''  exception='' @ dump_string (x_identifier x) @ '' | owner='' @ dump_string (x_owner x) @
     '' | reviewed_by='' @ dump_string (x_reviewed_by x) @
     '' | expires_on='' @ date_isoformat (days (int (x_expires_on x) - 1)) @
     '' | tracking='' @ dump_string (x_tracking_url x)]"

definition render_comparison :: "comparison \<Rightarrow> string" where
  "render_comparison c = join [CHR 0x0A]
     (concat (map category_lines
        [(''Introduced derivative-only HIGH/CRITICAL findings'', c_introduced c),
         (''Inherited HIGH/CRITICAL findings requiring impact review'', c_inherited c),
         (''Unexcepted fixable inherited HIGH/CRITICAL findings'', unexcepted_fixable c),
         (''Removed upstream-only HIGH/CRITICAL findings'', c_removed c)]) @
      (''Inherited Debian findings carried through package upgrades: '' @ show_nat (length (c_upgrades c))) #
      concat (map upgrade_lines (c_upgrades c)) @
      (''Reviewed inherited finding exceptions applied: '' @ show_nat (length (c_accepted c))) #
      concat (map exception_lines (c_accepted c)) @
      [if blocked c then ''BLOCKED: introduced or unexcepted fixable inherited HIGH/CRITICAL findings were found.''
       else ''PASS: no introduced or unexcepted fixable inherited HIGH/CRITICAL findings were found.''])"

record scan_request =
  sq_derivative :: report_file
  sq_upstream :: report_file
  sq_exceptions :: "report_file option"
  sq_upstream_image :: string
  sq_platform :: string

definition compare_scans :: "scan_env \<Rightarrow> scan_request \<Rightarrow> py_exc + comparison" where
  "compare_scans S q =
     bindE (load_report (sq_derivative q) ''derivative'' MAX_REPORT_BYTES) (\<lambda>derivative_report.
     bindE (load_report (sq_upstream q) ''upstream'' MAX_REPORT_BYTES) (\<lambda>upstream_report.
     bindE (compare_reports S derivative_report upstream_report) (\<lambda>c.
     case sq_exceptions q of
       None \<Rightarrow> Inr c
     | Some F \<Rightarrow> bindE (load_exceptions S F) (\<lambda>exceptions.
         apply_exceptions c exceptions (sq_upstream_image q) (sq_platform q)))))"

text \<open>The exit status and the line on the standard output or the standard error.\<close>

datatype scan_output = Stdout string | Stderr string

definition scan_main :: "scan_env \<Rightarrow> scan_request \<Rightarrow> py_exc + nat \<times> scan_output" where
  "scan_main S q = (case compare_scans S q of
      Inl (InvalidReportError m) \<Rightarrow> Inr (2, Stderr (''Comparison failed closed: '' @ m))
    | Inl e \<Rightarrow> Inl e
    | Inr c \<Rightarrow> Inr (if blocked c then 1 else 0, Stdout (render_comparison c)))"

section \<open>Every refusal is a report error\<close>

definition fails_closed :: "py_exc + 'a \<Rightarrow> bool" where
  "fails_closed r \<longleftrightarrow> (\<forall>e. r = Inl e \<longrightarrow> (\<exists>m. e = InvalidReportError m))"

named_theorems closed_rules \<open>Operations that raise nothing but a report error\<close>

lemma closed_value [simp, closed_rules]: "fails_closed (Inr x)" "fails_closed (report_error m)"
  by (simp_all add: fails_closed_def)

lemma closed_bind [closed_rules]: "\<lbrakk>fails_closed r; \<And>x. r = Inr x \<Longrightarrow> fails_closed (f x)\<rbrakk> \<Longrightarrow> fails_closed (bindE r f)"
  by (cases r) (auto simp: fails_closed_def bindE_def)

lemma closed_if [closed_rules]: "\<lbrakk>b \<Longrightarrow> fails_closed r; \<not> b \<Longrightarrow> fails_closed r'\<rbrakk> \<Longrightarrow> fails_closed (if b then r else r')"
  by simp

lemma closed_fold: "(\<And>a x. fails_closed (f a x)) \<Longrightarrow> fails_closed (foldE f a xs)"
  by (induction xs arbitrary: a) (auto intro!: closed_rules)

lemma closed_map: "(\<And>x. fails_closed (f x)) \<Longrightarrow> fails_closed (mapE f xs)"
  by (induction xs) (auto intro!: closed_rules)

lemma load_report_closed [closed_rules]: "fails_closed (load_report F role maximum)"
  unfolding load_report_def
  by (auto split: sum.splits json.splits py_exc.splits intro!: closed_rules simp: catchE_def)

lemma required_text_closed [closed_rules]: "fails_closed (required_text v d)"
  by (cases "(v, d)" rule: required_text.cases) simp_all

lemma optional_text_closed [closed_rules]: "fails_closed (optional_text v d)"
  by (cases "(v, d)" rule: optional_text.cases) simp_all

lemma review_text_closed [closed_rules]: "fails_closed (review_text v d b)"
  by (cases v) simp_all

lemma exact_report_fields_closed [closed_rules]: "fails_closed (exact_report_fields v fs d)"
  by (cases v) simp_all

lemma review_date_closed [closed_rules]: "fails_closed (review_date v d)"
  by (cases v) (auto split: option.splits)

lemma scan_context_closed [closed_rules]: "fails_closed (scan_context i p)"
  by (simp add: scan_context_def)

lemma os_target_closed [closed_rules]: "fails_closed (os_target report)"
  unfolding os_target_def by (auto split: option.splits json.splits intro!: closed_rules)

lemma read_finding_closed [closed_rules]: "fails_closed (read_finding role c t g ps)"
  unfolding read_finding_def by (intro closed_rules)

lemma add_finding_closed [closed_rules]: "fails_closed (add_finding role fs f)"
  by (simp add: add_finding_def split: option.splits)

lemma read_vulnerability_closed: "fails_closed (read_vulnerability role i c t g fs jv)"
  by (cases jv; cases "snd jv") (auto intro!: closed_rules)

lemma read_vulnerabilities_closed [closed_rules]: "fails_closed (read_vulnerabilities role i c t g fs v)"
  by (cases "(role, i, c, t, g, fs, v)" rule: read_vulnerabilities.cases) (auto intro: closed_fold read_vulnerability_closed)

lemma read_result_closed: "fails_closed (read_result report role fs ir)"
  by (cases "(report, role, fs, ir)" rule: read_result.cases) (auto intro!: closed_rules)

lemma normalize_closed [closed_rules]: "fails_closed (normalize_findings report role)"
  unfolding normalize_findings_def
  by (auto split: json.splits option.splits intro!: closed_fold read_result_closed)

lemma version_closed [closed_rules]: "fails_closed (debian_version_increased S d u)"
  by (simp add: debian_version_increased_def split: dpkg_answer.splits)

lemma try_upgrade_closed: "fails_closed (try_upgrade S derivative upstream found scope)"
  unfolding try_upgrade_def
  by (auto split: list.splits option.splits intro!: closed_rules)

lemma compare_closed [closed_rules]: "fails_closed (compare_reports S d u)"
  unfolding compare_reports_def compare_findings_def Let_def
  by (auto intro!: closed_rules closed_fold try_upgrade_closed)

lemma read_identity_closed [closed_rules]: "fails_closed (read_identity v)"
  unfolding read_identity_def by (auto intro!: closed_rules closed_map split: prod.splits)

lemma read_excepted_finding_closed [closed_rules]: "fails_closed (read_excepted_finding v)"
  unfolding read_excepted_finding_def by (intro closed_rules)

lemma read_exception_closed: "fails_closed (read_exception S result raw)"
  unfolding read_exception_def Let_def by (intro closed_rules closed_map)

lemma load_exceptions_closed [closed_rules]: "fails_closed (load_exceptions S F)"
  unfolding load_exceptions_def read_registry_def by (intro closed_rules closed_fold read_exception_closed)

lemma compare_scans_closed: "fails_closed (compare_scans S q)"
  unfolding compare_scans_def apply_exceptions_def
  by (auto split: option.splits intro!: closed_rules)


section \<open>What a comparison contains\<close>

definition unique_findings :: "finding list \<Rightarrow> bool" where
  "unique_findings fs \<longleftrightarrow> distinct (map f_identity fs) \<and> list_all (\<lambda>f. f_severity f \<in> set BLOCKING_SEVERITIES) fs"

lemma lookup_finding_Some: "lookup_finding i fs = Some f \<Longrightarrow> f \<in> set fs \<and> f_identity f = i"
  by (auto simp: lookup_finding_def find_Some_iff)

lemma lookup_finding_None: "lookup_finding i fs = None \<longleftrightarrow> i \<notin> f_identity ` set fs"
  by (auto simp: lookup_finding_def find_None_iff)

lemma lookup_unique: "\<lbrakk>distinct (map f_identity fs); f \<in> set fs\<rbrakk> \<Longrightarrow> lookup_finding (f_identity f) fs = Some f"
  by (induction fs) (auto simp: lookup_finding_def)

lemma foldE_invariant:
  assumes step: "\<And>a x b. \<lbrakk>P a; f a x = Inr b\<rbrakk> \<Longrightarrow> P b"
  shows "\<lbrakk>foldE f a xs = Inr b; P a\<rbrakk> \<Longrightarrow> P b"
proof (induction xs arbitrary: a)
  case (Cons x xs)
  from Cons.prems(1) obtain a' where "f a x = Inr a'" "foldE f a' xs = Inr b"
    by (cases "f a x") (auto simp: bindE_def)
  with Cons.prems(2) show ?case
    using step by (blast intro: Cons.IH)
qed simp

lemma read_finding_severity: "read_finding role c t g ps = Inr f \<Longrightarrow> f_severity f \<in> set BLOCKING_SEVERITIES"
  by (auto simp: read_finding_def split: if_split_asm)

lemma add_finding_unique:
  "\<lbrakk>unique_findings fs; f_severity f \<in> set BLOCKING_SEVERITIES; add_finding role fs f = Inr gs\<rbrakk> \<Longrightarrow> unique_findings gs"
  by (auto simp: add_finding_def unique_findings_def lookup_finding_None split: option.splits if_split_asm)

lemma read_vulnerability_unique:
  "\<lbrakk>unique_findings fs; read_vulnerability role i c t g fs jv = Inr gs\<rbrakk> \<Longrightarrow> unique_findings gs"
  by (cases jv; cases "snd jv") (auto intro: add_finding_unique dest: read_finding_severity)

lemma read_vulnerabilities_unique:
  "\<lbrakk>unique_findings fs; read_vulnerabilities role i c t g fs v = Inr gs\<rbrakk> \<Longrightarrow> unique_findings gs"
  using foldE_invariant [of unique_findings, OF read_vulnerability_unique]
  by (cases "(role, i, c, t, g, fs, v)" rule: read_vulnerabilities.cases) auto

lemma read_result_unique: "\<lbrakk>unique_findings fs; read_result report role fs ir = Inr gs\<rbrakk> \<Longrightarrow> unique_findings gs"
  by (cases "(report, role, fs, ir)" rule: read_result.cases) (auto intro: read_vulnerabilities_unique)

lemma normalize_unique:
  assumes "normalize_findings report role = Inr fs"
  shows "unique_findings fs"
proof -
  from assms obtain rs where "foldE (read_result report role) [] (enumerate 0 rs) = Inr fs"
    by (auto simp: normalize_findings_def split: if_split_asm json.splits option.splits)
  from foldE_invariant [of unique_findings, OF read_result_unique this] show ?thesis
    by (simp add: unique_findings_def)
qed

text \<open>A finding that a package upgrade carries over from the upstream image.\<close>

definition carried_over :: "scan_env \<Rightarrow> finding \<Rightarrow> finding \<Rightarrow> bool" where
  "carried_over S new old \<longleftrightarrow> debian_upgrade_scope (f_identity new) \<noteq> None \<and>
     debian_upgrade_scope (f_identity new) = debian_upgrade_scope (f_identity old) \<and>
     f_severity new = f_severity old \<and> f_fixed new = f_fixed old \<and>
     sc_dpkg S (fi_installed (f_identity new)) (fi_installed (f_identity old)) = DpkgExit 0 []"

definition upgrade_ok :: "scan_env \<Rightarrow> finding list \<Rightarrow> finding list \<Rightarrow> finding \<times> finding \<Rightarrow> bool" where
  "upgrade_ok S derivative upstream p \<longleftrightarrow> (case p of (new, old) \<Rightarrow> new \<in> set derivative \<and> old \<in> set upstream \<and>
     lookup_finding (f_identity new) upstream = None \<and> lookup_finding (f_identity old) derivative = None \<and> carried_over S new old)"

lemma increased_dpkg: "debian_version_increased S d u = Inr True \<Longrightarrow> sc_dpkg S d u = DpkgExit 0 []"
  by (auto simp: debian_version_increased_def split: if_split_asm dpkg_answer.splits)

lemma candidate_scope: "i \<in> set (upgrade_candidates fs scope) \<Longrightarrow> debian_upgrade_scope i = Some scope"
  by (simp add: upgrade_candidates_def)

lemma try_upgrade_ok:
  assumes "list_all (upgrade_ok S derivative upstream) found" and "try_upgrade S derivative upstream found scope = Inr found'"
  shows "list_all (upgrade_ok S derivative upstream) found'"
proof (cases "found' = found")
  case False
  with assms(2) obtain i j new old where c: "upgrade_candidates derivative scope = [i]" "upgrade_candidates upstream scope = [j]"
    and l: "lookup_finding i upstream = None" "lookup_finding j derivative = None"
      "lookup_finding i derivative = Some new" "lookup_finding j upstream = Some old"
    and same: "f_severity new = f_severity old" "f_fixed new = f_fixed old"
    and inc: "debian_version_increased S (fi_installed i) (fi_installed j) = Inr True" and f: "found' = found @ [(new, old)]"
    unfolding try_upgrade_def
    by (auto split: list.splits option.splits if_split_asm)
  have "debian_upgrade_scope i = Some scope" "debian_upgrade_scope j = Some scope"
    using c candidate_scope [of i derivative scope] candidate_scope [of j upstream scope] by simp_all
  with l same inc have "upgrade_ok S derivative upstream (new, old)"
    by (auto simp: upgrade_ok_def carried_over_def dest!: lookup_finding_Some increased_dpkg)
  with assms(1) f show ?thesis by simp
qed (use assms(1) in simp)

lemma upgrades_ok:
  assumes "foldE (try_upgrade S derivative upstream) [] scopes = Inr found"
  shows "list_all (upgrade_ok S derivative upstream) found"
  by (rule foldE_invariant [of "list_all (upgrade_ok S derivative upstream)", OF try_upgrade_ok assms]) simp_all

lemma three_parts: "B \<subseteq> A \<Longrightarrow> A = {x \<in> A. \<not> P x \<and> x \<notin> B} \<union> {x \<in> A. P x} \<union> B"
  by blast

text \<open>What a comparison is, given the upgrades that it found.\<close>

lemma compare_findings_cases:
  assumes "compare_findings S derivative upstream = Inr c"
  shows "\<exists>found. list_all (upgrade_ok S derivative upstream) found \<and>
    (\<forall>f \<in> set derivative. f_identity f \<in> f_identity ` set upstream \<longrightarrow> f \<in> set upstream) \<and>
    c_introduced c = sort_key finding_sort_key
      (filter (\<lambda>f. \<not> (f_identity f \<in> f_identity ` set upstream \<or> f \<in> fst ` set found)) derivative) \<and>
    c_inherited c = sort_key finding_sort_key
      (filter (\<lambda>f. f_identity f \<in> f_identity ` set upstream \<or> f \<in> fst ` set found) derivative) \<and>
    c_removed c = sort_key finding_sort_key
      (filter (\<lambda>f. f_identity f \<notin> f_identity ` set derivative \<and> f \<notin> snd ` set found) upstream) \<and>
    c_upgrades c = map (\<lambda>(new, old). \<lparr> pu_upstream = old, pu_derivative = new \<rparr>) found \<and> c_accepted c = []"
proof -
  have shared: "\<not> list_ex (\<lambda>f. case lookup_finding (f_identity f) upstream of None \<Rightarrow> False | Some g \<Rightarrow> g \<noteq> f) derivative"
    by (rule notI) (use assms in \<open>simp add: compare_findings_def\<close>)
  from assms obtain found where f: "foldE (try_upgrade S derivative upstream) [] (upgrade_scopes derivative upstream) = Inr found"
    by (cases "foldE (try_upgrade S derivative upstream) [] (upgrade_scopes derivative upstream)")
      (simp_all add: compare_findings_def shared bindE_def)
  note c = assms [unfolded compare_findings_def if_not_P [OF shared] f bindE_simps Let_def sum.inject, symmetric]
  have "f \<in> set upstream" if "f \<in> set derivative" "f_identity f \<in> f_identity ` set upstream" for f
  proof -
    from that(2) obtain g where g: "lookup_finding (f_identity f) upstream = Some g"
      by (cases "lookup_finding (f_identity f) upstream") (simp_all add: lookup_finding_None)
    with that(1) shared have "g = f" by (simp add: list_ex_iff split: option.splits)
    with lookup_finding_Some [OF g] show ?thesis by simp
  qed
  with upgrades_ok [OF f] show ?thesis
    by (intro exI [of _ found]) (simp add: c lookup_finding_None)
qed

lemma accounted_findings:
  assumes "compare_findings S derivative upstream = Inr c"
  shows "mset (c_introduced c) + mset (c_inherited c) = mset derivative"
    and "\<forall>f \<in> set (c_inherited c). f \<in> set upstream \<or> (\<exists>g \<in> set upstream. carried_over S f g)"
    and "set upstream =
      set (c_removed c) \<union> {g \<in> set upstream. f_identity g \<in> f_identity ` set derivative} \<union> pu_upstream ` set (c_upgrades c)"
proof -
  from compare_findings_cases [OF assms] obtain found where
    ok: "\<forall>p \<in> set found. upgrade_ok S derivative upstream p"
    and shared: "\<forall>f \<in> set derivative. f_identity f \<in> f_identity ` set upstream \<longrightarrow> f \<in> set upstream"
    and c: "c_introduced c = sort_key finding_sort_key
        (filter (\<lambda>f. \<not> (f_identity f \<in> f_identity ` set upstream \<or> f \<in> fst ` set found)) derivative)"
      "c_inherited c = sort_key finding_sort_key
        (filter (\<lambda>f. f_identity f \<in> f_identity ` set upstream \<or> f \<in> fst ` set found) derivative)"
      "c_removed c = sort_key finding_sort_key
        (filter (\<lambda>f. f_identity f \<notin> f_identity ` set derivative \<and> f \<notin> snd ` set found) upstream)"
      "c_upgrades c = map (\<lambda>(new, old). \<lparr> pu_upstream = old, pu_derivative = new \<rparr>) found"
    by (auto simp: list_all_iff)
  show "mset (c_introduced c) + mset (c_inherited c) = mset derivative"
    unfolding c mset_sort mset_filter by (simp add: union_filter_mset_complement)
  show "\<forall>f \<in> set (c_inherited c). f \<in> set upstream \<or> (\<exists>g \<in> set upstream. carried_over S f g)"
  proof
    fix f assume "f \<in> set (c_inherited c)"
    then have "f \<in> set derivative" "f_identity f \<in> f_identity ` set upstream \<or> f \<in> fst ` set found"
      by (simp_all add: c)
    then consider "f \<in> set upstream" | old where "(f, old) \<in> set found"
      using shared by (metis imageE prod.collapse)
    then show "f \<in> set upstream \<or> (\<exists>g \<in> set upstream. carried_over S f g)"
      by cases (use ok in \<open>auto simp: upgrade_ok_def\<close>)
  qed
  show "set upstream =
      set (c_removed c) \<union> {g \<in> set upstream. f_identity g \<in> f_identity ` set derivative} \<union> pu_upstream ` set (c_upgrades c)"
  proof -
    have "pu_upstream ` set (c_upgrades c) = snd ` set found"
      by (force simp: c)
    moreover have "snd ` set found \<subseteq> set upstream"
      using ok by (auto simp: upgrade_ok_def)
    ultimately show ?thesis
      using three_parts [of "snd ` set found" "set upstream" "\<lambda>g. f_identity g \<in> f_identity ` set derivative"]
      by (simp only: c set_sort set_filter)
  qed
qed

text \<open>
  C30. Every finding of the derivative image is reported once, as introduced or as inherited; an inherited one is in the upstream
  report, identical, or is carried over by the upgrade of one Debian package: the same vulnerability of the same package
  and distribution, with the same severity and the same fix, and a version that \<open>dpkg\<close> finds greater. Every finding of
  the upstream image is inherited, removed or replaced by such an upgrade.
\<close>

theorem every_finding_is_accounted_for:
  assumes "compare_findings S derivative upstream = Inr c"
  shows "mset (c_introduced c) + mset (c_inherited c) = mset derivative \<and>
    (\<forall>f \<in> set (c_inherited c). f \<in> set upstream \<or> (\<exists>g \<in> set upstream. carried_over S f g)) \<and>
    set upstream = set (c_removed c) \<union> {g \<in> set upstream. f_identity g \<in> f_identity ` set derivative} \<union> pu_upstream ` set (c_upgrades c)"
  using accounted_findings [OF assms] by blast

section \<open>What a passing comparison means\<close>

definition exception_ok :: "scan_env \<Rightarrow> image_exception \<Rightarrow> bool" where
  "exception_ok S x \<longleftrightarrow> x_reviewed_on x \<le> sc_today S \<and> sc_today S < x_expires_on x \<and> x_expires_on x \<le> x_reviewed_on x + 90 \<and>
     pinned_image (x_upstream_image x) \<and> exact_platform (x_platform x) \<and> valid_link S (x_tracking_url x)"

lemma scan_context_ok: "scan_context i p = Inr () \<longleftrightarrow> pinned_image i \<and> exact_platform p"
  by (simp add: scan_context_def)

lemma read_exception_ok:
  "\<lbrakk>list_all (exception_ok S) xs; read_exception S xs raw = Inr ys\<rbrakk> \<Longrightarrow> list_all (exception_ok S) ys"
  by (auto simp: read_exception_def Let_def exception_ok_def scan_context_ok MAX_EXCEPTION_DAYS_def split: if_split_asm)

lemma load_exceptions_ok:
  assumes "load_exceptions S F = Inr xs" "x \<in> set xs"
  shows "exception_ok S x"
proof -
  from assms(1) obtain raws ys where f: "foldE (read_exception S) [] raws = Inr ys" and xs: "xs = sort_key x_identifier ys"
    by (auto simp: load_exceptions_def read_registry_def split: if_split_asm)
  have "list_all (exception_ok S) ys"
    by (rule foldE_invariant [of "list_all (exception_ok S)", OF read_exception_ok f]) simp_all
  with assms(2) xs show ?thesis by (simp add: list_all_iff)
qed

lemma accepted_cases:
  assumes "compare_scans S q = Inr c" "x \<in> set (c_accepted c)"
  shows "\<exists>F xs. sq_exceptions q = Some F \<and> load_exceptions S F = Inr xs \<and> x \<in> set xs \<and>
    x_upstream_image x = sq_upstream_image q \<and> x_platform x = sq_platform q"
  using assms
  by (auto simp: compare_scans_def compare_reports_def apply_exceptions_def split: option.splits dest: compare_findings_cases)

lemma compared_findings:
  assumes "compare_scans S q = Inr c"
  shows "\<exists>d u derivative upstream c'. load_report (sq_derivative q) ''derivative'' MAX_REPORT_BYTES = Inr d \<and>
    load_report (sq_upstream q) ''upstream'' MAX_REPORT_BYTES = Inr u \<and> normalize_findings d ''derivative'' = Inr derivative \<and>
    normalize_findings u ''upstream'' = Inr upstream \<and> compare_findings S derivative upstream = Inr c' \<and>
    c_introduced c = c_introduced c' \<and> c_inherited c = c_inherited c'"
  using assms by (fastforce simp: compare_scans_def compare_reports_def apply_exceptions_def split: option.splits)

text \<open>
  C29. When the comparison ends with the status 0, both reports were read, and every finding of the derivative image is one of the
  upstream image, identical or carried over by a Debian upgrade; and where a fix exists, the registry holds a
  reviewed exception for exactly this finding, this upstream image by its digest and this platform, that was reviewed no later than
  today, has not expired and lasts at most 90 days.
\<close>

theorem passing_scan_is_reviewed:
  assumes "scan_main S q = Inr (0, out)"
  shows "\<exists>d u derivative upstream. load_report (sq_derivative q) ''derivative'' MAX_REPORT_BYTES = Inr d \<and>
    load_report (sq_upstream q) ''upstream'' MAX_REPORT_BYTES = Inr u \<and> normalize_findings d ''derivative'' = Inr derivative \<and>
    normalize_findings u ''upstream'' = Inr upstream \<and>
    (\<forall>f \<in> set derivative. (f \<in> set upstream \<or> (\<exists>g \<in> set upstream. carried_over S f g)) \<and>
      (f_fixed f = [] \<or> (\<exists>F xs x. sq_exceptions q = Some F \<and> load_exceptions S F = Inr xs \<and> x \<in> set xs \<and> x_finding x = f \<and>
        x_upstream_image x = sq_upstream_image q \<and> x_platform x = sq_platform q \<and> exception_ok S x)))"
proof -
  from assms obtain c where c: "compare_scans S q = Inr c" "c_introduced c = []" "unexcepted_fixable c = []"
    by (auto simp: scan_main_def blocked_def split: sum.splits py_exc.splits if_split_asm)
  from compared_findings [OF c(1)] c(2) obtain d u derivative upstream c' where
    r: "load_report (sq_derivative q) ''derivative'' MAX_REPORT_BYTES = Inr d"
      "load_report (sq_upstream q) ''upstream'' MAX_REPORT_BYTES = Inr u" "normalize_findings d ''derivative'' = Inr derivative"
      "normalize_findings u ''upstream'' = Inr upstream"
    and c': "compare_findings S derivative upstream = Inr c'" "c_introduced c' = []" "c_inherited c = c_inherited c'"
    by auto
  note parts = accounted_findings [OF c'(1)]
  have inherited: "set (c_inherited c) = set derivative"
    using parts(1) c'(2,3) by (metis add.left_neutral mset.simps(1) set_mset_mset)
  have "f_fixed f = [] \<or> (\<exists>F xs x. sq_exceptions q = Some F \<and> load_exceptions S F = Inr xs \<and> x \<in> set xs \<and> x_finding x = f \<and>
      x_upstream_image x = sq_upstream_image q \<and> x_platform x = sq_platform q \<and> exception_ok S x)"
    if f: "f \<in> set derivative" for f
  proof (cases "f_fixed f = []")
    case False
    with f inherited c(3) obtain x where "x \<in> set (c_accepted c)" "x_finding x = f"
      by (auto simp: unexcepted_fixable_def filter_empty_conv)
    with accepted_cases [OF c(1)] load_exceptions_ok show ?thesis by blast
  qed simp
  with r parts(2) inherited c'(3) show ?thesis by auto
qed

end
