(* ===== verification/ScanScenario.thy ===== *)
theory ScanScenario
  imports Vulnerabilities
begin

text \<open>
  A comparison that passes: the derivative image upgrades one Debian package that stays vulnerable, and a reviewed exception covers the
  finding. It is where the theorems on the comparison apply to concrete files.
\<close>

definition derivative_text :: bytes where
  "derivative_text =
     ''{\"SchemaVersion\":2,\"ArtifactType\":\"container_image\",\"Metadata\":{\"OS\":{\"Family\":\"debian\",\"Name\":\"12\"}'' @
     ''},\"Results\":[{\"Target\":\"derived\",\"Class\":\"os-pkgs\",\"Type\":\"debian\",\"Vulnerabilities\":[{\"Vulnerabilit'' @
     ''yID\":\"CVE-1\",\"PkgName\":\"zlib\",\"PkgID\":\"zlib@1.3\",\"InstalledVersion\":\"1.3\",\"FixedVersion\":\"1.4\",\"Seve'' @
     ''rity\":\"HIGH\"}]}]}''"

definition upstream_text :: bytes where
  "upstream_text =
     ''{\"SchemaVersion\":2,\"ArtifactType\":\"container_image\",\"Metadata\":{\"OS\":{\"Family\":\"debian\",\"Name\":\"12\"}'' @
     ''},\"Results\":[{\"Target\":\"img\",\"Class\":\"os-pkgs\",\"Type\":\"debian\",\"Vulnerabilities\":[{\"VulnerabilityID\"'' @
     '':\"CVE-1\",\"PkgName\":\"zlib\",\"PkgID\":\"zlib@1.2\",\"InstalledVersion\":\"1.2\",\"FixedVersion\":\"1.4\",\"Severity'' @
     ''\":\"HIGH\"}]}]}''"

definition registry_text :: bytes where
  "registry_text =
     ''{\"schema_version\":1,\"exceptions\":[{\"identifier\":\"EX-1\",\"upstream_image\":\"img@sha256:'' @
     replicate 64 (CHR ''a'') @
     ''\",\"platform\":\"linux/amd64\",\"finding\":{\"identity\":{\"result_class\":\"os-pkgs\",\"result_type\":\"debian\",\"t'' @
     ''arget\":\"os:debian/12\",\"vulnerability_id\":\"CVE-1\",\"package_name\":\"zlib\",\"package_id\":\"zlib@1.3\",\"pack'' @
     ''age_path\":\"\",\"installed_version\":\"1.3\"},\"severity\":\"HIGH\",\"fixed_version\":\"1.4\"},\"owner\":\"ops\",\"revi'' @
     ''ewed_by\":\"ops\",\"reviewed_on\":\"2024-02-29\",\"expires_on\":\"2024-05-01\",\"tracking_url\":\"https://x.y/1\",\"'' @
     ''exposure\":\"low\",\"reason\":\"r\",\"mitigation\":\"m\"}]}''"

definition example_image :: string where
  "example_image = ''img@sha256:'' @ replicate 64 (CHR ''a'')"

definition report_of :: "bytes \<Rightarrow> report_file" where
  "report_of b = \<lparr> rf_size = Inr (length b), rf_data = Inr b \<rparr>"

definition example_scan :: scan_env where
  "example_scan = \<lparr> sc_dpkg = (\<lambda>new old. DpkgExit (if (new, old) = (''1.3'', ''1.2'') then 0 else 1) []), sc_netloc_ok = (\<lambda>_. False),
     sc_today = 738955 \<rparr>"

definition example_request :: scan_request where
  "example_request = \<lparr> sq_derivative = report_of derivative_text, sq_upstream = report_of upstream_text,
     sq_exceptions = Some (report_of registry_text), sq_upstream_image = example_image,
     sq_platform = ''linux/amd64'' \<rparr>"

definition zlib_finding :: "string \<Rightarrow> finding" where
  "zlib_finding v = \<lparr> f_identity = \<lparr> fi_class = ''os-pkgs'', fi_type = ''debian'', fi_target = ''os:debian/12'', fi_vulnerability = ''CVE-1'',
     fi_package = ''zlib'', fi_package_id = ''zlib@'' @ v, fi_package_path = [], fi_installed = v \<rparr>, f_severity = ''HIGH'', f_fixed = ''1.4'' \<rparr>"

definition example_exception :: image_exception where
  "example_exception = \<lparr> x_identifier = ''EX-1'', x_upstream_image = example_image,
     x_platform = ''linux/amd64'', x_finding = zlib_finding ''1.3'', x_owner = ''ops'', x_reviewed_by = ''ops'', x_reviewed_on = 738945,
     x_expires_on = 739007, x_tracking_url = ''https://x.y/1'', x_exposure = ''low'', x_reason = ''r'', x_mitigation = ''m'' \<rparr>"

definition example_comparison :: comparison where
  "example_comparison = \<lparr> c_introduced = [], c_inherited = [zlib_finding ''1.3''], c_removed = [], c_accepted = [],
     c_upgrades = [\<lparr> pu_upstream = zlib_finding ''1.2'', pu_derivative = zlib_finding ''1.3'' \<rparr>] \<rparr>"

lemma derivative_read:
  "bindE (load_report (report_of derivative_text) ''derivative'' MAX_REPORT_BYTES) (\<lambda>r. normalize_findings r ''derivative'') =
     Inr [zlib_finding ''1.3'']"
  by code_simp

lemma upstream_read:
  "bindE (load_report (report_of upstream_text) ''upstream'' MAX_REPORT_BYTES) (\<lambda>r. normalize_findings r ''upstream'') =
     Inr [zlib_finding ''1.2'']"
  by code_simp

lemma registry_read: "load_exceptions example_scan (report_of registry_text) = Inr [example_exception]"
  by code_simp

lemma example_findings_compared:
  "compare_findings example_scan [zlib_finding ''1.3''] [zlib_finding ''1.2''] = Inr example_comparison"
  by code_simp

lemma example_exception_applied:
  "apply_exceptions example_comparison [example_exception] example_image ''linux/amd64'' =
     Inr (example_comparison\<lparr> c_accepted := [example_exception] \<rparr>)"
  by code_simp

lemma example_passes: "\<not> blocked (example_comparison\<lparr> c_accepted := [example_exception] \<rparr>)"
  by code_simp

lemma example_compared: "compare_scans example_scan example_request = Inr (example_comparison\<lparr> c_accepted := [example_exception] \<rparr>)"
proof -
  obtain d where d: "load_report (report_of derivative_text) ''derivative'' MAX_REPORT_BYTES = Inr d"
      "normalize_findings d ''derivative'' = Inr [zlib_finding ''1.3'']"
    using derivative_read by auto
  obtain u where u: "load_report (report_of upstream_text) ''upstream'' MAX_REPORT_BYTES = Inr u"
      "normalize_findings u ''upstream'' = Inr [zlib_finding ''1.2'']"
    using upstream_read by auto
  show ?thesis
    by (simp add: compare_scans_def example_request_def compare_reports_def d u registry_read example_findings_compared
        example_exception_applied)
qed

theorem accounted_witness:
  "mset (c_introduced example_comparison) + mset (c_inherited example_comparison) = mset [zlib_finding ''1.3''] \<and>
   carried_over example_scan (zlib_finding ''1.3'') (zlib_finding ''1.2'')"
  using every_finding_is_accounted_for [OF example_findings_compared]
  by (auto simp: example_comparison_def zlib_finding_def)

theorem passing_scan_witness:
  "exception_ok example_scan example_exception \<and> carried_over example_scan (zlib_finding ''1.3'') (zlib_finding ''1.2'')"
proof -
  have "scan_main example_scan example_request =
      Inr (0, Stdout (render_comparison (example_comparison\<lparr> c_accepted := [example_exception] \<rparr>)))"
    by (simp add: scan_main_def example_compared example_passes)
  from passing_scan_is_reviewed [OF this] show ?thesis
    using derivative_read upstream_read registry_read
    by (auto simp: example_request_def zlib_finding_def)
qed

end
