(* ===== verification/ReleaseGate.thy ===== *)
theory ReleaseGate
  imports RenewalPolicy
begin

text \<open>
  The two aggregate checks of the workflows: \<open>scripts/ci_policy.py\<close>, which decides from the changed paths whether the container jobs
  must run and from the job results whether a pull request passes, and \<open>scripts/release_qualification.py\<close>, which asks the same
  of a release. An environment variable is given by its bytes; the encoding of a text that was not UTF-8 raises. The exit status
  comes with the printed lines.
\<close>

section \<open>Changed paths\<close>

definition MAX_INPUT :: nat where "MAX_INPUT = 8 * 1024 * 1024"

definition REQUIRED_JOBS :: "string list" where
  "REQUIRED_JOBS = [''changes'', ''actions'', ''markdown'', ''python_lint'', ''python_tests'', ''security'']"

definition DOC_FILES :: "string list" where
  "DOC_FILES = [''README.md'', ''CONTRIBUTING.md'', ''CHANGELOG.md'']"

abbreviation ci_error :: "string \<Rightarrow> py_exc + 'a" where
  "ci_error m \<equiv> Inl (CIPolicyError m)"

fun pairs_of :: "'a list \<Rightarrow> ('a \<times> 'a) list" where
  "pairs_of (x # y # xs) = (x, y) # pairs_of xs"
| "pairs_of _ = []"

definition change_statuses :: "bytes list" where
  "change_statuses = [''A'', ''M'', ''D'', ''T'', ''U'', ''X'', ''B'']"

definition changed_path_ok :: "bytes \<Rightarrow> bool" where
  "changed_path_ok p \<longleftrightarrow> p \<noteq> [] \<and> length p \<le> 4096 \<and> \<not> startswith ''/'' p \<and>
     list_all (\<lambda>part. part \<notin> {[], ''.'', ''..''}) (split_char (CHR ''/'') p) \<and> list_all (\<lambda>c. \<not> is_control c) p"

definition documentation :: "string \<Rightarrow> bool" where
  "documentation p \<longleftrightarrow> p \<in> set DOC_FILES \<or> (startswith ''docs/'' p \<and> endswith ''.md'' p)"

definition change_step :: "bool \<Rightarrow> bytes \<times> bytes \<Rightarrow> py_exc + bool" where
  "change_step required change = (case change of (status, raw_path) \<Rightarrow>
     if status \<notin> set change_statuses then ci_error ''unexpected change status; rename detection must be off''
     else (case decode_utf8 raw_path of
       Inl _ \<Rightarrow> ci_error ''changed path is not UTF-8''
     | Inr path \<Rightarrow>
       if \<not> changed_path_ok path then ci_error ''invalid changed path''
       else Inr (required \<or> status \<notin> {''A'', ''M''} \<or> \<not> documentation path)))"

definition containers_required :: "bytes \<Rightarrow> py_exc + bool" where
  "containers_required changes =
     (if length changes > MAX_INPUT then ci_error ''changed-path input exceeds the limit''
      else if changes = [] then Inr True
      else if \<not> endswith [CHR 0x00] changes then ci_error ''changed-path input is not NUL terminated''
      else let fields = split_char (CHR 0x00) (butlast changes) in
        if length fields mod 2 \<noteq> 0 \<or> length fields > 20000 then ci_error ''invalid changed-path record count''
        else foldE change_step False (pairs_of fields))"

section \<open>Job results\<close>

definition job_record :: "json \<Rightarrow> bool" where
  "job_record job = (case job of
      JObj ps \<Rightarrow> has_fields [''result'', ''outputs''] ps \<and> (case member ''outputs'' ps of JObj _ \<Rightarrow> True | _ \<Rightarrow> False)
    | _ \<Rightarrow> False)"

fun entries :: "json \<Rightarrow> (string \<times> json) list" where
  "entries (JObj ps) = ps"
| "entries _ = []"

definition job_result :: "json \<Rightarrow> json" where
  "job_result job = member ''result'' (entries job)"

definition job_outputs :: "json \<Rightarrow> (string \<times> json) list" where
  "job_outputs job = entries (member ''outputs'' (entries job))"

definition check_job_record :: "string \<times> json \<Rightarrow> py_exc + unit" where
  "check_job_record entry = (if job_record (snd entry) then Inr () else ci_error (''invalid job record: '' @ fst entry))"

definition check_required_job :: "(string \<times> json) list \<Rightarrow> string \<Rightarrow> py_exc + unit" where
  "check_required_job needs name =
     (if job_result (member name needs) \<noteq> JStr ''success'' then ci_error (''required job did not succeed: '' @ name)
      else if name \<noteq> ''changes'' \<and> jget ''passed'' (job_outputs (member name needs)) \<noteq> Some (JStr ''true'')
      then ci_error (''internal checks did not all succeed: '' @ name)
      else Inr ())"

definition check_deployment :: "(string \<times> json) list \<Rightarrow> py_exc + unit" where
  "check_deployment needs = (let relevant = jget ''containers'' (job_outputs (member ''changes'' needs));
       deployment = member ''deployment'' needs in
     if relevant = Some (JStr ''true'')
     then (if job_result deployment \<noteq> JStr ''success'' \<or> jget ''passed'' (job_outputs deployment) \<noteq> Some (JStr ''true'')
       then ci_error ''required container validation did not succeed'' else Inr ())
     else if relevant = Some (JStr ''false'')
     then (if job_result deployment \<noteq> JStr ''skipped'' \<or> job_outputs deployment \<noteq> []
       then ci_error ''unexpected result for inapplicable container validation'' else Inr ())
     else ci_error ''invalid container relevance output'')"

definition validate_gate :: "bytes \<Rightarrow> py_exc + unit" where
  "validate_gate raw = bindE (decode_utf8 raw) (\<lambda>raw.
     if length raw > MAX_INPUT then ci_error ''job results exceed the limit''
     else case loads (CIPolicyError ''duplicate result key'') raw of
       Inl _ \<Rightarrow> ci_error ''invalid job-result JSON''
     | Inr (JObj needs) \<Rightarrow>
         if \<not> has_fields (REQUIRED_JOBS @ [''deployment'']) needs then ci_error ''missing or unexpected required jobs''
         else
         bindE (forE check_job_record needs) (\<lambda>_.
         bindE (forE (check_required_job needs) REQUIRED_JOBS) (\<lambda>_.
         check_deployment needs))
     | Inr _ \<Rightarrow> ci_error ''missing or unexpected required jobs'')"

datatype ci_command = CIChanges "py_exc + bytes" | CIGate bytes

definition ci_check :: "ci_command \<Rightarrow> py_exc + string" where
  "ci_check command = (case command of
      CIChanges source \<Rightarrow> bindE source (\<lambda>content. bindE (containers_required (take (MAX_INPUT + 1) content)) (\<lambda>required.
        Inr (''containers='' @ (if required then ''true'' else ''false''))))
    | CIGate needs \<Rightarrow> bindE (validate_gate needs) (\<lambda>_. Inr ''Every required CI check passed.''))"

definition ci_main :: "ci_command \<Rightarrow> py_exc + nat \<times> string" where
  "ci_main command = (case ci_check command of
      Inl (CIPolicyError m) \<Rightarrow> Inr (1, ''CI policy blocked: '' @ m)
    | Inl e \<Rightarrow> if is_OSError e then Inr (1, ''CI policy blocked: unreadable policy input'') else Inl e
    | Inr line \<Rightarrow> Inr (0, line))"

section \<open>Release qualification\<close>

definition QUALIFICATION_JOBS :: "string list" where
  "QUALIFICATION_JOBS = [''actions'', ''markdown'', ''python_lint'', ''python_tests'', ''security'']"

definition qualified_job :: "json \<Rightarrow> bool" where
  "qualified_job job = (case job of
      JObj ps \<Rightarrow> has_fields [''result'', ''outputs''] ps \<and> member ''result'' ps = JStr ''success'' \<and>
        member ''outputs'' ps = JObj [(''passed'', JStr ''true'')]
    | _ \<Rightarrow> False)"

definition validate_qualification :: "bytes \<Rightarrow> string \<Rightarrow> py_exc + unit" where
  "validate_qualification raw source_sha = bindE (decode_utf8 raw) (\<lambda>raw.
     if length raw > 65536 \<or> \<not> lhex_string 40 source_sha then Inl ValueError
     else bindE (loads ValueError raw) (\<lambda>needs. case needs of
         JObj ps \<Rightarrow> if has_fields QUALIFICATION_JOBS ps \<and> list_all (qualified_job \<circ> snd) ps then Inr () else Inl ValueError
       | _ \<Rightarrow> Inl ValueError))"

definition qualification_main :: "bytes \<Rightarrow> string \<Rightarrow> nat \<times> string list" where
  "qualification_main raw source_sha = (case validate_qualification raw source_sha of
      Inl _ \<Rightarrow> (1, [''Release qualification blocked: incomplete or invalid results.''])
    | Inr _ \<Rightarrow> (0, [''passed=true'', ''source_sha='' @ source_sha]))"

section \<open>Container jobs are skipped for documentation only\<close>

text \<open>The output of \<open>git diff --name-status -z\<close> for a list of changes.\<close>

definition diff_output :: "(bytes \<times> bytes) list \<Rightarrow> bytes" where
  "diff_output changes = concat (map (\<lambda>(status, path). status @ [CHR 0x00] @ path @ [CHR 0x00]) changes)"

definition doc_change :: "bytes \<times> bytes \<Rightarrow> bool" where
  "doc_change change = (case change of (status, path) \<Rightarrow>
     status \<in> {''A'', ''M''} \<and> utf8_valid path \<and> changed_path_ok path \<and> documentation path)"

lemma change_fold: "foldE change_step required changes = Inr False \<longleftrightarrow> \<not> required \<and> list_all doc_change changes"
  by (induction changes arbitrary: required)
    (auto simp: change_step_def doc_change_def decode_utf8_def change_statuses_def split: prod.splits if_split_asm)

lemma join_split: "join [c] (split_char c s) = s"
proof (induction s)
  case (Cons x s)
  then show ?case by (cases "split_char c s" rule: remdups_adj.cases) auto
qed simp

lemma split_char_free: "\<forall>p \<in> set (split_char c s). c \<notin> set p"
  by (induction s) (auto split: list.splits)

lemma split_char_nonempty [simp]: "split_char c s \<noteq> []"
  by (cases s) (auto split: list.splits)

lemma diff_output_pairs: "\<lbrakk>even (length fs); fs \<noteq> []\<rbrakk> \<Longrightarrow> diff_output (pairs_of fs) = join [CHR 0x00] fs @ [CHR 0x00]"
proof (induction fs rule: pairs_of.induct)
  case (1 x y fs)
  then show ?case by (cases fs) (auto simp: diff_output_def)
qed (auto simp: diff_output_def)

lemma pairs_of_length: "even (length fs) \<Longrightarrow> 2 * length (pairs_of fs) = length fs"
  by (induction fs rule: pairs_of.induct) auto

lemma pairs_of_flat: "pairs_of (concat (map (\<lambda>(x, y). [x, y]) ps)) = ps"
  by (induction ps) auto

lemma flat_length: "length (concat (map (\<lambda>(x, y). [x, y]) ps)) = 2 * length ps"
  by (induction ps) auto

lemma nul_not_in_change: "doc_change (s, p) \<Longrightarrow> CHR 0x00 \<notin> set s \<and> CHR 0x00 \<notin> set p"
  by (auto simp: doc_change_def changed_path_ok_def list_all_iff is_control_def ordc_def)

lemma diff_output_fields:
  assumes "list_all doc_change changes" "changes \<noteq> []"
  shows "endswith [CHR 0x00] (diff_output changes)"
    and "pairs_of (split_char (CHR 0x00) (butlast (diff_output changes))) = changes"
    and "length (split_char (CHR 0x00) (butlast (diff_output changes))) = 2 * length changes"
proof -
  let ?fs = "concat (map (\<lambda>(x, y). [x, y]) changes)"
  have fs: "?fs \<noteq> []" using assms(2) by (cases changes) auto
  have d: "diff_output changes = join [CHR 0x00] ?fs @ [CHR 0x00]"
    using diff_output_pairs [of ?fs] fs by (simp add: pairs_of_flat flat_length)
  have no: "CHR 0x00 \<notin> set x" if "x \<in> set ?fs" for x
    using that assms(1) nul_not_in_change by (fastforce simp: list_all_iff)
  have split: "split_char (CHR 0x00) (join [CHR 0x00] ?fs) = ?fs"
    using fs no by (rule split_join)
  show "endswith [CHR 0x00] (diff_output changes)" by (simp add: d endswith_def)
  show "pairs_of (split_char (CHR 0x00) (butlast (diff_output changes))) = changes"
    by (simp add: d split pairs_of_flat)
  show "length (split_char (CHR 0x00) (butlast (diff_output changes))) = 2 * length changes"
    by (simp add: d split flat_length)
qed

lemma endswith_char: "endswith [c] s \<Longrightarrow> s = butlast s @ [c]"
  by (cases s rule: rev_cases) (auto simp: endswith_def)

text \<open>
  C34. The container jobs are declared unnecessary exactly when the change list is the complete output for at least one and at most
  10000 changes, each of them the addition or the modification of a documentation file under a valid path; an empty or
  damaged list, a deletion and any other path never skip them.
\<close>

theorem containers_skipped_iff:
  "containers_required changes = Inr False \<longleftrightarrow> length changes \<le> MAX_INPUT \<and>
     (\<exists>cs. cs \<noteq> [] \<and> length cs \<le> 10000 \<and> changes = diff_output cs \<and> list_all doc_change cs)"
proof
  assume "containers_required changes = Inr False"
  then have *: "length changes \<le> MAX_INPUT" "endswith [CHR 0x00] changes"
      "even (length (split_char (CHR 0x00) (butlast changes)))" "length (split_char (CHR 0x00) (butlast changes)) \<le> 20000"
      "list_all doc_change (pairs_of (split_char (CHR 0x00) (butlast changes)))"
    by (auto simp: containers_required_def Let_def change_fold split: if_split_asm)
  let ?cs = "pairs_of (split_char (CHR 0x00) (butlast changes))"
  have len: "2 * length ?cs = length (split_char (CHR 0x00) (butlast changes))"
    using *(3) by (rule pairs_of_length)
  have "changes = diff_output ?cs"
    using *(2,3) endswith_char by (simp add: diff_output_pairs join_split)
  moreover have "?cs \<noteq> []" using len by (metis length_0_conv mult_0_right split_char_nonempty)
  moreover have "length ?cs \<le> 10000" using len *(4) by linarith
  ultimately show "length changes \<le> MAX_INPUT \<and>
     (\<exists>cs. cs \<noteq> [] \<and> length cs \<le> 10000 \<and> changes = diff_output cs \<and> list_all doc_change cs)"
    using *(1,5) by blast
next
  assume "length changes \<le> MAX_INPUT \<and>
     (\<exists>cs. cs \<noteq> [] \<and> length cs \<le> 10000 \<and> changes = diff_output cs \<and> list_all doc_change cs)"
  then obtain cs where cs: "length changes \<le> MAX_INPUT" "cs \<noteq> []" "length cs \<le> 10000" "changes = diff_output cs"
      "list_all doc_change cs" by blast
  from cs(2,4) have "changes \<noteq> []" by (cases cs) (auto simp: diff_output_def)
  with cs diff_output_fields [OF cs(5,2)] show "containers_required changes = Inr False"
    by (simp add: containers_required_def Let_def change_fold)
qed

section \<open>A passing gate\<close>

definition required_job_ok :: "(string \<times> json) list \<Rightarrow> string \<Rightarrow> bool" where
  "required_job_ok needs name \<longleftrightarrow> (\<exists>job. jget name needs = Some job \<and> job_record job \<and> job_result job = JStr ''success'' \<and>
     (name \<noteq> ''changes'' \<longrightarrow> jget ''passed'' (job_outputs job) = Some (JStr ''true'')))"

definition deployment_ok :: "(string \<times> json) list \<Rightarrow> bool" where
  "deployment_ok needs \<longleftrightarrow> (\<exists>changes deployment. jget ''changes'' needs = Some changes \<and> jget ''deployment'' needs = Some deployment \<and>
     job_record deployment \<and>
     (jget ''containers'' (job_outputs changes) = Some (JStr ''true'') \<and> job_result deployment = JStr ''success'' \<and>
        jget ''passed'' (job_outputs deployment) = Some (JStr ''true'') \<or>
      jget ''containers'' (job_outputs changes) = Some (JStr ''false'') \<and> job_result deployment = JStr ''skipped'' \<and>
        job_outputs deployment = []))"

lemma has_field_member:
  assumes "has_fields fs ps" "f \<in> set fs"
  shows "\<exists>v. jget f ps = Some v \<and> member f ps = v \<and> (f, v) \<in> set ps"
proof -
  have "f \<in> fst ` set ps" using assms by (auto simp: has_fields_def list_all_iff)
  then obtain v where "map_of ps f = Some v" by (metis map_of_eq_None_iff not_Some_eq)
  then show ?thesis by (auto simp: jget_def member_def dest: map_of_SomeD)
qed

lemma check_required_job_ok:
  assumes "has_fields (REQUIRED_JOBS @ [''deployment'']) needs" "\<forall>x \<in> set needs. job_record (snd x)" "name \<in> set REQUIRED_JOBS"
  shows "check_required_job needs name = Inr () \<longleftrightarrow> required_job_ok needs name"
  using has_field_member [OF assms(1), of name] assms(2,3)
  by (auto simp: check_required_job_def required_job_ok_def list_all_iff split: if_split_asm)

lemma check_deployment_ok:
  assumes "has_fields (REQUIRED_JOBS @ [''deployment'']) needs" "\<forall>x \<in> set needs. job_record (snd x)"
  shows "check_deployment needs = Inr () \<longleftrightarrow> deployment_ok needs"
  using has_field_member [OF assms(1), of "''changes''"] has_field_member [OF assms(1), of "''deployment''"] assms(2)
  by (auto simp: check_deployment_def deployment_ok_def list_all_iff REQUIRED_JOBS_def Let_def split: if_split_asm)

text \<open>
  C35. The gate passes exactly when the results are bounded UTF-8 JSON for the seven jobs and no other, each of the six required jobs
  succeeded and confirms its internal checks, and the container validation succeeded where the changes need it and was
  skipped, without outputs, where they do not.
\<close>

theorem gate_passes_iff:
  "validate_gate raw = Inr () \<longleftrightarrow> utf8_valid raw \<and> length raw \<le> MAX_INPUT \<and>
     (\<exists>needs. loads (CIPolicyError ''duplicate result key'') raw = Inr (JObj needs) \<and>
       has_fields (REQUIRED_JOBS @ [''deployment'']) needs \<and> list_all (job_record \<circ> snd) needs \<and>
       list_all (required_job_ok needs) REQUIRED_JOBS \<and> deployment_ok needs)"
  unfolding validate_gate_def decode_utf8_def
  by (cases "loads (CIPolicyError ''duplicate result key'') raw")
    (auto simp: check_job_record_def list_all_iff check_required_job_ok check_deployment_ok split: json.splits if_split_asm)

end
