(* ===== verification/ReleaseTag.thy ===== *)
theory ReleaseTag
  imports ReleaseGate
begin

text \<open>
  The release tag (\<open>scripts/validate_release_tag.py\<close>): the syntax of the tag, and the answers of GitHub on the reference and on the
  annotated tag object. A file is given by what its size and its content are read as.
\<close>

section \<open>The tag\<close>

definition MAX_INPUT_BYTES :: nat where "MAX_INPUT_BYTES = 1024 * 1024"
definition MAX_RELEASE_TAG_CHARS :: nat where "MAX_RELEASE_TAG_CHARS = 128"

abbreviation tag_error :: "string \<Rightarrow> py_exc + 'a" where
  "tag_error m \<equiv> Inl (ReleaseTagValidationError m)"

text \<open>\<open>0|[1-9][0-9]*\<close>, and the whole pattern with the group for the prerelease.\<close>

definition version_number :: "string \<Rightarrow> bool" where
  "version_number s \<longleftrightarrow> s \<noteq> [] \<and> list_all is_digit s \<and> (hd s \<noteq> CHR ''0'' \<or> s = ''0'')"

definition prerelease_suffix :: "string \<Rightarrow> bool" where
  "prerelease_suffix s = (case split_char (CHR ''.'') s of
      [kind, number] \<Rightarrow> kind \<in> {''beta'', ''rc''} \<and> version_number number \<and> number \<noteq> ''0''
    | _ \<Rightarrow> False)"

definition release_tag_match :: "string \<Rightarrow> bool option" where
  "release_tag_match tag =
     (if \<not> startswith ''v'' tag then None
      else case partition_char (CHR ''-'') (tl tag) of (core, found, suffix) \<Rightarrow>
        (case split_char (CHR ''.'') core of
          [major, minor, patch] \<Rightarrow>
            if version_number major \<and> version_number minor \<and> version_number patch \<and> (\<not> found \<or> prerelease_suffix suffix)
            then Some found else None
        | _ \<Rightarrow> None))"

definition validate_release_version :: "string \<Rightarrow> py_exc + bool" where
  "validate_release_version tag_name =
     (if py_len tag_name > MAX_RELEASE_TAG_CHARS then tag_error ''release tag exceeds 128 characters''
      else case release_tag_match tag_name of
        None \<Rightarrow> tag_error ''release tag has unsupported syntax''
      | Some prerelease \<Rightarrow> Inr prerelease)"

section \<open>The answers of GitHub\<close>

record json_file =
  jf_size :: "py_exc + nat"
  jf_data :: "py_exc + bytes"

definition load_json_object :: "json_file \<Rightarrow> string \<Rightarrow> py_exc + (string \<times> json) list" where
  "load_json_object F description = (case jf_size F of
      Inl _ \<Rightarrow> tag_error (description @ '' is not readable'')
    | Inr n \<Rightarrow>
      if n = 0 then tag_error (description @ '' is empty'')
      else if n > MAX_INPUT_BYTES then tag_error (description @ '' exceeds the size limit'')
      else (case jf_data F of
        Inl _ \<Rightarrow> tag_error (description @ '' is not valid UTF-8 JSON'')
      | Inr data \<Rightarrow> (case loads_bytes (ReleaseTagValidationError ''JSON contains a duplicate object key'') data of
          Inl (ReleaseTagValidationError m) \<Rightarrow> tag_error m
        | Inl _ \<Rightarrow> tag_error (description @ '' is not valid UTF-8 JSON'')
        | Inr (JObj ps) \<Rightarrow> Inr ps
        | Inr _ \<Rightarrow> tag_error (description @ '' must be a JSON object''))))"

definition required_object :: "(string \<times> json) list \<Rightarrow> string \<Rightarrow> py_exc + (string \<times> json) list" where
  "required_object container key = (case jget key container of
      Some (JObj ps) \<Rightarrow> Inr ps
    | _ \<Rightarrow> tag_error (key @ '' must be an object''))"

definition required_sha :: "json option \<Rightarrow> string \<Rightarrow> py_exc + string" where
  "required_sha v description = (case v of
      Some (JStr s) \<Rightarrow> if lhex_string 40 s then Inr s else tag_error (description @ '' must be a full commit SHA'')
    | _ \<Rightarrow> tag_error (description @ '' must be a full commit SHA''))"

definition validate_tag_ref :: "(string \<times> json) list \<Rightarrow> string \<Rightarrow> py_exc + string" where
  "validate_tag_ref ref_document expected_tag =
     bindE (validate_release_version expected_tag) (\<lambda>_.
     if jget ''ref'' ref_document \<noteq> Some (JStr (''refs/tags/'' @ expected_tag))
     then tag_error ''Git tag ref name does not match the release''
     else
     bindE (required_object ref_document ''object'') (\<lambda>target.
     if jget ''type'' target \<noteq> Some (JStr ''tag'') then tag_error ''release ref does not point to an annotated tag''
     else required_sha (jget ''sha'' target) ''annotated tag object SHA''))"

definition validate_tag_object :: "(string \<times> json) list \<Rightarrow> string \<Rightarrow> string \<Rightarrow> py_exc + string" where
  "validate_tag_object tag_document expected_tag tag_sha =
     bindE (validate_release_version expected_tag) (\<lambda>_.
     bindE (required_sha (Some (JStr tag_sha)) ''expected tag object SHA'') (\<lambda>expected_tag_sha.
     if jget ''tag'' tag_document \<noteq> Some (JStr expected_tag) then tag_error ''annotated tag object name does not match the release''
     else if jget ''sha'' tag_document \<noteq> Some (JStr expected_tag_sha)
     then tag_error ''annotated tag object SHA does not match the tag ref''
     else
     bindE (required_object tag_document ''object'') (\<lambda>target.
     if jget ''type'' target \<noteq> Some (JStr ''commit'') then tag_error ''annotated release tag does not point directly to a commit''
     else
     bindE (required_object tag_document ''verification'') (\<lambda>verification.
     if jget ''verified'' verification \<noteq> Some (JBool True) then tag_error ''annotated release tag is not verified''
     else if jget ''reason'' verification \<noteq> Some (JStr ''valid'')
     then tag_error ''annotated release tag verification reason is not valid''
     else required_sha (jget ''sha'' target) ''release commit SHA''))))"

datatype tag_command = TagVersion string | TagRef string json_file | TagObject string string json_file

definition tag_check :: "tag_command \<Rightarrow> py_exc + string" where
  "tag_check command = (case command of
      TagVersion tag \<Rightarrow> bindE (validate_release_version tag) (\<lambda>prerelease. Inr (if prerelease then ''true'' else ''false''))
    | TagRef tag F \<Rightarrow> bindE (load_json_object F ''Git tag ref response'') (\<lambda>document. validate_tag_ref document tag)
    | TagObject tag tag_object_sha F \<Rightarrow> bindE (load_json_object F ''annotated tag response'') (\<lambda>document.
        validate_tag_object document tag tag_object_sha))"

definition tag_main :: "tag_command \<Rightarrow> py_exc + nat \<times> string" where
  "tag_main command = (case tag_check command of
      Inl (ReleaseTagValidationError m) \<Rightarrow> Inr (1, ''Release tag validation failed: '' @ m)
    | Inl e \<Rightarrow> Inl e
    | Inr line \<Rightarrow> Inr (0, line))"

section \<open>The accepted tags are the printed versions\<close>

lemma startswith_split: "startswith p s \<longleftrightarrow> (\<exists>t. s = p @ t)"
  by (metis append_take_drop_id startswith_append startswith_def)

lemma digit_char_of: "is_digit c \<Longrightarrow> char_of (48 + digit_val c) = c \<and> digit_val c < 10"
  by (auto simp: is_digit_def digit_val_def ordc_def)

lemma read_nat_pos: "\<lbrakk>list_all is_digit s; s \<noteq> []; hd s \<noteq> CHR ''0''\<rbrakk> \<Longrightarrow> read_nat s > 0"
proof (induction s rule: rev_induct)
  case (snoc c s)
  show ?case
  proof (cases s)
    case Nil
    with snoc.prems have "is_digit c" "c \<noteq> CHR ''0''" by simp_all
    then have "digit_val c \<noteq> 0"
      using digit_char_of [of c] zero_char(1) by (metis add_0_right)
    with Nil show ?thesis by (simp add: read_nat_def)
  qed (use snoc read_nat_snoc [of s c] in simp)
qed simp

lemma show_read_nat: "version_number s \<Longrightarrow> show_nat (read_nat s) = s"
proof (induction s rule: rev_induct)
  case (snoc c s)
  then have c: "char_of (48 + digit_val c) = c" "digit_val c < 10" using digit_char_of [of c] by (simp_all add: version_number_def)
  show ?case
  proof (cases "s = []")
    case True
    with c show ?thesis by (subst show_nat.simps) (simp add: read_nat_def)
  next
    case False
    with snoc.prems have s: "list_all is_digit s" "hd s \<noteq> CHR ''0''" by (auto simp: version_number_def)
    with False have "read_nat s > 0" by (intro read_nat_pos)
    moreover have "show_nat (read_nat s) = s" using snoc.IH s False by (simp add: version_number_def)
    ultimately show ?thesis using c by (subst show_nat.simps) (simp add: read_nat_snoc)
  qed
qed (simp add: version_number_def)

lemma version_number_show: "version_number (show_nat n)"
proof (cases "n = 0")
  case True
  have "show_nat 0 = ''0''" by (subst show_nat.simps) (simp add: zero_char)
  with True show ?thesis using show_nat_digits [of 0] by (simp add: version_number_def)
qed (use show_nat_digits [of n] show_nat_leading [of n] in \<open>simp add: version_number_def\<close>)

lemma version_number_iff: "version_number s \<longleftrightarrow> (\<exists>n. s = show_nat n)"
  using show_read_nat version_number_show by metis

lemma split_three: "split_char c s = [x, y, z] \<longleftrightarrow> s = x @ c # y @ c # z \<and> c \<notin> set x \<and> c \<notin> set y \<and> c \<notin> set z"
proof
  assume a: "split_char c s = [x, y, z]"
  then have "s = x @ c # y @ c # z" using join_split [of c s] by simp
  moreover have "\<forall>p \<in> set (split_char c s). c \<notin> set p" by (rule split_char_free)
  ultimately show "s = x @ c # y @ c # z \<and> c \<notin> set x \<and> c \<notin> set y \<and> c \<notin> set z" using a by simp
qed (simp add: split_char_join)

lemma split_two: "split_char c s = [x, y] \<longleftrightarrow> s = x @ c # y \<and> c \<notin> set x \<and> c \<notin> set y"
proof
  assume a: "split_char c s = [x, y]"
  then have "s = x @ c # y" using join_split [of c s] by simp
  moreover have "\<forall>p \<in> set (split_char c s). c \<notin> set p" by (rule split_char_free)
  ultimately show "s = x @ c # y \<and> c \<notin> set x \<and> c \<notin> set y" using a by simp
qed (simp add: split_char_join)

text \<open>The text of a version.\<close>

definition version_text :: "nat \<Rightarrow> nat \<Rightarrow> nat \<Rightarrow> string" where
  "version_text major minor patch = show_nat major @ ''.'' @ show_nat minor @ ''.'' @ show_nat patch"

definition version_suffix :: "(string \<times> nat) option \<Rightarrow> string" where
  "version_suffix p = (case p of None \<Rightarrow> [] | Some (kind, number) \<Rightarrow> ''-'' @ kind @ ''.'' @ show_nat number)"

definition prerelease_ok :: "(string \<times> nat) option \<Rightarrow> bool" where
  "prerelease_ok p = (case p of None \<Rightarrow> True | Some (kind, number) \<Rightarrow> kind \<in> {''beta'', ''rc''} \<and> number > 0)"

lemma show_nat_zero: "show_nat n = ''0'' \<longleftrightarrow> n = 0"
proof
  assume "n = 0"
  then show "show_nat n = ''0''" by (subst show_nat.simps) (simp add: zero_char)
qed (use show_nat_leading [of n] in simp)

lemma number_free: "\<not> is_digit c \<Longrightarrow> version_number s \<Longrightarrow> c \<notin> set s"
  by (auto simp: version_number_def list_all_iff)

lemma separators [simp]: "\<not> is_digit (CHR ''.'')" "\<not> is_digit (CHR ''-'')"
  by code_simp+

lemma prerelease_suffix_iff:
  "prerelease_suffix s \<longleftrightarrow> (\<exists>kind n. kind \<in> {''beta'', ''rc''} \<and> n > 0 \<and> s = kind @ ''.'' @ show_nat n)"
proof -
  have "prerelease_suffix s \<longleftrightarrow> (\<exists>kind number. split_char (CHR ''.'') s = [kind, number] \<and>
      kind \<in> {''beta'', ''rc''} \<and> version_number number \<and> number \<noteq> ''0'')"
    by (auto simp: prerelease_suffix_def split: list.splits)
  also have "\<dots> \<longleftrightarrow> (\<exists>kind n. split_char (CHR ''.'') s = [kind, show_nat n] \<and> kind \<in> {''beta'', ''rc''} \<and> n > 0)"
    by (metis neq0_conv show_nat_zero version_number_iff)
  also have "\<dots> \<longleftrightarrow> (\<exists>kind n. kind \<in> {''beta'', ''rc''} \<and> n > 0 \<and> s = kind @ ''.'' @ show_nat n)"
    unfolding split_two by (intro iff_exI) (auto simp: show_nat_no)
  finally show ?thesis .
qed

lemma core_iff:
  "(\<exists>x y z. split_char (CHR ''.'') s = [x, y, z] \<and> version_number x \<and> version_number y \<and> version_number z) \<longleftrightarrow>
   (\<exists>a b c. s = version_text a b c)"
  (is "?numbers = ?version")
proof
  assume ?numbers
  then show ?version unfolding split_three version_number_iff version_text_def by auto
next
  assume ?version
  then obtain a b c where "s = version_text a b c" by blast
  then have "split_char (CHR ''.'') s = [show_nat a, show_nat b, show_nat c]"
    unfolding split_three version_text_def by (simp add: show_nat_no)
  then show ?numbers using version_number_show by blast
qed

lemma version_text_free: "CHR ''-'' \<notin> set (version_text a b c)"
  by (simp add: version_text_def show_nat_no)

lemma partition_char_none: "partition_char c s = (h, False, t) \<Longrightarrow> h = s"
  by (induction s arbitrary: h) (auto split: prod.splits if_split_asm)

lemma release_tag_match_cases:
  "release_tag_match tag = Some pre \<longleftrightarrow> (\<exists>core found suffix. startswith ''v'' tag \<and>
     partition_char (CHR ''-'') (tl tag) = (core, found, suffix) \<and> pre = found \<and> (\<not> found \<or> prerelease_suffix suffix) \<and>
     (\<exists>x y z. split_char (CHR ''.'') core = [x, y, z] \<and> version_number x \<and> version_number y \<and> version_number z))"
  by (auto simp: release_tag_match_def split: prod.splits list.splits)

lemma release_tag_match_iff:
  "release_tag_match tag = Some pre \<longleftrightarrow> (\<exists>a b c p. tag = ''v'' @ version_text a b c @ version_suffix p \<and> prerelease_ok p \<and> pre = (p \<noteq> None))"
  (is "_ = ?version")
proof
  assume "release_tag_match tag = Some pre"
  then obtain core suffix a b c where m: "startswith ''v'' tag" "partition_char (CHR ''-'') (tl tag) = (core, pre, suffix)"
      "core = version_text a b c" "\<not> pre \<or> prerelease_suffix suffix"
    unfolding release_tag_match_cases core_iff by blast
  from m(1) have tag: "tag = CHR ''v'' # tl tag" by (cases tag) auto
  show ?version
  proof (cases pre)
    case True
    with m(4) obtain kind n where "kind \<in> {''beta'', ''rc''}" "n > 0" "suffix = kind @ ''.'' @ show_nat n"
      unfolding prerelease_suffix_iff by blast
    moreover from m(2) True have "tl tag = core @ CHR ''-'' # suffix" by (simp add: partition_char_found)
    ultimately show ?thesis using tag m(3) True
      by (intro exI [of _ a] exI [of _ b] exI [of _ c] exI [of _ "Some (kind, n)"]) (simp add: version_suffix_def prerelease_ok_def)
  next
    case False
    with m(2) have "tl tag = core" using partition_char_none by force
    with tag m(3) False show ?thesis
      by (intro exI [of _ a] exI [of _ b] exI [of _ c] exI [of _ None]) (simp add: version_suffix_def prerelease_ok_def)
  qed
next
  assume ?version
  then obtain a b c p where v: "tag = ''v'' @ version_text a b c @ version_suffix p" "prerelease_ok p" "pre = (p \<noteq> None)" by blast
  have core: "\<exists>x y z. split_char (CHR ''.'') (version_text a b c) = [x, y, z] \<and> version_number x \<and> version_number y \<and> version_number z"
    unfolding core_iff by blast
  show "release_tag_match tag = Some pre"
  proof (cases p)
    case None
    with v core show ?thesis unfolding release_tag_match_cases
      by (auto simp: version_suffix_def partition_char_no_sep version_text_free)
  next
    case (Some q)
    obtain kind n where q: "q = (kind, n)" by (cases q)
    with Some v(1) have "partition_char (CHR ''-'') (tl tag) = (version_text a b c, True, kind @ ''.'' @ show_nat n)"
      by (simp add: version_suffix_def partition_char_found version_text_free)
    moreover have "prerelease_suffix (kind @ ''.'' @ show_nat n)"
      using v(2) Some q unfolding prerelease_suffix_iff prerelease_ok_def by auto
    ultimately show ?thesis using core v Some unfolding release_tag_match_cases by auto
  qed
qed

lemma version_ascii: "isascii (''v'' @ version_text a b c @ version_suffix p) \<or> \<not> prerelease_ok p"
proof -
  have "isascii (show_nat n)" for n
    using show_nat_digits [of n] by (auto simp: isascii_def list_all_iff is_digit_def is_ascii_def)
  then show ?thesis
    by (auto simp: isascii_def version_text_def version_suffix_def prerelease_ok_def is_ascii_def ordc_def split: option.splits)
qed

text \<open>
  C33. The accepted release tags are exactly the versions \<open>v<major>.<minor>.<patch>\<close>, with an optional \<open>-beta.<n>\<close> or
  \<open>-rc.<n>\<close> for a positive \<open>n\<close>, written in decimal without leading zeros and at most 128 characters long; the answer
  says whether there is a suffix.
\<close>

theorem release_tags_are_the_printed_versions:
  "validate_release_version tag = Inr pre \<longleftrightarrow> length tag \<le> 128 \<and>
     (\<exists>a b c p. tag = ''v'' @ version_text a b c @ version_suffix p \<and> prerelease_ok p \<and> pre = (p \<noteq> None))"
proof -
  have "py_len tag = length tag" if "release_tag_match tag = Some pre"
    using that version_ascii unfolding release_tag_match_iff by (metis py_len_ascii)
  then show ?thesis
    unfolding release_tag_match_iff [symmetric]
    by (auto simp: validate_release_version_def MAX_RELEASE_TAG_CHARS_def split: option.splits if_split_asm)
qed

end
