(* ===== verification/ReleaseSignature.thy ===== *)
theory ReleaseSignature
  imports ReleaseTag
begin

text \<open>
  The authentication of a release tag (\<open>scripts/verify_release_signature.py\<close>): the raw tag object is bound to its identity, split
  into payload and signature, and GnuPG must report exactly one good signature of the approved key. The hash of Git, the reviewed key
  file and GnuPG are parameters; an exception of the temporary directory belongs to the call of GnuPG that follows it.
\<close>

section \<open>Text\<close>

text \<open>\<open>raw.split(sep)\<close>; \<open>raw.count(sep)\<close> is one less than the number of parts.\<close>

function split_sub :: "bytes \<Rightarrow> bytes \<Rightarrow> bytes \<Rightarrow> bytes list" where
  "split_sub sep acc s = (case s of
      [] \<Rightarrow> [rev acc]
    | c # cs \<Rightarrow> if startswith sep s then rev acc # split_sub sep [] (drop (length sep - 1) cs) else split_sub sep (c # acc) cs)"
  by pat_completeness auto
termination
  by (relation "measure (\<lambda>(sep, acc, s). length s)") auto

declare split_sub.simps [simp del]

text \<open>\<open>line.split()\<close>.\<close>

function split_words :: "string \<Rightarrow> string \<Rightarrow> string list" where
  "split_words acc s = (case s of
      [] \<Rightarrow> (if acc = [] then [] else [rev acc])
    | c # cs \<Rightarrow> (case first_match unicode_spaces s of
        None \<Rightarrow> split_words (c # acc) cs
      | Some p \<Rightarrow> (if acc = [] then [] else [rev acc]) @ split_words [] (drop (length p - 1) cs)))"
  by pat_completeness auto
termination
  by (relation "measure (\<lambda>(acc, s). length s)") auto

declare split_words.simps [simp del]

definition removeprefix :: "string \<Rightarrow> string \<Rightarrow> string" where
  "removeprefix p s = (if startswith p s then drop (length p) s else s)"

section \<open>The tag object\<close>

definition APPROVED_PRIMARY :: string where "APPROVED_PRIMARY = ''02EBB31CC0032A86C2C0401A1534542E61DC82D3''"
definition MAX_TAG_BYTES :: nat where "MAX_TAG_BYTES = 1024 * 1024"
definition SIGNATURE_START :: bytes where "SIGNATURE_START = ''-----BEGIN PGP SIGNATURE-----'' @ [CHR 0x0A]"
definition SIGNATURE_END :: bytes where "SIGNATURE_END = ''-----END PGP SIGNATURE-----'' @ [CHR 0x0A]"

definition BAD_STATUS :: "string list" where
  "BAD_STATUS = [''BADSIG'', ''ERRSIG'', ''EXPSIG'', ''EXPKEYSIG'', ''REVKEYSIG'', ''NO_PUBKEY'', ''KEYEXPIRED'', ''KEYREVOKED'',
     ''SIGEXPIRED'', ''FAILURE'', ''ERROR'', ''NODATA'']"

abbreviation signature_error :: "string \<Rightarrow> py_exc + 'a" where
  "signature_error m \<equiv> Inl (SignatureError m)"

record signature_env =
  sg_sha1 :: "bytes \<Rightarrow> string"
  sg_public_key :: "py_exc + bytes"
  sg_import :: "bytes \<Rightarrow> py_exc + int"
  sg_verify :: "bytes \<Rightarrow> bytes \<Rightarrow> bytes \<Rightarrow> py_exc + int \<times> bytes"

definition tag_object_id :: "signature_env \<Rightarrow> bytes \<Rightarrow> string" where
  "tag_object_id G raw = sg_sha1 G (''tag '' @ show_nat (length raw) @ [CHR 0x00] @ raw)"

definition tag_headers_ok :: "bytes \<Rightarrow> bytes \<Rightarrow> string \<Rightarrow> bool" where
  "tag_headers_ok raw tag source_sha = (case split_sub [CHR 0x0A, CHR 0x0A] [] raw of
      headers # _ # _ \<Rightarrow> (case split_char (CHR 0x0A) headers of
          [object_line, type_line, tag_line, tagger_line] \<Rightarrow> object_line = ''object '' @ source_sha \<and> type_line = ''type commit'' \<and>
            tag_line = ''tag '' @ tag \<and> startswith ''tagger '' tagger_line
        | _ \<Rightarrow> False)
    | _ \<Rightarrow> False)"

definition split_tag :: "signature_env \<Rightarrow> bytes \<Rightarrow> bytes \<Rightarrow> string \<Rightarrow> string \<Rightarrow> py_exc + bytes \<times> bytes" where
  "split_tag G raw tag tag_sha source_sha =
     (if \<not> lhex_string 40 tag_sha \<or> \<not> lhex_string 40 source_sha then signature_error ''expected identities must be full Git object IDs''
      else if raw = [] \<or> length raw > MAX_TAG_BYTES then signature_error ''tag object is empty or oversized''
      else if tag_object_id G raw \<noteq> tag_sha then signature_error ''tag bytes do not match the expected object ID''
      else bindE (decode_utf8 tag) (\<lambda>tag.
      if \<not> tag_headers_ok raw tag source_sha then signature_error ''tag headers do not match the release identity''
      else if length (split_sub SIGNATURE_END [] raw) \<noteq> 2 \<or> \<not> endswith SIGNATURE_END raw
      then signature_error ''tag must contain exactly one terminal OpenPGP signature''
      else case split_sub SIGNATURE_START [] raw of
        [payload, signature] \<Rightarrow>
          if \<not> endswith [CHR 0x0A] payload then signature_error ''tag signature is not on a separate line''
          else Inr (payload, SIGNATURE_START @ signature)
      | _ \<Rightarrow> signature_error ''tag must contain exactly one terminal OpenPGP signature''))"

section \<open>The report of GnuPG\<close>

definition upper_hex_string :: "nat \<Rightarrow> string \<Rightarrow> bool" where
  "upper_hex_string n s \<longleftrightarrow> length s = n \<and> list_all (\<lambda>c. is_digit c \<or> c \<in> set ''ABCDEF'') s"

definition status_records :: "string list \<Rightarrow> string list list" where
  "status_records lines = map (\<lambda>line. split_words [] (removeprefix ''[GNUPG:] '' line)) lines"

definition records_of :: "string \<Rightarrow> string list list \<Rightarrow> string list list" where
  "records_of keyword records = filter (\<lambda>r. hd r = keyword) records"

definition approved_record :: "string list \<Rightarrow> bool" where
  "approved_record r \<longleftrightarrow> upper_hex_string 40 (r ! 1) \<and> r ! 10 = APPROVED_PRIMARY \<and> r ! 8 \<in> {''8'', ''9'', ''10''} \<and> r ! 9 = ''00''"

definition approved_signature :: "bytes \<Rightarrow> py_exc + string" where
  "approved_signature status = (case decode_utf8 status of
      Inl _ \<Rightarrow> signature_error ''invalid signature status encoding''
    | Inr report \<Rightarrow>
      let lines = splitlines report; records = status_records lines in
      if \<not> list_all (startswith ''[GNUPG:] '') lines \<or> list_ex (\<lambda>r. r = [] \<or> hd r \<in> set BAD_STATUS) records
      then signature_error ''signature verification reported an error''
      else case records_of ''VALIDSIG'' records of
        [r] \<Rightarrow>
          if length r \<noteq> 11 \<or> length (records_of ''GOODSIG'' records) \<noteq> 1 \<or> length (records_of ''NEWSIG'' records) \<noteq> 1
          then signature_error ''exactly one valid, current signature is required''
          else if \<not> approved_record r then signature_error ''signature is outside the approved signer or algorithm policy''
          else Inr (r ! 10)
      | _ \<Rightarrow> signature_error ''exactly one valid, current signature is required'')"

definition verify_signature :: "signature_env \<Rightarrow> bytes \<Rightarrow> bytes \<Rightarrow> string \<Rightarrow> string \<Rightarrow> py_exc + string" where
  "verify_signature G raw tag tag_sha source_sha =
     bindE (split_tag G raw tag tag_sha source_sha) (\<lambda>(payload, signature).
     bindE (sg_public_key G) (\<lambda>key_file.
     let public_key = take 65537 key_file in
     if length public_key > 65536 \<or> \<not> startswith ''-----BEGIN PGP PUBLIC KEY BLOCK-----'' public_key
     then signature_error ''reviewed public key is missing or invalid''
     else
     bindE (sg_import G public_key) (\<lambda>imported.
     if imported \<noteq> 0 then signature_error ''cannot import reviewed public signing key''
     else
     bindE (sg_verify G public_key payload signature) (\<lambda>(returncode, stdout).
     if returncode \<noteq> 0 then signature_error ''OpenPGP signature verification failed''
     else approved_signature stdout))))"

text \<open>A time-out of GnuPG is the error \<open>TimeoutError\<close> here.\<close>

definition signature_main :: "signature_env \<Rightarrow> bytes \<Rightarrow> string \<Rightarrow> string \<Rightarrow> py_exc + bytes \<Rightarrow> py_exc + nat \<times> string" where
  "signature_main G tag tag_object_sha source_sha tag_object =
     (case bindE tag_object (\<lambda>content. verify_signature G (take (MAX_TAG_BYTES + 1) content) tag tag_object_sha source_sha) of
        Inl (SignatureError m) \<Rightarrow> Inr (1, ''Release signature blocked: '' @ m)
      | Inl e \<Rightarrow> if is_OSError e then Inr (1, ''Release signature blocked: verification unavailable'') else Inl e
      | Inr signer \<Rightarrow> Inr (0, ''Approved release signer: '' @ signer))"

section \<open>What an approved tag is\<close>

lemma split_sub_Cons:
  "split_sub sep acc (c # cs) = (if startswith sep (c # cs)
     then rev acc # split_sub sep [] (drop (length sep) (c # cs)) else split_sub sep (c # acc) cs)"
  if "sep \<noteq> []" for sep
  using that by (subst split_sub.simps) (simp add: drop_Cons')

lemma split_sub_Nil: "split_sub sep acc [] = [rev acc]"
  by (simp add: split_sub.simps)

lemma split_sub_nonempty [simp]: "split_sub sep acc s \<noteq> []"
  by (induction sep acc s rule: split_sub.induct) (subst split_sub.simps, auto split: list.splits)

lemma join_split_sub: "sep \<noteq> [] \<Longrightarrow> join sep (split_sub sep acc s) = rev acc @ s"
proof (induction sep acc s rule: split_sub.induct)
  case (1 sep acc s)
  show ?case
  proof (cases s)
    case (Cons c cs)
    show ?thesis
    proof (cases "startswith sep s")
      case True
      then obtain t where t: "s = sep @ t" by (auto simp: startswith_split)
      let ?rest = "split_sub sep [] (drop (length sep) s)"
      have "drop (length sep - 1) cs = drop (length sep) s" using 1(3) Cons by (cases sep) auto
      then have "join sep ?rest = t" using 1(1) [OF Cons True 1(3)] t by simp
      moreover have "join sep (rev acc # ?rest) = rev acc @ sep @ join sep ?rest" by (cases ?rest) simp_all
      ultimately show ?thesis using True Cons 1(3) t by (simp add: split_sub_Cons)
    next
      case False
      with 1(2) [OF Cons False 1(3)] Cons 1(3) show ?thesis by (simp add: split_sub_Cons)
    qed
  qed (simp add: split_sub_Nil)
qed

lemma split_sub_two: "\<lbrakk>sep \<noteq> []; split_sub sep [] s = [x, y]\<rbrakk> \<Longrightarrow> s = x @ sep @ y"
  using join_split_sub [of sep "[]" s] by simp

lemma split_tag_cases:
  assumes "split_tag G raw tag tag_sha source_sha = Inr (payload, signature)"
  shows "payload @ signature = raw" "tag_object_id G raw = tag_sha" "tag_headers_ok raw tag source_sha"
    "startswith SIGNATURE_START signature" "endswith SIGNATURE_END raw" "lhex_string 40 source_sha"
  using assms split_sub_two [of SIGNATURE_START raw]
  by (auto simp: split_tag_def decode_utf8_def SIGNATURE_START_def split: if_split_asm list.splits)

text \<open>A tag object of a release: its headers name the commit and the tag.\<close>

definition tag_of :: "string \<Rightarrow> bytes \<Rightarrow> bytes \<Rightarrow> bytes \<Rightarrow> bytes" where
  "tag_of source_sha tag tagger rest = ''object '' @ source_sha @ [CHR 0x0A] @ ''type commit'' @ [CHR 0x0A] @ ''tag '' @ tag @ [CHR 0x0A] @
     ''tagger '' @ tagger @ [CHR 0x0A, CHR 0x0A] @ rest"

lemma tag_headers_cases:
  assumes "tag_headers_ok raw tag source_sha"
  shows "\<exists>tagger rest. raw = tag_of source_sha tag tagger rest"
proof -
  from assms obtain headers x xs l where s: "split_sub [CHR 0x0A, CHR 0x0A] [] raw = headers # x # xs"
      "split_char (CHR 0x0A) headers = [''object '' @ source_sha, ''type commit'', ''tag '' @ tag, l]" "startswith ''tagger '' l"
    by (auto simp: tag_headers_ok_def split: list.splits)
  have "raw = headers @ [CHR 0x0A, CHR 0x0A] @ join [CHR 0x0A, CHR 0x0A] (x # xs)"
    using join_split_sub [of "[CHR 0x0A, CHR 0x0A]" "[]" raw] s(1) by simp
  moreover have "headers = join [CHR 0x0A] [''object '' @ source_sha, ''type commit'', ''tag '' @ tag, l]"
    using join_split [of "CHR 0x0A" headers] s(2) by simp
  moreover obtain tagger where "l = ''tagger '' @ tagger" using s(3) by (auto simp: startswith_split)
  ultimately show ?thesis
    by (intro exI [of _ tagger] exI [of _ "join [CHR 0x0A, CHR 0x0A] (x # xs)"]) (simp add: tag_of_def)
qed

text \<open>A report of GnuPG with one signature, good and of the approved key, and no error.\<close>

definition approved_report :: "bytes \<Rightarrow> bool" where
  "approved_report report \<longleftrightarrow> (let records = status_records (splitlines report) in
     list_all (\<lambda>r. r \<noteq> [] \<and> hd r \<notin> set BAD_STATUS) records \<and> (\<exists>r. records_of ''VALIDSIG'' records = [r] \<and> approved_record r) \<and>
     length (records_of ''GOODSIG'' records) = 1)"

lemma approved_signature_cases:
  "approved_signature report = Inr signer \<Longrightarrow> approved_report report \<and> signer = APPROVED_PRIMARY"
  by (auto simp: approved_signature_def approved_report_def decode_utf8_def Let_def list_ex_iff list_all_iff approved_record_def
      split: if_split_asm list.splits)

lemma verify_signature_cases:
  assumes "verify_signature G raw tag tag_sha source_sha = Inr signer"
  shows "\<exists>payload signature key report. split_tag G raw tag tag_sha source_sha = Inr (payload, signature) \<and>
    sg_import G key = Inr 0 \<and> sg_verify G key payload signature = Inr (0, report) \<and> approved_signature report = Inr signer \<and>
    sg_public_key G = Inr key"
  using assms by (auto simp: verify_signature_def Let_def split: if_split_asm) blast

text \<open>
  C32. When the verification ends with the status 0, the tag object has the expected object identity, names exactly the source commit and
  the tag in its headers and ends in its only signature; GnuPG, with nothing but the reviewed key imported, verified that
  signature against the rest of the object, and reported one good signature of the approved primary key and no error.
\<close>

theorem approved_tag_is_authentic:
  assumes "signature_main G tag tag_sha source_sha tag_object = Inr (0, out)"
  shows "\<exists>raw payload signature key report. tag_object = Inr raw \<and> tag_object_id G raw = tag_sha \<and>
    (\<exists>tagger rest. raw = tag_of source_sha tag tagger rest) \<and>
    raw = payload @ signature \<and> startswith SIGNATURE_START signature \<and> endswith SIGNATURE_END raw \<and>
    sg_public_key G = Inr key \<and> sg_import G key = Inr 0 \<and> sg_verify G key payload signature = Inr (0, report) \<and>
    approved_report report \<and> out = ''Approved release signer: '' @ APPROVED_PRIMARY"
proof -
  from assms obtain content signer where c: "tag_object = Inr content"
      "verify_signature G (take (MAX_TAG_BYTES + 1) content) tag tag_sha source_sha = Inr signer"
      "out = ''Approved release signer: '' @ signer"
    by (auto simp: signature_main_def split: sum.splits py_exc.splits if_split_asm)
  let ?raw = "take (MAX_TAG_BYTES + 1) content"
  from verify_signature_cases [OF c(2)] obtain payload signature key report where
    v: "split_tag G ?raw tag tag_sha source_sha = Inr (payload, signature)" "sg_import G key = Inr 0"
      "sg_verify G key payload signature = Inr (0, report)" "approved_signature report = Inr signer" "sg_public_key G = Inr key" by blast
  have "length ?raw \<le> MAX_TAG_BYTES" using v(1) by (auto simp: split_tag_def split: if_split_asm)
  then have "?raw = content" by simp
  then show ?thesis
    using c v split_tag_cases [OF v(1)] tag_headers_cases approved_signature_cases [OF v(4)] by metis
qed

end
