(* ===== verification/ReleaseCandidate.thy ===== *)
theory ReleaseCandidate
  imports ReleaseTag Wire Journal "HOL-Library.Multiset"
begin

text \<open>
  The release candidate (\<open>scripts/release_candidate.py\<close>): a manifest that binds the four artifacts of a build to one workflow
  attempt, and its verification. SHA-256 and the environment are parameters; a directory is the list of its entries. A file is what
  its two \<open>fstat\<close> calls and its content are read as: \<open>cf_stable\<close> says that they agree. Where a document holds both a
  constant such as \<open>NaN\<close> and a later syntax error, the script names the first and the model the second; both refuse it.
\<close>

section \<open>Data\<close>

definition CANDIDATE_FILES :: "(string \<times> nat) list" where
  "CANDIDATE_FILES = [(''renewer.tar'', 16 * 1024 ^ 3), (''unifi.tar'', 16 * 1024 ^ 3), (''unifi-cert-renewer.spdx.json'', 16 * 1024 ^ 2),
     (''unifi-network-application-cert-renewer.spdx.json'', 16 * 1024 ^ 2)]"

definition MANIFEST :: string where "MANIFEST = ''candidate.json''"
definition MANIFEST_LIMIT :: nat where "MANIFEST_LIMIT = 16384"

abbreviation candidate_error :: "string \<Rightarrow> py_exc + 'a" where
  "candidate_error m \<equiv> Inl (CandidateError m)"

record candidate_file =
  cf_open :: "py_exc option"
  cf_regular :: bool
  cf_nlink :: nat
  cf_size :: nat
  cf_data :: "py_exc + bytes"
  cf_stable :: bool

record candidate_dir =
  cd_is_dir :: "py_exc + bool"
  cd_files :: "(string \<times> candidate_file) list"
  cd_write :: "py_exc option"

record candidate_env =
  ce_sha256 :: "bytes \<Rightarrow> string"
  ce_environ :: "string \<Rightarrow> string option"

section \<open>Files\<close>

definition read_file :: "candidate_env \<Rightarrow> candidate_dir \<Rightarrow> string \<Rightarrow> nat \<Rightarrow> py_exc + string \<times> bytes" where
  "read_file G D name limit = (case map_of (cd_files D) name of
      None \<Rightarrow> Inl FileNotFoundError
    | Some F \<Rightarrow> (case cf_open F of
        Some e \<Rightarrow> Inl e
      | None \<Rightarrow>
        if \<not> cf_regular F \<or> cf_nlink F \<noteq> 1 then candidate_error ''candidate entries must be regular unlinked files''
        else if cf_size F = 0 \<or> cf_size F > limit then candidate_error ''candidate file has invalid size''
        else bindE (cf_data F) (\<lambda>data.
          if length data > limit then candidate_error ''candidate file exceeds size limit''
          else if length data \<noteq> cf_size F \<or> \<not> cf_stable F then candidate_error ''candidate file changed during validation''
          else Inr (ce_sha256 G data, if endswith ''.json'' name then data else []))))"

fun has_constant :: "json \<Rightarrow> bool" where
  "has_constant (JFloat t) = (t \<in> {''NaN'', ''Infinity'', ''-Infinity''})"
| "has_constant (JArr vs) = list_ex has_constant vs"
| "has_constant (JObj ps) = list_ex has_constant (map snd ps)"
| "has_constant _ = False"

definition json_object :: "bytes \<Rightarrow> py_exc + (string \<times> json) list" where
  "json_object contents = bindE (loads_bytes (CandidateError ''duplicate JSON key'') contents) (\<lambda>document.
     if has_constant document then candidate_error ''non-JSON numeric constant''
     else case document of JObj ps \<Rightarrow> Inr ps | _ \<Rightarrow> candidate_error ''JSON must be an object'')"

section \<open>The workflow\<close>

definition environ :: "candidate_env \<Rightarrow> string \<Rightarrow> py_exc + string" where
  "environ G name = (case ce_environ G name of None \<Rightarrow> Inl KeyError | Some v \<Rightarrow> Inr v)"

definition repository_name :: "string \<Rightarrow> bool" where
  "repository_name s = (case split_char (CHR ''/'') s of
      [owner, name] \<Rightarrow> list_all (\<lambda>p. p \<noteq> [] \<and> list_all (\<lambda>c. is_alnum c \<or> c \<in> {CHR ''_'', CHR ''.'', CHR ''-''}) p) [owner, name]
    | _ \<Rightarrow> False)"

definition positive_numeral :: "string \<Rightarrow> bool" where
  "positive_numeral s \<longleftrightarrow> version_number s \<and> s \<noteq> ''0''"

definition candidate_context :: "candidate_env \<Rightarrow> py_exc + (string \<times> string) list" where
  "candidate_context G =
     bindE (environ G ''GITHUB_REPOSITORY'') (\<lambda>repository.
     bindE (environ G ''SOURCE_SHA'') (\<lambda>source_sha.
     bindE (environ G ''RELEASE_TAG'') (\<lambda>release_tag.
     bindE (environ G ''GITHUB_RUN_ID'') (\<lambda>run_id.
     bindE (environ G ''GITHUB_RUN_ATTEMPT'') (\<lambda>run_attempt.
     if py_len release_tag > MAX_RELEASE_TAG_CHARS then candidate_error ''invalid expected workflow identity''
     else if list_ex (\<lambda>v. py_len v > 256) [repository, source_sha, release_tag, run_id, run_attempt] \<or>
       \<not> repository_name repository \<or> \<not> lhex_string 40 source_sha \<or> release_tag_match release_tag = None \<or>
       \<not> positive_numeral run_id \<or> \<not> positive_numeral run_attempt
     then candidate_error ''invalid expected workflow identity''
     else Inr [(''repository'', repository), (''source_sha'', source_sha), (''release_tag'', release_tag), (''run_id'', run_id),
       (''run_attempt'', run_attempt)])))))"

definition image_id :: "string \<Rightarrow> bool" where
  "image_id s \<longleftrightarrow> startswith ''sha256:'' s \<and> lhex_string 64 (drop 7 s)"

definition image_ids :: "candidate_env \<Rightarrow> py_exc + (string \<times> string) list" where
  "image_ids G =
     bindE (environ G ''RENEWER_ID'') (\<lambda>renewer.
     bindE (environ G ''UNIFI_ID'') (\<lambda>unifi.
     if \<not> image_id renewer \<or> \<not> image_id unifi then candidate_error ''invalid tested image identity''
     else if renewer = unifi then candidate_error ''release images must have distinct identities''
     else Inr [(''renewer'', renewer), (''unifi'', unifi)]))"

section \<open>Inventory and manifest\<close>

definition check_directory :: "candidate_dir \<Rightarrow> py_exc + unit" where
  "check_directory D = bindE (cd_is_dir D) (\<lambda>d. if d then Inr () else candidate_error ''candidate directory must not be a link'')"

definition inventory_file :: "candidate_env \<Rightarrow> candidate_dir \<Rightarrow> string \<times> nat \<Rightarrow> py_exc + string \<times> string" where
  "inventory_file G D f = (case f of (name, limit) \<Rightarrow>
     bindE (read_file G D name limit) (\<lambda>(digest, contents).
     if endswith ''.json'' name
     then bindE (json_object contents) (\<lambda>sbom.
       if jget ''spdxVersion'' sbom \<noteq> Some (JStr ''SPDX-2.3'') then candidate_error ''candidate SBOM must be SPDX 2.3'' else Inr (name, digest))
     else Inr (name, digest)))"

definition inventory :: "candidate_env \<Rightarrow> candidate_dir \<Rightarrow> bool \<Rightarrow> py_exc + (string \<times> string) list" where
  "inventory G D with_manifest =
     bindE (check_directory D) (\<lambda>_.
     if set (map fst (cd_files D)) \<noteq> set (map fst CANDIDATE_FILES @ (if with_manifest then [MANIFEST] else []))
     then candidate_error ''candidate file inventory differs from the fixed contract''
     else mapE (inventory_file G D) CANDIDATE_FILES)"

text \<open>\<open>json.dumps(value, sort_keys=True, indent=2)\<close> at a level of nesting.\<close>

definition newline_indent :: "nat \<Rightarrow> string" where
  "newline_indent level = CHR 0x0A # replicate (2 * level) (CHR 0x20)"

definition bracketed :: "nat \<Rightarrow> string \<Rightarrow> string \<Rightarrow> string list \<Rightarrow> string" where
  "bracketed level opening closing items = (if items = [] then opening @ closing
     else opening @ newline_indent (level + 1) @ join ('','' @ newline_indent (level + 1)) items @ newline_indent level @ closing)"

fun dumps_indent :: "nat \<Rightarrow> json \<Rightarrow> string" where
  "dumps_indent level (JArr vs) = bracketed level ''['' '']'' (map (dumps_indent (level + 1)) vs)"
| "dumps_indent level (JObj ps) = bracketed level ''{'' ''}'' (map (\<lambda>p. dump_string (fst p) @ '': '' @ snd p)
     (sort_key fst (map (\<lambda>p. (fst p, dumps_indent (level + 1) (snd p))) ps)))"
| "dumps_indent level v = dumps v"

definition text_object :: "(string \<times> string) list \<Rightarrow> json" where
  "text_object ps = JObj (map (\<lambda>(k, v). (k, JStr v)) ps)"

definition candidate_document :: "(string \<times> string) list \<Rightarrow> (string \<times> string) list \<Rightarrow> (string \<times> string) list \<Rightarrow> json" where
  "candidate_document expected ids digests = JObj ([(''schema_version'', JInt 1)] @ map (\<lambda>(k, v). (k, JStr v)) expected @
     [(''image_ids'', text_object ids), (''files'', text_object digests)])"

definition written_file :: "bytes \<Rightarrow> candidate_file" where
  "written_file b = \<lparr> cf_open = None, cf_regular = True, cf_nlink = 1, cf_size = length b, cf_data = Inr b, cf_stable = True \<rparr>"

definition create_candidate :: "candidate_env \<Rightarrow> candidate_dir \<Rightarrow> py_exc + string \<times> candidate_dir" where
  "create_candidate G D =
     bindE (candidate_context G) (\<lambda>expected.
     bindE (image_ids G) (\<lambda>ids.
     bindE (inventory G D False) (\<lambda>digests.
     let contents = dumps_indent 0 (candidate_document expected ids digests) @ [CHR 0x0A] in
     if MANIFEST \<in> set (map fst (cd_files D)) then Inl FileExistsError
     else case cd_write D of
       Some e \<Rightarrow> Inl e
     | None \<Rightarrow> Inr (ce_sha256 G contents, D\<lparr> cd_files := cd_files D @ [(MANIFEST, written_file contents)] \<rparr>))))"

text \<open>Equality of an object of the document with a dictionary of texts.\<close>

definition same_texts :: "json \<Rightarrow> (string \<times> string) list \<Rightarrow> bool" where
  "same_texts v texts = (case v of
      JObj ps \<Rightarrow> has_fields (map fst texts) ps \<and> list_all (\<lambda>(k, t). jget k ps = Some (JStr t)) texts
    | _ \<Rightarrow> False)"

definition verify_candidate :: "candidate_env \<Rightarrow> candidate_dir \<Rightarrow> py_exc + (string \<times> string) list" where
  "verify_candidate G D =
     bindE (candidate_context G) (\<lambda>expected.
     bindE (image_ids G) (\<lambda>ids.
     bindE (environ G ''MANIFEST_SHA256'') (\<lambda>manifest_digest.
     if \<not> lhex_string 64 manifest_digest then candidate_error ''invalid manifest digest''
     else
     bindE (check_directory D) (\<lambda>_.
     bindE (read_file G D MANIFEST MANIFEST_LIMIT) (\<lambda>(digest, contents).
     if digest \<noteq> manifest_digest then candidate_error ''candidate manifest digest mismatch''
     else
     bindE (json_object contents) (\<lambda>document.
     if \<not> has_fields ([''schema_version''] @ map fst expected @ [''image_ids'', ''files'']) document
     then candidate_error ''unexpected manifest fields''
     else if jget ''schema_version'' document \<noteq> Some (JInt 1) then candidate_error ''unsupported candidate schema''
     else if \<not> list_all (\<lambda>(k, v). jget k document = Some (JStr v)) expected
     then candidate_error ''candidate belongs to another workflow identity''
     else if \<not> same_texts (member ''image_ids'' document) ids then candidate_error ''candidate image identity mismatch''
     else
     bindE (inventory G D True) (\<lambda>digests.
     if \<not> same_texts (member ''files'' document) digests then candidate_error ''candidate file digest mismatch''
     else Inr ids)))))))"

text \<open>The printed line of a refusal names the class of the exception.\<close>

datatype candidate_mode = Create | Verify
datatype candidate_output = Rejected py_exc | Digest string | Silent

definition reject_candidate :: "candidate_dir \<Rightarrow> py_exc \<Rightarrow> py_exc + (nat \<times> candidate_output) \<times> candidate_dir" where
  "reject_candidate D e = (if is_OSError e \<or> is_ValueError e \<or> e = KeyError then Inr ((1, Rejected e), D) else Inl e)"

definition candidate_main :: "candidate_env \<Rightarrow> candidate_mode \<Rightarrow> candidate_dir \<Rightarrow> py_exc + (nat \<times> candidate_output) \<times> candidate_dir" where
  "candidate_main G mode D = (case mode of
      Create \<Rightarrow> (case create_candidate G D of
          Inl e \<Rightarrow> reject_candidate D e
        | Inr (digest, D') \<Rightarrow> Inr ((0, Digest digest), D'))
    | Verify \<Rightarrow> (case verify_candidate G D of
          Inl e \<Rightarrow> reject_candidate D e
        | Inr _ \<Rightarrow> Inr ((0, Silent), D)))"

section \<open>What is written with indentation is read back\<close>

text \<open>The objects of a manifest: texts, small numbers and objects of them.\<close>

fun manifest_value :: "json \<Rightarrow> bool" where
  "manifest_value (JStr s) = isascii s"
| "manifest_value (JInt i) = (i = 1)"
| "manifest_value (JObj ps) = (ps \<noteq> [] \<and> distinct (map fst ps) \<and> list_all (\<lambda>p. isascii (fst p)) ps \<and> list_all manifest_value (map snd ps))"
| "manifest_value _ = False"

definition closes :: "string \<Rightarrow> bool" where
  "closes r = (case r of [] \<Rightarrow> True | c # _ \<Rightarrow> c \<in> {CHR '','', CHR 0x0A})"

definition reads_as :: "py_exc \<Rightarrow> string \<Rightarrow> json \<Rightarrow> bool" where
  "reads_as dup t v \<longleftrightarrow> (\<exists>c u. t = c # u \<and> c \<notin> {CHR ''}'', CHR 0x20, CHR 0x09, CHR 0x0A, CHR 0x0D}) \<and>
     (\<forall>n r. closes r \<longrightarrow> 2 * length t < n \<longrightarrow> parse_value dup n (t @ r) = Inr (v, r))"

lemma reads_asD: "\<lbrakk>reads_as dup t v; closes r; 2 * length t < n\<rbrakk> \<Longrightarrow> parse_value dup n (t @ r) = Inr (v, r)"
  by (simp add: reads_as_def)

lemma reads_as_head: "reads_as dup t v \<Longrightarrow> skip_ws (t @ r) = t @ r"
  by (auto simp: reads_as_def)

lemma reads_as_text:
  assumes "isascii s"
  shows "reads_as dup (dump_string s) (JStr s)"
proof -
  have "parse_value dup n (dump_string s @ r) = Inr (JStr s, r)" if n: "2 * length (dump_string s) < n" for n r
  proof -
    obtain m where m: "n = Suc m" using n by (cases n) auto
    have "length s < m" using n m assms length_escapes [of s] by (simp add: dump_string_ascii del: map_map)
    then show ?thesis using m assms parse_string_dump [of s m r] by (simp add: dump_string_ascii del: map_map)
  qed
  then show ?thesis by (simp add: reads_as_def dump_string_def)
qed

lemma reads_as_one: "reads_as dup (dumps (JInt 1)) (JInt 1)"
proof -
  have one: "dumps (JInt 1) = ''1''" by (simp add: show_int_def show_nat.simps)
  have "parse_atom (CHR ''1'' # r) = Inr (JInt 1, r)" if "closes r" for r
    using that
    by (cases r) (auto simp: closes_def parse_atom_def parse_number_def int_part_def take_digits_def fraction_def exponent_def
        is_digit_def ordc_def read_nat_def digit_val_def)
  then show ?thesis
    unfolding reads_as_def one by (auto simp: gr0_conv_Suc dest!: less_imp_Suc_add)
qed

lemma newline_simps [simp]:
  "skip_ws (newline_indent l @ s) = skip_ws s" "closes (newline_indent l @ s)" "closes (CHR '','' # s)"
  "expect (CHR ''}'') (newline_indent l @ CHR ''}'' # r) = Inr r"
proof -
  have *: "skip_ws (newline_indent l @ s) = skip_ws s" for s
    unfolding newline_indent_def by (induction l) simp_all
  show "skip_ws (newline_indent l @ s) = skip_ws s" by (rule *)
  show "expect (CHR ''}'') (newline_indent l @ CHR ''}'' # r) = Inr r" by (simp add: expect_def *)
qed (simp_all add: closes_def newline_indent_def)

definition item_text :: "string \<times> string \<times> json \<Rightarrow> string" where
  "item_text i = (case i of (k, t, v) \<Rightarrow> dump_string k @ '': '' @ t)"

lemma item_head: "item_text i = CHR 0x22 # tl (item_text i)"
  by (cases i) (simp add: item_text_def dump_string_def)

lemma parse_item:
  assumes "isascii k" "reads_as dup t v" "closes r" "2 * length (item_text (k, t, v)) < n"
  shows "parse_string n (tl (item_text (k, t, v)) @ r) = Inr (k, CHR '':'' # CHR 0x20 # t @ r)"
    and "skip_ws (CHR 0x20 # t @ r) = t @ r" and "parse_value dup n (t @ r) = Inr (v, r)"
proof -
  show "parse_string n (tl (item_text (k, t, v)) @ r) = Inr (k, CHR '':'' # CHR 0x20 # t @ r)"
    using assms(1,4) length_escapes [of k] by (simp add: item_text_def dump_string_ascii parse_string_dump del: map_map)
  show "skip_ws (CHR 0x20 # t @ r) = t @ r" using reads_as_head [OF assms(2)] by simp
  show "parse_value dup n (t @ r) = Inr (v, r)" using assms(2-4) by (intro reads_asD) (simp_all add: item_text_def)
qed

lemma parse_members_indent:
  assumes "ms \<noteq> []" "\<forall>(k, t, v) \<in> set ms. isascii k \<and> reads_as dup t v"
    "2 * length (join ('','' @ newline_indent l) (map item_text ms)) + 1 < n"
  shows "parse_members dup n (join ('','' @ newline_indent l) (map item_text ms) @ newline_indent l' @ CHR ''}'' # r) =
    Inr (map (\<lambda>(k, t, v). (k, v)) ms, r)"
  using assms
proof (induction ms arbitrary: n rule: induct_list012)
  case (2 i)
  then obtain m where n: "n = Suc m" by (cases n) auto
  obtain k t v where i: "i = (k, t, v)" by (cases i)
  note facts = parse_item [of k dup t v "newline_indent l' @ CHR ''}'' # r" m]
  show ?case using 2 n i facts item_head [of "(k, t, v)"]
    by (cases "item_text (k, t, v)") auto
next
  case (3 i j ms)
  then obtain m where n: "n = Suc m" by (cases n) auto
  obtain k t v where i: "i = (k, t, v)" by (cases i)
  let ?rest = "join ('','' @ newline_indent l) (map item_text (j # ms)) @ newline_indent l' @ CHR ''}'' # r"
  have len: "2 * length (item_text (k, t, v)) < m" using 3 n i by auto
  have kv: "isascii k" "reads_as dup t v" using 3 i by auto
  note facts = parse_item [OF kv _ len, of "CHR '','' # newline_indent l @ ?rest"]
  have "parse_members dup m ?rest = Inr (map (\<lambda>(k, t, v). (k, v)) (j # ms), r)"
    using 3 n by (intro "3.IH") auto
  moreover have "skip_ws ?rest = ?rest"
    using item_head [of j] by (cases ms; cases "item_text j") auto
  ultimately show ?case using n i facts item_head [of "(k, t, v)"]
    by (cases "item_text (k, t, v)") auto
qed simp

lemma reads_as_object:
  assumes "ms \<noteq> []" "\<forall>(k, t, v) \<in> set ms. isascii k \<and> reads_as dup t v" "distinct (map fst ms)"
  shows "reads_as dup (bracketed l ''{'' ''}'' (map item_text ms)) (JObj (map (\<lambda>(k, t, v). (k, v)) ms))"
proof -
  let ?items = "join ('','' @ newline_indent (l + 1)) (map item_text ms)"
  have form: "bracketed l ''{'' ''}'' (map item_text ms) = CHR ''{'' # newline_indent (l + 1) @ ?items @ newline_indent l @ ''}''"
    using assms(1) by (simp add: bracketed_def)
  obtain u where head: "?items = CHR 0x22 # u"
    using assms(1) item_head by (cases ms rule: remdups_adj.cases) (auto, metis append_Cons)
  have keys: "map fst (map (\<lambda>(k, t, v). (k, v)) ms) = map fst ms" by (induction ms) auto
  have "parse_value dup n (CHR ''{'' # newline_indent (l + 1) @ ?items @ newline_indent l @ CHR ''}'' # r) =
      Inr (JObj (map (\<lambda>(k, t, v). (k, v)) ms), r)" if n: "2 * length ?items + 2 < n" for n r
  proof -
    obtain m where m: "n = Suc m" using n by (cases n) auto
    have "parse_members dup m (?items @ newline_indent l @ CHR ''}'' # r) = Inr (map (\<lambda>(k, t, v). (k, v)) ms, r)"
      using assms n m by (intro parse_members_indent) auto
    then show ?thesis using m head assms(3) by (simp add: keys del: map_map)
  qed
  then show ?thesis unfolding reads_as_def form by simp
qed

lemma sort_fields: "sort_key fst (map (\<lambda>p. (fst p, h (snd p))) ps) = map (\<lambda>p. (fst p, h (snd p))) (sort_key fst ps)"
  by (simp add: sort_key_map comp_def)

lemma reads_as_manifest_value: "manifest_value v \<Longrightarrow> reads_as dup (dumps_indent l v) (norm v)"
proof (induction l v rule: dumps_indent.induct)
  case (2 l ps)
  let ?g = "\<lambda>p. (fst p, dumps_indent (l + 1) (snd p), norm (snd p))"
  let ?ms = "map ?g (sort_key fst ps)"
  have "dumps_indent l (JObj ps) = bracketed l ''{'' ''}'' (map item_text ?ms)"
    by (simp add: sort_fields item_text_def comp_def)
  moreover have "norm (JObj ps) = JObj (map (\<lambda>(k, t, v). (k, v)) ?ms)"
    by (simp add: sort_fields comp_def)
  moreover have "reads_as dup (bracketed l ''{'' ''}'' (map item_text ?ms)) (JObj (map (\<lambda>(k, t, v). (k, v)) ?ms))"
  proof (rule reads_as_object)
    have "length ?ms = length ps" by simp
    moreover have "ps \<noteq> []" using 2(2) by simp
    ultimately show "?ms \<noteq> []" by (metis length_0_conv)
    show "\<forall>(k, t, v) \<in> set ?ms. isascii k \<and> reads_as dup t v" using 2 by (auto simp: list_all_iff)
    show "distinct (map fst ?ms)" using 2(2) by (simp add: comp_def) (metis distinct_map distinct_sort set_sort)
  qed
  ultimately show ?case by simp
qed (use reads_as_text reads_as_one in auto)

lemma loads_dumps_indent:
  assumes "manifest_value v"
  shows "loads dup (dumps_indent 0 v @ [CHR 0x0A]) = Inr (norm v)"
proof -
  have r: "reads_as dup (dumps_indent 0 v) (norm v)" using assms by (rule reads_as_manifest_value)
  have "parse_value dup (2 * length (dumps_indent 0 v @ [CHR 0x0A]) + 1) (dumps_indent 0 v @ [CHR 0x0A]) = Inr (norm v, [CHR 0x0A])"
    by (rule reads_asD [OF r]) (simp_all add: closes_def)
  then show ?thesis by (simp add: loads_def reads_as_head [OF r] del: parse_value.simps)
qed

subsection \<open>The text is ASCII and short\<close>

lemma isascii_simps [simp]: "isascii []" "isascii (c # s) \<longleftrightarrow> is_ascii c \<and> isascii s" "isascii (s @ t) \<longleftrightarrow> isascii s \<and> isascii t"
  by (simp_all add: isascii_def)

lemma ascii_chars [simp]:
  "is_ascii (CHR 0x22)" "is_ascii (CHR 0x5C)" "is_ascii (CHR ''n'')" "is_ascii (CHR ''r'')" "is_ascii (CHR ''t'')" "is_ascii (CHR ''f'')"
  "is_ascii (CHR ''b'')" "is_ascii (CHR ''u'')" "is_ascii (CHR ''{'')" "is_ascii (CHR ''}'')" "is_ascii (CHR '':'')" "is_ascii (CHR '','')"
  "is_ascii (CHR 0x20)" "is_ascii (CHR 0x0A)" "is_ascii (CHR ''1'')"
  by (simp_all add: is_ascii_def ordc_def)

lemma u_escape_ascii: "isascii (u_escape n)" "length (u_escape n) = 6"
proof -
  have "is_ascii (hex_digit d)" if "d < 16" for d
    using that by (auto simp: hex_digit_def is_ascii_def ordc_char_of)
  then show "isascii (u_escape n)" by (simp add: u_escape_def)
qed (simp add: u_escape_def)

lemma escape_ascii:
  assumes "is_ascii c"
  shows "isascii (escape (ordc c)) \<and> length (escape (ordc c)) \<le> 6"
proof -
  have "ordc c < 65536" using assms by (simp add: is_ascii_def)
  then show ?thesis using assms by (auto simp: escape_def u_escape_ascii)
qed

lemma escapes_ascii: "isascii s \<Longrightarrow> isascii (concat (map escape (map ordc s))) \<and> length (concat (map escape (map ordc s))) \<le> 6 * length s"
proof (induction s)
  case (Cons c s)
  then show ?case using escape_ascii [of c] by auto
qed simp

lemma dump_string_facts: "isascii s \<Longrightarrow> isascii (dump_string s)" "isascii s \<Longrightarrow> length (dump_string s) \<le> 6 * length s + 2"
  using escapes_ascii [of s] by (auto simp: dump_string_ascii simp del: map_map)

lemma isascii_join: "isascii sep \<Longrightarrow> \<forall>s \<in> set ss. isascii s \<Longrightarrow> isascii (join sep ss)"
  by (induction ss rule: induct_list012) auto

lemma isascii_newline [simp]: "isascii (newline_indent l)"
  by (auto simp: newline_indent_def isascii_def list_all_iff)

lemma isascii_bracketed:
  "isascii opening \<Longrightarrow> isascii closing \<Longrightarrow> \<forall>s \<in> set items. isascii s \<Longrightarrow> isascii (bracketed l opening closing items)"
  by (simp add: bracketed_def isascii_join)

lemma dumps_one [simp]: "dumps (JInt 1) = ''1''"
  by (simp add: show_int_def show_nat.simps)

lemma dumps_indent_ascii: "manifest_value v \<Longrightarrow> isascii (dumps_indent l v)"
proof (induction l v rule: dumps_indent.induct)
  case (2 l ps)
  have "isascii (dump_string (fst p))" "isascii (dumps_indent (l + 1) (snd p))" if "p \<in> set ps" for p
    using 2 that by (auto simp: list_all_iff intro: dump_string_facts)
  then show ?case by (simp add: isascii_bracketed)
qed (auto simp: dump_string_facts simp del: dumps.simps(3))

fun manifest_bound :: "nat \<Rightarrow> json \<Rightarrow> nat" where
  "manifest_bound l (JStr s) = 6 * length s + 2"
| "manifest_bound l (JObj ps) = 4 * l + 7 + sum_list (map (\<lambda>p. 6 * length (fst p) + manifest_bound (l + 1) (snd p) + 2 * l + 8) ps)"
| "manifest_bound l v = 1"

lemma length_join: "length (join sep ss) \<le> sum_list (map (\<lambda>s. length s + length sep) ss)"
  by (induction ss rule: induct_list012) auto

lemma length_bracketed:
  "length (bracketed l ''{'' ''}'' items) \<le> 4 * l + 7 + sum_list (map (\<lambda>s. length s + length ('','' @ newline_indent (l + 1))) items)"
  using length_join [of "'','' @ newline_indent (l + 1)" items] by (simp add: bracketed_def newline_indent_def)

lemma sum_list_sorted: "sum_list (map f (sort_key k xs)) = sum_list (map f xs)" for f :: "'a \<Rightarrow> nat"
  by (simp flip: sum_mset_sum_list)

lemma length_dumps_indent: "manifest_value v \<Longrightarrow> length (dumps_indent l v) \<le> manifest_bound l v"
proof (induction l v rule: dumps_indent.induct)
  case (2 l ps)
  let ?item = "\<lambda>p. dump_string (fst p) @ '': '' @ dumps_indent (l + 1) (snd p)"
  have d: "dumps_indent l (JObj ps) = bracketed l ''{'' ''}'' (map ?item (sort_key fst ps))"
    by (simp add: sort_fields comp_def)
  have "length (?item p) + length ('','' @ newline_indent (l + 1)) \<le> 6 * length (fst p) + manifest_bound (l + 1) (snd p) + 2 * l + 8"
    if p: "p \<in> set (sort_key fst ps)" for p
  proof -
    have "length (dumps_indent (l + 1) (snd p)) \<le> manifest_bound (l + 1) (snd p)" "isascii (fst p)"
      using 2 p by (auto simp: list_all_iff)
    with dump_string_facts(2) [of "fst p"] show ?thesis by (simp add: newline_indent_def)
  qed
  then have "sum_list (map (\<lambda>p. length (?item p) + length ('','' @ newline_indent (l + 1))) (sort_key fst ps)) \<le>
      sum_list (map (\<lambda>p. 6 * length (fst p) + manifest_bound (l + 1) (snd p) + 2 * l + 8) (sort_key fst ps))"
    by (intro sum_list_mono)
  also have "\<dots> = sum_list (map (\<lambda>p. 6 * length (fst p) + manifest_bound (l + 1) (snd p) + 2 * l + 8) ps)"
    by (rule sum_list_sorted)
  finally show ?case
    using length_bracketed [of l "map ?item (sort_key fst ps)"] unfolding d by (simp add: comp_def)
qed (use dump_string_facts(2) in \<open>auto simp del: dumps.simps(3)\<close>)

lemma no_constant: "manifest_value v \<Longrightarrow> \<not> has_constant (norm v)"
proof (induction v rule: norm.induct)
  case (2 ps)
  then show ?case by (auto simp: list_all_iff list_ex_iff)
qed auto

text \<open>What \<open>create\<close> writes, \<open>verify\<close> reads.\<close>

lemma json_object_written:
  assumes "manifest_value (JObj ps)"
  shows "json_object (dumps_indent 0 (JObj ps) @ [CHR 0x0A]) = Inr (sort_key fst (map (\<lambda>p. (fst p, norm (snd p))) ps))"
proof -
  have "isascii (dumps_indent 0 (JObj ps) @ [CHR 0x0A])" using dumps_indent_ascii [OF assms, of 0] by simp
  then have "loads_bytes dup (dumps_indent 0 (JObj ps) @ [CHR 0x0A]) = Inr (norm (JObj ps))" for dup
    unfolding loads_bytes_def by (simp only: decode_utf8_ascii bindE_simps loads_dumps_indent [OF assms])
  with no_constant [OF assms] show ?thesis
    by (simp add: json_object_def del: dumps_indent.simps has_constant.simps)
qed

section \<open>A created candidate is verified\<close>

lemma context_facts:
  assumes "candidate_context G = Inr expected"
  shows "\<exists>repository source_sha release_tag run_id run_attempt. expected = [(''repository'', repository), (''source_sha'', source_sha),
      (''release_tag'', release_tag), (''run_id'', run_id), (''run_attempt'', run_attempt)] \<and>
    list_all (\<lambda>v. isascii v \<and> length v \<le> 256) [repository, source_sha, release_tag, run_id, run_attempt]"
proof -
  have digits: "isascii s" if "positive_numeral s" for s
    using that by (auto simp: positive_numeral_def version_number_def isascii_def list_all_iff is_digit_def is_ascii_def)
  have tag: "isascii s" if "release_tag_match s = Some b" for s b
    using that version_ascii unfolding release_tag_match_iff by blast
  have repo: "isascii s" if "repository_name s" for s
  proof -
    from that obtain x y where "split_char (CHR ''/'') s = [x, y]"
        "list_all (\<lambda>c. is_alnum c \<or> c \<in> {CHR ''_'', CHR ''.'', CHR ''-''}) (x @ y)"
      by (auto simp: repository_name_def split: list.splits)
    moreover have "is_ascii c" if "is_alnum c \<or> c \<in> {CHR ''_'', CHR ''.'', CHR ''-''}" for c
      using that by (auto simp: is_alnum_def is_digit_def is_upper_def is_lower_def is_ascii_def ordc_def)
    ultimately show ?thesis
      unfolding split_two by (auto simp: isascii_def list_all_iff is_ascii_def ordc_def)
  qed
  from assms show ?thesis
    by (auto simp: candidate_context_def repo tag digits lhex_isascii py_len_ascii split: if_split_asm)
qed

lemma image_ids_facts:
  assumes "image_ids G = Inr ids"
  shows "\<exists>renewer unifi. ids = [(''renewer'', renewer), (''unifi'', unifi)] \<and> list_all (\<lambda>v. isascii v \<and> length v = 71) [renewer, unifi]"
proof -
  have "isascii s \<and> length s = 71" if "image_id s" for s
  proof -
    from that obtain t where "s = ''sha256:'' @ t" "lhex_string 64 t" by (auto simp: image_id_def startswith_split)
    then show ?thesis using lhex_isascii [of 64 t] by (simp add: lhex_string_def is_ascii_def ordc_def)
  qed
  with assms show ?thesis by (auto simp: image_ids_def split: if_split_asm)
qed

lemma inventory_file_name: "inventory_file G D (name, limit) = Inr d \<Longrightarrow> \<exists>b. d = (name, ce_sha256 G b)"
  by (auto simp: inventory_file_def read_file_def split: option.splits if_split_asm)

lemma inventory_facts:
  assumes "inventory G D w = Inr digests"
  shows "\<exists>b1 b2 b3 b4. digests = [(''renewer.tar'', ce_sha256 G b1), (''unifi.tar'', ce_sha256 G b2),
    (''unifi-cert-renewer.spdx.json'', ce_sha256 G b3), (''unifi-network-application-cert-renewer.spdx.json'', ce_sha256 G b4)]"
proof -
  from assms have "mapE (inventory_file G D) CANDIDATE_FILES = Inr digests"
    by (auto simp: inventory_def split: if_split_asm)
  then show ?thesis
    by (auto simp: CANDIDATE_FILES_def mapE_Inr list_all2_Cons1 dest!: inventory_file_name)
qed

lemma candidate_document_facts:
  assumes "candidate_context G = Inr expected" "image_ids G = Inr ids" "inventory G D w = Inr digests"
    "\<And>b. lhex_string 64 (ce_sha256 G b)"
  shows "manifest_value (candidate_document expected ids digests)"
    and "length (dumps_indent 0 (candidate_document expected ids digests)) < MANIFEST_LIMIT"
proof -
  have sha: "isascii (ce_sha256 G b)" "length (ce_sha256 G b) = 64" for b
    using assms(4) [of b] lhex_isascii [of 64] by (simp_all add: lhex_string_def)
  have keys: "list_all isascii [''schema_version'', ''repository'', ''source_sha'', ''release_tag'', ''run_id'', ''run_attempt'', ''image_ids'',
      ''files'', ''renewer'', ''unifi'', ''renewer.tar'', ''unifi.tar'', ''unifi-cert-renewer.spdx.json'',
      ''unifi-network-application-cert-renewer.spdx.json'']"
    by code_simp
  note facts = context_facts [OF assms(1)] image_ids_facts [OF assms(2)] inventory_facts [OF assms(3)]
  show m: "manifest_value (candidate_document expected ids digests)"
    using facts keys by (auto simp: candidate_document_def text_object_def sha simp del: isascii_simps)
  have "manifest_bound 0 (candidate_document expected ids digests) < MANIFEST_LIMIT"
    using facts by (auto simp: candidate_document_def text_object_def sha MANIFEST_LIMIT_def)
  with length_dumps_indent [OF m, of 0] show "length (dumps_indent 0 (candidate_document expected ids digests)) < MANIFEST_LIMIT"
    by linarith
qed

lemma jget_sorted:
  assumes "distinct (map fst ps)"
  shows "jget k (sort_key fst (map (\<lambda>p. (fst p, norm (snd p))) ps)) = map_option norm (jget k ps)"
proof -
  have "distinct (map fst (map (\<lambda>p. (fst p, norm (snd p))) ps))" using assms by (simp add: comp_def)
  then show ?thesis unfolding jget_def map_of_sort_key [OF \<open>distinct (map fst (map (\<lambda>p. (fst p, norm (snd p))) ps))\<close>]
    by (induction ps) auto
qed

lemma same_texts_norm: "distinct (map fst texts) \<Longrightarrow> same_texts (norm (text_object texts)) texts"
proof -
  assume d: "distinct (map fst texts)"
  let ?ps = "map (\<lambda>(k, v). (k, JStr v)) texts"
  have k: "map fst ?ps = map fst texts" by (induction texts) auto
  have "jget k ?ps = Some (JStr t)" if "(k, t) \<in> set texts" for k t
    using that d k unfolding jget_def by (intro map_of_is_SomeI) (auto simp del: map_map)
  then have "list_all (\<lambda>(k, t). jget k (sort_key fst (map (\<lambda>p. (fst p, norm (snd p))) ?ps)) = Some (JStr t)) texts"
    using d k by (auto simp: jget_sorted list_all_iff simp del: map_map)
  moreover have "has_fields (map fst texts) (sort_key fst (map (\<lambda>p. (fst p, norm (snd p))) ?ps))"
    unfolding has_fields_sorted by (force simp: has_fields_def list_all_iff)
  ultimately show ?thesis by (simp add: same_texts_def text_object_def del: map_map)
qed

lemma manifest_not_candidate: "MANIFEST \<notin> fst ` set CANDIDATE_FILES"
  by code_simp

lemma inventory_with_manifest:
  assumes "inventory G D False = Inr digests"
  shows "inventory G (D\<lparr> cd_files := cd_files D @ [(MANIFEST, F)] \<rparr>) True = Inr digests"
proof -
  from assms have names: "set (map fst (cd_files D)) = set (map fst CANDIDATE_FILES)" and dir: "check_directory D = Inr ()"
      and files: "mapE (inventory_file G D) CANDIDATE_FILES = Inr digests"
    by (auto simp: inventory_def split: if_split_asm)
  have "inventory_file G (D\<lparr> cd_files := cd_files D @ [(MANIFEST, F)] \<rparr>) f = inventory_file G D f" if "f \<in> set CANDIDATE_FILES" for f
  proof -
    have "fst f \<noteq> MANIFEST" using that manifest_not_candidate by (metis image_eqI)
    then have "map_of (cd_files D @ [(MANIFEST, F)]) (fst f) = map_of (cd_files D) (fst f)"
      by (simp add: map_add_def split: option.splits)
    then show ?thesis by (cases f) (simp add: inventory_file_def read_file_def del: map_of_append)
  qed
  then have "mapE (inventory_file G (D\<lparr> cd_files := cd_files D @ [(MANIFEST, F)] \<rparr>)) CANDIDATE_FILES = Inr digests"
    using files by (metis mapE_cong)
  with names dir show ?thesis by (simp add: inventory_def check_directory_def insert_commute)
qed

lemma manifest_json: "endswith ''.json'' MANIFEST"
  by code_simp

lemma candidate_round_trip:
  assumes "create_candidate G D = Inr (digest, D')" "ce_environ G ''MANIFEST_SHA256'' = Some digest" "\<And>b. lhex_string 64 (ce_sha256 G b)"
  shows "\<exists>ids. image_ids G = Inr ids \<and> verify_candidate G D' = Inr ids"
proof -
  from assms(1) obtain expected ids digests where
    c: "candidate_context G = Inr expected" "image_ids G = Inr ids" "inventory G D False = Inr digests" "MANIFEST \<notin> fst ` set (cd_files D)"
    and d: "digest = ce_sha256 G (dumps_indent 0 (candidate_document expected ids digests) @ [CHR 0x0A])"
      "D' = D\<lparr> cd_files := cd_files D @ [(MANIFEST, written_file (dumps_indent 0 (candidate_document expected ids digests) @ [CHR 0x0A]))] \<rparr>"
    by (auto simp: create_candidate_def Let_def split: if_split_asm option.splits)
  let ?ps = "[(''schema_version'', JInt 1)] @ map (\<lambda>(k, v). (k, JStr v)) expected @
    [(''image_ids'', text_object ids), (''files'', text_object digests)]"
  let ?contents = "dumps_indent 0 (JObj ?ps) @ [CHR 0x0A]"
  have doc: "candidate_document expected ids digests = JObj ?ps" by (simp add: candidate_document_def)
  note m = candidate_document_facts [OF c(1-3) assms(3), unfolded doc]
  have manifest: "read_file G D' MANIFEST MANIFEST_LIMIT = Inr (digest, ?contents)"
    using c(4) m(2) manifest_json unfolding d doc
    by (simp add: read_file_def written_file_def map_add_def map_of_eq_None_iff [THEN iffD2] del: dumps_indent.simps)
  have dist: "distinct (map fst ?ps)" using m(1) by (simp only: manifest_value.simps)
  note document = json_object_written [OF m(1)]
  obtain repository source_sha release_tag run_id run_attempt where e: "expected = [(''repository'', repository),
      (''source_sha'', source_sha), (''release_tag'', release_tag), (''run_id'', run_id), (''run_attempt'', run_attempt)]"
    using context_facts [OF c(1)] by blast
  have fields: "has_fields ([''schema_version''] @ map fst expected @ [''image_ids'', ''files'']) (sort_key fst (map (\<lambda>p. (fst p, norm (snd p))) ?ps))"
    unfolding has_fields_sorted by (simp add: e has_fields_def)
  have texts: "same_texts (norm (text_object ids)) ids" "same_texts (norm (text_object digests)) digests"
    using image_ids_facts [OF c(2)] inventory_facts [OF c(3)] by (auto intro!: same_texts_norm)
  have get: "jget k (sort_key fst (map (\<lambda>p. (fst p, norm (snd p))) ?ps)) = map_option norm (jget k ?ps)" for k
    using dist by (rule jget_sorted)
  have found: "jget ''schema_version'' ?ps = Some (JInt 1)" "jget ''image_ids'' ?ps = Some (text_object ids)"
      "jget ''files'' ?ps = Some (text_object digests)" "list_all (\<lambda>(k, v). map_option norm (jget k ?ps) = Some (JStr v)) expected"
    by (simp_all add: e jget_def)
  have dir: "check_directory D' = Inr ()" using c(3) by (auto simp: inventory_def check_directory_def d(2) split: if_split_asm)
  have "inventory G D' True = Inr digests" using c(3) unfolding d(2) by (rule inventory_with_manifest)
  moreover obtain contents qs where "read_file G D' MANIFEST MANIFEST_LIMIT = Inr (digest, contents)" "json_object contents = Inr qs"
      "has_fields ([''schema_version''] @ map fst expected @ [''image_ids'', ''files'']) qs"
      "jget ''schema_version'' qs = Some (JInt 1)" "jget ''image_ids'' qs = Some (norm (text_object ids))"
      "jget ''files'' qs = Some (norm (text_object digests))" "list_all (\<lambda>(k, v). jget k qs = Some (JStr v)) expected"
    using that [OF manifest document fields] found by (simp only: get option.map norm.simps simp_thms)
  moreover have "lhex_string 64 digest" using assms(3) d(1) by simp
  ultimately show ?thesis
    using c(1,2) assms(2) texts dir by (simp add: verify_candidate_def environ_def member_def)
qed

text \<open>
  C37. What \<open>create\<close> binds, \<open>verify\<close> accepts: in the same workflow attempt, with the same images and artifacts and the
  manifest digest that \<open>create\<close> printed, the verification of the directory that \<open>create\<close> left returns the image identities. In
  particular the manifest always keeps its size limit and its text is read back as the document.
\<close>

theorem created_candidate_is_verified:
  assumes "create_candidate G D = Inr (digest, D')" "ce_environ G ''MANIFEST_SHA256'' = Some digest" "\<And>b. lhex_string 64 (ce_sha256 G b)"
  shows "\<exists>ids. image_ids G = Inr ids \<and> verify_candidate G D' = Inr ids"
  using assms by (rule candidate_round_trip)

section \<open>What a verified candidate is\<close>

text \<open>An artifact of the directory whose digest the manifest records.\<close>

definition artifact_bound :: "candidate_env \<Rightarrow> candidate_dir \<Rightarrow> json \<Rightarrow> string \<times> nat \<Rightarrow> bool" where
  "artifact_bound G D recorded f = (case f of (name, limit) \<Rightarrow> \<exists>F data ps. map_of (cd_files D) name = Some F \<and> cf_regular F \<and> cf_nlink F = 1 \<and>
     cf_data F = Inr data \<and> 0 < length data \<and> length data \<le> limit \<and> recorded = JObj ps \<and> jget name ps = Some (JStr (ce_sha256 G data)))"

lemma inventory_file_cases:
  assumes "inventory_file G D (name, limit) = Inr d"
  shows "\<exists>F data. d = (name, ce_sha256 G data) \<and> map_of (cd_files D) name = Some F \<and> cf_regular F \<and> cf_nlink F = 1 \<and>
    cf_data F = Inr data \<and> 0 < length data \<and> length data \<le> limit"
  using assms by (auto simp: inventory_file_def read_file_def split: option.splits if_split_asm)

lemma mapE_member: "\<lbrakk>mapE f xs = Inr ys; x \<in> set xs\<rbrakk> \<Longrightarrow> \<exists>y \<in> set ys. f x = Inr y"
  by (induction xs arbitrary: ys) auto

lemma inventory_bound:
  assumes "mapE (inventory_file G D) fs = Inr digests" "same_texts recorded digests"
  shows "list_all (artifact_bound G D recorded) fs"
  unfolding list_all_iff
proof
  fix f assume f: "f \<in> set fs"
  obtain name limit where n: "f = (name, limit)" by (cases f)
  from mapE_member [OF assms(1) f] obtain d where d: "d \<in> set digests" "inventory_file G D f = Inr d" by blast
  from assms(2) obtain ps where ps: "recorded = JObj ps" "list_all (\<lambda>(k, t). jget k ps = Some (JStr t)) digests"
    by (auto simp: same_texts_def split: json.splits)
  obtain F data where F: "d = (name, ce_sha256 G data)" "map_of (cd_files D) name = Some F" "cf_regular F" "cf_nlink F = 1"
      "cf_data F = Inr data" "0 < length data" "length data \<le> limit"
    using inventory_file_cases d(2) n by blast
  have "jget name ps = Some (JStr (ce_sha256 G data))" using ps(2) d(1) F(1) by (auto simp: list_all_iff)
  then show "artifact_bound G D recorded f" using n ps(1) F(2-) by (simp add: artifact_bound_def)
qed

text \<open>
  C36. A candidate that \<open>verify\<close> accepts holds exactly the four artifacts and the manifest; the manifest has the expected digest and
  states this repository, commit, tag, run and attempt and the tested images; and it records, of each artifact, the digest of the
  content that the directory holds.
\<close>

theorem verified_candidate_is_bound:
  assumes "verify_candidate G D = Inr ids"
  shows "\<exists>expected digest contents ps. candidate_context G = Inr expected \<and> image_ids G = Inr ids \<and>
    ce_environ G ''MANIFEST_SHA256'' = Some digest \<and> read_file G D MANIFEST MANIFEST_LIMIT = Inr (digest, contents) \<and>
    json_object contents = Inr ps \<and> list_all (\<lambda>(k, v). jget k ps = Some (JStr v)) expected \<and> same_texts (member ''image_ids'' ps) ids \<and>
    set (map fst (cd_files D)) = set (MANIFEST # map fst CANDIDATE_FILES) \<and>
    list_all (artifact_bound G D (member ''files'' ps)) CANDIDATE_FILES"
proof -
  from assms obtain expected digest contents ps digests where v: "candidate_context G = Inr expected" "image_ids G = Inr ids"
      "ce_environ G ''MANIFEST_SHA256'' = Some digest" "read_file G D MANIFEST MANIFEST_LIMIT = Inr (digest, contents)"
      "json_object contents = Inr ps" "list_all (\<lambda>(k, v). jget k ps = Some (JStr v)) expected" "same_texts (member ''image_ids'' ps) ids"
    and i: "inventory G D True = Inr digests" "same_texts (member ''files'' ps) digests"
    by (auto simp: verify_candidate_def environ_def split: if_split_asm option.splits)
  from i(1) have "set (map fst (cd_files D)) = set (MANIFEST # map fst CANDIDATE_FILES)"
      "mapE (inventory_file G D) CANDIDATE_FILES = Inr digests"
    by (auto simp: inventory_def split: if_split_asm)
  with v inventory_bound [OF _ i(2)] show ?thesis by blast
qed

end
