(* ===== verification/Deployment.thy ===== *)
theory Deployment
  imports RenewalPolicy
begin

text \<open>
  The validation of the resolved Compose document of the renewer (\<open>validate_compose\<close> of \<open>scripts/validate_deployment.py\<close>). Python's
  \<open>==\<close> with a constant takes numbers and truth values as equal by their number; the constants are numbers, truth values, texts and lists of texts. The check
  of the OPNsense ACL, which reads XML, is not modelled.
\<close>

section \<open>The document\<close>

definition COMPOSE_MAX_BYTES :: nat where "COMPOSE_MAX_BYTES = 1024 * 1024"
definition EXPECTED_TMPFS :: string where "EXPECTED_TMPFS = ''/tmp:rw,noexec,nosuid,nodev,size=16m''"
definition EXPECTED_RENEWER_IMAGE :: string where "EXPECTED_RENEWER_IMAGE = ''local/unifi-cert-renewer:ci''"
definition EXPECTED_NETWORK_NAME :: string where "EXPECTED_NETWORK_NAME = ''unifi-ci''"
definition EXPECTED_SECRETS_DIRECTORY :: string where "EXPECTED_SECRETS_DIRECTORY = ''/tmp/unifi-cert-renewer-ci-secrets''"
definition EXPECTED_POLICY_DIRECTORY :: string where "EXPECTED_POLICY_DIRECTORY = ''/tmp/unifi-cert-renewer-ci-policy''"
definition LIFECYCLE_DIRECTORY :: string where "LIFECYCLE_DIRECTORY = ''/run/unifi-cert-renewer-lifecycle''"

abbreviation deployment_error :: "string \<Rightarrow> py_exc + 'a" where
  "deployment_error m \<equiv> Inl (DeploymentValidationError m)"

record deployment_file =
  df_size :: "py_exc + nat"
  df_data :: "py_exc + bytes"

definition read_bounded :: "deployment_file \<Rightarrow> py_exc + bytes" where
  "read_bounded F = (case df_size F of
      Inl _ \<Rightarrow> deployment_error ''input is not readable''
    | Inr n \<Rightarrow>
      if n = 0 then deployment_error ''input is empty''
      else if n > COMPOSE_MAX_BYTES then deployment_error ''input exceeds the size limit''
      else (case df_data F of Inl _ \<Rightarrow> deployment_error ''input is not readable'' | Inr data \<Rightarrow> Inr data))"

definition load_compose_json :: "deployment_file \<Rightarrow> py_exc + (string \<times> json) list" where
  "load_compose_json F = bindE (read_bounded F) (\<lambda>data.
     case loads_bytes (DeploymentValidationError ''JSON contains a duplicate object key'') data of
       Inl (DeploymentValidationError m) \<Rightarrow> deployment_error m
     | Inl _ \<Rightarrow> deployment_error ''Compose output is not valid JSON''
     | Inr (JObj ps) \<Rightarrow> Inr ps
     | Inr _ \<Rightarrow> deployment_error ''Compose output must be a JSON object'')"

fun numeric :: "json \<Rightarrow> rat option" where
  "numeric (JBool b) = Some (if b then 1 else 0)"
| "numeric (JInt i) = Some (of_int i)"
| "numeric (JFloat t) = float_value t"
| "numeric _ = None"

fun equals_constant :: "json \<Rightarrow> json \<Rightarrow> bool"
and equals_constants :: "json list \<Rightarrow> json list \<Rightarrow> bool" where
  "equals_constant v (JStr s) = (v = JStr s)"
| "equals_constant v (JArr cs) = (case v of JArr vs \<Rightarrow> equals_constants vs cs | _ \<Rightarrow> False)"
| "equals_constant v c = (numeric v \<noteq> None \<and> numeric v = numeric c)"
| "equals_constants [] [] = True"
| "equals_constants (v # vs) (c # cs) = (equals_constant v c \<and> equals_constants vs cs)"
| "equals_constants _ _ = False"

definition exact_values :: "(string \<times> json) list" where
  "exact_values = [(''image'', JStr EXPECTED_RENEWER_IMAGE), (''user'', JStr ''1000:1000''), (''group_add'', JArr [JStr ''984'']),
     (''read_only'', JBool True), (''cap_drop'', JArr [JStr ''ALL'']), (''security_opt'', JArr [JStr ''no-new-privileges:true'']),
     (''restart'', JStr ''no''), (''pids_limit'', JInt 64), (''tmpfs'', JArr [JStr EXPECTED_TMPFS])]"

definition expected_mounts :: "(string \<times> string) list" where
  "expected_mounts = [(''/run/unifi-cert-renewer'', ''/run/unifi-cert-renewer''), (EXPECTED_SECRETS_DIRECTORY, ''/run/secrets''),
     (EXPECTED_POLICY_DIRECTORY, ''/run/unifi-cert-renewer-policy''), (LIFECYCLE_DIRECTORY, LIFECYCLE_DIRECTORY)]"

section \<open>The checks\<close>

definition compose_object :: "(string \<times> json) list \<Rightarrow> string \<Rightarrow> py_exc + (string \<times> json) list" where
  "compose_object container key = (case jget key container of
      Some (JObj ps) \<Rightarrow> Inr ps
    | _ \<Rightarrow> deployment_error (''Compose '' @ key @ '' must be an object''))"

definition check_exact_value :: "(string \<times> json) list \<Rightarrow> string \<times> json \<Rightarrow> py_exc + unit" where
  "check_exact_value renewer kv = (case jget (fst kv) renewer of
      Some v \<Rightarrow> if equals_constant v (snd kv) then Inr ()
        else deployment_error (''Compose renewer '' @ fst kv @ '' does not match the hardened value'')
    | None \<Rightarrow> deployment_error (''Compose renewer '' @ fst kv @ '' does not match the hardened value''))"

definition read_only_ok :: "(string \<times> json) list \<Rightarrow> bool \<Rightarrow> bool" where
  "read_only_ok volume expected = ((case jget ''read_only'' volume of None \<Rightarrow> JBool False | Some v \<Rightarrow> v) = JBool expected)"

definition check_volume :: "json \<Rightarrow> py_exc + string \<times> string" where
  "check_volume v = (case v of
      JObj volume \<Rightarrow>
        let source = jget ''source'' volume; target = jget ''target'' volume;
            writable_lock = (source = Some (JStr LIFECYCLE_DIRECTORY) \<and> target = Some (JStr LIFECYCLE_DIRECTORY)) in
        if jget ''type'' volume \<noteq> Some (JStr ''bind'') \<or> \<not> read_only_ok volume (\<not> writable_lock)
        then deployment_error ''Compose mounts must have the required access modes''
        else (case (source, target) of
            (Some (JStr s), Some (JStr t)) \<Rightarrow> Inr (s, t)
          | _ \<Rightarrow> deployment_error ''Compose mount source and target must be text'')
    | _ \<Rightarrow> deployment_error ''Compose volume must be an object'')"

definition check_volumes :: "(string \<times> json) list \<Rightarrow> py_exc + unit" where
  "check_volumes renewer = (case jget ''volumes'' renewer of
      Some (JArr volumes) \<Rightarrow>
        if length volumes \<noteq> 4 then deployment_error ''Compose renewer must have exactly four bind mounts''
        else bindE (mapE check_volume volumes) (\<lambda>mounts.
          if set mounts \<noteq> set expected_mounts then deployment_error ''Compose mount set is not the intended set'' else Inr ())
    | _ \<Rightarrow> deployment_error ''Compose renewer must have exactly four bind mounts'')"

definition check_networks :: "(string \<times> json) list \<Rightarrow> (string \<times> json) list \<Rightarrow> py_exc + unit" where
  "check_networks document renewer =
     bindE (case jget ''networks'' renewer of
         Some (JObj ps) \<Rightarrow> if has_fields [''unifi''] ps then Inr ()
           else deployment_error ''Compose renewer must use only the shared UniFi network''
       | _ \<Rightarrow> deployment_error ''Compose renewer must use only the shared UniFi network'') (\<lambda>_.
     bindE (compose_object document ''networks'') (\<lambda>networks.
     if \<not> has_fields [''unifi''] networks then deployment_error ''Compose must define only the UniFi network''
     else case jget ''unifi'' networks of
         Some (JObj unifi_network) \<Rightarrow>
           if jget ''external'' unifi_network \<noteq> Some (JBool True) then deployment_error ''Compose UniFi network must be external''
           else if jget ''name'' unifi_network \<noteq> Some (JStr EXPECTED_NETWORK_NAME)
           then deployment_error ''Compose UniFi network did not resolve the CI network name''
           else Inr ()
       | _ \<Rightarrow> deployment_error ''Compose UniFi network must be an object''))"

definition validate_compose :: "(string \<times> json) list \<Rightarrow> py_exc + unit" where
  "validate_compose document =
     bindE (compose_object document ''services'') (\<lambda>services.
     if \<not> has_fields [''renewer''] services then deployment_error ''Compose must define only the renewer service''
     else case jget ''renewer'' services of
         Some (JObj renewer) \<Rightarrow>
           bindE (forE (check_exact_value renewer) exact_values) (\<lambda>_.
           bindE (check_volumes renewer) (\<lambda>_.
           check_networks document renewer))
       | _ \<Rightarrow> deployment_error ''Compose renewer service must be an object'')"

text \<open>The command for a Compose document.\<close>

definition compose_main :: "deployment_file \<Rightarrow> py_exc + nat \<times> string" where
  "compose_main F = (case bindE (load_compose_json F) validate_compose of
      Inl (DeploymentValidationError m) \<Rightarrow> Inr (1, ''Deployment validation failed: '' @ m)
    | Inl e \<Rightarrow> Inl e
    | Inr _ \<Rightarrow> Inr (0, ''Validated compose deployment boundary''))"

section \<open>An accepted deployment is hardened\<close>

definition mount_of :: "json \<Rightarrow> string \<times> string" where
  "mount_of v = (case v of JObj ps \<Rightarrow> (case (member ''source'' ps, member ''target'' ps) of (JStr s, JStr t) \<Rightarrow> (s, t) | _ \<Rightarrow> ([], [])) | _ \<Rightarrow> ([], []))"

definition writable_mount :: "json \<Rightarrow> bool" where
  "writable_mount v = (case v of JObj ps \<Rightarrow> jget ''read_only'' ps \<noteq> Some (JBool True) | _ \<Rightarrow> True)"

lemma check_volume_ok:
  "check_volume v = Inr m \<Longrightarrow> mount_of v = m \<and> (writable_mount v \<longleftrightarrow> m = (LIFECYCLE_DIRECTORY, LIFECYCLE_DIRECTORY))"
  by (auto simp: check_volume_def mount_of_def writable_mount_def read_only_ok_def member_def Let_def
      split: json.splits option.splits if_split_asm)

lemma check_volumes_mounts:
  "mapE check_volume vs = Inr ms \<Longrightarrow> map mount_of vs = ms \<and> filter writable_mount vs = filter (\<lambda>v. mount_of v = (LIFECYCLE_DIRECTORY, LIFECYCLE_DIRECTORY)) vs"
  by (induction vs arbitrary: ms) (auto dest!: check_volume_ok)

lemma expected_mounts_distinct: "distinct expected_mounts" "length expected_mounts = 4" "(LIFECYCLE_DIRECTORY, LIFECYCLE_DIRECTORY) \<in> set expected_mounts"
  by code_simp+

lemma distinct_filter_one: "\<lbrakk>distinct (map f xs); y \<in> set (map f xs)\<rbrakk> \<Longrightarrow> \<exists>x. filter (\<lambda>x. f x = y) xs = [x] \<and> f x = y"
proof (induction xs)
  case (Cons x xs)
  then show ?case by (cases "f x = y") (auto simp: filter_empty_conv image_iff)
qed simp

lemma check_volumes_ok:
  assumes "check_volumes renewer = Inr ()"
  shows "\<exists>volumes v. jget ''volumes'' renewer = Some (JArr volumes) \<and> distinct (map mount_of volumes) \<and>
    set (map mount_of volumes) = set expected_mounts \<and> filter writable_mount volumes = [v] \<and>
    mount_of v = (LIFECYCLE_DIRECTORY, LIFECYCLE_DIRECTORY)"
proof -
  from assms obtain volumes ms where v: "jget ''volumes'' renewer = Some (JArr volumes)" "length volumes = 4"
      "mapE check_volume volumes = Inr ms" "set ms = set expected_mounts"
    by (auto simp: check_volumes_def split: option.splits json.splits if_split_asm)
  note m = check_volumes_mounts [OF v(3)]
  have "card (set (map mount_of volumes)) = length (map mount_of volumes)"
    using m v(2,4) distinct_card [OF expected_mounts_distinct(1)] expected_mounts_distinct(2) by (metis length_map)
  then have d: "distinct (map mount_of volumes)" by (rule card_distinct)
  moreover have "(LIFECYCLE_DIRECTORY, LIFECYCLE_DIRECTORY) \<in> set (map mount_of volumes)"
    using m v(4) expected_mounts_distinct(3) by simp
  ultimately show ?thesis
    using distinct_filter_one [OF d] m v(1,4) by auto
qed

lemma compose_object_ok: "compose_object container key = Inr ps \<longleftrightarrow> jget key container = Some (JObj ps)"
  by (auto simp: compose_object_def split: option.splits json.splits)

lemma validate_compose_cases:
  assumes "validate_compose document = Inr ()"
  shows "\<exists>services renewer. jget ''services'' document = Some (JObj services) \<and> has_fields [''renewer''] services \<and>
    jget ''renewer'' services = Some (JObj renewer) \<and> (\<forall>kv \<in> set exact_values. check_exact_value renewer kv = Inr ()) \<and>
    check_volumes renewer = Inr ()"
proof -
  from assms obtain services where s: "compose_object document ''services'' = Inr services"
    unfolding validate_compose_def bindE_Inr by blast
  note rest = assms [unfolded validate_compose_def s bindE_simps]
  have f: "has_fields [''renewer''] services" by (rule ccontr) (use rest in simp)
  obtain renewer where r: "jget ''renewer'' services = Some (JObj renewer)"
    using rest f by (cases "jget ''renewer'' services"; cases "the (jget ''renewer'' services)") simp_all
  have "(\<forall>kv \<in> set exact_values. check_exact_value renewer kv = Inr ()) \<and> check_volumes renewer = Inr ()"
    using rest f r by auto
  then show ?thesis using s f r unfolding compose_object_ok by blast
qed

lemma check_exact_value_ok: "check_exact_value renewer (k, c) = Inr () \<Longrightarrow> \<exists>value. jget k renewer = Some value \<and> equals_constant value c"
  by (auto simp: check_exact_value_def split: option.splits if_split_asm)

text \<open>
  C38. An accepted Compose document runs one service, with the hardened image, user, capabilities, privileges, read-only root file system and
  limits; it mounts each of the four expected directories exactly once and no other, and exactly one of the mounts, that of the
  lifecycle lock, is writable.
\<close>

theorem accepted_compose_is_hardened:
  assumes "validate_compose document = Inr ()"
  shows "\<exists>services renewer volumes v. jget ''services'' document = Some (JObj services) \<and> fst ` set services = {''renewer''} \<and>
    jget ''renewer'' services = Some (JObj renewer) \<and>
    list_all (\<lambda>(k, c). \<exists>value. jget k renewer = Some value \<and> equals_constant value c) exact_values \<and>
    jget ''volumes'' renewer = Some (JArr volumes) \<and> distinct (map mount_of volumes) \<and>
    set (map mount_of volumes) = set expected_mounts \<and> filter writable_mount volumes = [v] \<and>
    mount_of v = (LIFECYCLE_DIRECTORY, LIFECYCLE_DIRECTORY)"
proof -
  from assms obtain services renewer where s: "jget ''services'' document = Some (JObj services)" "has_fields [''renewer''] services"
      "jget ''renewer'' services = Some (JObj renewer)" "\<forall>kv \<in> set exact_values. check_exact_value renewer kv = Inr ()"
      "check_volumes renewer = Inr ()"
    using validate_compose_cases by blast
  have "fst ` set services = {''renewer''}" using s(2) by (force simp: has_fields_def list_all_iff)
  moreover have "list_all (\<lambda>(k, c). \<exists>value. jget k renewer = Some value \<and> equals_constant value c) exact_values"
    using s(4) check_exact_value_ok by (auto simp: list_all_iff)
  ultimately show ?thesis using s(1,3) check_volumes_ok [OF s(5)] by blast
qed

end
