(* ===== verification/ReleaseScenario.thy ===== *)
theory ReleaseScenario
  imports ReleaseSignature ReleaseCandidate Deployment
begin

text \<open>
  A tag object and a report of GnuPG that the verification of the release signature approves, and a release candidate that is
  created and verified, and a Compose document that is accepted.
\<close>

definition example_tag_object :: bytes where
  "example_tag_object = tag_of (replicate 40 (CHR ''b'')) ''v1.2.3-rc.1'' ''ops <o@x> 1 +0000''
     (''Release'' @ [CHR 0x0A] @ SIGNATURE_START @ ''QQ=='' @ [CHR 0x0A] @ SIGNATURE_END)"

definition example_gpg_report :: bytes where
  "example_gpg_report =
     ''[GNUPG:] NEWSIG'' @ [CHR 0x0A] @ ''[GNUPG:] GOODSIG 1534542E61DC82D3 ops'' @ [CHR 0x0A] @
     ''[GNUPG:] VALIDSIG 02EBB31CC0032A86C2C0401A1534542E61DC82D3 2024-02-29 1709164800 0 4 0 1 8 00 '' @ APPROVED_PRIMARY @ [CHR 0x0A]"

definition example_gpg :: signature_env where
  "example_gpg = \<lparr> sg_sha1 = (\<lambda>_. replicate 40 (CHR ''a'')), sg_public_key = Inr ''-----BEGIN PGP PUBLIC KEY BLOCK-----'',
     sg_import = (\<lambda>_. Inr 0), sg_verify = (\<lambda>_ _ _. Inr (0, example_gpg_report)) \<rparr>"

lemma example_tag_approved:
  "signature_main example_gpg ''v1.2.3-rc.1'' (replicate 40 (CHR ''a'')) (replicate 40 (CHR ''b'')) (Inr example_tag_object) =
     Inr (0, ''Approved release signer: '' @ APPROVED_PRIMARY)"
  by code_simp

theorem approved_tag_witness:
  "tag_object_id example_gpg example_tag_object = replicate 40 (CHR ''a'') \<and>
   (\<exists>tagger rest. example_tag_object = tag_of (replicate 40 (CHR ''b'')) ''v1.2.3-rc.1'' tagger rest) \<and> approved_report example_gpg_report"
  using approved_tag_is_authentic [OF example_tag_approved] by (auto simp: example_gpg_def)

section \<open>A release candidate\<close>

definition example_workflow :: candidate_env where
  "example_workflow = \<lparr> ce_sha256 = (\<lambda>_. replicate 64 (CHR ''a'')), ce_environ = map_of [(''GITHUB_REPOSITORY'', ''o/r''),
     (''SOURCE_SHA'', replicate 40 (CHR ''b'')), (''RELEASE_TAG'', ''v1.2.3''), (''GITHUB_RUN_ID'', ''7''), (''GITHUB_RUN_ATTEMPT'', ''1''),
     (''RENEWER_ID'', ''sha256:'' @ replicate 64 (CHR ''c'')), (''UNIFI_ID'', ''sha256:'' @ replicate 64 (CHR ''d'')),
     (''MANIFEST_SHA256'', replicate 64 (CHR ''a''))] \<rparr>"

definition example_build :: candidate_dir where
  "example_build = \<lparr> cd_is_dir = Inr True, cd_files = map (\<lambda>(name, b). (name, written_file b)) [(''renewer.tar'', ''x''), (''unifi.tar'', ''y''),
     (''unifi-cert-renewer.spdx.json'', ''{\"spdxVersion\":\"SPDX-2.3\"}''),
     (''unifi-network-application-cert-renewer.spdx.json'', ''{\"spdxVersion\":\"SPDX-2.3\"}'')], cd_write = None \<rparr>"

definition example_ids :: "(string \<times> string) list" where
  "example_ids = [(''renewer'', ''sha256:'' @ replicate 64 (CHR ''c'')), (''unifi'', ''sha256:'' @ replicate 64 (CHR ''d''))]"

lemma example_ids_read: "image_ids example_workflow = Inr example_ids"
  by code_simp

lemma example_context_ok: "\<not> isl (candidate_context example_workflow)"
  by code_simp

lemma example_inventory_ok: "\<not> isl (inventory example_workflow example_build False)"
  by code_simp

lemma example_no_manifest: "MANIFEST \<notin> set (map fst (cd_files example_build))"
  by code_simp

lemma example_sha: "lhex_string 64 (ce_sha256 example_workflow b)"
proof -
  have "lhex_string 64 (replicate 64 (CHR ''a''))" by code_simp
  then show ?thesis by (simp add: example_workflow_def)
qed

lemma example_digest: "ce_environ example_workflow ''MANIFEST_SHA256'' = Some (ce_sha256 example_workflow b)"
  by (simp add: example_workflow_def)

lemma example_created: "\<exists>b D'. create_candidate example_workflow example_build = Inr (ce_sha256 example_workflow b, D')"
proof -
  obtain expected digests where "candidate_context example_workflow = Inr expected" "inventory example_workflow example_build False = Inr digests"
    using example_context_ok example_inventory_ok by (metis isl_def sum.exhaust_sel)
  then show ?thesis
    using example_no_manifest by (simp add: create_candidate_def example_ids_read Let_def example_build_def) blast
qed

theorem created_candidate_witness:
  "\<exists>digest D'. create_candidate example_workflow example_build = Inr (digest, D') \<and> verify_candidate example_workflow D' = Inr example_ids"
proof -
  obtain b D' where c: "create_candidate example_workflow example_build = Inr (ce_sha256 example_workflow b, D')"
    using example_created by blast
  from created_candidate_is_verified [OF c example_digest example_sha] example_ids_read c show ?thesis by auto
qed

theorem verified_candidate_witness:
  "\<exists>digest D' ps. create_candidate example_workflow example_build = Inr (digest, D') \<and>
     list_all (artifact_bound example_workflow D' (member ''files'' ps)) CANDIDATE_FILES"
proof -
  obtain b D' where c: "create_candidate example_workflow example_build = Inr (ce_sha256 example_workflow b, D')"
    using example_created by blast
  have "verify_candidate example_workflow D' = Inr example_ids"
    using candidate_round_trip [OF c example_digest example_sha] example_ids_read by auto
  from verified_candidate_is_bound [OF this] c show ?thesis by blast
qed

section \<open>A deployment\<close>

definition example_volume :: "string \<times> string \<Rightarrow> json" where
  "example_volume m = JObj [(''type'', JStr ''bind''), (''source'', JStr (fst m)), (''target'', JStr (snd m)),
     (''read_only'', JBool (fst m \<noteq> LIFECYCLE_DIRECTORY))]"

definition example_renewer :: "(string \<times> json) list" where
  "example_renewer = exact_values @ [(''volumes'', JArr (map example_volume expected_mounts)), (''networks'', JObj [(''unifi'', JNull)])]"

definition example_compose :: "(string \<times> json) list" where
  "example_compose = [(''services'', JObj [(''renewer'', JObj example_renewer)]),
     (''networks'', JObj [(''unifi'', JObj [(''external'', JBool True), (''name'', JStr EXPECTED_NETWORK_NAME)])])]"

lemma example_compose_accepted: "validate_compose example_compose = Inr ()"
  by code_simp

theorem accepted_compose_witness:
  "\<exists>volumes v. jget ''volumes'' example_renewer = Some (JArr volumes) \<and> filter writable_mount volumes = [v] \<and>
     mount_of v = (LIFECYCLE_DIRECTORY, LIFECYCLE_DIRECTORY)"
  using accepted_compose_is_hardened [OF example_compose_accepted] by (auto simp: example_compose_def jget_def)

end
