(* ===== verification/Spec2Isabelle.thy ===== *)
theory Spec2Isabelle
  imports RenewalScenario ScanScenario ReleaseScenario
begin

text \<open>
  Verification of the UniFi certificate renewer.

  \<^bold>\<open>The program.\<close> A one-shot command, the renewer, replaces the TLS certificate of a UniFi Network Application. It asks a service beside
  the key store, the executor, for the public state and for a certificate request, has an OPNsense firewall sign the request,
  validates the answer, and lets the executor install it and verify the running endpoint. The private key never leaves the
  executor. The executor survives a failure at any point through a recovery journal. The scripts of the repository check the
  workflows, the release and its images.

  \<^bold>\<open>How the sources are modelled.\<close> Every theory follows one source file, in the order of its definitions; names are those of the source
  where HOL allows it. Pure functions are HOL functions into \<open>py_exc + 'a\<close>, where \<open>py_exc\<close> lists the exception classes of the program. Effectful
  functions are in the state-and-exception monad of \<open>Prelude\<close>; an outcome is a value, an exception or \<open>Died\<close>, the death of the
  process. Text is its UTF-8 bytes (\<open>PyText\<close>). Every system call is a step of a schedule (\<open>Machine\<close>) that lets it proceed, fail or die,
  and theorems quantify over the schedule. What is not under \<open>src/\<close> is a parameter: the \<open>cryptography\<close> package (\<open>x509_lib\<close>), keytool and the s6
  service (\<open>exec_env\<close>, \<open>proc_env\<close>), the TLS library, the HTTPS transport, \<open>dpkg\<close>, GnuPG and the hash functions.

  \<^item> \<open>Prelude\<close>, \<open>PyText\<close>, \<open>PyTime\<close>, \<open>Ip\<close>, \<open>Url\<close>, \<open>Json\<close>, \<open>Codec\<close>, \<open>Machine\<close>: exceptions, the monads and a Hoare logic for them, and what the sources use of
    Python and its library. \<open>Json.loads\<close> runs with the fuel \<open>2 * length + 1\<close>, which is enough for every text (proved there); what \<open>dumps\<close>
    writes is read back. The locale \<open>codec\<close> is the contract of a record that travels as JSON.
  \<^item> \<open>X509\<close>, \<open>Csr\<close>, \<open>Certificate\<close> (\<open>public_key.py\<close>, \<open>csr.py\<close>, \<open>certificate.py\<close>): inspection and validation of requests and certificates. The PEM
    scanner accepts exactly an inductively defined grammar; an issued leaf is accepted exactly when it satisfies the policy.
  \<^item> \<open>UnifiClient\<close> (\<open>unifi_client.py\<close>): keytool metadata, the request command, the import. The command names exactly the policy; a verified
    import holds exactly the issued chain under the old key.
  \<^item> \<open>RenewalPolicy\<close>, \<open>UnifiTls\<close>, \<open>SecureFile\<close>, \<open>RunResult\<close> (\<open>renewal_policy.py\<close>, \<open>unifi_tls.py\<close>, \<open>tls_policy.py\<close>, \<open>secure_file.py\<close>,
    \<open>run_result.py\<close>): the policy and its parser, live verification with a bounded number of attempts, secret files, the report of a run.
  \<^item> \<open>UnifiProcess\<close> (\<open>unifi_process.py\<close>): bounded children, the scan of \<open>/proc\<close> that fails closed, the service.
  \<^item> \<open>Files\<close>, \<open>Journal\<close>, \<open>Executor\<close> (\<open>unifi_executor_files.py\<close>, \<open>unifi_executor.py\<close>): the transaction directory, whose updates reach the disk in order and
    whose contents may be lost before a synchronisation; the journal, an interpretation of \<open>codec\<close>; the lock, the staged import, the
    live verification and the recovery, on the state \<open>world\<close>.
  \<^item> \<open>ExecutorCalls\<close>, \<open>ExecutorSafety\<close>, \<open>Recovery\<close>, \<open>Normalization\<close>, \<open>StartupSafety\<close>: crash safety. However an installation, a recovery or a start ends,
    every directory that the disk may hold leads back to the original key store, and \<open>recovered_old\<close> is true. The locale
    \<open>normalization_invariant\<close> states what the normalisation of owners and modes keeps; it is interpreted for the store
    invariant and for the journal found.
  \<^item> \<open>Wire\<close>, \<open>ExecutorService\<close>, \<open>ServiceSafety\<close>, \<open>PublicState\<close>, \<open>ExecutorClient\<close>, \<open>Composition\<close> (\<open>unifi_executor_service.py\<close>,
    \<open>unifi_executor_client.py\<close>): frames and requests, both sides of the socket and their composition. Frames are read back however the connection splits
    them; no bytes on a connection lose the key store; the text of a reported public state is five fixed lines; what the
    client returns, the executor has done.
  \<^item> \<open>OpnsenseClient\<close>, \<open>Renewal\<close>, \<open>ProductionRenewer\<close> (\<open>opnsense_client.py\<close>, \<open>unifi_cert_renewer.py\<close>, \<open>production_renewer.py\<close>): the signing
    requests, the renewal run and the command with its lock, configuration and five modes.
  \<^item> \<open>RenewalSafety\<close>, \<open>EndToEnd\<close>: the locale \<open>state_preorder\<close>, interpreted for the three phases of a run, carries the proof that a report never
    understates what left the process; a returning renewal refines the executor's installation and finalisation.
  \<^item> \<open>Vulnerabilities\<close>, \<open>ReleaseGate\<close>, \<open>ReleaseTag\<close>, \<open>ReleaseSignature\<close>, \<open>ReleaseCandidate\<close>, \<open>Deployment\<close> (the files of \<open>scripts/\<close>): a comparison of scans that
    passes has no finding that is not inherited and, where fixable, reviewed, and it fails closed; container jobs are skipped for
    documentation only and a gate passes on complete results; the release tags are the printed versions; an approved tag is
    authentic; a created candidate is verified and a verified one is bound to its artifacts; an accepted deployment has one
    writable mount.
  \<^item> \<open>Scenario\<close>, \<open>ServiceScenario\<close>, \<open>RenewalScenario\<close>, \<open>ScanScenario\<close>, \<open>ReleaseScenario\<close>: concrete runs in which the theorems apply.

  \<^bold>\<open>Loops.\<close> Recursion is structural or has a measure; loops of the program that wait for a deadline see the finite list of what happens
  before it, and the polling of live verification is bounded by its number of attempts.

  \<^bold>\<open>Not modelled.\<close> Writes of the Java process that do not go through the executor; a change of the identity of the data directory during a run;
  the rounding of decimals to doubles; \<open>isinstance\<close> checks on typed arguments; Python's limits on recursion and on integers of
  more than 4300 digits, except where a reader states the latter; dates near the year 9999; JSON in UTF-16 or UTF-32; argument lists
  with the separator \<open>--\<close> and the argument parsers of the scripts; the inspection of a single process beyond the
  answers of \<open>proc_view\<close>; the OPNsense ACL check, which reads XML. A send that fails is taken to have reached nobody.
\<close>

end
